(* ===== verification/Prelude.thy ===== *)
theory Prelude
  imports Main "HOL-Library.Word" "HOL-Library.Multiset"
begin

text \<open>
  What every component of the library shares: the machine integers and byte strings of the
  source, Rust's \<open>Result\<close> as a sum type, the string operations of the standard library that the
  schema generator calls (\<open>split\<close>, \<open>replace\<close>, \<open>trim\<close>, \<open>contains\<close>, \<open>join\<close>, decimal display,
  UTF-8 validation), \<open>HashMap\<close> with an arbitrary iteration order, and the collections of rules
  that carry the component proofs.
\<close>

section \<open>Collections of rules\<close>

named_theorems emits_intros \<open>what a section writer step emits\<close>
named_theorems reads_intros \<open>which bytes a section reader consumes\<close>
named_theorems bounded_intros \<open>readers that stay inside the bytes they are given\<close>
named_theorems enc_len_simps \<open>lengths of encodings\<close>

section \<open>Machine integers and bytes\<close>

type_synonym u8 = "8 word"
type_synonym u32 = "32 word"

text \<open>
  A Rust \<open>str\<close> is a sequence of UTF-8 bytes. It is a \<^typ>\<open>string\<close> here, one \<^typ>\<open>char\<close> for
  each byte, and \<open>as_bytes\<close> and \<open>from_bytes\<close> convert.
\<close>

definition byte_of_char :: "char \<Rightarrow> u8" where
  "byte_of_char c = word_of_nat (of_char c)"

definition char_of_byte :: "u8 \<Rightarrow> char" where
  "char_of_byte w = char_of (unat w)"

definition as_bytes :: "string \<Rightarrow> u8 list" where
  "as_bytes s = map byte_of_char s"

definition from_bytes :: "u8 list \<Rightarrow> string" where
  "from_bytes bs = map char_of_byte bs"

lemma char_of_byte_of_char [simp]: "char_of_byte (byte_of_char c) = c"
  by (simp add: char_of_byte_def byte_of_char_def unat_of_nat)

lemma byte_of_char_of_byte [simp]: "byte_of_char (char_of_byte w) = w"
proof -
  have "unat w < 2 ^ 8"
    using unsigned_less [of w, where ?'a = nat] by simp
  then show ?thesis
    by (simp add: char_of_byte_def byte_of_char_def)
qed

lemma from_bytes_as_bytes [simp]: "from_bytes (as_bytes s) = s"
  by (simp add: from_bytes_def as_bytes_def comp_def)

lemma as_bytes_from_bytes [simp]: "as_bytes (from_bytes bs) = bs"
  by (simp add: from_bytes_def as_bytes_def comp_def)

lemma length_as_bytes [simp]: "length (as_bytes s) = length s"
  by (simp add: as_bytes_def)

lemma as_bytes_inject [simp]: "as_bytes s = as_bytes t \<longleftrightarrow> s = t"
  by (metis from_bytes_as_bytes)

subsection \<open>Little-endian 32-bit integers\<close>

text \<open>\<open>u32::to_le_bytes\<close> and \<open>u32::from_le_bytes\<close>.\<close>

definition to_le_bytes :: "u32 \<Rightarrow> u8 list" where
  "to_le_bytes v =
     [word_of_nat (unat v mod 256),
      word_of_nat (unat v div 256 mod 256),
      word_of_nat (unat v div 65536 mod 256),
      word_of_nat (unat v div 16777216 mod 256)]"

definition from_le_bytes :: "u8 list \<Rightarrow> u32" where
  "from_le_bytes bs =
     word_of_nat (unat (bs ! 0) + 256 * unat (bs ! 1) + 65536 * unat (bs ! 2)
       + 16777216 * unat (bs ! 3))"

lemma length_to_le_bytes [simp]: "length (to_le_bytes v) = 4"
  by (simp add: to_le_bytes_def)

lemma base256_expand:
  fixes n :: nat
  assumes "n = 256 * a + r0" and "a = 256 * b + r1" and "b = 256 * c + r2"
  shows "r0 + 256 * r1 + 65536 * r2 + 16777216 * c = n"
  using assms by simp

lemma base256_digits:
  fixes n :: nat
  assumes "n < 4294967296"
  shows "n mod 256 + 256 * (n div 256 mod 256) + 65536 * (n div 65536 mod 256)
    + 16777216 * (n div 16777216 mod 256) = n"
proof -
  have step: "m = 256 * (m div 256) + m mod 256" for m :: nat
    by simp
  have d2: "n div 65536 = n div 256 div 256" and d3: "n div 16777216 = n div 256 div 256 div 256"
    using div_mult2_eq [of n 256 256] div_mult2_eq [of n 65536 256] by simp_all
  have "n div 16777216 < 256"
    using assms by (intro less_mult_imp_div_less) simp
  then have "n div 16777216 mod 256 = n div 16777216"
    by (rule mod_less)
  then show ?thesis
    unfolding d2 d3 by (simp only: base256_expand [OF step [of n] step [of "n div 256"]
      step [of "n div 256 div 256"]])
qed

lemma from_to_le_bytes [simp]: "from_le_bytes (to_le_bytes v) = v"
proof -
  have bound: "unat v < 4294967296"
    using unsigned_less [of v, where ?'a = nat] by simp
  have small: "unat (word_of_nat (n mod 256) :: u8) = n mod 256" for n :: nat
    by (simp add: unat_of_nat)
  show ?thesis
    by (simp add: from_le_bytes_def to_le_bytes_def small base256_digits [OF bound])
qed

lemma digit_step:
  fixes x y :: nat
  assumes "x < 256"
  shows "(x + 256 * y) mod 256 = x" and "(x + 256 * y) div 256 = y"
  using assms by simp_all

lemma le_digits:
  fixes a b c d :: nat
  assumes "a < 256" "b < 256" "c < 256" "d < 256"
  shows "a + 256 * (b + 256 * (c + 256 * d)) < 4294967296"
    and "(a + 256 * (b + 256 * (c + 256 * d))) mod 256 = a"
    and "(a + 256 * (b + 256 * (c + 256 * d))) div 256 mod 256 = b"
    and "(a + 256 * (b + 256 * (c + 256 * d))) div 65536 mod 256 = c"
    and "(a + 256 * (b + 256 * (c + 256 * d))) div 16777216 mod 256 = d"
proof -
  show "a + 256 * (b + 256 * (c + 256 * d)) < 4294967296"
    using assms by simp
  show "(a + 256 * (b + 256 * (c + 256 * d))) mod 256 = a"
    and "(a + 256 * (b + 256 * (c + 256 * d))) div 256 mod 256 = b"
    by (simp_all only: digit_step assms)
  have d2: "n div 65536 = n div 256 div 256" and d3: "n div 16777216 = n div 256 div 256 div 256"
    for n :: nat
    using div_mult2_eq [of n 256 256] div_mult2_eq [of n 65536 256] by simp_all
  show "(a + 256 * (b + 256 * (c + 256 * d))) div 65536 mod 256 = c"
    by (simp only: d2 digit_step assms)
  show "(a + 256 * (b + 256 * (c + 256 * d))) div 16777216 mod 256 = d"
    using assms(4) by (simp only: d3 digit_step assms mod_less)
qed

lemma to_from_le_bytes:
  assumes "length bs = 4"
  shows "to_le_bytes (from_le_bytes bs) = bs"
proof -
  obtain b0 b1 b2 b3 where bs: "bs = [b0, b1, b2, b3]"
    using assms by (auto simp: numeral_eq_Suc length_Suc_conv)
  have "unat b < 256" for b :: u8
    using unsigned_less [of b, where ?'a = nat] by simp
  note d = le_digits [OF this [of b0] this [of b1] this [of b2] this [of b3]]
  define n where "n = unat b0 + 256 * (unat b1 + 256 * (unat b2 + 256 * unat b3))"
  have "n = unat b0 + 256 * unat b1 + 65536 * unat b2 + 16777216 * unat b3"
    by (simp add: n_def)
  then have "from_le_bytes bs = word_of_nat n"
    by (simp add: from_le_bytes_def bs)
  then have "unat (from_le_bytes bs) = n"
    using d(1) [folded n_def] by (simp add: unat_of_nat)
  then show ?thesis
    by (simp add: to_le_bytes_def d(2-5) [folded n_def] bs)
qed

lemma to_le_bytes_0: "to_le_bytes 0 = replicate 4 0"
proof -
  have "replicate 4 0 = [0, 0, 0, 0 :: u8]"
    by (simp add: numeral_eq_Suc)
  then show ?thesis by (simp add: to_le_bytes_def)
qed

subsection \<open>UTF-8 validation\<close>

text \<open>
  \<open>std::str::from_utf8\<close>: the well-formed byte sequences of the Unicode standard. Overlong forms
  (\<open>C0\<close>, \<open>C1\<close>, \<open>E0 80..9F\<close>, \<open>F0 80..8F\<close>), surrogates (\<open>ED A0..BF\<close>) and code points past
  \<open>10FFFF\<close> are rejected.
\<close>

definition utf8_cont :: "u8 \<Rightarrow> bool" where
  "utf8_cont b \<longleftrightarrow> 128 \<le> b \<and> b \<le> 191"

fun utf8_valid :: "u8 list \<Rightarrow> bool" where
  "utf8_valid [] = True"
| "utf8_valid (b # bs) =
     (if b < 128 then utf8_valid bs
      else if 194 \<le> b \<and> b \<le> 223 then
        (case bs of c1 # r \<Rightarrow> utf8_cont c1 \<and> utf8_valid r | _ \<Rightarrow> False)
      else if 224 \<le> b \<and> b \<le> 239 then
        (case bs of
          c1 # c2 # r \<Rightarrow>
            utf8_cont c1 \<and> utf8_cont c2 \<and> (b = 224 \<longrightarrow> 160 \<le> c1) \<and> (b = 237 \<longrightarrow> c1 \<le> 159)
            \<and> utf8_valid r
        | _ \<Rightarrow> False)
      else if 240 \<le> b \<and> b \<le> 244 then
        (case bs of
          c1 # c2 # c3 # r \<Rightarrow>
            utf8_cont c1 \<and> utf8_cont c2 \<and> utf8_cont c3 \<and> (b = 240 \<longrightarrow> 144 \<le> c1)
            \<and> (b = 244 \<longrightarrow> c1 \<le> 143) \<and> utf8_valid r
        | _ \<Rightarrow> False)
      else False)"

declare utf8_valid.simps(2) [simp del]

lemma utf8_valid_ascii: "(\<forall>b \<in> set bs. b < 128) \<Longrightarrow> utf8_valid bs"
  by (induction bs) (simp_all add: utf8_valid.simps(2))

text \<open>
  The strings the section format can carry: valid UTF-8, which every Rust \<open>str\<close> is, and short
  enough for the 32-bit length prefix.
\<close>

definition str_ok :: "string \<Rightarrow> bool" where
  "str_ok s \<longleftrightarrow> utf8_valid (as_bytes s) \<and> length s < 2 ^ 32"

definition opt_ok :: "('a \<Rightarrow> bool) \<Rightarrow> 'a option \<Rightarrow> bool" where
  "opt_ok P x = (case x of None \<Rightarrow> True | Some y \<Rightarrow> P y)"

definition list_ok :: "('a \<Rightarrow> bool) \<Rightarrow> 'a list \<Rightarrow> bool" where
  "list_ok P xs \<longleftrightarrow> list_all P xs \<and> length xs < 2 ^ 32"

lemma opt_ok_simps [simp]: "opt_ok P None" "opt_ok P (Some y) = P y"
  by (simp_all add: opt_ok_def)

section \<open>Results\<close>

text \<open>
  Rust's \<open>Result<T, E>\<close> is the sum \<open>'e + 'a\<close>: \<^const>\<open>Inl\<close> an error, \<^const>\<open>Inr\<close> a value. \<open>rbind\<close> is the
  question-mark operator: an error returns early.
\<close>

definition rbind :: "'e + 'a \<Rightarrow> ('a \<Rightarrow> 'e + 'b) \<Rightarrow> 'e + 'b" where
  "rbind r f = (case r of Inl e \<Rightarrow> Inl e | Inr a \<Rightarrow> f a)"

definition ok_or :: "'e \<Rightarrow> 'a option \<Rightarrow> 'e + 'a" where
  "ok_or e x = (case x of None \<Rightarrow> Inl e | Some a \<Rightarrow> Inr a)"

definition map_res :: "('a \<Rightarrow> 'b) \<Rightarrow> 'e + 'a \<Rightarrow> 'e + 'b" where
  "map_res f r = (case r of Inl e \<Rightarrow> Inl e | Inr a \<Rightarrow> Inr (f a))"

lemma rbind_simps [simp]: "rbind (Inl e) f = Inl e" "rbind (Inr a) f = f a"
  by (simp_all add: rbind_def)

lemma ok_or_simps [simp]: "ok_or e None = Inl e" "ok_or e (Some a) = Inr a"
  by (simp_all add: ok_or_def)

lemma map_res_simps [simp]: "map_res f (Inl e) = Inl e" "map_res f (Inr a) = Inr (f a)"
  by (simp_all add: map_res_def)

lemma rbind_eq_Inr: "rbind r f = Inr b \<longleftrightarrow> (\<exists>a. r = Inr a \<and> f a = Inr b)"
  by (cases r) simp_all

lemma rbindE:
  assumes "rbind r f = Inr b"
  obtains a where "r = Inr a" and "f a = Inr b"
  using assms by (auto simp: rbind_eq_Inr)

lemma ok_or_eq_Inr [simp]: "ok_or e x = Inr a \<longleftrightarrow> x = Some a"
  by (cases x) simp_all

text \<open>A loop \<open>for x in xs { s = f(x, s)?; }\<close> over a state, stopping at the first error.\<close>

fun rfold :: "('a \<Rightarrow> 's \<Rightarrow> 'e + 's) \<Rightarrow> 'a list \<Rightarrow> 's \<Rightarrow> 'e + 's" where
  "rfold f [] s = Inr s"
| "rfold f (x # xs) s = rbind (f x s) (rfold f xs)"

text \<open>\<open>iter().map(f).collect::<Result<Vec<_>>>()\<close>.\<close>

fun rmap :: "('a \<Rightarrow> 'e + 'b) \<Rightarrow> 'a list \<Rightarrow> 'e + 'b list" where
  "rmap f [] = Inr []"
| "rmap f (x # xs) = rbind (f x) (\<lambda>y. rbind (rmap f xs) (\<lambda>ys. Inr (y # ys)))"

lemma rfold_append: "rfold f (xs @ ys) s = rbind (rfold f xs s) (rfold f ys)"
proof (induction xs arbitrary: s)
  case Nil
  show ?case by simp
next
  case (Cons x xs)
  show ?case by (cases "f x s") (simp_all add: Cons.IH)
qed

text \<open>An invariant of the body is an invariant of the loop.\<close>

lemma rfold_invariant:
  assumes "rfold f xs s = Inr t"
    and "P s"
    and step: "\<And>x s t. x \<in> set xs \<Longrightarrow> P s \<Longrightarrow> f x s = Inr t \<Longrightarrow> P t"
  shows "P t"
  using assms
proof (induction xs arbitrary: s)
  case Nil
  then show ?case by simp
next
  case (Cons x xs)
  from Cons.prems(1) obtain u where u: "f x s = Inr u" and rest: "rfold f xs u = Inr t"
    by (auto simp: rbind_eq_Inr)
  show ?case
  proof (rule Cons.IH [OF rest])
    show "P u"
      using Cons.prems(2) u Cons.prems(3) [of x s u] by simp
  next
    fix y s' t'
    assume "y \<in> set xs" "P s'" "f y s' = Inr t'"
    then show "P t'"
      using Cons.prems(3) [of y s' t'] by simp
  qed
qed

text \<open>What the body establishes for one element and every later step keeps holds at the end.\<close>

lemma rfold_establishes:
  assumes run: "rfold f xs s = Inr t"
    and x: "x \<in> set xs"
    and est: "\<And>s t. f x s = Inr t \<Longrightarrow> Q t"
    and keep: "\<And>y s t. y \<in> set xs \<Longrightarrow> Q s \<Longrightarrow> f y s = Inr t \<Longrightarrow> Q t"
  shows "Q t"
proof -
  from split_list [OF x] obtain ys zs where xs: "xs = ys @ x # zs"
    by blast
  from run obtain u v where fx: "f x u = Inr v" and rest: "rfold f zs v = Inr t"
    by (auto simp: xs rfold_append rbind_eq_Inr)
  have "Q v"
    using fx by (rule est)
  with rest show ?thesis
    by (rule rfold_invariant) (use keep xs in auto)
qed

lemma rmap_eq_Inr_length: "rmap f xs = Inr ys \<Longrightarrow> length ys = length xs"
  by (induction xs arbitrary: ys) (auto simp: rbind_eq_Inr)

section \<open>Strings\<close>

fun starts_with :: "string \<Rightarrow> string \<Rightarrow> bool" where
  "starts_with s [] = True"
| "starts_with [] (p # ps) = False"
| "starts_with (c # s) (p # ps) = (c = p \<and> starts_with s ps)"

definition ends_with :: "string \<Rightarrow> string \<Rightarrow> bool" where
  "ends_with s p = starts_with (rev s) (rev p)"

fun contains :: "string \<Rightarrow> string \<Rightarrow> bool" where
  "contains [] p = (p = [])"
| "contains (c # s) p = (starts_with (c # s) p \<or> contains s p)"

text \<open>
  \<open>str::split\<close> on a non-empty pattern: the first argument counts the bytes of a matched pattern
  still to be skipped.
\<close>

fun split_aux :: "nat \<Rightarrow> string \<Rightarrow> string \<Rightarrow> string \<Rightarrow> string list" where
  "split_aux k sep acc [] = [rev acc]"
| "split_aux (Suc k) sep acc (c # s) = split_aux k sep acc s"
| "split_aux 0 sep acc (c # s) =
     (if starts_with (c # s) sep then rev acc # split_aux (length sep - 1) sep [] s
      else split_aux 0 sep (c # acc) s)"

definition split_str :: "string \<Rightarrow> string \<Rightarrow> string list" where
  "split_str sep s = split_aux 0 sep [] s"

text \<open>\<open>str::replace\<close> of a non-empty pattern.\<close>

fun replace_aux :: "nat \<Rightarrow> string \<Rightarrow> string \<Rightarrow> string \<Rightarrow> string" where
  "replace_aux k pat rep [] = []"
| "replace_aux (Suc k) pat rep (c # s) = replace_aux k pat rep s"
| "replace_aux 0 pat rep (c # s) =
     (if starts_with (c # s) pat then rep @ replace_aux (length pat - 1) pat rep s
      else c # replace_aux 0 pat rep s)"

definition replace_str :: "string \<Rightarrow> string \<Rightarrow> string \<Rightarrow> string" where
  "replace_str pat rep s = replace_aux 0 pat rep s"

text \<open>\<open>[_]::join\<close>.\<close>

fun join_str :: "string \<Rightarrow> string list \<Rightarrow> string" where
  "join_str sep [] = []"
| "join_str sep [x] = x"
| "join_str sep (x # y # zs) = x @ sep @ join_str sep (y # zs)"

text \<open>Decimal display of an unsigned integer.\<close>

definition digit_char :: "nat \<Rightarrow> char" where
  "digit_char d = char_of (48 + d)"

fun show_nat :: "nat \<Rightarrow> string" where
  "show_nat n = (if n < 10 then [digit_char n] else show_nat (n div 10) @ [digit_char (n mod 10)])"

declare show_nat.simps [simp del]

definition show_u32 :: "u32 \<Rightarrow> string" where
  "show_u32 v = show_nat (unat v)"

lemma starts_with_iff: "starts_with s p \<longleftrightarrow> (\<exists>t. s = p @ t)"
  by (induction s p rule: starts_with.induct) auto

lemma ends_with_iff: "ends_with s p \<longleftrightarrow> (\<exists>t. s = t @ p)"
proof -
  have "rev s = rev p @ t \<longleftrightarrow> s = rev t @ p" for t
    by (metis rev_append rev_rev_ident)
  then show ?thesis
    unfolding ends_with_def starts_with_iff by (metis rev_rev_ident)
qed

lemma contains_iff: "contains s p \<longleftrightarrow> (\<exists>t u. s = t @ p @ u)"
proof (induction s)
  case Nil
  show ?case by auto
next
  case (Cons c s)
  show ?case
    unfolding contains.simps starts_with_iff Cons.IH
    by (auto simp: Cons_eq_append_conv)
qed

lemma split_aux_nonempty: "split_aux k sep acc s \<noteq> []"
  by (induction k sep acc s rule: split_aux.induct) auto

lemma split_str_nonempty [simp]: "split_str sep s \<noteq> []"
  by (simp add: split_str_def split_aux_nonempty)

lemma replace_aux_absent: "\<not> contains s pat \<Longrightarrow> replace_aux 0 pat rep s = s"
  by (induction s) auto

lemma replace_str_absent [simp]: "\<not> contains s pat \<Longrightarrow> replace_str pat rep s = s"
  by (simp add: replace_str_def replace_aux_absent)

subsection \<open>Trimming Unicode white space\<close>

text \<open>
  \<open>str::trim\<close> removes the characters with the Unicode property \<open>White_Space\<close> at both ends. On the
  bytes: \<open>09..0D\<close>, \<open>20\<close>, \<open>C2 85\<close>, \<open>C2 A0\<close>, \<open>E1 9A 80\<close>, \<open>E2 80 80..8A\<close>, \<open>E2 80 A8\<close>,
  \<open>E2 80 A9\<close>, \<open>E2 80 AF\<close>, \<open>E2 81 9F\<close>, \<open>E3 80 80\<close>. The length of the white-space character
  at the front, 0 when there is none:
\<close>

definition ws1 :: "nat \<Rightarrow> bool" where
  "ws1 a \<longleftrightarrow> 9 \<le> a \<and> a \<le> 13 \<or> a = 32"

definition ws2 :: "nat \<Rightarrow> nat \<Rightarrow> bool" where
  "ws2 a b \<longleftrightarrow> a = 194 \<and> (b = 133 \<or> b = 160)"

definition ws3 :: "nat \<Rightarrow> nat \<Rightarrow> nat \<Rightarrow> bool" where
  "ws3 a b c \<longleftrightarrow>
     a = 225 \<and> b = 154 \<and> c = 128
     \<or> a = 226 \<and> b = 128 \<and> (128 \<le> c \<and> c \<le> 138 \<or> c = 168 \<or> c = 169 \<or> c = 175)
     \<or> a = 226 \<and> b = 129 \<and> c = 159
     \<or> a = 227 \<and> b = 128 \<and> c = 128"

fun trim_start :: "string \<Rightarrow> string" where
  "trim_start [] = []"
| "trim_start (a # s) =
     (if ws1 (of_char a) then trim_start s
      else case s of
        [] \<Rightarrow> [a]
      | b # s2 \<Rightarrow>
          (if ws2 (of_char a) (of_char b) then trim_start s2
           else case s2 of
             [] \<Rightarrow> [a, b]
           | c # s3 \<Rightarrow>
               (if ws3 (of_char a) (of_char b) (of_char c) then trim_start s3
                else a # b # c # s3)))"

text \<open>The same from the back: the bytes of the reversed string in reverse order.\<close>

fun trim_start_rev :: "string \<Rightarrow> string" where
  "trim_start_rev [] = []"
| "trim_start_rev (a # s) =
     (if ws1 (of_char a) then trim_start_rev s
      else case s of
        [] \<Rightarrow> [a]
      | b # s2 \<Rightarrow>
          (if ws2 (of_char b) (of_char a) then trim_start_rev s2
           else case s2 of
             [] \<Rightarrow> [a, b]
           | c # s3 \<Rightarrow>
               (if ws3 (of_char c) (of_char b) (of_char a) then trim_start_rev s3
                else a # b # c # s3)))"

definition trim_end :: "string \<Rightarrow> string" where
  "trim_end s = rev (trim_start_rev (rev s))"

definition trim :: "string \<Rightarrow> string" where
  "trim s = trim_end (trim_start s)"

section \<open>Hash maps\<close>

text \<open>
  The source keeps \<open>HashMap<Entity, NodeIndex>\<close> tables and iterates over them. The iteration order
  of a \<open>HashMap\<close> is unspecified and differs between runs. A table is an association list with
  distinct keys, and iteration visits it sorted by an arbitrary rank of the node index stored with
  each key: since the stored indices are distinct, every order of the entries is the order of some
  rank, so a theorem for all ranks is a theorem for all iteration orders.
\<close>

type_synonym node_index = nat
type_synonym 'k hmap = "('k \<times> node_index) list"
type_synonym iter_rank = "node_index \<Rightarrow> nat"

definition hm_insert :: "'k \<Rightarrow> node_index \<Rightarrow> 'k hmap \<Rightarrow> 'k hmap" where
  "hm_insert k i m = filter (\<lambda>p. fst p \<noteq> k) m @ [(k, i)]"

definition hm_get :: "'k hmap \<Rightarrow> 'k \<Rightarrow> node_index option" where
  "hm_get m k = map_of m k"

definition hm_iter :: "iter_rank \<Rightarrow> 'k hmap \<Rightarrow> ('k \<times> node_index) list" where
  "hm_iter rank m = sort_key (\<lambda>p. rank (snd p)) m"

lemma set_hm_iter [simp]: "set (hm_iter rank m) = set m"
  by (simp add: hm_iter_def)

lemma distinct_hm_insert: "distinct (map fst m) \<Longrightarrow> distinct (map fst (hm_insert k i m))"
  by (induction m) (auto simp: hm_insert_def)

lemma set_hm_insert: "set (hm_insert k i m) = {p \<in> set m. fst p \<noteq> k} \<union> {(k, i)}"
  by (auto simp: hm_insert_def)

lemma map_of_filter_neq: "k' \<noteq> k \<Longrightarrow> map_of (filter (\<lambda>p. fst p \<noteq> k) m) k' = map_of m k'"
  by (induction m) auto

lemma hm_get_insert: "hm_get (hm_insert k i m) k' = (if k' = k then Some i else hm_get m k')"
proof -
  have "map_of (filter (\<lambda>p. fst p \<noteq> k) m) k = None"
    by (induction m) auto
  then show ?thesis
    by (auto simp: hm_get_def hm_insert_def map_add_def map_of_filter_neq split: option.split)
qed

text \<open>Every rearrangement of a table with distinct indices is an iteration order.\<close>

lemma hm_iter_any_order:
  assumes "mset xs = mset m" and "distinct (map snd m)"
  shows "\<exists>rank. hm_iter rank m = xs"
proof -
  have "mset (map snd xs) = mset (map snd m)"
    using assms(1) by simp
  then have dist: "distinct (map snd xs)"
    using assms(2) by (metis distinct_count_atmost_1 mset_eq_setD)
  define rank where "rank i = (LEAST n. n < length xs \<and> snd (xs ! n) = i)" for i
  have rank_nth: "rank (snd (xs ! n)) = n" if "n < length xs" for n
    unfolding rank_def
  proof (rule Least_equality)
    show "n < length xs \<and> snd (xs ! n) = snd (xs ! n)" using that by simp
  next
    fix k
    assume "k < length xs \<and> snd (xs ! k) = snd (xs ! n)"
    then have "k = n"
      using dist that by (metis (no_types, lifting) length_map nth_eq_iff_index_eq nth_map)
    then show "n \<le> k" by simp
  qed
  have keys: "map (\<lambda>p. rank (snd p)) xs = [0..<length xs]"
    by (rule nth_equalityI) (simp_all add: rank_nth)
  have "inj_on (\<lambda>p. rank (snd p)) (set m)"
    using keys distinct_map [of "\<lambda>p. rank (snd p)" xs] mset_eq_setD [OF assms(1)] by simp
  moreover have "sorted (map (\<lambda>p. rank (snd p)) xs)"
    unfolding keys by simp
  ultimately have "sort_key (\<lambda>p. rank (snd p)) m = xs"
    using assms(1) by (intro sort_key_inj_key_eq) simp_all
  then show ?thesis
    unfolding hm_iter_def by blast
qed

end
