(* ===== verification/Metadata.thy ===== *)
theory Metadata
  imports Prelude
begin

text \<open>
  The metadata that maps Rust types to SQL: \<open>pgrx-sql-entity-graph/src/metadata/\<close>. The \<open>Ref\<close>
  types are the const-friendly forms the macros embed; \<open>From\<close> turns them into the owned forms the
  decoder and the SQL generator use. The last group is the algebra of wrapper types: an array, a
  \<open>SetOfIterator\<close> or a \<open>TableIterator\<close> around a type computes its mapping from the mapping of the
  type it wraps.
\<close>

section \<open>Data\<close>

datatype TypeOrigin = ThisExtension | External

datatype ArgumentError =
    SetOf | Table | NestedArray | BareU8 | SkipInArray | Datum | NotValidAsArgument string

datatype ReturnsError =
    NestedSetOf | NestedTable | NestedArray | SetOfContainingTable | TableContainingSetOf
  | SetOfInArray | TableInArray | BareU8 | SkipInArray | Datum

datatype SqlArrayMapping = As string | Composite

datatype SqlMapping = As string | Composite | Array SqlArrayMapping | Skip

datatype SqlArrayMappingRef =
    As string
  | Numeric "u32 option" "u32 option"
  | Composite

datatype SqlMappingRef =
    As string
  | Numeric "u32 option" "u32 option"
  | Composite
  | Array SqlArrayMappingRef
  | Skip

datatype Returns = One SqlMapping | SetOf SqlMapping | Table "SqlMapping list"

datatype ReturnsRef = One SqlMappingRef | SetOf SqlMappingRef | Table "SqlMappingRef list"

record FunctionMetadataTypeResolutionEntity =
  re_type_ident :: string
  re_type_origin :: TypeOrigin

record FunctionMetadataTypeEntity =
  md_resolution :: "FunctionMetadataTypeResolutionEntity option"
  md_argument_sql :: "ArgumentError + SqlMapping"
  md_return_sql :: "ReturnsError + Returns"

section \<open>Conversions\<close>

fun numeric_sql_string :: "u32 option \<Rightarrow> u32 option \<Rightarrow> string" where
  "numeric_sql_string None s = ''NUMERIC''"
| "numeric_sql_string (Some p) None = ''NUMERIC('' @ show_u32 p @ '')''"
| "numeric_sql_string (Some p) (Some s) = ''NUMERIC('' @ show_u32 p @ '', '' @ show_u32 s @ '')''"

fun array_mapping_from :: "SqlArrayMappingRef \<Rightarrow> SqlArrayMapping" where
  "array_mapping_from (SqlArrayMappingRef.As v) = SqlArrayMapping.As v"
| "array_mapping_from (SqlArrayMappingRef.Numeric p s) = SqlArrayMapping.As (numeric_sql_string p s)"
| "array_mapping_from SqlArrayMappingRef.Composite = SqlArrayMapping.Composite"

fun mapping_from :: "SqlMappingRef \<Rightarrow> SqlMapping" where
  "mapping_from (SqlMappingRef.As v) = SqlMapping.As v"
| "mapping_from (SqlMappingRef.Numeric p s) = SqlMapping.As (numeric_sql_string p s)"
| "mapping_from SqlMappingRef.Composite = SqlMapping.Composite"
| "mapping_from (SqlMappingRef.Array v) = SqlMapping.Array (array_mapping_from v)"
| "mapping_from SqlMappingRef.Skip = SqlMapping.Skip"

fun returns_from :: "ReturnsRef \<Rightarrow> Returns" where
  "returns_from (ReturnsRef.One v) = Returns.One (mapping_from v)"
| "returns_from (ReturnsRef.SetOf v) = Returns.SetOf (mapping_from v)"
| "returns_from (ReturnsRef.Table vs) = Returns.Table (map mapping_from vs)"

section \<open>Wrapper types\<close>

fun array_argument_sql :: "ArgumentError + SqlMappingRef \<Rightarrow> ArgumentError + SqlMappingRef" where
  "array_argument_sql (Inr (SqlMappingRef.As sql)) =
     Inr (SqlMappingRef.Array (SqlArrayMappingRef.As sql))"
| "array_argument_sql (Inr (SqlMappingRef.Numeric p s)) =
     Inr (SqlMappingRef.Array (SqlArrayMappingRef.Numeric p s))"
| "array_argument_sql (Inr SqlMappingRef.Composite) =
     Inr (SqlMappingRef.Array SqlArrayMappingRef.Composite)"
| "array_argument_sql (Inr SqlMappingRef.Skip) = Inl ArgumentError.SkipInArray"
| "array_argument_sql (Inr (SqlMappingRef.Array v)) = Inl ArgumentError.NestedArray"
| "array_argument_sql (Inl err) = Inl err"

fun array_return_sql :: "ReturnsError + ReturnsRef \<Rightarrow> ReturnsError + ReturnsRef" where
  "array_return_sql (Inr (ReturnsRef.One (SqlMappingRef.As sql))) =
     Inr (ReturnsRef.One (SqlMappingRef.Array (SqlArrayMappingRef.As sql)))"
| "array_return_sql (Inr (ReturnsRef.One (SqlMappingRef.Numeric p s))) =
     Inr (ReturnsRef.One (SqlMappingRef.Array (SqlArrayMappingRef.Numeric p s)))"
| "array_return_sql (Inr (ReturnsRef.One SqlMappingRef.Composite)) =
     Inr (ReturnsRef.One (SqlMappingRef.Array SqlArrayMappingRef.Composite))"
| "array_return_sql (Inr (ReturnsRef.One SqlMappingRef.Skip)) = Inl ReturnsError.SkipInArray"
| "array_return_sql (Inr (ReturnsRef.One (SqlMappingRef.Array v))) = Inl ReturnsError.NestedArray"
| "array_return_sql (Inr (ReturnsRef.SetOf v)) = Inl ReturnsError.SetOfInArray"
| "array_return_sql (Inr (ReturnsRef.Table vs)) = Inl ReturnsError.TableInArray"
| "array_return_sql (Inl err) = Inl err"

fun setof_return_sql :: "ReturnsError + ReturnsRef \<Rightarrow> ReturnsError + ReturnsRef" where
  "setof_return_sql (Inr (ReturnsRef.One sql)) = Inr (ReturnsRef.SetOf sql)"
| "setof_return_sql (Inr (ReturnsRef.SetOf v)) = Inl ReturnsError.NestedSetOf"
| "setof_return_sql (Inr (ReturnsRef.Table vs)) = Inl ReturnsError.SetOfContainingTable"
| "setof_return_sql (Inl err) = Inl err"

fun table_item_sql :: "ReturnsError + ReturnsRef \<Rightarrow> ReturnsError + SqlMappingRef" where
  "table_item_sql (Inr (ReturnsRef.One sql)) = Inr sql"
| "table_item_sql (Inr (ReturnsRef.SetOf v)) = Inl ReturnsError.TableContainingSetOf"
| "table_item_sql (Inr (ReturnsRef.Table vs)) = Inl ReturnsError.NestedTable"
| "table_item_sql (Inl err) = Inl err"

fun_cases array_argument_sqlE: "array_argument_sql x = Inr m"
fun_cases array_return_sqlE: "array_return_sql x = Inr r"
fun_cases setof_return_sqlE: "setof_return_sql x = Inr r"

section \<open>Metadata of a type\<close>

definition resolved ::
    "string \<Rightarrow> TypeOrigin \<Rightarrow> ArgumentError + SqlMapping \<Rightarrow> ReturnsError + Returns
     \<Rightarrow> FunctionMetadataTypeEntity" where
  "resolved type_ident type_origin argument_sql return_sql =
     \<lparr>md_resolution = Some \<lparr>re_type_ident = type_ident, re_type_origin = type_origin\<rparr>,
      md_argument_sql = argument_sql, md_return_sql = return_sql\<rparr>"

definition sql_only ::
    "ArgumentError + SqlMapping \<Rightarrow> ReturnsError + Returns \<Rightarrow> FunctionMetadataTypeEntity" where
  "sql_only argument_sql return_sql =
     \<lparr>md_resolution = None, md_argument_sql = argument_sql, md_return_sql = return_sql\<rparr>"

definition md_type_ident :: "FunctionMetadataTypeEntity \<Rightarrow> string option" where
  "md_type_ident md = map_option re_type_ident (md_resolution md)"

definition md_type_origin :: "FunctionMetadataTypeEntity \<Rightarrow> TypeOrigin option" where
  "md_type_origin md = map_option re_type_origin (md_resolution md)"

definition md_needs_type_resolution :: "FunctionMetadataTypeEntity \<Rightarrow> bool" where
  "md_needs_type_resolution md \<longleftrightarrow> md_resolution md \<noteq> None"

text \<open>
  What a type's implementation of \<open>SqlTranslatable\<close> provides: four associated consts, and
  \<open>entity()\<close> built from them.
\<close>

record SqlTranslatable =
  st_TYPE_IDENT :: string
  st_TYPE_ORIGIN :: TypeOrigin
  st_ARGUMENT_SQL :: "ArgumentError + SqlMappingRef"
  st_RETURN_SQL :: "ReturnsError + ReturnsRef"

definition st_argument_sql :: "SqlTranslatable \<Rightarrow> ArgumentError + SqlMapping" where
  "st_argument_sql t = map_res mapping_from (st_ARGUMENT_SQL t)"

definition st_return_sql :: "SqlTranslatable \<Rightarrow> ReturnsError + Returns" where
  "st_return_sql t = map_res returns_from (st_RETURN_SQL t)"

definition st_entity :: "SqlTranslatable \<Rightarrow> FunctionMetadataTypeEntity" where
  "st_entity t =
     resolved (st_TYPE_IDENT t) (st_TYPE_ORIGIN t) (st_argument_sql t) (st_return_sql t)"

section \<open>Properties\<close>

text \<open>
  The wrapper algebra never builds a mapping that PostgreSQL cannot express: an array mapping has a
  scalar element (the types say so), an array of an array is an error whatever the element, and the
  set-returning wrappers do not nest.
\<close>

lemma array_of_array_rejected:
  "\<exists>e. array_argument_sql (array_argument_sql x) = Inl e"
  by (cases x rule: array_argument_sql.cases) auto

lemma array_return_is_scalar_array:
  "array_return_sql x = Inr r \<Longrightarrow> \<exists>a. r = ReturnsRef.One (SqlMappingRef.Array a)"
  by (cases x rule: array_return_sql.cases) auto

end
