(* ===== verification/Entities.thy ===== *)
theory Entities
  imports Metadata
begin

text \<open>
  The SQL entities of an extension, as \<open>pgrx-sql-entity-graph\<close> keeps them: one record for each
  entity struct, in the field order of the source (which fixes the derived \<open>Ord\<close>), the sum
  \<open>SqlGraphEntity\<close> of them, and the identifiers and name tests the graph builder uses.
\<close>

section \<open>Parts of entities\<close>

datatype PositioningRef = FullPath string | Name string

datatype ExternArgs =
    CreateOrReplace | Immutable | Strict | Stable | Volatile | Raw | NoGuard
  | SecurityDefiner | SecurityInvoker | ParallelSafe | ParallelUnsafe | ParallelRestricted
  | ShouldPanic string | Schema string | Support PositioningRef | Name string | Cost string
  | Requires "PositioningRef list"

record ToSqlConfigEntity =
  tsc_enabled :: bool
  tsc_content :: "string option"

record UsedTypeEntity =
  ut_ty_source :: string
  ut_full_path :: string
  ut_composite_type :: "string option"
  ut_variadic :: bool
  ut_default :: "string option"
  ut_optional :: bool
  ut_metadata :: FunctionMetadataTypeEntity

definition ut_resolution :: "UsedTypeEntity \<Rightarrow> (string \<times> TypeOrigin) option" where
  "ut_resolution u =
     (case md_resolution (ut_metadata u) of
        Some r \<Rightarrow> Some (re_type_ident r, re_type_origin r)
      | None \<Rightarrow> None)"

definition ut_needs_type_resolution :: "UsedTypeEntity \<Rightarrow> bool" where
  "ut_needs_type_resolution u = md_needs_type_resolution (ut_metadata u)"

definition ut_emits_argument_sql :: "UsedTypeEntity \<Rightarrow> bool" where
  "ut_emits_argument_sql u \<longleftrightarrow> md_argument_sql (ut_metadata u) \<noteq> Inr SqlMapping.Skip"

lemma ut_resolution_eq_None [simp]:
  "ut_resolution u = None \<longleftrightarrow> \<not> ut_needs_type_resolution u"
  by (auto simp: ut_resolution_def ut_needs_type_resolution_def md_needs_type_resolution_def
      split: option.splits)

record PgExternArgumentEntity =
  pa_pattern :: string
  pa_used_ty :: UsedTypeEntity

record PgExternReturnEntityIteratedItem =
  ri_ty :: UsedTypeEntity
  ri_name :: "string option"

datatype PgExternReturnEntity =
    RetNone
  | RetType UsedTypeEntity
  | RetSetOf UsedTypeEntity
  | RetIterated "PgExternReturnEntityIteratedItem list"
  | RetTrigger

record PgOperatorEntity =
  op_opname :: "string option"
  op_commutator :: "string option"
  op_negator :: "string option"
  op_restrict :: "string option"
  op_join :: "string option"
  op_hashes :: bool
  op_merges :: bool

datatype PgCastEntity = CastDefault | CastAssignment | CastImplicit

datatype ParallelOption = Safe | Restricted | Unsafe

datatype FinalizeModify = ReadOnly | Shareable | ReadWrite

record SqlDeclaredTypeEntityData =
  dt_sql :: string
  dt_name :: string
  dt_type_ident :: string

record SqlDeclaredFunctionEntityData =
  df_sql :: string
  df_name :: string

datatype SqlDeclaredEntity =
    DeclType SqlDeclaredTypeEntityData
  | DeclEnum SqlDeclaredTypeEntityData
  | DeclFunction SqlDeclaredFunctionEntityData

record AggregateTypeEntity =
  at_used_ty :: UsedTypeEntity
  at_name :: "string option"

section \<open>Entities\<close>

record ControlFile =
  cf_comment :: string
  cf_default_version :: string
  cf_module_pathname :: "string option"
  cf_relocatable :: bool
  cf_superuser :: bool
  cf_schema :: "string option"
  cf_trusted :: bool

record SchemaEntity =
  sc_module_path :: string
  sc_name :: string
  sc_file :: string
  sc_line :: u32

record ExtensionSqlEntity =
  es_module_path :: string
  es_full_path :: string
  es_sql :: string
  es_file :: string
  es_line :: u32
  es_name :: string
  es_bootstrap :: bool
  es_finalize :: bool
  es_requires :: "PositioningRef list"
  es_creates :: "SqlDeclaredEntity list"

record PgExternEntity =
  pe_name :: string
  pe_unaliased_name :: string
  pe_module_path :: string
  pe_full_path :: string
  pe_fn_args :: "PgExternArgumentEntity list"
  pe_fn_return :: PgExternReturnEntity
  pe_schema :: "string option"
  pe_file :: string
  pe_line :: u32
  pe_extern_attrs :: "ExternArgs list"
  pe_search_path :: "string list option"
  pe_operator :: "PgOperatorEntity option"
  pe_cast :: "PgCastEntity option"
  pe_to_sql_config :: ToSqlConfigEntity

record PostgresTypeEntity =
  ty_name :: string
  ty_file :: string
  ty_line :: u32
  ty_full_path :: string
  ty_module_path :: string
  ty_type_ident :: string
  ty_in_fn_path :: string
  ty_out_fn_path :: string
  ty_receive_fn_path :: "string option"
  ty_send_fn_path :: "string option"
  ty_to_sql_config :: ToSqlConfigEntity
  ty_alignment :: "nat option"

record PostgresEnumEntity =
  en_name :: string
  en_file :: string
  en_line :: u32
  en_full_path :: string
  en_module_path :: string
  en_type_ident :: string
  en_variants :: "string list"
  en_to_sql_config :: ToSqlConfigEntity

record PostgresOrdEntity =
  or_name :: string
  or_file :: string
  or_line :: u32
  or_full_path :: string
  or_module_path :: string
  or_type_ident :: string
  or_to_sql_config :: ToSqlConfigEntity

record PostgresHashEntity =
  ha_name :: string
  ha_file :: string
  ha_line :: u32
  ha_full_path :: string
  ha_module_path :: string
  ha_type_ident :: string
  ha_to_sql_config :: ToSqlConfigEntity

record PgAggregateEntity =
  ag_full_path :: string
  ag_module_path :: string
  ag_file :: string
  ag_line :: u32
  ag_name :: string
  ag_ordered_set :: bool
  ag_args :: "AggregateTypeEntity list"
  ag_direct_args :: "AggregateTypeEntity list option"
  ag_stype :: AggregateTypeEntity
  ag_sfunc :: string
  ag_finalfunc :: "string option"
  ag_finalfunc_modify :: "FinalizeModify option"
  ag_combinefunc :: "string option"
  ag_serialfunc :: "string option"
  ag_deserialfunc :: "string option"
  ag_initcond :: "string option"
  ag_msfunc :: "string option"
  ag_minvfunc :: "string option"
  ag_mstype :: "UsedTypeEntity option"
  ag_mfinalfunc :: "string option"
  ag_mfinalfunc_modify :: "FinalizeModify option"
  ag_minitcond :: "string option"
  ag_sortop :: "string option"
  ag_parallel :: "ParallelOption option"
  ag_hypothetical :: bool
  ag_to_sql_config :: ToSqlConfigEntity

record PgTriggerEntity =
  tr_function_name :: string
  tr_to_sql_config :: ToSqlConfigEntity
  tr_file :: string
  tr_line :: u32
  tr_module_path :: string
  tr_full_path :: string

datatype SqlGraphEntity =
    ExtensionRoot ControlFile
  | Schema SchemaEntity
  | CustomSql ExtensionSqlEntity
  | Function PgExternEntity
  | Type PostgresTypeEntity
  | BuiltinType string
  | Enum PostgresEnumEntity
  | Ord PostgresOrdEntity
  | Hash PostgresHashEntity
  | Aggregate PgAggregateEntity
  | Trigger PgTriggerEntity

section \<open>Identifiers\<close>

fun decl_type_ident :: "SqlDeclaredEntity \<Rightarrow> string option" where
  "decl_type_ident (DeclType d) = Some (dt_type_ident d)"
| "decl_type_ident (DeclEnum d) = Some (dt_type_ident d)"
| "decl_type_ident (DeclFunction d) = None"

definition decl_matches_type_ident :: "SqlDeclaredEntity \<Rightarrow> string \<Rightarrow> bool" where
  "decl_matches_type_ident d type_ident \<longleftrightarrow> decl_type_ident d = Some type_ident"

fun decl_sql :: "SqlDeclaredEntity \<Rightarrow> string" where
  "decl_sql (DeclType d) = dt_sql d"
| "decl_sql (DeclEnum d) = dt_sql d"
| "decl_sql (DeclFunction d) = df_sql d"

fun type_ident_matches :: "SqlGraphEntity \<Rightarrow> string \<Rightarrow> bool" where
  "type_ident_matches (CustomSql e) type_ident =
     list_ex (\<lambda>d. decl_matches_type_ident d type_ident) (es_creates e)"
| "type_ident_matches (Enum e) type_ident = (en_type_ident e = type_ident)"
| "type_ident_matches (Type e) type_ident = (ty_type_ident e = type_ident)"
| "type_ident_matches (BuiltinType s) type_ident = (s = type_ident)"
| "type_ident_matches _ type_ident = False"

fun rust_identifier :: "SqlGraphEntity \<Rightarrow> string" where
  "rust_identifier (Schema e) = sc_module_path e"
| "rust_identifier (CustomSql e) = es_name e"
| "rust_identifier (Function e) = pe_full_path e"
| "rust_identifier (Type e) = ty_full_path e"
| "rust_identifier (BuiltinType s) = s"
| "rust_identifier (Enum e) = en_full_path e"
| "rust_identifier (Ord e) = or_full_path e"
| "rust_identifier (Hash e) = ha_full_path e"
| "rust_identifier (Aggregate e) = ag_full_path e"
| "rust_identifier (Trigger e) = tr_full_path e"
| "rust_identifier (ExtensionRoot e) = ''root''"

fun entity_file :: "SqlGraphEntity \<Rightarrow> string option" where
  "entity_file (Schema e) = Some (sc_file e)"
| "entity_file (CustomSql e) = Some (es_file e)"
| "entity_file (Function e) = Some (pe_file e)"
| "entity_file (Type e) = Some (ty_file e)"
| "entity_file (BuiltinType s) = None"
| "entity_file (Enum e) = Some (en_file e)"
| "entity_file (Ord e) = Some (or_file e)"
| "entity_file (Hash e) = Some (ha_file e)"
| "entity_file (Aggregate e) = Some (ag_file e)"
| "entity_file (Trigger e) = Some (tr_file e)"
| "entity_file (ExtensionRoot e) = None"

fun entity_line :: "SqlGraphEntity \<Rightarrow> u32 option" where
  "entity_line (Schema e) = Some (sc_line e)"
| "entity_line (CustomSql e) = Some (es_line e)"
| "entity_line (Function e) = Some (pe_line e)"
| "entity_line (Type e) = Some (ty_line e)"
| "entity_line (BuiltinType s) = None"
| "entity_line (Enum e) = Some (en_line e)"
| "entity_line (Ord e) = Some (or_line e)"
| "entity_line (Hash e) = Some (ha_line e)"
| "entity_line (Aggregate e) = Some (ag_line e)"
| "entity_line (Trigger e) = Some (tr_line e)"
| "entity_line (ExtensionRoot e) = None"

definition sql_anchor_comment :: "SqlGraphEntity \<Rightarrow> string" where
  "sql_anchor_comment e =
     (case (entity_file e, entity_line e) of
        (Some file, Some line) \<Rightarrow> ''-- '' @ file @ '':'' @ show_u32 line @ ''\<newline>''
      | _ \<Rightarrow> [])
     @ ''-- '' @ rust_identifier e"

end
