(* ===== verification/Section_Format.thy ===== *)
theory Section_Format
  imports Entities
begin

text \<open>
  The constants of the binary schema section, \<open>pgrx-sql-entity-graph/src/section.rs\<close>: section
  names, entity and variant tags, and the \<open>const fn\<close> length functions the macros use to size each
  entry. Lengths are natural numbers: an entry is a static array, so a length that does not fit
  \<open>usize\<close> never compiles.
\<close>

section \<open>Section names\<close>

definition ELF_SECTION_NAME :: string where
  "ELF_SECTION_NAME = ''.pgrxsc''"

definition MACHO_SECTION_NAME :: string where
  "MACHO_SECTION_NAME = ''__pgrxsc''"

definition MACHO_SECTION_PATH :: string where
  "MACHO_SECTION_PATH = ''__DATA,__pgrxsc''"

definition LEGACY_ELF_SECTION_NAME :: string where
  "LEGACY_ELF_SECTION_NAME = ''.pgrx_schema''"

definition LEGACY_MACHO_SECTION_NAME :: string where
  "LEGACY_MACHO_SECTION_NAME = ''__pgrx_schema''"

definition LEGACY_MACHO_SECTION_PATH :: string where
  "LEGACY_MACHO_SECTION_PATH = ''__DATA,__pgrx_schema''"

definition is_schema_section_name :: "string \<Rightarrow> bool" where
  "is_schema_section_name name \<longleftrightarrow>
     name = ELF_SECTION_NAME \<or> name = MACHO_SECTION_NAME \<or> name = MACHO_SECTION_PATH
     \<or> name = LEGACY_ELF_SECTION_NAME \<or> name = LEGACY_MACHO_SECTION_NAME
     \<or> name = LEGACY_MACHO_SECTION_PATH"

section \<open>Tags\<close>

abbreviation (input) ENTITY_SENTINEL :: u8 where
  "ENTITY_SENTINEL \<equiv> 0"

abbreviation (input) ENTITY_SCHEMA :: u8 where
  "ENTITY_SCHEMA \<equiv> 1"

abbreviation (input) ENTITY_CUSTOM_SQL :: u8 where
  "ENTITY_CUSTOM_SQL \<equiv> 2"

abbreviation (input) ENTITY_FUNCTION :: u8 where
  "ENTITY_FUNCTION \<equiv> 3"

abbreviation (input) ENTITY_TYPE :: u8 where
  "ENTITY_TYPE \<equiv> 4"

abbreviation (input) ENTITY_ENUM :: u8 where
  "ENTITY_ENUM \<equiv> 5"

abbreviation (input) ENTITY_ORD :: u8 where
  "ENTITY_ORD \<equiv> 6"

abbreviation (input) ENTITY_HASH :: u8 where
  "ENTITY_HASH \<equiv> 7"

abbreviation (input) ENTITY_AGGREGATE :: u8 where
  "ENTITY_AGGREGATE \<equiv> 8"

abbreviation (input) ENTITY_TRIGGER :: u8 where
  "ENTITY_TRIGGER \<equiv> 9"

abbreviation (input) POSITIONING_REF_FULL_PATH :: u8 where
  "POSITIONING_REF_FULL_PATH \<equiv> 1"

abbreviation (input) POSITIONING_REF_NAME :: u8 where
  "POSITIONING_REF_NAME \<equiv> 2"

abbreviation (input) SQL_DECLARED_TYPE :: u8 where
  "SQL_DECLARED_TYPE \<equiv> 1"

abbreviation (input) SQL_DECLARED_ENUM :: u8 where
  "SQL_DECLARED_ENUM \<equiv> 2"

abbreviation (input) SQL_DECLARED_FUNCTION :: u8 where
  "SQL_DECLARED_FUNCTION \<equiv> 3"

abbreviation (input) SQL_MAPPING_AS :: u8 where
  "SQL_MAPPING_AS \<equiv> 1"

abbreviation (input) SQL_MAPPING_ARRAY :: u8 where
  "SQL_MAPPING_ARRAY \<equiv> 2"

abbreviation (input) SQL_MAPPING_NUMERIC :: u8 where
  "SQL_MAPPING_NUMERIC \<equiv> 3"

abbreviation (input) SQL_MAPPING_COMPOSITE :: u8 where
  "SQL_MAPPING_COMPOSITE \<equiv> 4"

abbreviation (input) SQL_MAPPING_SKIP :: u8 where
  "SQL_MAPPING_SKIP \<equiv> 5"

abbreviation (input) RETURNS_ONE :: u8 where
  "RETURNS_ONE \<equiv> 1"

abbreviation (input) RETURNS_SET_OF :: u8 where
  "RETURNS_SET_OF \<equiv> 2"

abbreviation (input) RETURNS_TABLE :: u8 where
  "RETURNS_TABLE \<equiv> 3"

abbreviation (input) ARG_ERROR_SET_OF :: u8 where
  "ARG_ERROR_SET_OF \<equiv> 1"

abbreviation (input) ARG_ERROR_TABLE :: u8 where
  "ARG_ERROR_TABLE \<equiv> 2"

abbreviation (input) ARG_ERROR_NESTED_ARRAY :: u8 where
  "ARG_ERROR_NESTED_ARRAY \<equiv> 3"

abbreviation (input) ARG_ERROR_BARE_U8 :: u8 where
  "ARG_ERROR_BARE_U8 \<equiv> 4"

abbreviation (input) ARG_ERROR_SKIP_IN_ARRAY :: u8 where
  "ARG_ERROR_SKIP_IN_ARRAY \<equiv> 5"

abbreviation (input) ARG_ERROR_DATUM :: u8 where
  "ARG_ERROR_DATUM \<equiv> 6"

abbreviation (input) ARG_ERROR_NOT_VALID :: u8 where
  "ARG_ERROR_NOT_VALID \<equiv> 7"

abbreviation (input) RESULT_OK :: u8 where
  "RESULT_OK \<equiv> 1"

abbreviation (input) RESULT_ERR :: u8 where
  "RESULT_ERR \<equiv> 2"

abbreviation (input) TYPE_ORIGIN_THIS_EXTENSION :: u8 where
  "TYPE_ORIGIN_THIS_EXTENSION \<equiv> 1"

abbreviation (input) TYPE_ORIGIN_EXTERNAL :: u8 where
  "TYPE_ORIGIN_EXTERNAL \<equiv> 2"

abbreviation (input) RETURNS_ERROR_NESTED_SET_OF :: u8 where
  "RETURNS_ERROR_NESTED_SET_OF \<equiv> 1"

abbreviation (input) RETURNS_ERROR_NESTED_TABLE :: u8 where
  "RETURNS_ERROR_NESTED_TABLE \<equiv> 2"

abbreviation (input) RETURNS_ERROR_NESTED_ARRAY :: u8 where
  "RETURNS_ERROR_NESTED_ARRAY \<equiv> 3"

abbreviation (input) RETURNS_ERROR_SET_OF_CONTAINING_TABLE :: u8 where
  "RETURNS_ERROR_SET_OF_CONTAINING_TABLE \<equiv> 4"

abbreviation (input) RETURNS_ERROR_TABLE_CONTAINING_SET_OF :: u8 where
  "RETURNS_ERROR_TABLE_CONTAINING_SET_OF \<equiv> 5"

abbreviation (input) RETURNS_ERROR_SET_OF_IN_ARRAY :: u8 where
  "RETURNS_ERROR_SET_OF_IN_ARRAY \<equiv> 6"

abbreviation (input) RETURNS_ERROR_TABLE_IN_ARRAY :: u8 where
  "RETURNS_ERROR_TABLE_IN_ARRAY \<equiv> 7"

abbreviation (input) RETURNS_ERROR_BARE_U8 :: u8 where
  "RETURNS_ERROR_BARE_U8 \<equiv> 8"

abbreviation (input) RETURNS_ERROR_SKIP_IN_ARRAY :: u8 where
  "RETURNS_ERROR_SKIP_IN_ARRAY \<equiv> 9"

abbreviation (input) RETURNS_ERROR_DATUM :: u8 where
  "RETURNS_ERROR_DATUM \<equiv> 10"

abbreviation (input) EXTERN_ARG_CREATE_OR_REPLACE :: u8 where
  "EXTERN_ARG_CREATE_OR_REPLACE \<equiv> 1"

abbreviation (input) EXTERN_ARG_IMMUTABLE :: u8 where
  "EXTERN_ARG_IMMUTABLE \<equiv> 2"

abbreviation (input) EXTERN_ARG_STRICT :: u8 where
  "EXTERN_ARG_STRICT \<equiv> 3"

abbreviation (input) EXTERN_ARG_STABLE :: u8 where
  "EXTERN_ARG_STABLE \<equiv> 4"

abbreviation (input) EXTERN_ARG_VOLATILE :: u8 where
  "EXTERN_ARG_VOLATILE \<equiv> 5"

abbreviation (input) EXTERN_ARG_RAW :: u8 where
  "EXTERN_ARG_RAW \<equiv> 6"

abbreviation (input) EXTERN_ARG_NO_GUARD :: u8 where
  "EXTERN_ARG_NO_GUARD \<equiv> 7"

abbreviation (input) EXTERN_ARG_SECURITY_DEFINER :: u8 where
  "EXTERN_ARG_SECURITY_DEFINER \<equiv> 8"

abbreviation (input) EXTERN_ARG_SECURITY_INVOKER :: u8 where
  "EXTERN_ARG_SECURITY_INVOKER \<equiv> 9"

abbreviation (input) EXTERN_ARG_PARALLEL_SAFE :: u8 where
  "EXTERN_ARG_PARALLEL_SAFE \<equiv> 10"

abbreviation (input) EXTERN_ARG_PARALLEL_UNSAFE :: u8 where
  "EXTERN_ARG_PARALLEL_UNSAFE \<equiv> 11"

abbreviation (input) EXTERN_ARG_PARALLEL_RESTRICTED :: u8 where
  "EXTERN_ARG_PARALLEL_RESTRICTED \<equiv> 12"

abbreviation (input) EXTERN_ARG_SHOULD_PANIC :: u8 where
  "EXTERN_ARG_SHOULD_PANIC \<equiv> 13"

abbreviation (input) EXTERN_ARG_SCHEMA :: u8 where
  "EXTERN_ARG_SCHEMA \<equiv> 14"

abbreviation (input) EXTERN_ARG_SUPPORT :: u8 where
  "EXTERN_ARG_SUPPORT \<equiv> 15"

abbreviation (input) EXTERN_ARG_NAME :: u8 where
  "EXTERN_ARG_NAME \<equiv> 16"

abbreviation (input) EXTERN_ARG_COST :: u8 where
  "EXTERN_ARG_COST \<equiv> 17"

abbreviation (input) EXTERN_ARG_REQUIRES :: u8 where
  "EXTERN_ARG_REQUIRES \<equiv> 18"

abbreviation (input) OPERATOR_CAST_DEFAULT :: u8 where
  "OPERATOR_CAST_DEFAULT \<equiv> 1"

abbreviation (input) OPERATOR_CAST_ASSIGNMENT :: u8 where
  "OPERATOR_CAST_ASSIGNMENT \<equiv> 2"

abbreviation (input) OPERATOR_CAST_IMPLICIT :: u8 where
  "OPERATOR_CAST_IMPLICIT \<equiv> 3"

abbreviation (input) EXTERN_RET_NONE :: u8 where
  "EXTERN_RET_NONE \<equiv> 1"

abbreviation (input) EXTERN_RET_TYPE :: u8 where
  "EXTERN_RET_TYPE \<equiv> 2"

abbreviation (input) EXTERN_RET_SET_OF :: u8 where
  "EXTERN_RET_SET_OF \<equiv> 3"

abbreviation (input) EXTERN_RET_ITERATED :: u8 where
  "EXTERN_RET_ITERATED \<equiv> 4"

abbreviation (input) EXTERN_RET_TRIGGER :: u8 where
  "EXTERN_RET_TRIGGER \<equiv> 5"

abbreviation (input) AGGREGATE_FINALIZE_READ_ONLY :: u8 where
  "AGGREGATE_FINALIZE_READ_ONLY \<equiv> 1"

abbreviation (input) AGGREGATE_FINALIZE_SHAREABLE :: u8 where
  "AGGREGATE_FINALIZE_SHAREABLE \<equiv> 2"

abbreviation (input) AGGREGATE_FINALIZE_READ_WRITE :: u8 where
  "AGGREGATE_FINALIZE_READ_WRITE \<equiv> 3"

abbreviation (input) AGGREGATE_PARALLEL_SAFE :: u8 where
  "AGGREGATE_PARALLEL_SAFE \<equiv> 1"

abbreviation (input) AGGREGATE_PARALLEL_RESTRICTED :: u8 where
  "AGGREGATE_PARALLEL_RESTRICTED \<equiv> 2"

abbreviation (input) AGGREGATE_PARALLEL_UNSAFE :: u8 where
  "AGGREGATE_PARALLEL_UNSAFE \<equiv> 3"

section \<open>Lengths\<close>

definition bytes_len :: "nat \<Rightarrow> nat" where
  "bytes_len len = 4 + len"

definition str_len :: "string \<Rightarrow> nat" where
  "str_len value = bytes_len (length value)"

definition bool_len :: nat where
  "bool_len = 1"

definition u8_len :: nat where
  "u8_len = 1"

definition u32_len :: nat where
  "u32_len = 4"

definition opt_len :: "nat option \<Rightarrow> nat" where
  "opt_len inner = 1 + (case inner of Some n \<Rightarrow> n | None \<Rightarrow> 0)"

fun list_len_loop :: "nat list \<Rightarrow> nat \<Rightarrow> nat" where
  "list_len_loop [] tot = tot"
| "list_len_loop (n # items) tot = list_len_loop items (tot + n)"

definition list_len :: "nat list \<Rightarrow> nat" where
  "list_len items = list_len_loop items 4"

fun sql_array_mapping_len :: "SqlArrayMappingRef \<Rightarrow> nat" where
  "sql_array_mapping_len (SqlArrayMappingRef.As sql) = u8_len + str_len sql"
| "sql_array_mapping_len (SqlArrayMappingRef.Numeric p s) =
     u8_len + bool_len + u32_len + bool_len + u32_len"
| "sql_array_mapping_len SqlArrayMappingRef.Composite = u8_len"

fun sql_mapping_len :: "SqlMappingRef \<Rightarrow> nat" where
  "sql_mapping_len (SqlMappingRef.As sql) = u8_len + str_len sql"
| "sql_mapping_len (SqlMappingRef.Numeric p s) =
     u8_len + bool_len + u32_len + bool_len + u32_len"
| "sql_mapping_len SqlMappingRef.Composite = u8_len"
| "sql_mapping_len (SqlMappingRef.Array v) = u8_len + sql_array_mapping_len v"
| "sql_mapping_len SqlMappingRef.Skip = u8_len"

fun table_len_loop :: "SqlMappingRef list \<Rightarrow> nat \<Rightarrow> nat" where
  "table_len_loop [] tot = tot"
| "table_len_loop (m # items) tot = table_len_loop items (tot + sql_mapping_len m)"

fun returns_len :: "ReturnsRef \<Rightarrow> nat" where
  "returns_len (ReturnsRef.One m) = u8_len + sql_mapping_len m"
| "returns_len (ReturnsRef.SetOf m) = u8_len + sql_mapping_len m"
| "returns_len (ReturnsRef.Table items) = table_len_loop items (u8_len + u32_len)"

fun argument_error_len :: "ArgumentError \<Rightarrow> nat" where
  "argument_error_len (ArgumentError.NotValidAsArgument name) = u8_len + str_len name"
| "argument_error_len _ = u8_len"

definition argument_sql_len :: "ArgumentError + SqlMappingRef \<Rightarrow> nat" where
  "argument_sql_len value =
     u8_len + (case value of
       Inr m \<Rightarrow> sql_mapping_len m
     | Inl err \<Rightarrow> argument_error_len err)"

definition returns_error_len :: "ReturnsError \<Rightarrow> nat" where
  "returns_error_len v = u8_len"

definition return_sql_len :: "ReturnsError + ReturnsRef \<Rightarrow> nat" where
  "return_sql_len value =
     u8_len + (case value of Inr r \<Rightarrow> returns_len r | Inl err \<Rightarrow> returns_error_len err)"

definition function_metadata_type_len ::
    "string option \<Rightarrow> ArgumentError + SqlMappingRef \<Rightarrow> ReturnsError + ReturnsRef \<Rightarrow> nat" where
  "function_metadata_type_len resolution argument_sql return_sql =
     bool_len
     + (case resolution of Some type_ident \<Rightarrow> str_len type_ident + u8_len | None \<Rightarrow> 0)
     + argument_sql_len argument_sql + return_sql_len return_sql"

lemma len_simps [enc_len_simps]:
  "bytes_len n = 4 + n" "str_len s = 4 + length s" "bool_len = 1" "u8_len = 1" "u32_len = 4"
  "opt_len None = 1" "opt_len (Some n) = 1 + n"
  by (simp_all add: bytes_len_def str_len_def bool_len_def u8_len_def u32_len_def opt_len_def)

lemma list_len_loop_sum: "list_len_loop items tot = tot + sum_list items"
  by (induction items arbitrary: tot) simp_all

lemma list_len_sum [enc_len_simps]: "list_len items = 4 + sum_list items"
  by (simp add: list_len_def list_len_loop_sum)

lemma table_len_loop_sum:
  "table_len_loop items tot = tot + sum_list (map sql_mapping_len items)"
  by (induction items arbitrary: tot) simp_all

end
