(* ===== verification/Entry_Writer.thy ===== *)
theory Entry_Writer
  imports Section_Format
begin

text \<open>
  The const evaluator's side of the schema section: \<open>EntryWriter<N>\<close> of
  \<open>pgrx-sql-entity-graph/src/section.rs\<close>. A writer is a buffer of \<open>N\<close> bytes and a position. Every
  method takes the writer by value and returns it; \<^const>\<open>None\<close> is the panic of an index past the
  buffer, or of \<open>finish\<close> on a buffer that is not full, which in a \<open>const\<close> is a compile error.
\<close>

section \<open>The writer\<close>

record EntryWriter =
  ew_buf :: "u8 list"
  ew_pos :: nat

type_synonym write_step = "EntryWriter \<Rightarrow> EntryWriter option"

definition ew_new :: "nat \<Rightarrow> EntryWriter" where
  "ew_new N = \<lparr>ew_buf = replicate N 0, ew_pos = 0\<rparr>"

text \<open>A chain of method calls.\<close>

fun w_seq :: "write_step list \<Rightarrow> write_step" where
  "w_seq [] w = Some w"
| "w_seq (f # fs) w = (case f w of None \<Rightarrow> None | Some w' \<Rightarrow> w_seq fs w')"

definition w_u8 :: "u8 \<Rightarrow> write_step" where
  "w_u8 value w =
     (if ew_pos w < length (ew_buf w)
      then Some (w\<lparr>ew_buf := (ew_buf w)[ew_pos w := value], ew_pos := ew_pos w + 1\<rparr>)
      else None)"

definition w_bool :: "bool \<Rightarrow> write_step" where
  "w_bool value = w_u8 (if value then 1 else 0)"

definition w_u32 :: "u32 \<Rightarrow> write_step" where
  "w_u32 value =
     (let bs = to_le_bytes value
      in w_seq [w_u8 (bs ! 0), w_u8 (bs ! 1), w_u8 (bs ! 2), w_u8 (bs ! 3)])"

fun w_type_origin :: "TypeOrigin \<Rightarrow> write_step" where
  "w_type_origin ThisExtension = w_u8 TYPE_ORIGIN_THIS_EXTENSION"
| "w_type_origin External = w_u8 TYPE_ORIGIN_EXTERNAL"

fun w_bytes :: "u8 list \<Rightarrow> write_step" where
  "w_bytes [] w = Some w"
| "w_bytes (b # bs) w =
     (if ew_pos w < length (ew_buf w)
      then w_bytes bs (w\<lparr>ew_buf := (ew_buf w)[ew_pos w := b], ew_pos := ew_pos w + 1\<rparr>)
      else None)"

definition w_str :: "string \<Rightarrow> write_step" where
  "w_str value = w_seq [w_u32 (word_of_nat (length value)), w_bytes (as_bytes value)]"

definition w_numeric :: "u32 option \<Rightarrow> u32 option \<Rightarrow> write_step" where
  "w_numeric precision scale =
     w_seq [w_u8 SQL_MAPPING_NUMERIC,
       w_bool (precision \<noteq> None), w_u32 (case precision of Some v \<Rightarrow> v | None \<Rightarrow> 0),
       w_bool (scale \<noteq> None), w_u32 (case scale of Some v \<Rightarrow> v | None \<Rightarrow> 0)]"

fun w_sql_array_mapping :: "SqlArrayMappingRef \<Rightarrow> write_step" where
  "w_sql_array_mapping (SqlArrayMappingRef.As sql) = w_seq [w_u8 SQL_MAPPING_AS, w_str sql]"
| "w_sql_array_mapping (SqlArrayMappingRef.Numeric p s) = w_numeric p s"
| "w_sql_array_mapping SqlArrayMappingRef.Composite = w_u8 SQL_MAPPING_COMPOSITE"

fun w_sql_mapping :: "SqlMappingRef \<Rightarrow> write_step" where
  "w_sql_mapping (SqlMappingRef.As sql) = w_seq [w_u8 SQL_MAPPING_AS, w_str sql]"
| "w_sql_mapping (SqlMappingRef.Numeric p s) = w_numeric p s"
| "w_sql_mapping SqlMappingRef.Composite = w_u8 SQL_MAPPING_COMPOSITE"
| "w_sql_mapping (SqlMappingRef.Array v) = w_seq [w_u8 SQL_MAPPING_ARRAY, w_sql_array_mapping v]"
| "w_sql_mapping SqlMappingRef.Skip = w_u8 SQL_MAPPING_SKIP"

text \<open>A counted list: the length as a \<open>u32\<close>, then the items in order.\<close>

definition w_list :: "('a \<Rightarrow> write_step) \<Rightarrow> 'a list \<Rightarrow> write_step" where
  "w_list write items = w_seq (w_u32 (word_of_nat (length items)) # map write items)"

text \<open>An optional field: a presence flag, then the value.\<close>

definition w_opt :: "('a \<Rightarrow> write_step) \<Rightarrow> 'a option \<Rightarrow> write_step" where
  "w_opt write x =
     (case x of None \<Rightarrow> w_bool False | Some y \<Rightarrow> w_seq [w_bool True, write y])"

fun w_returns :: "ReturnsRef \<Rightarrow> write_step" where
  "w_returns (ReturnsRef.One m) = w_seq [w_u8 RETURNS_ONE, w_sql_mapping m]"
| "w_returns (ReturnsRef.SetOf m) = w_seq [w_u8 RETURNS_SET_OF, w_sql_mapping m]"
| "w_returns (ReturnsRef.Table items) = w_seq [w_u8 RETURNS_TABLE, w_list w_sql_mapping items]"

fun w_argument_error :: "ArgumentError \<Rightarrow> write_step" where
  "w_argument_error ArgumentError.SetOf = w_u8 ARG_ERROR_SET_OF"
| "w_argument_error ArgumentError.Table = w_u8 ARG_ERROR_TABLE"
| "w_argument_error ArgumentError.NestedArray = w_u8 ARG_ERROR_NESTED_ARRAY"
| "w_argument_error ArgumentError.BareU8 = w_u8 ARG_ERROR_BARE_U8"
| "w_argument_error ArgumentError.SkipInArray = w_u8 ARG_ERROR_SKIP_IN_ARRAY"
| "w_argument_error ArgumentError.Datum = w_u8 ARG_ERROR_DATUM"
| "w_argument_error (ArgumentError.NotValidAsArgument name) =
     w_seq [w_u8 ARG_ERROR_NOT_VALID, w_str name]"

fun w_argument_sql :: "ArgumentError + SqlMappingRef \<Rightarrow> write_step" where
  "w_argument_sql (Inr m) = w_seq [w_u8 RESULT_OK, w_sql_mapping m]"
| "w_argument_sql (Inl err) = w_seq [w_u8 RESULT_ERR, w_argument_error err]"

fun w_returns_error :: "ReturnsError \<Rightarrow> write_step" where
  "w_returns_error ReturnsError.NestedSetOf = w_u8 RETURNS_ERROR_NESTED_SET_OF"
| "w_returns_error ReturnsError.NestedTable = w_u8 RETURNS_ERROR_NESTED_TABLE"
| "w_returns_error ReturnsError.NestedArray = w_u8 RETURNS_ERROR_NESTED_ARRAY"
| "w_returns_error ReturnsError.SetOfContainingTable = w_u8 RETURNS_ERROR_SET_OF_CONTAINING_TABLE"
| "w_returns_error ReturnsError.TableContainingSetOf = w_u8 RETURNS_ERROR_TABLE_CONTAINING_SET_OF"
| "w_returns_error ReturnsError.SetOfInArray = w_u8 RETURNS_ERROR_SET_OF_IN_ARRAY"
| "w_returns_error ReturnsError.TableInArray = w_u8 RETURNS_ERROR_TABLE_IN_ARRAY"
| "w_returns_error ReturnsError.BareU8 = w_u8 RETURNS_ERROR_BARE_U8"
| "w_returns_error ReturnsError.SkipInArray = w_u8 RETURNS_ERROR_SKIP_IN_ARRAY"
| "w_returns_error ReturnsError.Datum = w_u8 RETURNS_ERROR_DATUM"

fun w_return_sql :: "ReturnsError + ReturnsRef \<Rightarrow> write_step" where
  "w_return_sql (Inr r) = w_seq [w_u8 RESULT_OK, w_returns r]"
| "w_return_sql (Inl err) = w_seq [w_u8 RESULT_ERR, w_returns_error err]"

definition w_function_metadata_type ::
    "(string \<times> TypeOrigin) option \<Rightarrow> ArgumentError + SqlMappingRef
     \<Rightarrow> ReturnsError + ReturnsRef \<Rightarrow> write_step" where
  "w_function_metadata_type resolution argument_sql return_sql =
     w_seq [
       case resolution of
         Some (type_ident, type_origin) \<Rightarrow>
           w_seq [w_bool True, w_str type_ident, w_type_origin type_origin]
       | None \<Rightarrow> w_bool False,
       w_argument_sql argument_sql, w_return_sql return_sql]"

definition ew_finish :: "EntryWriter \<Rightarrow> u8 list option" where
  "ew_finish w = (if ew_pos w \<noteq> length (ew_buf w) then None else Some (ew_buf w))"

text \<open>\<open>EntryWriter::<N>::new() ... .finish()\<close> for the given chain of calls.\<close>

definition ew_run :: "nat \<Rightarrow> write_step \<Rightarrow> u8 list option" where
  "ew_run N f = Option.bind (f (ew_new N)) ew_finish"

section \<open>The sentinel entry\<close>

definition SECTION_SENTINEL_MAGIC :: string where
  "SECTION_SENTINEL_MAGIC = ''pgrx''"

definition SECTION_SENTINEL_PAYLOAD_LEN :: nat where
  "SECTION_SENTINEL_PAYLOAD_LEN = u8_len + str_len SECTION_SENTINEL_MAGIC"

definition SECTION_SENTINEL_ENTRY_LEN :: nat where
  "SECTION_SENTINEL_ENTRY_LEN = u32_len + SECTION_SENTINEL_PAYLOAD_LEN"

definition SECTION_SENTINEL_PAYLOAD :: "u8 list option" where
  "SECTION_SENTINEL_PAYLOAD =
     ew_run SECTION_SENTINEL_PAYLOAD_LEN
       (w_seq [w_u8 ENTITY_SENTINEL, w_str SECTION_SENTINEL_MAGIC])"

definition schema_section_sentinel_entry :: "u8 list option" where
  "schema_section_sentinel_entry =
     Option.bind SECTION_SENTINEL_PAYLOAD (\<lambda>payload.
       ew_run SECTION_SENTINEL_ENTRY_LEN
         (w_seq [w_u32 (word_of_nat SECTION_SENTINEL_PAYLOAD_LEN), w_bytes payload]))"

section \<open>What a chain of calls emits\<close>

text \<open>
  \<open>emits f bs\<close>: from any position of any buffer the step writes exactly the bytes \<open>bs\<close> and
  advances past them when they fit, and panics when they do not.
\<close>

definition emits :: "write_step \<Rightarrow> u8 list \<Rightarrow> bool" where
  "emits f bs \<longleftrightarrow>
     (\<forall>w. ew_pos w \<le> length (ew_buf w) \<longrightarrow>
        f w =
          (if ew_pos w + length bs \<le> length (ew_buf w)
           then Some \<lparr>ew_buf = take (ew_pos w) (ew_buf w) @ bs
                        @ drop (ew_pos w + length bs) (ew_buf w),
                      ew_pos = ew_pos w + length bs\<rparr>
           else None))"

lemma emits_u8 [emits_intros]: "emits (w_u8 b) [b]"
  by (auto simp: emits_def w_u8_def upd_conv_take_nth_drop Suc_le_eq)

lemma emits_Nil: "emits (w_seq []) []"
  by (simp add: emits_def)

declare w_seq.simps [simp del]

lemma emits_Cons:
  assumes f: "emits f bs" and fs: "emits (w_seq fs) cs"
  shows "emits (w_seq (f # fs)) (bs @ cs)"
  unfolding emits_def
proof (intro allI impI)
  fix w :: EntryWriter
  assume pos: "ew_pos w \<le> length (ew_buf w)"
  show "w_seq (f # fs) w =
      (if ew_pos w + length (bs @ cs) \<le> length (ew_buf w)
       then Some \<lparr>ew_buf = take (ew_pos w) (ew_buf w) @ (bs @ cs)
                    @ drop (ew_pos w + length (bs @ cs)) (ew_buf w),
                  ew_pos = ew_pos w + length (bs @ cs)\<rparr>
       else None)"
  proof (cases "ew_pos w + length bs \<le> length (ew_buf w)")
    case True
    let ?w = "\<lparr>ew_buf = take (ew_pos w) (ew_buf w) @ bs @ drop (ew_pos w + length bs) (ew_buf w),
               ew_pos = ew_pos w + length bs\<rparr>"
    from f pos True have "f w = Some ?w"
      by (simp add: emits_def)
    then have "w_seq (f # fs) w = w_seq fs ?w"
      by (simp add: w_seq.simps)
    moreover have "ew_pos ?w \<le> length (ew_buf ?w)" and len: "length (ew_buf ?w) = length (ew_buf w)"
      using pos True by simp_all
    ultimately show ?thesis
      using fs pos True by (simp add: emits_def min_absorb2 ac_simps)
  next
    case False
    with f pos have "f w = None"
      by (simp add: emits_def)
    with False show ?thesis by (simp add: w_seq.simps)
  qed
qed

text \<open>Encodings are written as the sequence of their parts, one part for each call.\<close>

definition enc_seq :: "u8 list list \<Rightarrow> u8 list" where
  "enc_seq = concat"

lemma emits_seq_Nil [emits_intros]: "emits (w_seq []) (enc_seq [])"
  by (simp add: emits_Nil enc_seq_def)

lemma emits_seq_Cons [emits_intros]:
  "emits f b \<Longrightarrow> emits (w_seq fs) (enc_seq bs) \<Longrightarrow> emits (w_seq (f # fs)) (enc_seq (b # bs))"
  by (simp add: emits_Cons enc_seq_def)

lemma emits_bytes [emits_intros]: "emits (w_bytes bs) bs"
proof (induction bs)
  case Nil
  show ?case by (simp add: emits_def)
next
  case (Cons b bs)
  have eq: "w_bytes (b # bs) = w_seq [w_u8 b, w_bytes bs]"
    by (auto simp: w_seq.simps w_u8_def split: option.splits)
  have "emits (w_seq [w_u8 b, w_bytes bs]) (enc_seq [[b], bs])"
    by (intro emits_intros Cons.IH)
  then show ?case by (simp add: eq enc_seq_def del: w_bytes.simps)
qed

lemma emits_u32 [emits_intros]: "emits (w_u32 v) (to_le_bytes v)"
proof -
  obtain b0 b1 b2 b3 where bs: "to_le_bytes v = [b0, b1, b2, b3]"
    by (simp add: to_le_bytes_def)
  have "emits (w_seq [w_u8 b0, w_u8 b1, w_u8 b2, w_u8 b3]) (enc_seq [[b0], [b1], [b2], [b3]])"
    by (intro emits_intros)
  then show ?thesis by (simp add: w_u32_def bs enc_seq_def)
qed

section \<open>Encodings\<close>

definition enc_bool :: "bool \<Rightarrow> u8 list" where
  "enc_bool b = [if b then 1 else 0]"

definition enc_str :: "string \<Rightarrow> u8 list" where
  "enc_str s = enc_seq [to_le_bytes (word_of_nat (length s)), as_bytes s]"

definition enc_list :: "('a \<Rightarrow> u8 list) \<Rightarrow> 'a list \<Rightarrow> u8 list" where
  "enc_list enc xs = enc_seq (to_le_bytes (word_of_nat (length xs)) # map enc xs)"

definition enc_opt :: "('a \<Rightarrow> u8 list) \<Rightarrow> 'a option \<Rightarrow> u8 list" where
  "enc_opt enc x = (case x of None \<Rightarrow> enc_bool False | Some y \<Rightarrow> enc_seq [enc_bool True, enc y])"

lemma emits_bool [emits_intros]: "emits (w_bool b) (enc_bool b)"
  by (simp add: w_bool_def enc_bool_def emits_u8)

lemma emits_str [emits_intros]: "emits (w_str s) (enc_str s)"
  unfolding w_str_def enc_str_def by (intro emits_intros)

lemma emits_list:
  assumes "\<And>x. emits (write x) (enc x)"
  shows "emits (w_list write xs) (enc_list enc xs)"
proof -
  have "emits (w_seq (map write xs)) (enc_seq (map enc xs))"
  proof (induction xs)
    case Nil
    show ?case by (simp add: emits_seq_Nil)
  next
    case (Cons x xs)
    then show ?case using assms by (simp add: emits_seq_Cons)
  qed
  then show ?thesis
    unfolding w_list_def enc_list_def by (intro emits_intros)
qed

lemma emits_opt:
  assumes "\<And>x. emits (write x) (enc x)"
  shows "emits (w_opt write x) (enc_opt enc x)"
  unfolding w_opt_def enc_opt_def using assms by (cases x) (auto intro!: emits_intros)

lemma length_enc_seq [enc_len_simps]: "length (enc_seq bs) = sum_list (map length bs)"
  by (simp add: enc_seq_def length_concat)

lemma length_enc_basic [enc_len_simps]:
  "length (enc_bool b) = 1" "length (enc_str s) = 4 + length s"
  by (auto simp: enc_bool_def enc_str_def enc_seq_def)

lemma length_enc_list_opt:
  "length (enc_list enc xs) = 4 + sum_list (map (length \<circ> enc) xs)"
  "length (enc_opt enc x) = opt_len (map_option (length \<circ> enc) x)"
  by (auto simp: enc_bool_def enc_str_def enc_list_def enc_opt_def enc_seq_def length_concat comp_def
      opt_len_def split: option.splits)

text \<open>
  A chain that emits \<open>bs\<close> builds an entry of \<open>N\<close> bytes exactly when \<open>N\<close> is the length of \<open>bs\<close>;
  for every other \<open>N\<close> the const evaluation panics.
\<close>

lemma ew_run_emits:
  assumes "emits f bs"
  shows "ew_run N f = (if N = length bs then Some bs else None)"
proof -
  have "f (ew_new N) =
      (if length bs \<le> N
       then Some \<lparr>ew_buf = bs @ drop (length bs) (replicate N 0), ew_pos = length bs\<rparr> else None)"
    using assms by (simp add: emits_def ew_new_def)
  then show ?thesis
    by (auto simp: ew_run_def ew_finish_def)
qed

lemma sentinel_payload:
  "SECTION_SENTINEL_PAYLOAD = Some (0 # enc_str SECTION_SENTINEL_MAGIC)"
proof -
  have "emits (w_seq [w_u8 ENTITY_SENTINEL, w_str SECTION_SENTINEL_MAGIC])
      (enc_seq [[ENTITY_SENTINEL], enc_str SECTION_SENTINEL_MAGIC])"
    by (intro emits_intros)
  from ew_run_emits [OF this] show ?thesis
    by (simp add: SECTION_SENTINEL_PAYLOAD_def SECTION_SENTINEL_PAYLOAD_LEN_def enc_len_simps
        enc_seq_def)
qed

end
