(* ===== verification/Entry_Reader.thy ===== *)
theory Entry_Reader
  imports Entry_Writer
begin

text \<open>
  The decoder of the schema section: \<open>EntryReader\<close> of \<open>pgrx-sql-entity-graph/src/section.rs\<close>. A
  reader is a byte slice and a position; a method is a function from the reader to an error or to a
  value and the advanced reader. \<open>Vec::with_capacity\<close> only reserves memory and is left out.
\<close>

section \<open>Errors\<close>

datatype schema_error =
    UnexpectedEnd
  | InvalidBoolTag u8
  | InvalidUtf8
  | InvalidSqlMappingTag u8
  | InvalidSqlArrayMappingTag u8
  | InvalidReturnsTag u8
  | InvalidArgumentSqlTag u8
  | InvalidReturnSqlTag u8
  | InvalidArgumentErrorTag u8
  | InvalidReturnsErrorTag u8
  | InvalidPositioningRefTag u8
  | UnknownTypeOrigin u8
  | InvalidExternReturnTag u8
  | InvalidExternArgTag u8
  | InvalidCastTag u8
  | InvalidSqlDeclarationMapping SqlMapping
  | DeclarationArgumentError ArgumentError
  | MissingFunctionName
  | InvalidSqlDeclaredTag u8
  | InvalidFinalizeModifyTag u8
  | InvalidParallelOptionTag u8
  | TrailingBytes nat
  | InvalidTrailingSectionBytes
  | ZeroLengthEntry
  | InvalidPayloadLength
  | InvalidEntityTag u8

section \<open>The reader\<close>

record EntryReader =
  er_bytes :: "u8 list"
  er_pos :: nat

type_synonym 'a reader = "EntryReader \<Rightarrow> schema_error + ('a \<times> EntryReader)"

definition r_return :: "'a \<Rightarrow> 'a reader" where
  "r_return v r = Inr (v, r)"

definition r_err :: "schema_error \<Rightarrow> 'a reader" where
  "r_err e r = Inl e"

definition r_bind :: "'a reader \<Rightarrow> ('a \<Rightarrow> 'b reader) \<Rightarrow> 'b reader" where
  "r_bind p f r = (case p r of Inl e \<Rightarrow> Inl e | Inr (v, r') \<Rightarrow> f v r')"

definition er_new :: "u8 list \<Rightarrow> EntryReader" where
  "er_new bytes = \<lparr>er_bytes = bytes, er_pos = 0\<rparr>"

definition er_is_empty :: "EntryReader \<Rightarrow> bool" where
  "er_is_empty r \<longleftrightarrow> er_pos r \<ge> length (er_bytes r)"

definition er_remaining :: "EntryReader \<Rightarrow> nat" where
  "er_remaining r = length (er_bytes r) - er_pos r"

text \<open>The slice \<open>bytes[pos..pos + n]\<close>.\<close>

definition er_slice :: "EntryReader \<Rightarrow> nat \<Rightarrow> u8 list" where
  "er_slice r n = take n (drop (er_pos r) (er_bytes r))"

definition read_u8 :: "u8 reader" where
  "read_u8 r =
     (if er_remaining r < 1 then Inl UnexpectedEnd
      else Inr (er_bytes r ! er_pos r, r\<lparr>er_pos := er_pos r + 1\<rparr>))"

definition read_bool :: "bool reader" where
  "read_bool = r_bind read_u8 (\<lambda>tag.
     if tag = 0 then r_return False
     else if tag = 1 then r_return True
     else r_err (InvalidBoolTag tag))"

definition read_u32 :: "u32 reader" where
  "read_u32 r =
     (if er_remaining r < 4 then Inl UnexpectedEnd
      else Inr (from_le_bytes (er_slice r 4), r\<lparr>er_pos := er_pos r + 4\<rparr>))"

definition read_bytes :: "u8 list reader" where
  "read_bytes = r_bind read_u32 (\<lambda>n r.
     if er_remaining r < unat n then Inl UnexpectedEnd
     else Inr (er_slice r (unat n), r\<lparr>er_pos := er_pos r + unat n\<rparr>))"

definition read_str :: "string reader" where
  "read_str = r_bind read_bytes (\<lambda>bytes.
     if utf8_valid bytes then r_return (from_bytes bytes) else r_err InvalidUtf8)"

definition read_string :: "string reader" where
  "read_string = r_bind read_bytes (\<lambda>bytes.
     if utf8_valid bytes then r_return (from_bytes bytes) else r_err InvalidUtf8)"

text \<open>\<open>if self.read_bool()? \{ Some(read()?) \} else \{ None \}\<close>, and the loop that reads \<open>count\<close> items.\<close>

definition read_opt :: "'a reader \<Rightarrow> 'a option reader" where
  "read_opt p = r_bind read_bool (\<lambda>b.
     if b then r_bind p (\<lambda>v. r_return (Some v)) else r_return None)"

fun read_n :: "nat \<Rightarrow> 'a reader \<Rightarrow> 'a list reader" where
  "read_n 0 p = r_return []"
| "read_n (Suc n) p = r_bind p (\<lambda>x. r_bind (read_n n p) (\<lambda>xs. r_return (x # xs)))"

definition read_list :: "'a reader \<Rightarrow> 'a list reader" where
  "read_list p = r_bind read_u32 (\<lambda>count. read_n (unat count) p)"

definition read_option_str :: "string option reader" where
  "read_option_str = read_opt read_str"

definition read_option_string :: "string option reader" where
  "read_option_string = read_opt read_string"

definition then_some :: "bool \<Rightarrow> 'a \<Rightarrow> 'a option" where
  "then_some b x = (if b then Some x else None)"

definition read_numeric :: "string reader" where
  "read_numeric =
     r_bind read_bool (\<lambda>has_precision. r_bind read_u32 (\<lambda>precision.
     r_bind read_bool (\<lambda>has_scale. r_bind read_u32 (\<lambda>scale.
       r_return (numeric_sql_string (then_some has_precision precision)
         (then_some has_scale scale))))))"

definition read_sql_array_mapping_owned :: "SqlArrayMapping reader" where
  "read_sql_array_mapping_owned = r_bind read_u8 (\<lambda>tag.
     if tag = SQL_MAPPING_AS then r_bind read_string (\<lambda>s. r_return (SqlArrayMapping.As s))
     else if tag = SQL_MAPPING_NUMERIC then
       r_bind read_numeric (\<lambda>s. r_return (SqlArrayMapping.As s))
     else if tag = SQL_MAPPING_COMPOSITE then r_return SqlArrayMapping.Composite
     else r_err (InvalidSqlArrayMappingTag tag))"

definition read_sql_mapping_owned :: "SqlMapping reader" where
  "read_sql_mapping_owned = r_bind read_u8 (\<lambda>tag.
     if tag = SQL_MAPPING_AS then r_bind read_string (\<lambda>s. r_return (SqlMapping.As s))
     else if tag = SQL_MAPPING_ARRAY then
       r_bind read_sql_array_mapping_owned (\<lambda>m. r_return (SqlMapping.Array m))
     else if tag = SQL_MAPPING_NUMERIC then
       r_bind read_numeric (\<lambda>s. r_return (SqlMapping.As s))
     else if tag = SQL_MAPPING_COMPOSITE then r_return SqlMapping.Composite
     else if tag = SQL_MAPPING_SKIP then r_return SqlMapping.Skip
     else r_err (InvalidSqlMappingTag tag))"

definition read_returns_owned :: "Returns reader" where
  "read_returns_owned = r_bind read_u8 (\<lambda>tag.
     if tag = RETURNS_ONE then r_bind read_sql_mapping_owned (\<lambda>m. r_return (Returns.One m))
     else if tag = RETURNS_SET_OF then
       r_bind read_sql_mapping_owned (\<lambda>m. r_return (Returns.SetOf m))
     else if tag = RETURNS_TABLE then
       r_bind (read_list read_sql_mapping_owned) (\<lambda>ms. r_return (Returns.Table ms))
     else r_err (InvalidReturnsTag tag))"

definition read_argument_error :: "ArgumentError reader" where
  "read_argument_error = r_bind read_u8 (\<lambda>tag.
     if tag = ARG_ERROR_SET_OF then r_return ArgumentError.SetOf
     else if tag = ARG_ERROR_TABLE then r_return ArgumentError.Table
     else if tag = ARG_ERROR_NESTED_ARRAY then r_return ArgumentError.NestedArray
     else if tag = ARG_ERROR_BARE_U8 then r_return ArgumentError.BareU8
     else if tag = ARG_ERROR_SKIP_IN_ARRAY then r_return ArgumentError.SkipInArray
     else if tag = ARG_ERROR_DATUM then r_return ArgumentError.Datum
     else if tag = ARG_ERROR_NOT_VALID then
       r_bind read_string (\<lambda>s. r_return (ArgumentError.NotValidAsArgument s))
     else r_err (InvalidArgumentErrorTag tag))"

definition read_returns_error :: "ReturnsError reader" where
  "read_returns_error = r_bind read_u8 (\<lambda>tag.
     if tag = RETURNS_ERROR_NESTED_SET_OF then r_return ReturnsError.NestedSetOf
     else if tag = RETURNS_ERROR_NESTED_TABLE then r_return ReturnsError.NestedTable
     else if tag = RETURNS_ERROR_NESTED_ARRAY then r_return ReturnsError.NestedArray
     else if tag = RETURNS_ERROR_SET_OF_CONTAINING_TABLE then
       r_return ReturnsError.SetOfContainingTable
     else if tag = RETURNS_ERROR_TABLE_CONTAINING_SET_OF then
       r_return ReturnsError.TableContainingSetOf
     else if tag = RETURNS_ERROR_SET_OF_IN_ARRAY then r_return ReturnsError.SetOfInArray
     else if tag = RETURNS_ERROR_TABLE_IN_ARRAY then r_return ReturnsError.TableInArray
     else if tag = RETURNS_ERROR_BARE_U8 then r_return ReturnsError.BareU8
     else if tag = RETURNS_ERROR_SKIP_IN_ARRAY then r_return ReturnsError.SkipInArray
     else if tag = RETURNS_ERROR_DATUM then r_return ReturnsError.Datum
     else r_err (InvalidReturnsErrorTag tag))"

definition read_argument_sql_owned :: "(ArgumentError + SqlMapping) reader" where
  "read_argument_sql_owned = r_bind read_u8 (\<lambda>tag.
     if tag = RESULT_OK then r_bind read_sql_mapping_owned (\<lambda>m. r_return (Inr m))
     else if tag = RESULT_ERR then r_bind read_argument_error (\<lambda>e. r_return (Inl e))
     else r_err (InvalidArgumentSqlTag tag))"

definition read_return_sql_owned :: "(ReturnsError + Returns) reader" where
  "read_return_sql_owned = r_bind read_u8 (\<lambda>tag.
     if tag = RESULT_OK then r_bind read_returns_owned (\<lambda>m. r_return (Inr m))
     else if tag = RESULT_ERR then r_bind read_returns_error (\<lambda>e. r_return (Inl e))
     else r_err (InvalidReturnSqlTag tag))"

definition read_positioning_ref :: "PositioningRef reader" where
  "read_positioning_ref = r_bind read_u8 (\<lambda>tag.
     if tag = POSITIONING_REF_FULL_PATH then
       r_bind read_string (\<lambda>s. r_return (PositioningRef.FullPath s))
     else if tag = POSITIONING_REF_NAME then
       r_bind read_string (\<lambda>s. r_return (PositioningRef.Name s))
     else r_err (InvalidPositioningRefTag tag))"

definition read_to_sql_config :: "ToSqlConfigEntity reader" where
  "read_to_sql_config = r_bind read_bool (\<lambda>enabled. r_bind read_option_str (\<lambda>content.
     r_return \<lparr>tsc_enabled = enabled, tsc_content = content\<rparr>))"

definition read_type_origin :: "TypeOrigin reader" where
  "read_type_origin = r_bind read_u8 (\<lambda>value.
     if value = TYPE_ORIGIN_THIS_EXTENSION then r_return ThisExtension
     else if value = TYPE_ORIGIN_EXTERNAL then r_return External
     else r_err (UnknownTypeOrigin value))"

definition read_function_metadata_type :: "FunctionMetadataTypeEntity reader" where
  "read_function_metadata_type =
     r_bind read_bool (\<lambda>b.
       r_bind
         (if b then
            r_bind read_str (\<lambda>type_ident. r_bind read_type_origin (\<lambda>type_origin.
              r_return (Some \<lparr>re_type_ident = type_ident, re_type_origin = type_origin\<rparr>)))
          else r_return None)
       (\<lambda>resolution.
         r_bind read_argument_sql_owned (\<lambda>argument_sql.
         r_bind read_return_sql_owned (\<lambda>return_sql.
           r_return \<lparr>md_resolution = resolution, md_argument_sql = argument_sql,
             md_return_sql = return_sql\<rparr>))))"

definition read_used_type :: "UsedTypeEntity reader" where
  "read_used_type =
     r_bind read_str (\<lambda>ty_source. r_bind read_str (\<lambda>full_path.
     r_bind read_option_str (\<lambda>composite_type. r_bind read_bool (\<lambda>variadic.
     r_bind read_option_str (\<lambda>dflt. r_bind read_bool (\<lambda>optional.
     r_bind read_function_metadata_type (\<lambda>metadata.
       r_return \<lparr>ut_ty_source = ty_source, ut_full_path = full_path,
         ut_composite_type = composite_type, ut_variadic = variadic, ut_default = dflt,
         ut_optional = optional, ut_metadata = metadata\<rparr>)))))))"

definition read_pg_extern_argument :: "PgExternArgumentEntity reader" where
  "read_pg_extern_argument =
     r_bind read_str (\<lambda>pattern. r_bind read_used_type (\<lambda>used_ty.
       r_return \<lparr>pa_pattern = pattern, pa_used_ty = used_ty\<rparr>))"

definition read_iterated_item :: "PgExternReturnEntityIteratedItem reader" where
  "read_iterated_item =
     r_bind read_option_str (\<lambda>name. r_bind read_used_type (\<lambda>ty.
       r_return \<lparr>ri_ty = ty, ri_name = name\<rparr>))"

definition read_pg_extern_return :: "PgExternReturnEntity reader" where
  "read_pg_extern_return = r_bind read_u8 (\<lambda>tag.
     if tag = EXTERN_RET_NONE then r_return RetNone
     else if tag = EXTERN_RET_TYPE then r_bind read_used_type (\<lambda>ty. r_return (RetType ty))
     else if tag = EXTERN_RET_SET_OF then r_bind read_used_type (\<lambda>ty. r_return (RetSetOf ty))
     else if tag = EXTERN_RET_ITERATED then
       r_bind (read_list read_iterated_item) (\<lambda>tys. r_return (RetIterated tys))
     else if tag = EXTERN_RET_TRIGGER then r_return RetTrigger
     else r_err (InvalidExternReturnTag tag))"

definition read_extern_arg :: "ExternArgs reader" where
  "read_extern_arg = r_bind read_u8 (\<lambda>tag.
     if tag = EXTERN_ARG_CREATE_OR_REPLACE then r_return CreateOrReplace
     else if tag = EXTERN_ARG_IMMUTABLE then r_return Immutable
     else if tag = EXTERN_ARG_STRICT then r_return Strict
     else if tag = EXTERN_ARG_STABLE then r_return Stable
     else if tag = EXTERN_ARG_VOLATILE then r_return Volatile
     else if tag = EXTERN_ARG_RAW then r_return Raw
     else if tag = EXTERN_ARG_NO_GUARD then r_return NoGuard
     else if tag = EXTERN_ARG_SECURITY_DEFINER then r_return SecurityDefiner
     else if tag = EXTERN_ARG_SECURITY_INVOKER then r_return SecurityInvoker
     else if tag = EXTERN_ARG_PARALLEL_SAFE then r_return ParallelSafe
     else if tag = EXTERN_ARG_PARALLEL_UNSAFE then r_return ParallelUnsafe
     else if tag = EXTERN_ARG_PARALLEL_RESTRICTED then r_return ParallelRestricted
     else if tag = EXTERN_ARG_SHOULD_PANIC then
       r_bind read_string (\<lambda>s. r_return (ShouldPanic s))
     else if tag = EXTERN_ARG_SCHEMA then
       r_bind read_string (\<lambda>s. r_return (ExternArgs.Schema s))
     else if tag = EXTERN_ARG_SUPPORT then
       r_bind read_positioning_ref (\<lambda>p. r_return (Support p))
     else if tag = EXTERN_ARG_NAME then
       r_bind read_string (\<lambda>s. r_return (ExternArgs.Name s))
     else if tag = EXTERN_ARG_COST then r_bind read_string (\<lambda>s. r_return (Cost s))
     else if tag = EXTERN_ARG_REQUIRES then
       r_bind (read_list read_positioning_ref) (\<lambda>ps. r_return (Requires ps))
     else r_err (InvalidExternArgTag tag))"

definition read_search_path :: "string list option reader" where
  "read_search_path = r_bind read_bool (\<lambda>b.
     if \<not> b then r_return None
     else r_bind (read_list read_str) (\<lambda>vs. r_return (Some vs)))"

definition read_operator :: "PgOperatorEntity reader" where
  "read_operator =
     r_bind read_option_str (\<lambda>opname. r_bind read_option_str (\<lambda>commutator.
     r_bind read_option_str (\<lambda>negator. r_bind read_option_str (\<lambda>restrict.
     r_bind read_option_str (\<lambda>join. r_bind read_bool (\<lambda>hashes. r_bind read_bool (\<lambda>merges.
       r_return \<lparr>op_opname = opname, op_commutator = commutator, op_negator = negator,
         op_restrict = restrict, op_join = join, op_hashes = hashes, op_merges = merges\<rparr>)))))))"

definition read_cast :: "PgCastEntity reader" where
  "read_cast = r_bind read_u8 (\<lambda>tag.
     if tag = OPERATOR_CAST_DEFAULT then r_return CastDefault
     else if tag = OPERATOR_CAST_ASSIGNMENT then r_return CastAssignment
     else if tag = OPERATOR_CAST_IMPLICIT then r_return CastImplicit
     else r_err (InvalidCastTag tag))"

text \<open>The last segment of \<open>name.split("::")\<close>; \<open>split\<close> always yields one.\<close>

definition declared_function_name :: "string \<Rightarrow> schema_error + string" where
  "declared_function_name name =
     (case split_str ''::'' name of [] \<Rightarrow> Inl MissingFunctionName | parts \<Rightarrow> Inr (last parts))"

definition read_sql_declared :: "SqlDeclaredEntity reader" where
  "read_sql_declared = r_bind read_u8 (\<lambda>kind. r_bind read_string (\<lambda>name.
     if kind = SQL_DECLARED_TYPE \<or> kind = SQL_DECLARED_ENUM then
       r_bind read_string (\<lambda>type_ident. r_bind read_argument_sql_owned (\<lambda>a.
         case a of
           Inr (SqlMapping.As sql) \<Rightarrow>
             (let d = \<lparr>dt_sql = sql, dt_name = name, dt_type_ident = type_ident\<rparr>
              in r_return (if kind = SQL_DECLARED_TYPE then DeclType d else DeclEnum d))
         | Inr other \<Rightarrow> r_err (InvalidSqlDeclarationMapping other)
         | Inl err \<Rightarrow> r_err (DeclarationArgumentError err)))
     else if kind = SQL_DECLARED_FUNCTION then
       (case declared_function_name name of
          Inl e \<Rightarrow> r_err e
        | Inr sql \<Rightarrow> r_return (DeclFunction \<lparr>df_sql = sql, df_name = name\<rparr>))
     else r_err (InvalidSqlDeclaredTag kind)))"

definition read_aggregate_type :: "AggregateTypeEntity reader" where
  "read_aggregate_type =
     r_bind read_option_str (\<lambda>name. r_bind read_used_type (\<lambda>used_ty.
       r_return \<lparr>at_used_ty = used_ty, at_name = name\<rparr>))"

definition read_aggregate_type_list :: "AggregateTypeEntity list reader" where
  "read_aggregate_type_list = read_list read_aggregate_type"

definition read_finalize_modify :: "FinalizeModify reader" where
  "read_finalize_modify = r_bind read_u8 (\<lambda>tag.
     if tag = AGGREGATE_FINALIZE_READ_ONLY then r_return ReadOnly
     else if tag = AGGREGATE_FINALIZE_SHAREABLE then r_return Shareable
     else if tag = AGGREGATE_FINALIZE_READ_WRITE then r_return ReadWrite
     else r_err (InvalidFinalizeModifyTag tag))"

definition read_parallel_option :: "ParallelOption reader" where
  "read_parallel_option = r_bind read_u8 (\<lambda>tag.
     if tag = AGGREGATE_PARALLEL_SAFE then r_return Safe
     else if tag = AGGREGATE_PARALLEL_RESTRICTED then r_return Restricted
     else if tag = AGGREGATE_PARALLEL_UNSAFE then r_return Unsafe
     else r_err (InvalidParallelOptionTag tag))"

definition er_finish :: "unit reader" where
  "er_finish r = (if er_is_empty r then Inr ((), r) else Inl (TrailingBytes (er_remaining r)))"

section \<open>Entities\<close>

definition read_schema_entity :: "SchemaEntity reader" where
  "read_schema_entity =
     r_bind read_str (\<lambda>module_path. r_bind read_str (\<lambda>name. r_bind read_str (\<lambda>file.
     r_bind read_u32 (\<lambda>line.
       r_return \<lparr>sc_module_path = module_path, sc_name = name, sc_file = file,
         sc_line = line\<rparr>))))"

definition read_extension_sql_entity :: "ExtensionSqlEntity reader" where
  "read_extension_sql_entity =
     r_bind read_str (\<lambda>sql. r_bind read_str (\<lambda>module_path. r_bind read_str (\<lambda>full_path.
     r_bind read_str (\<lambda>file. r_bind read_u32 (\<lambda>line. r_bind read_str (\<lambda>name.
     r_bind read_bool (\<lambda>bootstrap. r_bind read_bool (\<lambda>finalize.
     r_bind (read_list read_positioning_ref) (\<lambda>requires.
     r_bind (read_list read_sql_declared) (\<lambda>creates.
       r_return \<lparr>es_module_path = module_path, es_full_path = full_path, es_sql = sql,
         es_file = file, es_line = line, es_name = name, es_bootstrap = bootstrap,
         es_finalize = finalize, es_requires = requires, es_creates = creates\<rparr>))))))))))"

definition read_pg_extern_entity :: "PgExternEntity reader" where
  "read_pg_extern_entity =
     r_bind read_str (\<lambda>name. r_bind read_str (\<lambda>unaliased_name.
     r_bind read_str (\<lambda>module_path. r_bind read_str (\<lambda>full_path.
     r_bind (read_list read_pg_extern_argument) (\<lambda>fn_args.
     r_bind read_pg_extern_return (\<lambda>fn_return.
     r_bind read_option_str (\<lambda>schema. r_bind read_str (\<lambda>file. r_bind read_u32 (\<lambda>line.
     r_bind (read_list read_extern_arg) (\<lambda>extern_attrs.
     r_bind read_search_path (\<lambda>search_path.
     r_bind (read_opt read_operator) (\<lambda>operator. r_bind (read_opt read_cast) (\<lambda>cast.
     r_bind read_to_sql_config (\<lambda>to_sql_config.
       r_return \<lparr>pe_name = name, pe_unaliased_name = unaliased_name,
         pe_module_path = module_path, pe_full_path = full_path, pe_fn_args = fn_args,
         pe_fn_return = fn_return, pe_schema = schema, pe_file = file, pe_line = line,
         pe_extern_attrs = extern_attrs, pe_search_path = search_path,
         pe_operator = operator, pe_cast = cast,
         pe_to_sql_config = to_sql_config\<rparr>))))))))))))))"

definition read_postgres_type_entity :: "PostgresTypeEntity reader" where
  "read_postgres_type_entity =
     r_bind read_str (\<lambda>name. r_bind read_str (\<lambda>file. r_bind read_u32 (\<lambda>line.
     r_bind read_str (\<lambda>module_path. r_bind read_str (\<lambda>full_path.
     r_bind read_str (\<lambda>type_ident. r_bind read_str (\<lambda>in_fn_path.
     r_bind read_str (\<lambda>out_fn_path. r_bind read_option_str (\<lambda>receive_fn_path.
     r_bind read_option_str (\<lambda>send_fn_path. r_bind read_to_sql_config (\<lambda>to_sql_config.
     r_bind (read_opt read_u32) (\<lambda>alignment.
       r_return \<lparr>ty_name = name, ty_file = file, ty_line = line, ty_full_path = full_path,
         ty_module_path = module_path, ty_type_ident = type_ident, ty_in_fn_path = in_fn_path,
         ty_out_fn_path = out_fn_path, ty_receive_fn_path = receive_fn_path,
         ty_send_fn_path = send_fn_path, ty_to_sql_config = to_sql_config,
         ty_alignment = map_option unat alignment\<rparr>))))))))))))"

definition read_postgres_enum_entity :: "PostgresEnumEntity reader" where
  "read_postgres_enum_entity =
     r_bind read_str (\<lambda>name. r_bind read_str (\<lambda>file. r_bind read_u32 (\<lambda>line.
     r_bind read_str (\<lambda>module_path. r_bind read_str (\<lambda>full_path.
     r_bind read_str (\<lambda>type_ident. r_bind (read_list read_str) (\<lambda>variants.
     r_bind read_to_sql_config (\<lambda>to_sql_config.
       r_return \<lparr>en_name = name, en_file = file, en_line = line, en_full_path = full_path,
         en_module_path = module_path, en_type_ident = type_ident, en_variants = variants,
         en_to_sql_config = to_sql_config\<rparr>))))))))"

definition read_postgres_ord_entity :: "PostgresOrdEntity reader" where
  "read_postgres_ord_entity =
     r_bind read_str (\<lambda>name. r_bind read_str (\<lambda>file. r_bind read_u32 (\<lambda>line.
     r_bind read_str (\<lambda>full_path. r_bind read_str (\<lambda>module_path.
     r_bind read_str (\<lambda>type_ident. r_bind read_to_sql_config (\<lambda>to_sql_config.
       r_return \<lparr>or_name = name, or_file = file, or_line = line, or_full_path = full_path,
         or_module_path = module_path, or_type_ident = type_ident,
         or_to_sql_config = to_sql_config\<rparr>)))))))"

definition read_postgres_hash_entity :: "PostgresHashEntity reader" where
  "read_postgres_hash_entity =
     r_bind read_str (\<lambda>name. r_bind read_str (\<lambda>file. r_bind read_u32 (\<lambda>line.
     r_bind read_str (\<lambda>full_path. r_bind read_str (\<lambda>module_path.
     r_bind read_str (\<lambda>type_ident. r_bind read_to_sql_config (\<lambda>to_sql_config.
       r_return \<lparr>ha_name = name, ha_file = file, ha_line = line, ha_full_path = full_path,
         ha_module_path = module_path, ha_type_ident = type_ident,
         ha_to_sql_config = to_sql_config\<rparr>)))))))"

definition read_pg_aggregate_entity :: "PgAggregateEntity reader" where
  "read_pg_aggregate_entity =
     r_bind read_str (\<lambda>full_path. r_bind read_str (\<lambda>module_path. r_bind read_str (\<lambda>file.
     r_bind read_u32 (\<lambda>line. r_bind read_str (\<lambda>name. r_bind read_bool (\<lambda>ordered_set.
     r_bind read_aggregate_type_list (\<lambda>args.
     r_bind (read_opt read_aggregate_type_list) (\<lambda>direct_args.
     r_bind read_aggregate_type (\<lambda>stype. r_bind read_str (\<lambda>sfunc.
     r_bind read_option_str (\<lambda>finalfunc.
     r_bind (read_opt read_finalize_modify) (\<lambda>finalfunc_modify.
     r_bind read_option_str (\<lambda>combinefunc. r_bind read_option_str (\<lambda>serialfunc.
     r_bind read_option_str (\<lambda>deserialfunc. r_bind read_option_str (\<lambda>initcond.
     r_bind read_option_str (\<lambda>msfunc. r_bind read_option_str (\<lambda>minvfunc.
     r_bind (read_opt read_used_type) (\<lambda>mstype. r_bind read_option_str (\<lambda>mfinalfunc.
     r_bind (read_opt read_finalize_modify) (\<lambda>mfinalfunc_modify.
     r_bind read_option_str (\<lambda>minitcond. r_bind read_option_str (\<lambda>sortop.
     r_bind (read_opt read_parallel_option) (\<lambda>parallel. r_bind read_bool (\<lambda>hypothetical.
     r_bind read_to_sql_config (\<lambda>to_sql_config.
       r_return \<lparr>ag_full_path = full_path, ag_module_path = module_path, ag_file = file,
         ag_line = line, ag_name = name, ag_ordered_set = ordered_set, ag_args = args,
         ag_direct_args = direct_args, ag_stype = stype, ag_sfunc = sfunc,
         ag_finalfunc = finalfunc, ag_finalfunc_modify = finalfunc_modify,
         ag_combinefunc = combinefunc, ag_serialfunc = serialfunc,
         ag_deserialfunc = deserialfunc, ag_initcond = initcond, ag_msfunc = msfunc,
         ag_minvfunc = minvfunc, ag_mstype = mstype, ag_mfinalfunc = mfinalfunc,
         ag_mfinalfunc_modify = mfinalfunc_modify, ag_minitcond = minitcond,
         ag_sortop = sortop, ag_parallel = parallel, ag_hypothetical = hypothetical,
         ag_to_sql_config = to_sql_config\<rparr>))))))))))))))))))))))))))"

definition read_pg_trigger_entity :: "PgTriggerEntity reader" where
  "read_pg_trigger_entity =
     r_bind read_str (\<lambda>function_name. r_bind read_str (\<lambda>file. r_bind read_u32 (\<lambda>line.
     r_bind read_str (\<lambda>module_path. r_bind read_str (\<lambda>full_path.
     r_bind read_to_sql_config (\<lambda>to_sql_config.
       r_return \<lparr>tr_function_name = function_name, tr_to_sql_config = to_sql_config,
         tr_file = file, tr_line = line, tr_module_path = module_path,
         tr_full_path = full_path\<rparr>))))))"

definition read_entity :: "SqlGraphEntity reader" where
  "read_entity = r_bind read_u8 (\<lambda>tag.
     if tag = ENTITY_SCHEMA then r_bind read_schema_entity (\<lambda>e. r_return (Schema e))
     else if tag = ENTITY_CUSTOM_SQL then
       r_bind read_extension_sql_entity (\<lambda>e. r_return (CustomSql e))
     else if tag = ENTITY_FUNCTION then r_bind read_pg_extern_entity (\<lambda>e. r_return (Function e))
     else if tag = ENTITY_TYPE then r_bind read_postgres_type_entity (\<lambda>e. r_return (Type e))
     else if tag = ENTITY_ENUM then r_bind read_postgres_enum_entity (\<lambda>e. r_return (Enum e))
     else if tag = ENTITY_ORD then r_bind read_postgres_ord_entity (\<lambda>e. r_return (Ord e))
     else if tag = ENTITY_HASH then r_bind read_postgres_hash_entity (\<lambda>e. r_return (Hash e))
     else if tag = ENTITY_AGGREGATE then
       r_bind read_pg_aggregate_entity (\<lambda>e. r_return (Aggregate e))
     else if tag = ENTITY_TRIGGER then
       r_bind read_pg_trigger_entity (\<lambda>e. r_return (Trigger e))
     else r_err (InvalidEntityTag tag))"

definition decode_entity :: "u8 list \<Rightarrow> schema_error + SqlGraphEntity" where
  "decode_entity payload =
     map_res fst
       (r_bind read_entity (\<lambda>e. r_bind er_finish (\<lambda>_. r_return e)) (er_new payload))"

section \<open>The section\<close>

lemma rbind_cong [fundef_cong]:
  "r = r' \<Longrightarrow> (\<And>a. r' = Inr a \<Longrightarrow> f a = g a) \<Longrightarrow> rbind r f = rbind r' g"
  by (cases r') simp_all

function payload_loop ::
    "u8 list \<Rightarrow> EntryReader \<Rightarrow> u8 list list \<Rightarrow> schema_error + u8 list list" where
  "payload_loop sect r out =
     (if er_is_empty r then Inr out
      else if er_remaining r < 4 then
        (if list_all (\<lambda>b. b = 0) (drop (er_pos r) sect) then Inr out
         else Inl InvalidTrailingSectionBytes)
      else rbind (read_u32 r) (\<lambda>(len, r').
        if len = 0 then
          (if list_all (\<lambda>b. b = 0) (drop (er_pos r') sect) then Inr out
           else Inl ZeroLengthEntry)
        else if er_remaining r' < unat len then Inl InvalidPayloadLength
        else payload_loop sect (r'\<lparr>er_pos := er_pos r' + unat len\<rparr>)
          (out @ [take (unat len) (drop (er_pos r') sect)])))"
  by pat_completeness auto
termination
  by (relation "measure (\<lambda>(_, r, _). er_remaining r)")
     (auto simp: read_u32_def er_remaining_def split: if_splits)

declare payload_loop.simps [simp del]

definition entry_payloads :: "u8 list \<Rightarrow> schema_error + u8 list list" where
  "entry_payloads sect = payload_loop sect (er_new sect) []"

definition decode_entities :: "u8 list \<Rightarrow> schema_error + SqlGraphEntity list" where
  "decode_entities sect =
     rbind (entry_payloads sect) (\<lambda>payloads.
       rmap decode_entity (filter (\<lambda>p. Some p \<noteq> SECTION_SENTINEL_PAYLOAD) payloads))"

end
