(* ===== verification/Section_Codec.thy ===== *)
theory Section_Codec
  imports Entry_Reader
begin

text \<open>
  The contract between the writer and the reader of the schema section. \<open>bounded_read\<close> says a
  reader stays inside its bytes and depends only on what it consumes. \<open>reads p bs v\<close> says that \<open>p\<close>
  consumes exactly \<open>bs\<close> and returns \<open>v\<close>. The locale \<open>codec\<close> joins a writer, its length function and
  a reader; counted lists and optional fields over a codec are codecs again, proved once in the
  locale. The interpretations discharge the contract for every part of an entry that
  \<open>section.rs\<close> itself writes and reads.
\<close>

section \<open>Readers stay inside their bytes\<close>

definition bounded_read :: "'a reader \<Rightarrow> bool" where
  "bounded_read p \<longleftrightarrow>
     (\<forall>bs k ext v r. k \<le> length bs \<longrightarrow> p \<lparr>er_bytes = bs, er_pos = k\<rparr> = Inr (v, r) \<longrightarrow>
        (\<exists>j. k \<le> j \<and> j \<le> length bs \<and> r = \<lparr>er_bytes = bs, er_pos = j\<rparr>
          \<and> p \<lparr>er_bytes = bs @ ext, er_pos = k\<rparr> = Inr (v, \<lparr>er_bytes = bs @ ext, er_pos = j\<rparr>)))"

lemma bounded_readD:
  assumes "bounded_read p" and "k \<le> length bs" and "p \<lparr>er_bytes = bs, er_pos = k\<rparr> = Inr (v, r)"
  obtains j where "k \<le> j" and "j \<le> length bs" and "r = \<lparr>er_bytes = bs, er_pos = j\<rparr>"
    and "p \<lparr>er_bytes = bs @ ext, er_pos = k\<rparr> = Inr (v, \<lparr>er_bytes = bs @ ext, er_pos = j\<rparr>)"
  using assms unfolding bounded_read_def by blast

lemma bounded_return [bounded_intros]: "bounded_read (r_return v)"
  by (auto simp: bounded_read_def r_return_def)

lemma bounded_err [bounded_intros]: "bounded_read (r_err e)"
  by (simp add: bounded_read_def r_err_def)

lemma bounded_bind [bounded_intros]:
  assumes p: "bounded_read p" and f: "\<And>v. bounded_read (f v)"
  shows "bounded_read (r_bind p f)"
  unfolding bounded_read_def
proof (intro allI impI)
  fix bs :: "u8 list" and k ext v r
  assume k: "k \<le> length bs" and run: "r_bind p f \<lparr>er_bytes = bs, er_pos = k\<rparr> = Inr (v, r)"
  from run obtain u r1 where first: "p \<lparr>er_bytes = bs, er_pos = k\<rparr> = Inr (u, r1)"
    and second: "f u r1 = Inr (v, r)"
    by (auto simp: r_bind_def split: sum.splits)
  from bounded_readD [OF p k first, of ext] obtain i where
    i: "k \<le> i" "i \<le> length bs" "r1 = \<lparr>er_bytes = bs, er_pos = i\<rparr>"
      "p \<lparr>er_bytes = bs @ ext, er_pos = k\<rparr> = Inr (u, \<lparr>er_bytes = bs @ ext, er_pos = i\<rparr>)"
    by blast
  from bounded_readD [OF f i(2), of u v r ext] second i(3) obtain j where
    "i \<le> j" "j \<le> length bs" "r = \<lparr>er_bytes = bs, er_pos = j\<rparr>"
    "f u \<lparr>er_bytes = bs @ ext, er_pos = i\<rparr> = Inr (v, \<lparr>er_bytes = bs @ ext, er_pos = j\<rparr>)"
    by blast
  with i show "\<exists>j. k \<le> j \<and> j \<le> length bs \<and> r = \<lparr>er_bytes = bs, er_pos = j\<rparr>
      \<and> r_bind p f \<lparr>er_bytes = bs @ ext, er_pos = k\<rparr> = Inr (v, \<lparr>er_bytes = bs @ ext, er_pos = j\<rparr>)"
    by (intro exI [of _ j]) (simp add: r_bind_def)
qed

lemma bounded_if [bounded_intros]:
  "bounded_read p \<Longrightarrow> bounded_read q \<Longrightarrow> bounded_read (if c then p else q)"
  by simp

lemma bounded_read_u8 [bounded_intros]: "bounded_read read_u8"
  by (auto simp: bounded_read_def read_u8_def er_remaining_def nth_append split: if_splits)

lemma bounded_read_u32 [bounded_intros]: "bounded_read read_u32"
  by (auto simp: bounded_read_def read_u32_def er_remaining_def er_slice_def split: if_splits)

lemma bounded_read_take:
  "bounded_read (\<lambda>r. if er_remaining r < n then Inl UnexpectedEnd
     else Inr (er_slice r n, r\<lparr>er_pos := er_pos r + n\<rparr>))"
  by (auto simp: bounded_read_def er_remaining_def er_slice_def split: if_splits)

lemma bounded_read_bytes [bounded_intros]: "bounded_read read_bytes"
  unfolding read_bytes_def by (intro bounded_intros bounded_read_take)

lemma bounded_read_n [bounded_intros]: "bounded_read p \<Longrightarrow> bounded_read (read_n n p)"
  by (induction n) (auto intro: bounded_intros)

lemma bounded_read_list [bounded_intros]: "bounded_read p \<Longrightarrow> bounded_read (read_list p)"
  unfolding read_list_def by (intro bounded_intros)

lemma bounded_read_bool [bounded_intros]: "bounded_read read_bool"
  unfolding read_bool_def by (intro bounded_intros)

lemma bounded_read_opt [bounded_intros]: "bounded_read p \<Longrightarrow> bounded_read (read_opt p)"
  unfolding read_opt_def by (intro bounded_intros)

lemma bounded_read_str [bounded_intros]: "bounded_read read_str" "bounded_read read_string"
  unfolding read_str_def read_string_def by (intro bounded_intros)+

lemma bounded_read_option_str [bounded_intros]: "bounded_read read_option_str"
  unfolding read_option_str_def by (intro bounded_intros)

lemma bounded_read_metadata [bounded_intros]:
  "bounded_read read_numeric" "bounded_read read_sql_array_mapping_owned"
  "bounded_read read_sql_mapping_owned" "bounded_read read_returns_owned"
  "bounded_read read_argument_error" "bounded_read read_returns_error"
  "bounded_read read_argument_sql_owned" "bounded_read read_return_sql_owned"
  "bounded_read read_type_origin" "bounded_read read_function_metadata_type"
proof -
  show num: "bounded_read read_numeric"
    unfolding read_numeric_def by (intro bounded_intros)
  show arr: "bounded_read read_sql_array_mapping_owned"
    unfolding read_sql_array_mapping_owned_def by (intro bounded_intros num)
  show map: "bounded_read read_sql_mapping_owned"
    unfolding read_sql_mapping_owned_def by (intro bounded_intros num arr)
  show ret: "bounded_read read_returns_owned"
    unfolding read_returns_owned_def by (intro bounded_intros map)
  show aerr: "bounded_read read_argument_error"
    unfolding read_argument_error_def by (intro bounded_intros)
  show rerr: "bounded_read read_returns_error"
    unfolding read_returns_error_def by (intro bounded_intros)
  show arg: "bounded_read read_argument_sql_owned"
    unfolding read_argument_sql_owned_def by (intro bounded_intros map aerr)
  show rsql: "bounded_read read_return_sql_owned"
    unfolding read_return_sql_owned_def by (intro bounded_intros ret rerr)
  show orig: "bounded_read read_type_origin"
    unfolding read_type_origin_def by (intro bounded_intros)
  show "bounded_read read_function_metadata_type"
    unfolding read_function_metadata_type_def by (intro bounded_intros orig arg rsql)
qed

lemma bounded_read_parts [bounded_intros]:
  "bounded_read read_positioning_ref" "bounded_read read_to_sql_config"
  "bounded_read read_used_type" "bounded_read read_operator" "bounded_read read_cast"
  "bounded_read read_finalize_modify" "bounded_read read_parallel_option"
  "bounded_read read_search_path"
  unfolding read_positioning_ref_def read_to_sql_config_def read_used_type_def read_operator_def
    read_cast_def read_finalize_modify_def read_parallel_option_def read_search_path_def
  by (intro bounded_intros)+

lemma bounded_read_typed_parts [bounded_intros]:
  "bounded_read read_pg_extern_argument" "bounded_read read_iterated_item"
  "bounded_read read_extern_arg" "bounded_read read_aggregate_type"
  unfolding read_pg_extern_argument_def read_iterated_item_def read_extern_arg_def
    read_aggregate_type_def
  by (intro bounded_intros)+

lemma bounded_read_lists [bounded_intros]:
  "bounded_read read_pg_extern_return" "bounded_read read_aggregate_type_list"
  unfolding read_pg_extern_return_def read_aggregate_type_list_def by (intro bounded_intros)+

lemma bounded_read_sql_declared [bounded_intros]: "bounded_read read_sql_declared"
  unfolding read_sql_declared_def Let_def
  by (intro bounded_intros)
     (auto intro: bounded_intros split: sum.splits SqlMapping.splits)

lemma bounded_read_entity [bounded_intros]: "bounded_read read_entity"
  unfolding read_entity_def read_schema_entity_def read_extension_sql_entity_def
    read_pg_extern_entity_def read_postgres_type_entity_def read_postgres_enum_entity_def
    read_postgres_ord_entity_def read_postgres_hash_entity_def read_pg_aggregate_entity_def
    read_pg_trigger_entity_def
  by (intro bounded_intros)

section \<open>What a reader consumes\<close>

definition reads :: "'a reader \<Rightarrow> u8 list \<Rightarrow> 'a \<Rightarrow> bool" where
  "reads p bs v \<longleftrightarrow>
     (\<forall>pre rest.
        p \<lparr>er_bytes = pre @ bs @ rest, er_pos = length pre\<rparr> =
          Inr (v, \<lparr>er_bytes = pre @ bs @ rest, er_pos = length pre + length bs\<rparr>))"

lemma reads_Nil [reads_intros]: "reads (r_return v) [] v"
  by (simp add: reads_def r_return_def)

lemma reads_seq_Nil [reads_intros]: "reads (r_return v) (enc_seq []) v"
  by (simp add: enc_seq_def reads_Nil)

lemma reads_append:
  assumes p: "reads p bs v" and f: "reads (f v) cs u"
  shows "reads (r_bind p f) (bs @ cs) u"
  unfolding reads_def
proof (intro allI)
  fix pre rest :: "u8 list"
  have "f v \<lparr>er_bytes = (pre @ bs) @ cs @ rest, er_pos = length (pre @ bs)\<rparr> =
      Inr (u, \<lparr>er_bytes = (pre @ bs) @ cs @ rest, er_pos = length (pre @ bs) + length cs\<rparr>)"
    using f unfolding reads_def by blast
  moreover have "p \<lparr>er_bytes = pre @ bs @ (cs @ rest), er_pos = length pre\<rparr> =
      Inr (v, \<lparr>er_bytes = pre @ bs @ (cs @ rest), er_pos = length pre + length bs\<rparr>)"
    using p unfolding reads_def by blast
  ultimately show "r_bind p f \<lparr>er_bytes = pre @ (bs @ cs) @ rest, er_pos = length pre\<rparr> =
      Inr (u, \<lparr>er_bytes = pre @ (bs @ cs) @ rest, er_pos = length pre + length (bs @ cs)\<rparr>)"
    by (simp add: r_bind_def add.assoc)
qed

lemma reads_seq_Cons [reads_intros]:
  "reads p b v \<Longrightarrow> reads (f v) (enc_seq bs) u \<Longrightarrow> reads (r_bind p f) (enc_seq (b # bs)) u"
  by (simp add: enc_seq_def reads_append)

lemma reads_last: "reads p bs v \<Longrightarrow> reads (f v) [] u \<Longrightarrow> reads (r_bind p f) bs u"
  using reads_append [of p bs v f "[]" u] by simp

lemma reads_u8 [reads_intros]: "reads read_u8 [b] b"
  by (simp add: reads_def read_u8_def er_remaining_def)

lemma r_bind_return: "r_bind (r_return v) f = f v"
  by (rule ext) (simp add: r_bind_def r_return_def)

text \<open>After the tag byte of a variant only the branch of that tag is left.\<close>

lemma reads_tag [reads_intros]: "reads (f t) [] v \<Longrightarrow> reads (r_bind read_u8 f) [t] v"
  by (rule reads_last [OF reads_u8])

lemma reads_tagged [reads_intros]:
  "reads (f t) (enc_seq bs) v \<Longrightarrow> reads (r_bind read_u8 f) (enc_seq ([t] # bs)) v"
  by (rule reads_seq_Cons [OF reads_u8])

lemma reads_bool [reads_intros]: "reads read_bool (enc_bool b) b"
  unfolding read_bool_def enc_bool_def by (rule reads_last [OF reads_u8]) (simp add: reads_Nil)

lemma reads_u32 [reads_intros]: "reads read_u32 (to_le_bytes v) v"
  by (simp add: reads_def read_u32_def er_remaining_def er_slice_def)

lemma reads_bytes:
  assumes "length bs < 2 ^ 32"
  shows "reads read_bytes (enc_seq [to_le_bytes (word_of_nat (length bs)), bs]) bs"
  unfolding read_bytes_def
proof (rule reads_seq_Cons [OF reads_u32])
  have "unat (word_of_nat (length bs) :: u32) = length bs"
    using assms by (simp add: unat_of_nat)
  then show "reads (\<lambda>r. if er_remaining r < unat (word_of_nat (length bs) :: u32)
        then Inl UnexpectedEnd
        else Inr (er_slice r (unat (word_of_nat (length bs) :: u32)),
          r\<lparr>er_pos := er_pos r + unat (word_of_nat (length bs) :: u32)\<rparr>)) (enc_seq [bs]) bs"
    by (simp add: reads_def enc_seq_def er_remaining_def er_slice_def)
qed

lemma reads_str [reads_intros]:
  "str_ok s \<Longrightarrow> reads read_str (enc_str s) s" "str_ok s \<Longrightarrow> reads read_string (enc_str s) s"
  unfolding read_str_def read_string_def enc_str_def
  using reads_bytes [of "as_bytes s"] by (auto simp: str_ok_def intro!: reads_last reads_Nil)

lemma reads_n:
  assumes "\<And>x. x \<in> set xs \<Longrightarrow> reads p (enc x) (dec x)"
  shows "reads (read_n (length xs) p) (concat (map enc xs)) (map dec xs)"
  using assms
proof (induction xs)
  case Nil
  show ?case by (simp add: reads_Nil)
next
  case (Cons x xs)
  have "reads (r_bind (read_n (length xs) p) (\<lambda>ys. r_return (dec x # ys)))
      (concat (map enc xs)) (dec x # map dec xs)"
    by (rule reads_last [OF Cons.IH]) (auto intro: Cons.prems reads_Nil)
  then show ?case
    by (simp add: reads_append [OF Cons.prems [of x]])
qed

lemma reads_list:
  assumes "\<And>x. x \<in> set xs \<Longrightarrow> reads p (enc x) (dec x)" and "length xs < 2 ^ 32"
  shows "reads (read_list p) (enc_list enc xs) (map dec xs)"
proof -
  have "unat (word_of_nat (length xs) :: u32) = length xs"
    using assms(2) by (simp add: unat_of_nat)
  then show ?thesis
    unfolding read_list_def enc_list_def
    by (intro reads_seq_Cons [OF reads_u32]) (simp add: enc_seq_def reads_n assms(1))
qed

lemma reads_opt:
  assumes "\<And>y. x = Some y \<Longrightarrow> reads p (enc y) (dec y)"
  shows "reads (read_opt p) (enc_opt enc x) (map_option dec x)"
proof (cases x)
  case None
  then show ?thesis
    unfolding read_opt_def enc_opt_def by (auto intro!: reads_last [OF reads_bool] reads_Nil)
next
  case (Some y)
  then show ?thesis
    unfolding read_opt_def enc_opt_def
    by (auto intro!: reads_intros assms simp: if_True)
qed

section \<open>The codec contract\<close>

text \<open>
  The macros size an optional field as \<open>bool_len()\<close>, plus the length of the value when there is
  one; \<open>opt_len\<close> of \<open>section.rs\<close> is the same number.
\<close>

definition opt_field_len :: "('a \<Rightarrow> nat) \<Rightarrow> 'a option \<Rightarrow> nat" where
  "opt_field_len f x = (case x of Some v \<Rightarrow> bool_len + f v | None \<Rightarrow> bool_len)"

lemma opt_field_len_opt_len: "opt_field_len f x = opt_len (map_option f x)"
  by (cases x) (simp_all add: opt_field_len_def enc_len_simps)

locale codec =
  fixes wr :: "'a \<Rightarrow> write_step"
    and enc :: "'a \<Rightarrow> u8 list"
    and len :: "'a \<Rightarrow> nat"
    and rd :: "'b reader"
    and dec :: "'a \<Rightarrow> 'b"
    and ok :: "'a \<Rightarrow> bool"
  assumes write_emits: "emits (wr x) (enc x)"
    and enc_length: "length (enc x) = len x"
    and read_reads: "ok x \<Longrightarrow> reads rd (enc x) (dec x)"
begin

lemma run_at_len: "ew_run N (wr x) = (if N = len x then Some (enc x) else None)"
  using ew_run_emits [OF write_emits] by (simp add: enc_length)

lemma list_codec:
  "codec (w_list wr) (enc_list enc) (\<lambda>xs. list_len (map len xs)) (read_list rd) (map dec)
     (list_ok ok)"
proof (unfold_locales)
  fix xs
  show "emits (w_list wr xs) (enc_list enc xs)"
    by (rule emits_list) (rule write_emits)
  show "length (enc_list enc xs) = list_len (map len xs)"
    by (simp add: enc_len_simps length_enc_list_opt comp_def enc_length)
  assume "list_ok ok xs"
  then show "reads (read_list rd) (enc_list enc xs) (map dec xs)"
    by (intro reads_list read_reads) (auto simp: list_ok_def list_all_iff)
qed

lemma opt_codec:
  "codec (w_opt wr) (enc_opt enc) (opt_field_len len) (read_opt rd)
     (map_option dec) (opt_ok ok)"
proof (unfold_locales)
  fix x
  show "emits (w_opt wr x) (enc_opt enc x)"
    by (rule emits_opt) (rule write_emits)
  show "length (enc_opt enc x) = opt_field_len len x"
    by (simp add: length_enc_list_opt comp_def enc_length opt_field_len_opt_len)
  assume "opt_ok ok x"
  then show "reads (read_opt rd) (enc_opt enc x) (map_option dec x)"
    by (intro reads_opt read_reads) simp
qed

lemma decoded_back:
  assumes "ok x"
  shows "\<exists>bs. ew_run (len x) (wr x) = Some bs
    \<and> rd (er_new bs) = Inr (dec x, \<lparr>er_bytes = bs, er_pos = length bs\<rparr>)"
proof -
  have "rd \<lparr>er_bytes = enc x, er_pos = 0\<rparr> =
      Inr (dec x, \<lparr>er_bytes = enc x, er_pos = length (enc x)\<rparr>)"
    using read_reads [OF assms, unfolded reads_def, rule_format, of "[]" "[]"] by simp
  then show ?thesis
    by (simp add: run_at_len er_new_def)
qed

end

interpretation str_c: codec w_str enc_str str_len read_str "\<lambda>s. s" str_ok
  by unfold_locales (auto intro: emits_intros reads_intros simp: enc_len_simps)

interpretation string_c: codec w_str enc_str str_len read_string "\<lambda>s. s" str_ok
  by unfold_locales (auto intro: emits_intros reads_intros simp: enc_len_simps)

interpretation bool_c: codec w_bool enc_bool "\<lambda>_. bool_len" read_bool "\<lambda>b. b" "\<lambda>_. True"
  by unfold_locales (auto intro: emits_intros reads_intros simp: enc_len_simps)

interpretation u32_c: codec w_u32 to_le_bytes "\<lambda>_. u32_len" read_u32 "\<lambda>v. v" "\<lambda>_. True"
  by unfold_locales (auto intro: emits_intros reads_intros simp: enc_len_simps)

lemma map_ident_fun [simp]:
  "map_option (\<lambda>s. s) = (\<lambda>x. x)" "map (\<lambda>s. s) = (\<lambda>xs. xs)"
  by (auto simp: option.map_ident)

interpretation opt_str_c: codec "w_opt w_str" "enc_opt enc_str"
    "opt_field_len str_len" read_option_str "\<lambda>x. x" "opt_ok str_ok"
  using str_c.opt_codec by (simp add: read_option_str_def)

lemmas basic_codec_lengths [enc_len_simps] = opt_str_c.enc_length

section \<open>Metadata\<close>

definition enc_numeric_fields :: "u32 option \<Rightarrow> u32 option \<Rightarrow> u8 list" where
  "enc_numeric_fields p s =
     enc_seq [enc_bool (p \<noteq> None), to_le_bytes (case p of Some v \<Rightarrow> v | None \<Rightarrow> 0),
       enc_bool (s \<noteq> None), to_le_bytes (case s of Some v \<Rightarrow> v | None \<Rightarrow> 0)]"

definition enc_numeric :: "u32 option \<Rightarrow> u32 option \<Rightarrow> u8 list" where
  "enc_numeric p s = enc_seq [[SQL_MAPPING_NUMERIC], enc_numeric_fields p s]"

fun enc_sql_array_mapping :: "SqlArrayMappingRef \<Rightarrow> u8 list" where
  "enc_sql_array_mapping (SqlArrayMappingRef.As sql) = enc_seq [[SQL_MAPPING_AS], enc_str sql]"
| "enc_sql_array_mapping (SqlArrayMappingRef.Numeric p s) = enc_numeric p s"
| "enc_sql_array_mapping SqlArrayMappingRef.Composite = [SQL_MAPPING_COMPOSITE]"

fun enc_sql_mapping :: "SqlMappingRef \<Rightarrow> u8 list" where
  "enc_sql_mapping (SqlMappingRef.As sql) = enc_seq [[SQL_MAPPING_AS], enc_str sql]"
| "enc_sql_mapping (SqlMappingRef.Numeric p s) = enc_numeric p s"
| "enc_sql_mapping SqlMappingRef.Composite = [SQL_MAPPING_COMPOSITE]"
| "enc_sql_mapping (SqlMappingRef.Array v) =
     enc_seq [[SQL_MAPPING_ARRAY], enc_sql_array_mapping v]"
| "enc_sql_mapping SqlMappingRef.Skip = [SQL_MAPPING_SKIP]"

fun enc_returns :: "ReturnsRef \<Rightarrow> u8 list" where
  "enc_returns (ReturnsRef.One m) = enc_seq [[RETURNS_ONE], enc_sql_mapping m]"
| "enc_returns (ReturnsRef.SetOf m) = enc_seq [[RETURNS_SET_OF], enc_sql_mapping m]"
| "enc_returns (ReturnsRef.Table ms) = enc_seq [[RETURNS_TABLE], enc_list enc_sql_mapping ms]"

fun argument_error_tag :: "ArgumentError \<Rightarrow> u8" where
  "argument_error_tag ArgumentError.SetOf = ARG_ERROR_SET_OF"
| "argument_error_tag ArgumentError.Table = ARG_ERROR_TABLE"
| "argument_error_tag ArgumentError.NestedArray = ARG_ERROR_NESTED_ARRAY"
| "argument_error_tag ArgumentError.BareU8 = ARG_ERROR_BARE_U8"
| "argument_error_tag ArgumentError.SkipInArray = ARG_ERROR_SKIP_IN_ARRAY"
| "argument_error_tag ArgumentError.Datum = ARG_ERROR_DATUM"
| "argument_error_tag (ArgumentError.NotValidAsArgument s) = ARG_ERROR_NOT_VALID"

fun enc_argument_error :: "ArgumentError \<Rightarrow> u8 list" where
  "enc_argument_error (ArgumentError.NotValidAsArgument s) =
     enc_seq [[ARG_ERROR_NOT_VALID], enc_str s]"
| "enc_argument_error e = [argument_error_tag e]"

fun enc_argument_sql :: "ArgumentError + SqlMappingRef \<Rightarrow> u8 list" where
  "enc_argument_sql (Inr m) = enc_seq [[RESULT_OK], enc_sql_mapping m]"
| "enc_argument_sql (Inl e) = enc_seq [[RESULT_ERR], enc_argument_error e]"

fun returns_error_tag :: "ReturnsError \<Rightarrow> u8" where
  "returns_error_tag ReturnsError.NestedSetOf = RETURNS_ERROR_NESTED_SET_OF"
| "returns_error_tag ReturnsError.NestedTable = RETURNS_ERROR_NESTED_TABLE"
| "returns_error_tag ReturnsError.NestedArray = RETURNS_ERROR_NESTED_ARRAY"
| "returns_error_tag ReturnsError.SetOfContainingTable = RETURNS_ERROR_SET_OF_CONTAINING_TABLE"
| "returns_error_tag ReturnsError.TableContainingSetOf = RETURNS_ERROR_TABLE_CONTAINING_SET_OF"
| "returns_error_tag ReturnsError.SetOfInArray = RETURNS_ERROR_SET_OF_IN_ARRAY"
| "returns_error_tag ReturnsError.TableInArray = RETURNS_ERROR_TABLE_IN_ARRAY"
| "returns_error_tag ReturnsError.BareU8 = RETURNS_ERROR_BARE_U8"
| "returns_error_tag ReturnsError.SkipInArray = RETURNS_ERROR_SKIP_IN_ARRAY"
| "returns_error_tag ReturnsError.Datum = RETURNS_ERROR_DATUM"

fun enc_return_sql :: "ReturnsError + ReturnsRef \<Rightarrow> u8 list" where
  "enc_return_sql (Inr r) = enc_seq [[RESULT_OK], enc_returns r]"
| "enc_return_sql (Inl e) = enc_seq [[RESULT_ERR], [returns_error_tag e]]"

text \<open>Which metadata the format can carry: every string in it fits.\<close>

fun array_mapping_ok :: "SqlArrayMappingRef \<Rightarrow> bool" where
  "array_mapping_ok (SqlArrayMappingRef.As sql) = str_ok sql"
| "array_mapping_ok _ = True"

fun mapping_ok :: "SqlMappingRef \<Rightarrow> bool" where
  "mapping_ok (SqlMappingRef.As sql) = str_ok sql"
| "mapping_ok (SqlMappingRef.Array a) = array_mapping_ok a"
| "mapping_ok _ = True"

fun returns_ok :: "ReturnsRef \<Rightarrow> bool" where
  "returns_ok (ReturnsRef.One m) = mapping_ok m"
| "returns_ok (ReturnsRef.SetOf m) = mapping_ok m"
| "returns_ok (ReturnsRef.Table ms) = list_ok mapping_ok ms"

fun argument_error_ok :: "ArgumentError \<Rightarrow> bool" where
  "argument_error_ok (ArgumentError.NotValidAsArgument s) = str_ok s"
| "argument_error_ok _ = True"

fun argument_sql_ok :: "ArgumentError + SqlMappingRef \<Rightarrow> bool" where
  "argument_sql_ok (Inr m) = mapping_ok m"
| "argument_sql_ok (Inl e) = argument_error_ok e"

fun return_sql_ok :: "ReturnsError + ReturnsRef \<Rightarrow> bool" where
  "return_sql_ok (Inr r) = returns_ok r"
| "return_sql_ok (Inl e) = True"

lemma emits_numeric [emits_intros]: "emits (w_numeric p s) (enc_numeric p s)"
proof -
  have "emits (w_numeric p s)
      (enc_seq [[SQL_MAPPING_NUMERIC],
        enc_bool (p \<noteq> None), to_le_bytes (case p of Some v \<Rightarrow> v | None \<Rightarrow> 0),
        enc_bool (s \<noteq> None), to_le_bytes (case s of Some v \<Rightarrow> v | None \<Rightarrow> 0)])"
    unfolding w_numeric_def by (intro emits_intros)
  then show ?thesis
    by (simp add: enc_numeric_def enc_numeric_fields_def enc_seq_def)
qed

lemma length_enc_numeric [enc_len_simps]: "length (enc_numeric p s) = 11"
  by (simp add: enc_numeric_def enc_numeric_fields_def enc_len_simps)

lemma reads_numeric [reads_intros]:
  "reads read_numeric (enc_numeric_fields p s) (numeric_sql_string p s)"
proof -
  have "then_some (x \<noteq> None) (case x of Some v \<Rightarrow> v | None \<Rightarrow> 0) = x" for x :: "u32 option"
    by (cases x) (simp_all add: then_some_def)
  note eq = this [of p] this [of s]
  show ?thesis
    unfolding read_numeric_def enc_numeric_fields_def
    by ((rule reads_seq_Cons, rule reads_bool reads_u32)+) (simp only: eq reads_seq_Nil)
qed

interpretation array_mapping_c: codec w_sql_array_mapping enc_sql_array_mapping
    sql_array_mapping_len read_sql_array_mapping_owned array_mapping_from array_mapping_ok
proof
  fix x
  show "emits (w_sql_array_mapping x) (enc_sql_array_mapping x)"
    by (cases x) (simp_all add: emits_intros)
  show "length (enc_sql_array_mapping x) = sql_array_mapping_len x"
    by (cases x) (simp_all add: enc_len_simps)
  assume "array_mapping_ok x"
  then show "reads read_sql_array_mapping_owned (enc_sql_array_mapping x) (array_mapping_from x)"
    unfolding read_sql_array_mapping_owned_def
    by (cases x) (auto simp: enc_numeric_def intro!: reads_intros)
qed

interpretation mapping_c: codec w_sql_mapping enc_sql_mapping sql_mapping_len
    read_sql_mapping_owned mapping_from mapping_ok
proof
  fix x
  show "emits (w_sql_mapping x) (enc_sql_mapping x)"
    by (cases x) (simp_all add: emits_intros array_mapping_c.write_emits)
  show "length (enc_sql_mapping x) = sql_mapping_len x"
    by (cases x) (simp_all add: enc_len_simps array_mapping_c.enc_length)
  assume "mapping_ok x"
  then show "reads read_sql_mapping_owned (enc_sql_mapping x) (mapping_from x)"
    unfolding read_sql_mapping_owned_def
    by (cases x) (auto simp: enc_numeric_def intro!: reads_intros array_mapping_c.read_reads)
qed

interpretation mappings_c: codec "w_list w_sql_mapping" "enc_list enc_sql_mapping"
    "\<lambda>xs. list_len (map sql_mapping_len xs)" "read_list read_sql_mapping_owned"
    "map mapping_from" "list_ok mapping_ok"
  by (rule mapping_c.list_codec)

interpretation returns_c: codec w_returns enc_returns returns_len read_returns_owned
    returns_from returns_ok
proof
  fix x
  show "emits (w_returns x) (enc_returns x)"
    by (cases x) (simp_all add: emits_intros mapping_c.write_emits mappings_c.write_emits)
  show "length (enc_returns x) = returns_len x"
    by (cases x)
       (simp_all add: enc_len_simps mapping_c.enc_length mappings_c.enc_length table_len_loop_sum)
  assume "returns_ok x"
  then show "reads read_returns_owned (enc_returns x) (returns_from x)"
    unfolding read_returns_owned_def
    by (cases x) (auto intro!: reads_intros mapping_c.read_reads mappings_c.read_reads)
qed

interpretation argument_error_c: codec w_argument_error enc_argument_error argument_error_len
    read_argument_error "\<lambda>e. e" argument_error_ok
proof
  fix x
  show "emits (w_argument_error x) (enc_argument_error x)"
    by (cases x) (simp_all add: emits_intros)
  show "length (enc_argument_error x) = argument_error_len x"
    by (cases x) (simp_all add: enc_len_simps)
  assume "argument_error_ok x"
  then show "reads read_argument_error (enc_argument_error x) x"
    unfolding read_argument_error_def by (cases x) (auto intro!: reads_intros)
qed

interpretation argument_sql_c: codec w_argument_sql enc_argument_sql argument_sql_len
    read_argument_sql_owned "map_res mapping_from" argument_sql_ok
proof
  fix x
  show "emits (w_argument_sql x) (enc_argument_sql x)"
    by (cases x) (simp_all add: emits_intros mapping_c.write_emits argument_error_c.write_emits)
  show "length (enc_argument_sql x) = argument_sql_len x"
    by (cases x) (simp_all add: argument_sql_len_def enc_len_simps mapping_c.enc_length
      argument_error_c.enc_length)
  assume "argument_sql_ok x"
  then show "reads read_argument_sql_owned (enc_argument_sql x) (map_res mapping_from x)"
    unfolding read_argument_sql_owned_def
    by (cases x) (auto intro!: reads_intros mapping_c.read_reads argument_error_c.read_reads)
qed

interpretation returns_error_c: codec w_returns_error "\<lambda>e. [returns_error_tag e]"
    returns_error_len read_returns_error "\<lambda>e. e" "\<lambda>_. True"
proof
  fix x
  show "emits (w_returns_error x) [returns_error_tag x]"
    by (cases x) (simp_all add: emits_intros)
  show "length [returns_error_tag x] = returns_error_len x"
    by (simp add: returns_error_len_def enc_len_simps)
  show "reads read_returns_error [returns_error_tag x] x"
    unfolding read_returns_error_def by (cases x) (auto intro!: reads_intros)
qed

interpretation return_sql_c: codec w_return_sql enc_return_sql return_sql_len
    read_return_sql_owned "map_res returns_from" return_sql_ok
proof
  fix x
  show "emits (w_return_sql x) (enc_return_sql x)"
    by (cases x) (simp_all add: emits_intros returns_c.write_emits returns_error_c.write_emits)
  show "length (enc_return_sql x) = return_sql_len x"
    by (cases x) (simp_all add: return_sql_len_def enc_len_simps returns_c.enc_length
      returns_error_len_def)
  assume "return_sql_ok x"
  then show "reads read_return_sql_owned (enc_return_sql x) (map_res returns_from x)"
    unfolding read_return_sql_owned_def
    by (cases x) (auto intro!: reads_intros returns_c.read_reads returns_error_c.read_reads)
qed

end
