(* ===== verification/Section_Producers.thy ===== *)
theory Section_Producers
  imports Section_Codec
begin

text \<open>
  The producers of the schema section: what the attribute and derive macros of
  \<open>pgrx-sql-entity-graph\<close> generate for each item. A macro expands to a static array of
  \<open>total_len\<close> bytes built by a chain of \<open>EntryWriter\<close> calls; the definitions here are that generated
  code, as \<open>section_len_tokens\<close>, \<open>section_writer_tokens\<close> and \<open>to_entity_graph_tokens\<close> spell it out,
  over the parsed macro input. Parsing (\<open>syn\<close>) is not modelled: a token stream is the string it
  prints as. Each \<open>..._entity\<close> function is the entity the item stands for; the codec
  interpretations show that decoding what the macro wrote gives that entity.

  \<open>tr\<close> is trait resolution: the \<open>SqlTranslatable\<close> implementation of the type with the given path.
\<close>

type_synonym trait_impls = "string \<Rightarrow> SqlTranslatable"

text \<open>What \<open>module_path!()\<close>, \<open>file!()\<close> and \<open>line!()\<close> expand to where the macro is used.\<close>

record use_site =
  us_module_path :: string
  us_file :: string
  us_line :: u32

definition site_ok :: "use_site \<Rightarrow> bool" where
  "site_ok s \<longleftrightarrow> str_ok (us_module_path s) \<and> str_ok (us_file s)"

section \<open>Positioning references, \<open>sql =\<close> configuration, extern arguments\<close>

fun w_positioning_ref :: "PositioningRef \<Rightarrow> write_step" where
  "w_positioning_ref (PositioningRef.FullPath item) =
     w_seq [w_u8 POSITIONING_REF_FULL_PATH, w_str item]"
| "w_positioning_ref (PositioningRef.Name item) = w_seq [w_u8 POSITIONING_REF_NAME, w_str item]"

fun positioning_ref_len :: "PositioningRef \<Rightarrow> nat" where
  "positioning_ref_len (PositioningRef.FullPath item) = u8_len + str_len item"
| "positioning_ref_len (PositioningRef.Name item) = u8_len + str_len item"

fun enc_positioning_ref :: "PositioningRef \<Rightarrow> u8 list" where
  "enc_positioning_ref (PositioningRef.FullPath item) =
     enc_seq [[POSITIONING_REF_FULL_PATH], enc_str item]"
| "enc_positioning_ref (PositioningRef.Name item) =
     enc_seq [[POSITIONING_REF_NAME], enc_str item]"

fun positioning_ref_ok :: "PositioningRef \<Rightarrow> bool" where
  "positioning_ref_ok (PositioningRef.FullPath item) = str_ok item"
| "positioning_ref_ok (PositioningRef.Name item) = str_ok item"

interpretation positioning_ref_c: codec w_positioning_ref enc_positioning_ref
    positioning_ref_len read_positioning_ref "\<lambda>p. p" positioning_ref_ok
proof
  fix x
  show "emits (w_positioning_ref x) (enc_positioning_ref x)"
    by (cases x) (simp_all add: emits_intros)
  show "length (enc_positioning_ref x) = positioning_ref_len x"
    by (cases x) (simp_all add: enc_len_simps)
  assume "positioning_ref_ok x"
  then show "reads read_positioning_ref (enc_positioning_ref x) x"
    unfolding read_positioning_ref_def by (cases x) (auto intro!: reads_intros)
qed

interpretation positioning_refs_c: codec "w_list w_positioning_ref"
    "enc_list enc_positioning_ref" "\<lambda>xs. list_len (map positioning_ref_len xs)"
    "read_list read_positioning_ref" "\<lambda>xs. xs" "list_ok positioning_ref_ok"
  using positioning_ref_c.list_codec by simp

definition w_to_sql_config :: "ToSqlConfigEntity \<Rightarrow> write_step" where
  "w_to_sql_config c =
     (case tsc_content c of
        Some content \<Rightarrow> w_seq [w_bool (tsc_enabled c), w_bool True, w_str content]
      | None \<Rightarrow> w_seq [w_bool (tsc_enabled c), w_bool False])"

definition to_sql_config_len :: "ToSqlConfigEntity \<Rightarrow> nat" where
  "to_sql_config_len c =
     (case tsc_content c of
        Some content \<Rightarrow> bool_len + bool_len + str_len content
      | None \<Rightarrow> bool_len + bool_len)"

definition enc_to_sql_config :: "ToSqlConfigEntity \<Rightarrow> u8 list" where
  "enc_to_sql_config c = enc_seq [enc_bool (tsc_enabled c), enc_opt enc_str (tsc_content c)]"

definition to_sql_config_ok :: "ToSqlConfigEntity \<Rightarrow> bool" where
  "to_sql_config_ok c = opt_ok str_ok (tsc_content c)"

interpretation to_sql_config_c: codec w_to_sql_config enc_to_sql_config to_sql_config_len
    read_to_sql_config "\<lambda>c. c" to_sql_config_ok
proof
  fix x :: ToSqlConfigEntity
  have "w_to_sql_config x w = w_seq [w_bool (tsc_enabled x), w_opt w_str (tsc_content x)] w" for w
    by (auto simp: w_to_sql_config_def w_opt_def w_seq.simps split: option.splits)
  then have "w_to_sql_config x = w_seq [w_bool (tsc_enabled x), w_opt w_str (tsc_content x)]"
    by (rule ext)
  then show "emits (w_to_sql_config x) (enc_to_sql_config x)"
    by (simp add: enc_to_sql_config_def emits_intros opt_str_c.write_emits)
  show "length (enc_to_sql_config x) = to_sql_config_len x"
    by (auto simp: enc_to_sql_config_def to_sql_config_len_def enc_len_simps opt_field_len_def
        split: option.splits)
  assume "to_sql_config_ok x"
  then show "reads read_to_sql_config (enc_to_sql_config x) x"
    unfolding read_to_sql_config_def enc_to_sql_config_def
    by (cases x) (auto simp: to_sql_config_ok_def intro!: reads_intros opt_str_c.read_reads)
qed

fun w_extern_arg :: "ExternArgs \<Rightarrow> write_step" where
  "w_extern_arg CreateOrReplace = w_u8 EXTERN_ARG_CREATE_OR_REPLACE"
| "w_extern_arg Immutable = w_u8 EXTERN_ARG_IMMUTABLE"
| "w_extern_arg Strict = w_u8 EXTERN_ARG_STRICT"
| "w_extern_arg Stable = w_u8 EXTERN_ARG_STABLE"
| "w_extern_arg Volatile = w_u8 EXTERN_ARG_VOLATILE"
| "w_extern_arg Raw = w_u8 EXTERN_ARG_RAW"
| "w_extern_arg NoGuard = w_u8 EXTERN_ARG_NO_GUARD"
| "w_extern_arg SecurityDefiner = w_u8 EXTERN_ARG_SECURITY_DEFINER"
| "w_extern_arg SecurityInvoker = w_u8 EXTERN_ARG_SECURITY_INVOKER"
| "w_extern_arg ParallelSafe = w_u8 EXTERN_ARG_PARALLEL_SAFE"
| "w_extern_arg ParallelUnsafe = w_u8 EXTERN_ARG_PARALLEL_UNSAFE"
| "w_extern_arg ParallelRestricted = w_u8 EXTERN_ARG_PARALLEL_RESTRICTED"
| "w_extern_arg (ShouldPanic v) = w_seq [w_u8 EXTERN_ARG_SHOULD_PANIC, w_str v]"
| "w_extern_arg (ExternArgs.Schema v) = w_seq [w_u8 EXTERN_ARG_SCHEMA, w_str v]"
| "w_extern_arg (Support item) = w_seq [w_u8 EXTERN_ARG_SUPPORT, w_positioning_ref item]"
| "w_extern_arg (ExternArgs.Name v) = w_seq [w_u8 EXTERN_ARG_NAME, w_str v]"
| "w_extern_arg (Cost v) = w_seq [w_u8 EXTERN_ARG_COST, w_str v]"
| "w_extern_arg (Requires items) =
     w_seq [w_u8 EXTERN_ARG_REQUIRES, w_list w_positioning_ref items]"

fun extern_arg_len :: "ExternArgs \<Rightarrow> nat" where
  "extern_arg_len (ShouldPanic v) = u8_len + str_len v"
| "extern_arg_len (ExternArgs.Schema v) = u8_len + str_len v"
| "extern_arg_len (ExternArgs.Name v) = u8_len + str_len v"
| "extern_arg_len (Cost v) = u8_len + str_len v"
| "extern_arg_len (Support item) = u8_len + positioning_ref_len item"
| "extern_arg_len (Requires items) = u8_len + list_len (map positioning_ref_len items)"
| "extern_arg_len _ = u8_len"

fun extern_arg_tag :: "ExternArgs \<Rightarrow> u8" where
  "extern_arg_tag CreateOrReplace = EXTERN_ARG_CREATE_OR_REPLACE"
| "extern_arg_tag Immutable = EXTERN_ARG_IMMUTABLE"
| "extern_arg_tag Strict = EXTERN_ARG_STRICT"
| "extern_arg_tag Stable = EXTERN_ARG_STABLE"
| "extern_arg_tag Volatile = EXTERN_ARG_VOLATILE"
| "extern_arg_tag Raw = EXTERN_ARG_RAW"
| "extern_arg_tag NoGuard = EXTERN_ARG_NO_GUARD"
| "extern_arg_tag SecurityDefiner = EXTERN_ARG_SECURITY_DEFINER"
| "extern_arg_tag SecurityInvoker = EXTERN_ARG_SECURITY_INVOKER"
| "extern_arg_tag ParallelSafe = EXTERN_ARG_PARALLEL_SAFE"
| "extern_arg_tag ParallelUnsafe = EXTERN_ARG_PARALLEL_UNSAFE"
| "extern_arg_tag ParallelRestricted = EXTERN_ARG_PARALLEL_RESTRICTED"
| "extern_arg_tag (ShouldPanic v) = EXTERN_ARG_SHOULD_PANIC"
| "extern_arg_tag (ExternArgs.Schema v) = EXTERN_ARG_SCHEMA"
| "extern_arg_tag (Support item) = EXTERN_ARG_SUPPORT"
| "extern_arg_tag (ExternArgs.Name v) = EXTERN_ARG_NAME"
| "extern_arg_tag (Cost v) = EXTERN_ARG_COST"
| "extern_arg_tag (Requires items) = EXTERN_ARG_REQUIRES"

fun enc_extern_arg :: "ExternArgs \<Rightarrow> u8 list" where
  "enc_extern_arg (ShouldPanic v) = enc_seq [[EXTERN_ARG_SHOULD_PANIC], enc_str v]"
| "enc_extern_arg (ExternArgs.Schema v) = enc_seq [[EXTERN_ARG_SCHEMA], enc_str v]"
| "enc_extern_arg (Support item) = enc_seq [[EXTERN_ARG_SUPPORT], enc_positioning_ref item]"
| "enc_extern_arg (ExternArgs.Name v) = enc_seq [[EXTERN_ARG_NAME], enc_str v]"
| "enc_extern_arg (Cost v) = enc_seq [[EXTERN_ARG_COST], enc_str v]"
| "enc_extern_arg (Requires items) =
     enc_seq [[EXTERN_ARG_REQUIRES], enc_list enc_positioning_ref items]"
| "enc_extern_arg a = [extern_arg_tag a]"

fun extern_arg_ok :: "ExternArgs \<Rightarrow> bool" where
  "extern_arg_ok (ShouldPanic v) = str_ok v"
| "extern_arg_ok (ExternArgs.Schema v) = str_ok v"
| "extern_arg_ok (ExternArgs.Name v) = str_ok v"
| "extern_arg_ok (Cost v) = str_ok v"
| "extern_arg_ok (Support item) = positioning_ref_ok item"
| "extern_arg_ok (Requires items) = list_ok positioning_ref_ok items"
| "extern_arg_ok _ = True"

interpretation extern_arg_c: codec w_extern_arg enc_extern_arg extern_arg_len read_extern_arg
    "\<lambda>a. a" extern_arg_ok
proof
  fix x
  show "emits (w_extern_arg x) (enc_extern_arg x)"
    by (cases x) (simp_all add: emits_intros positioning_ref_c.write_emits
      positioning_refs_c.write_emits)
  show "length (enc_extern_arg x) = extern_arg_len x"
    by (cases x) (simp_all add: enc_len_simps positioning_ref_c.enc_length positioning_refs_c.enc_length)
  assume "extern_arg_ok x"
  then show "reads read_extern_arg (enc_extern_arg x) x"
    unfolding read_extern_arg_def
    by (cases x) (auto intro!: reads_intros positioning_ref_c.read_reads
      positioning_refs_c.read_reads)
qed

interpretation extern_args_c: codec "w_list w_extern_arg" "enc_list enc_extern_arg"
    "\<lambda>xs. list_len (map extern_arg_len xs)" "read_list read_extern_arg" "\<lambda>xs. xs"
    "list_ok extern_arg_ok"
  using extern_arg_c.list_codec by simp

section \<open>Used types\<close>

text \<open>
  A type as it is used in a signature. Only the fields the generated code reads are kept:
  \<open>resolved_ty\<close> as printed after its lifetimes are made anonymous, the name given by
  \<open>composite_type!\<close>, and the flags.
\<close>

record UsedType =
  u_resolved_ty :: string
  u_composite_type :: "string option"
  u_variadic :: bool
  u_default :: "string option"
  u_optional :: bool

definition used_type_entity :: "trait_impls \<Rightarrow> UsedType \<Rightarrow> UsedTypeEntity" where
  "used_type_entity tr u =
     (let T = tr (u_resolved_ty u) in
      \<lparr>ut_ty_source = u_resolved_ty u, ut_full_path = u_resolved_ty u,
       ut_composite_type = u_composite_type u, ut_variadic = u_variadic u,
       ut_default = u_default u, ut_optional = u_optional u,
       ut_metadata =
         (if u_composite_type u \<noteq> None then sql_only (st_argument_sql T) (st_return_sql T)
          else st_entity T)\<rparr>)"

definition used_type_resolution :: "trait_impls \<Rightarrow> UsedType \<Rightarrow> (string \<times> TypeOrigin) option" where
  "used_type_resolution tr u =
     (let T = tr (u_resolved_ty u) in
      if u_composite_type u \<noteq> None then None else Some (st_TYPE_IDENT T, st_TYPE_ORIGIN T))"

definition used_type_len :: "trait_impls \<Rightarrow> UsedType \<Rightarrow> nat" where
  "used_type_len tr u =
     (let T = tr (u_resolved_ty u) in
      str_len (u_resolved_ty u) + str_len (u_resolved_ty u)
      + opt_field_len str_len (u_composite_type u) + bool_len
      + opt_field_len str_len (u_default u) + bool_len
      + function_metadata_type_len
          (if u_composite_type u \<noteq> None then None else Some (st_TYPE_IDENT T))
          (st_ARGUMENT_SQL T) (st_RETURN_SQL T))"

definition w_used_type :: "trait_impls \<Rightarrow> UsedType \<Rightarrow> write_step" where
  "w_used_type tr u =
     (let T = tr (u_resolved_ty u) in
      w_seq [w_str (u_resolved_ty u), w_str (u_resolved_ty u), w_opt w_str (u_composite_type u),
        w_bool (u_variadic u), w_opt w_str (u_default u), w_bool (u_optional u),
        w_function_metadata_type (used_type_resolution tr u)
          (st_ARGUMENT_SQL T) (st_RETURN_SQL T)])"

fun type_origin_tag :: "TypeOrigin \<Rightarrow> u8" where
  "type_origin_tag ThisExtension = TYPE_ORIGIN_THIS_EXTENSION"
| "type_origin_tag External = TYPE_ORIGIN_EXTERNAL"

interpretation type_origin_c: codec w_type_origin "\<lambda>t. [type_origin_tag t]" "\<lambda>_. u8_len"
    read_type_origin "\<lambda>t. t" "\<lambda>_. True"
proof
  fix x
  show "emits (w_type_origin x) [type_origin_tag x]"
    by (cases x) (simp_all add: emits_intros)
  show "length [type_origin_tag x] = u8_len"
    by (simp add: enc_len_simps)
  show "reads read_type_origin [type_origin_tag x] x"
    unfolding read_type_origin_def by (cases x) (auto intro!: reads_intros)
qed

text \<open>The metadata of a type as the writer takes it: resolution, argument SQL and return SQL.\<close>

type_synonym metadata_ref =
  "(string \<times> TypeOrigin) option \<times> (ArgumentError + SqlMappingRef) \<times> (ReturnsError + ReturnsRef)"

definition w_metadata :: "metadata_ref \<Rightarrow> write_step" where
  "w_metadata m = (case m of (res, a, r) \<Rightarrow> w_function_metadata_type res a r)"

definition enc_resolution :: "(string \<times> TypeOrigin) option \<Rightarrow> u8 list" where
  "enc_resolution res =
     enc_opt (\<lambda>(i, t). enc_seq [enc_str i, [type_origin_tag t]]) res"

definition enc_metadata :: "metadata_ref \<Rightarrow> u8 list" where
  "enc_metadata m =
     (case m of (res, a, r) \<Rightarrow>
        enc_seq [enc_resolution res, enc_argument_sql a, enc_return_sql r])"

definition metadata_len :: "metadata_ref \<Rightarrow> nat" where
  "metadata_len m =
     (case m of (res, a, r) \<Rightarrow> function_metadata_type_len (map_option fst res) a r)"

definition metadata_entity :: "metadata_ref \<Rightarrow> FunctionMetadataTypeEntity" where
  "metadata_entity m =
     (case m of (res, a, r) \<Rightarrow>
        \<lparr>md_resolution = map_option (\<lambda>(i, t). \<lparr>re_type_ident = i, re_type_origin = t\<rparr>) res,
         md_argument_sql = map_res mapping_from a, md_return_sql = map_res returns_from r\<rparr>)"

definition metadata_ok :: "metadata_ref \<Rightarrow> bool" where
  "metadata_ok m =
     (case m of (res, a, r) \<Rightarrow>
        opt_ok (\<lambda>(i, t). str_ok i) res \<and> argument_sql_ok a \<and> return_sql_ok r)"

lemma reads_metadata:
  assumes "opt_ok (\<lambda>(i, t). str_ok i) res" and "argument_sql_ok a" and "return_sql_ok r"
  shows "reads read_function_metadata_type
    (enc_seq [enc_resolution res, enc_argument_sql a, enc_return_sql r])
    (metadata_entity (res, a, r))"
proof -
  have tail: "reads (r_bind read_argument_sql_owned (\<lambda>x. r_bind read_return_sql_owned (\<lambda>y.
        r_return \<lparr>md_resolution = v, md_argument_sql = x, md_return_sql = y\<rparr>)))
      (enc_seq [enc_argument_sql a, enc_return_sql r])
      \<lparr>md_resolution = v, md_argument_sql = map_res mapping_from a,
        md_return_sql = map_res returns_from r\<rparr>" for v
    using assms(2,3)
    by (auto intro!: reads_intros argument_sql_c.read_reads return_sql_c.read_reads)
  show ?thesis
  proof (cases res)
    case None
    then show ?thesis
      unfolding read_function_metadata_type_def enc_resolution_def enc_opt_def metadata_entity_def
      using tail by (auto simp: r_bind_return intro!: reads_seq_Cons [OF reads_bool])
  next
    case (Some p)
    obtain i t where p: "p = (i, t)" by (cases p)
    have eq: "enc_seq [enc_seq [enc_bool True, enc_seq [enc_str i, [type_origin_tag t]]],
          enc_argument_sql a, enc_return_sql r] =
        enc_seq [enc_bool True, enc_seq [enc_str i, [type_origin_tag t]],
          enc_argument_sql a, enc_return_sql r]"
      by (simp add: enc_seq_def)
    show ?thesis
      unfolding read_function_metadata_type_def enc_resolution_def enc_opt_def metadata_entity_def
      using assms
      by (auto simp: Some p eq intro!: reads_seq_Cons [OF reads_bool] reads_intros
          type_origin_c.read_reads argument_sql_c.read_reads return_sql_c.read_reads)
  qed
qed

interpretation metadata_c: codec w_metadata enc_metadata metadata_len
    read_function_metadata_type metadata_entity metadata_ok
proof
  fix x :: metadata_ref
  obtain res a r where x: "x = (res, a, r)" by (cases x)
  have "emits (case res of Some (i, t) \<Rightarrow> w_seq [w_bool True, w_str i, w_type_origin t]
      | None \<Rightarrow> w_bool False) (enc_resolution res)"
  proof (cases res)
    case None
    then show ?thesis by (simp add: enc_resolution_def enc_opt_def emits_intros)
  next
    case (Some p)
    obtain i t where p: "p = (i, t)" by (cases p)
    have "emits (w_seq [w_bool True, w_str i, w_type_origin t])
        (enc_seq [enc_bool True, enc_str i, [type_origin_tag t]])"
      by (intro emits_intros type_origin_c.write_emits)
    then show ?thesis
      by (simp add: Some p enc_resolution_def enc_opt_def enc_seq_def)
  qed
  then show "emits (w_metadata x) (enc_metadata x)"
    unfolding w_metadata_def enc_metadata_def x w_function_metadata_type_def
    by (simp add: emits_intros argument_sql_c.write_emits return_sql_c.write_emits)
  show "length (enc_metadata x) = metadata_len x"
    by (auto simp: x enc_metadata_def metadata_len_def function_metadata_type_len_def
        enc_resolution_def enc_len_simps length_enc_list_opt argument_sql_c.enc_length return_sql_c.enc_length
        split: option.splits)
  assume "metadata_ok x"
  then show "reads read_function_metadata_type (enc_metadata x) (metadata_entity x)"
    by (simp add: x metadata_ok_def enc_metadata_def reads_metadata)
qed

definition used_type_metadata :: "trait_impls \<Rightarrow> UsedType \<Rightarrow> metadata_ref" where
  "used_type_metadata tr u =
     (let T = tr (u_resolved_ty u)
      in (used_type_resolution tr u, st_ARGUMENT_SQL T, st_RETURN_SQL T))"

definition enc_used_type :: "trait_impls \<Rightarrow> UsedType \<Rightarrow> u8 list" where
  "enc_used_type tr u =
     enc_seq [enc_str (u_resolved_ty u), enc_str (u_resolved_ty u),
       enc_opt enc_str (u_composite_type u), enc_bool (u_variadic u),
       enc_opt enc_str (u_default u), enc_bool (u_optional u),
       enc_metadata (used_type_metadata tr u)]"

definition used_type_ok :: "trait_impls \<Rightarrow> UsedType \<Rightarrow> bool" where
  "used_type_ok tr u \<longleftrightarrow>
     str_ok (u_resolved_ty u) \<and> opt_ok str_ok (u_composite_type u)
     \<and> opt_ok str_ok (u_default u) \<and> metadata_ok (used_type_metadata tr u)"

lemma used_type_entity_metadata:
  "ut_metadata (used_type_entity tr u) = metadata_entity (used_type_metadata tr u)"
  by (auto simp: used_type_entity_def used_type_metadata_def metadata_entity_def Let_def
      used_type_resolution_def sql_only_def st_entity_def resolved_def st_argument_sql_def
      st_return_sql_def)

interpretation used_type_c: codec "w_used_type tr" "enc_used_type tr" "used_type_len tr"
    read_used_type "used_type_entity tr" "used_type_ok tr" for tr
proof
  fix u :: UsedType
  have "w_function_metadata_type (used_type_resolution tr u)
      (st_ARGUMENT_SQL (tr (u_resolved_ty u))) (st_RETURN_SQL (tr (u_resolved_ty u)))
      = w_metadata (used_type_metadata tr u)"
    by (simp add: w_metadata_def used_type_metadata_def Let_def)
  then show "emits (w_used_type tr u) (enc_used_type tr u)"
    by (simp add: w_used_type_def enc_used_type_def Let_def emits_intros opt_str_c.write_emits
      metadata_c.write_emits)
  show "length (enc_used_type tr u) = used_type_len tr u"
    by (simp add: enc_used_type_def used_type_len_def Let_def enc_len_simps
      metadata_c.enc_length metadata_len_def used_type_metadata_def used_type_resolution_def)
  assume ok: "used_type_ok tr u"
  have "used_type_entity tr u =
      \<lparr>ut_ty_source = u_resolved_ty u, ut_full_path = u_resolved_ty u,
       ut_composite_type = u_composite_type u, ut_variadic = u_variadic u,
       ut_default = u_default u, ut_optional = u_optional u,
       ut_metadata = metadata_entity (used_type_metadata tr u)\<rparr>"
    using used_type_entity_metadata [of tr u] by (simp add: used_type_entity_def Let_def)
  with ok show "reads read_used_type (enc_used_type tr u) (used_type_entity tr u)"
    unfolding read_used_type_def enc_used_type_def
    by (auto simp: used_type_ok_def intro!: reads_intros opt_str_c.read_reads
        metadata_c.read_reads)
qed

end
