(* ===== verification/Entity_Producers.thy ===== *)
theory Entity_Producers
  imports Section_Producers
begin

text \<open>
  The producers of whole entities: \<open>#[pg_extern]\<close>, \<open>#[derive(PostgresType)]\<close>,
  \<open>#[derive(PostgresEnum)]\<close>, \<open>#[derive(PostgresOrd)]\<close>, \<open>#[derive(PostgresHash)]\<close>,
  \<open>#[pg_aggregate]\<close>, \<open>#[pg_trigger]\<close>, \<open>#[pg_schema]\<close> and \<open>extension_sql!\<close>. For each: the macro input,
  the payload length and the writer chain its expansion contains, the entity it stands for, and the
  codec interpretation.
\<close>

section \<open>Function arguments and return types\<close>

record PgExternArgument =
  pga_pat :: string
  pga_used_ty :: UsedType

definition pg_extern_argument_entity ::
    "trait_impls \<Rightarrow> PgExternArgument \<Rightarrow> PgExternArgumentEntity" where
  "pg_extern_argument_entity tr a =
     \<lparr>pa_pattern = pga_pat a, pa_used_ty = used_type_entity tr (pga_used_ty a)\<rparr>"

definition pg_extern_argument_len :: "trait_impls \<Rightarrow> PgExternArgument \<Rightarrow> nat" where
  "pg_extern_argument_len tr a = str_len (pga_pat a) + used_type_len tr (pga_used_ty a)"

definition w_pg_extern_argument :: "trait_impls \<Rightarrow> PgExternArgument \<Rightarrow> write_step" where
  "w_pg_extern_argument tr a = w_seq [w_str (pga_pat a), w_used_type tr (pga_used_ty a)]"

definition enc_pg_extern_argument :: "trait_impls \<Rightarrow> PgExternArgument \<Rightarrow> u8 list" where
  "enc_pg_extern_argument tr a = enc_seq [enc_str (pga_pat a), enc_used_type tr (pga_used_ty a)]"

definition pg_extern_argument_ok :: "trait_impls \<Rightarrow> PgExternArgument \<Rightarrow> bool" where
  "pg_extern_argument_ok tr a \<longleftrightarrow> str_ok (pga_pat a) \<and> used_type_ok tr (pga_used_ty a)"

interpretation pg_extern_argument_c: codec "w_pg_extern_argument tr"
    "enc_pg_extern_argument tr" "pg_extern_argument_len tr" read_pg_extern_argument
    "pg_extern_argument_entity tr" "pg_extern_argument_ok tr" for tr
  by unfold_locales
     (auto simp: w_pg_extern_argument_def enc_pg_extern_argument_def pg_extern_argument_len_def
        pg_extern_argument_ok_def pg_extern_argument_entity_def read_pg_extern_argument_def
        enc_len_simps used_type_c.enc_length
        intro!: emits_intros reads_intros used_type_c.write_emits used_type_c.read_reads)

interpretation pg_extern_arguments_c: codec "w_list (w_pg_extern_argument tr)"
    "enc_list (enc_pg_extern_argument tr)" "\<lambda>xs. list_len (map (pg_extern_argument_len tr) xs)"
    "read_list read_pg_extern_argument" "map (pg_extern_argument_entity tr)"
    "list_ok (pg_extern_argument_ok tr)" for tr
  by (rule pg_extern_argument_c.list_codec)

record ReturningIteratedItem =
  rit_used_ty :: UsedType
  rit_name :: "string option"

datatype Returning =
    ReturningNone
  | ReturningType UsedType
  | ReturningSetOf UsedType
  | ReturningIterated "ReturningIteratedItem list"

text \<open>
  The column names of a \<open>TableIterator\<close> are strings, so \<open>stringify!\<close> of one is the string literal
  with its quotes. Column names are identifiers: no character in them needs an escape.
\<close>

definition stringify_literal :: "string \<Rightarrow> string" where
  "stringify_literal s = CHR 0x22 # s @ [CHR 0x22]"

definition iterated_item_entity ::
    "trait_impls \<Rightarrow> ReturningIteratedItem \<Rightarrow> PgExternReturnEntityIteratedItem" where
  "iterated_item_entity tr i =
     \<lparr>ri_ty = used_type_entity tr (rit_used_ty i),
      ri_name = map_option stringify_literal (rit_name i)\<rparr>"

definition iterated_item_len :: "trait_impls \<Rightarrow> ReturningIteratedItem \<Rightarrow> nat" where
  "iterated_item_len tr i =
     used_type_len tr (rit_used_ty i)
     + opt_field_len str_len (map_option stringify_literal (rit_name i))"

definition w_iterated_item :: "trait_impls \<Rightarrow> ReturningIteratedItem \<Rightarrow> write_step" where
  "w_iterated_item tr i =
     w_seq [w_opt w_str (map_option stringify_literal (rit_name i)),
       w_used_type tr (rit_used_ty i)]"

definition enc_iterated_item :: "trait_impls \<Rightarrow> ReturningIteratedItem \<Rightarrow> u8 list" where
  "enc_iterated_item tr i =
     enc_seq [enc_opt enc_str (map_option stringify_literal (rit_name i)),
       enc_used_type tr (rit_used_ty i)]"

definition iterated_item_ok :: "trait_impls \<Rightarrow> ReturningIteratedItem \<Rightarrow> bool" where
  "iterated_item_ok tr i \<longleftrightarrow>
     opt_ok str_ok (map_option stringify_literal (rit_name i))
     \<and> used_type_ok tr (rit_used_ty i)"

interpretation iterated_item_c: codec "w_iterated_item tr" "enc_iterated_item tr"
    "iterated_item_len tr" read_iterated_item "iterated_item_entity tr" "iterated_item_ok tr"
  for tr
  by unfold_locales
     (auto simp: w_iterated_item_def enc_iterated_item_def iterated_item_len_def
        iterated_item_ok_def iterated_item_entity_def read_iterated_item_def
        enc_len_simps used_type_c.enc_length
        intro!: emits_intros reads_intros used_type_c.write_emits used_type_c.read_reads
          opt_str_c.write_emits opt_str_c.read_reads)

interpretation iterated_items_c: codec "w_list (w_iterated_item tr)"
    "enc_list (enc_iterated_item tr)" "\<lambda>xs. list_len (map (iterated_item_len tr) xs)"
    "read_list read_iterated_item" "map (iterated_item_entity tr)"
    "list_ok (iterated_item_ok tr)" for tr
  by (rule iterated_item_c.list_codec)

fun returning_entity :: "trait_impls \<Rightarrow> Returning \<Rightarrow> PgExternReturnEntity" where
  "returning_entity tr ReturningNone = RetNone"
| "returning_entity tr (ReturningType u) = RetType (used_type_entity tr u)"
| "returning_entity tr (ReturningSetOf u) = RetSetOf (used_type_entity tr u)"
| "returning_entity tr (ReturningIterated items) =
     RetIterated (map (iterated_item_entity tr) items)"

fun returning_len :: "trait_impls \<Rightarrow> Returning \<Rightarrow> nat" where
  "returning_len tr ReturningNone = u8_len"
| "returning_len tr (ReturningType u) = u8_len + used_type_len tr u"
| "returning_len tr (ReturningSetOf u) = u8_len + used_type_len tr u"
| "returning_len tr (ReturningIterated items) =
     u8_len + list_len (map (iterated_item_len tr) items)"

fun w_returning :: "trait_impls \<Rightarrow> Returning \<Rightarrow> write_step" where
  "w_returning tr ReturningNone = w_u8 EXTERN_RET_NONE"
| "w_returning tr (ReturningType u) = w_seq [w_u8 EXTERN_RET_TYPE, w_used_type tr u]"
| "w_returning tr (ReturningSetOf u) = w_seq [w_u8 EXTERN_RET_SET_OF, w_used_type tr u]"
| "w_returning tr (ReturningIterated items) =
     w_seq [w_u8 EXTERN_RET_ITERATED, w_list (w_iterated_item tr) items]"

fun enc_returning :: "trait_impls \<Rightarrow> Returning \<Rightarrow> u8 list" where
  "enc_returning tr ReturningNone = [EXTERN_RET_NONE]"
| "enc_returning tr (ReturningType u) = enc_seq [[EXTERN_RET_TYPE], enc_used_type tr u]"
| "enc_returning tr (ReturningSetOf u) = enc_seq [[EXTERN_RET_SET_OF], enc_used_type tr u]"
| "enc_returning tr (ReturningIterated items) =
     enc_seq [[EXTERN_RET_ITERATED], enc_list (enc_iterated_item tr) items]"

fun returning_ok :: "trait_impls \<Rightarrow> Returning \<Rightarrow> bool" where
  "returning_ok tr ReturningNone = True"
| "returning_ok tr (ReturningType u) = used_type_ok tr u"
| "returning_ok tr (ReturningSetOf u) = used_type_ok tr u"
| "returning_ok tr (ReturningIterated items) = list_ok (iterated_item_ok tr) items"

interpretation returning_c: codec "w_returning tr" "enc_returning tr" "returning_len tr"
    read_pg_extern_return "returning_entity tr" "returning_ok tr" for tr
proof
  fix x
  show "emits (w_returning tr x) (enc_returning tr x)"
    by (cases x) (simp_all add: emits_intros used_type_c.write_emits
      iterated_items_c.write_emits)
  show "length (enc_returning tr x) = returning_len tr x"
    by (cases x) (simp_all add: enc_len_simps used_type_c.enc_length iterated_items_c.enc_length)
  assume "returning_ok tr x"
  then show "reads read_pg_extern_return (enc_returning tr x) (returning_entity tr x)"
    unfolding read_pg_extern_return_def
    by (cases x) (auto intro!: reads_intros used_type_c.read_reads iterated_items_c.read_reads)
qed

section \<open>Operators, casts and search paths\<close>

text \<open>\<open>replacen(' ', "", n)\<close> and \<open>replace(' ', "")\<close> on a printed token stream.\<close>

fun remove_spaces :: "nat \<Rightarrow> string \<Rightarrow> string" where
  "remove_spaces n [] = []"
| "remove_spaces 0 (c # s) = c # s"
| "remove_spaces (Suc n) (c # s) =
     (if c = CHR 0x20 then remove_spaces n s else c # remove_spaces (Suc n) s)"

definition remove_all_spaces :: "string \<Rightarrow> string" where
  "remove_all_spaces s = filter (\<lambda>c. c \<noteq> CHR 0x20) s"

record PgOperator =
  po_opname :: "string option"
  po_commutator :: "string option"
  po_negator :: "string option"
  po_restrict :: "string option"
  po_join :: "string option"
  po_hashes :: bool
  po_merges :: bool

definition pg_operator_entity :: "PgOperator \<Rightarrow> PgOperatorEntity" where
  "pg_operator_entity op =
     \<lparr>op_opname = map_option (remove_spaces 256) (po_opname op),
      op_commutator = map_option remove_all_spaces (po_commutator op),
      op_negator = map_option remove_all_spaces (po_negator op),
      op_restrict = map_option remove_all_spaces (po_restrict op),
      op_join = map_option remove_all_spaces (po_join op),
      op_hashes = po_hashes op, op_merges = po_merges op\<rparr>"

definition pg_operator_len :: "PgOperator \<Rightarrow> nat" where
  "pg_operator_len op =
     opt_field_len str_len (map_option (remove_spaces 256) (po_opname op))
     + opt_field_len str_len (map_option remove_all_spaces (po_commutator op))
     + opt_field_len str_len (map_option remove_all_spaces (po_negator op))
     + opt_field_len str_len (map_option remove_all_spaces (po_restrict op))
     + opt_field_len str_len (map_option remove_all_spaces (po_join op))
     + bool_len + bool_len"

definition w_pg_operator :: "PgOperator \<Rightarrow> write_step" where
  "w_pg_operator op =
     w_seq [w_opt w_str (map_option (remove_spaces 256) (po_opname op)),
       w_opt w_str (map_option remove_all_spaces (po_commutator op)),
       w_opt w_str (map_option remove_all_spaces (po_negator op)),
       w_opt w_str (map_option remove_all_spaces (po_restrict op)),
       w_opt w_str (map_option remove_all_spaces (po_join op)),
       w_bool (po_hashes op), w_bool (po_merges op)]"

definition enc_pg_operator :: "PgOperator \<Rightarrow> u8 list" where
  "enc_pg_operator op =
     enc_seq [enc_opt enc_str (map_option (remove_spaces 256) (po_opname op)),
       enc_opt enc_str (map_option remove_all_spaces (po_commutator op)),
       enc_opt enc_str (map_option remove_all_spaces (po_negator op)),
       enc_opt enc_str (map_option remove_all_spaces (po_restrict op)),
       enc_opt enc_str (map_option remove_all_spaces (po_join op)),
       enc_bool (po_hashes op), enc_bool (po_merges op)]"

definition pg_operator_ok :: "PgOperator \<Rightarrow> bool" where
  "pg_operator_ok op \<longleftrightarrow>
     opt_ok str_ok (map_option (remove_spaces 256) (po_opname op))
     \<and> opt_ok str_ok (map_option remove_all_spaces (po_commutator op))
     \<and> opt_ok str_ok (map_option remove_all_spaces (po_negator op))
     \<and> opt_ok str_ok (map_option remove_all_spaces (po_restrict op))
     \<and> opt_ok str_ok (map_option remove_all_spaces (po_join op))"

interpretation pg_operator_c: codec w_pg_operator enc_pg_operator pg_operator_len read_operator
    pg_operator_entity pg_operator_ok
  by unfold_locales
     (auto simp: w_pg_operator_def enc_pg_operator_def pg_operator_len_def pg_operator_ok_def
        pg_operator_entity_def read_operator_def enc_len_simps
        intro!: emits_intros reads_intros opt_str_c.write_emits opt_str_c.read_reads)

interpretation opt_pg_operator_c: codec "w_opt w_pg_operator" "enc_opt enc_pg_operator"
    "opt_field_len pg_operator_len" "read_opt read_operator" "map_option pg_operator_entity"
    "opt_ok pg_operator_ok"
  by (rule pg_operator_c.opt_codec)

fun pg_cast_tag :: "PgCastEntity \<Rightarrow> u8" where
  "pg_cast_tag CastDefault = OPERATOR_CAST_DEFAULT"
| "pg_cast_tag CastAssignment = OPERATOR_CAST_ASSIGNMENT"
| "pg_cast_tag CastImplicit = OPERATOR_CAST_IMPLICIT"

fun w_pg_cast :: "PgCastEntity \<Rightarrow> write_step" where
  "w_pg_cast CastDefault = w_u8 OPERATOR_CAST_DEFAULT"
| "w_pg_cast CastAssignment = w_u8 OPERATOR_CAST_ASSIGNMENT"
| "w_pg_cast CastImplicit = w_u8 OPERATOR_CAST_IMPLICIT"

definition pg_cast_len :: "PgCastEntity \<Rightarrow> nat" where
  "pg_cast_len c = u8_len"

interpretation pg_cast_c: codec w_pg_cast "\<lambda>c. [pg_cast_tag c]" pg_cast_len read_cast
    "\<lambda>c. c" "\<lambda>_. True"
proof
  fix x
  show "emits (w_pg_cast x) [pg_cast_tag x]"
    by (cases x) (simp_all add: emits_intros)
  show "length [pg_cast_tag x] = pg_cast_len x"
    by (simp add: pg_cast_len_def enc_len_simps)
  show "reads read_cast [pg_cast_tag x] x"
    unfolding read_cast_def by (cases x) (auto intro!: reads_intros)
qed

interpretation opt_pg_cast_c: codec "w_opt w_pg_cast" "enc_opt (\<lambda>c. [pg_cast_tag c])"
    "opt_field_len pg_cast_len" "read_opt read_cast" "\<lambda>x. x" "opt_ok (\<lambda>_. True)"
  using pg_cast_c.opt_codec by simp

text \<open>An entry of \<open>#[search_path(...)]\<close>: optional \<open>@\<close>, optional \<open>$\<close>, a name, optional \<open>@\<close>.\<close>

record SearchPath =
  sp_at_start :: bool
  sp_dollar :: bool
  sp_path :: string
  sp_at_end :: bool

definition search_path_str :: "SearchPath \<Rightarrow> string" where
  "search_path_str p =
     (if sp_at_start p then ''@'' else []) @ (if sp_dollar p then ''$'' else [])
     @ sp_path p @ (if sp_at_end p then ''@'' else [])"

definition search_path_list_len :: "SearchPath list \<Rightarrow> nat" where
  "search_path_list_len flds = bool_len + list_len (map (\<lambda>p. str_len (search_path_str p)) flds)"

definition w_search_path_list :: "SearchPath list \<Rightarrow> write_step" where
  "w_search_path_list flds =
     w_seq [w_bool True, w_list (\<lambda>p. w_str (search_path_str p)) flds]"

definition w_search_path :: "SearchPath list option \<Rightarrow> write_step" where
  "w_search_path sp =
     (case sp of Some flds \<Rightarrow> w_search_path_list flds | None \<Rightarrow> w_bool False)"

definition search_path_len :: "SearchPath list option \<Rightarrow> nat" where
  "search_path_len sp =
     (case sp of Some flds \<Rightarrow> search_path_list_len flds | None \<Rightarrow> bool_len)"

interpretation search_path_str_c: codec "\<lambda>p. w_str (search_path_str p)"
    "\<lambda>p. enc_str (search_path_str p)" "\<lambda>p. str_len (search_path_str p)" read_str
    search_path_str "\<lambda>p. str_ok (search_path_str p)"
  by unfold_locales (auto intro: emits_intros reads_intros simp: enc_len_simps)

interpretation search_path_c: codec w_search_path
    "enc_opt (enc_list (\<lambda>p. enc_str (search_path_str p)))" search_path_len read_search_path
    "map_option (map search_path_str)" "opt_ok (list_ok (\<lambda>p. str_ok (search_path_str p)))"
proof
  fix x
  note c = codec.opt_codec [OF search_path_str_c.list_codec]
  have "w_search_path x = w_opt (w_list (\<lambda>p. w_str (search_path_str p))) x"
    by (cases x) (simp_all add: w_search_path_def w_opt_def w_search_path_list_def)
  then show "emits (w_search_path x) (enc_opt (enc_list (\<lambda>p. enc_str (search_path_str p))) x)"
    using codec.write_emits [OF c] by simp
  show "length (enc_opt (enc_list (\<lambda>p. enc_str (search_path_str p))) x) = search_path_len x"
    using codec.enc_length [OF c, of x]
    by (cases x) (simp_all add: search_path_len_def opt_field_len_def search_path_list_len_def)
  have "read_search_path = read_opt (read_list read_str)"
    unfolding read_search_path_def read_opt_def
    by (intro arg_cong [where f = "r_bind read_bool"] ext) simp
  moreover assume "opt_ok (list_ok (\<lambda>p. str_ok (search_path_str p))) x"
  ultimately show "reads read_search_path (enc_opt (enc_list (\<lambda>p. enc_str (search_path_str p))) x)
      (map_option (map search_path_str) x)"
    using codec.read_reads [OF c] by simp
qed

section \<open>Entries\<close>

text \<open>
  Every expansion has the same frame: the array is sized \<open>u32_len() + payload_len\<close>, and the payload
  length is written before the payload.
\<close>

definition schema_entry :: "nat \<Rightarrow> write_step \<Rightarrow> u8 list option" where
  "schema_entry payload_len payload =
     ew_run (u32_len + payload_len) (w_seq [w_u32 (word_of_nat payload_len), payload])"

definition enc_entry :: "u8 list \<Rightarrow> u8 list" where
  "enc_entry payload = to_le_bytes (word_of_nat (length payload)) @ payload"

context codec
begin

lemma schema_entry_bytes: "schema_entry (len x) (wr x) = Some (enc_entry (enc x))"
proof -
  have "emits (w_seq [w_u32 (word_of_nat (len x)), wr x])
      (enc_seq [to_le_bytes (word_of_nat (len x)), enc x])"
    by (intro emits_intros write_emits)
  from ew_run_emits [OF this, of "u32_len + len x"] show ?thesis
    by (simp add: schema_entry_def enc_entry_def enc_len_simps enc_length enc_seq_def)
qed

end

section \<open>\<open>#[pg_schema]\<close>\<close>

record SchemaMacro =
  sm_site :: use_site
  sm_ident :: string

definition schema_entity :: "SchemaMacro \<Rightarrow> SchemaEntity" where
  "schema_entity m =
     \<lparr>sc_module_path = us_module_path (sm_site m), sc_name = sm_ident m,
      sc_file = us_file (sm_site m), sc_line = us_line (sm_site m)\<rparr>"

definition schema_payload_len :: "SchemaMacro \<Rightarrow> nat" where
  "schema_payload_len m =
     u8_len + str_len (us_module_path (sm_site m)) + str_len (sm_ident m)
     + str_len (us_file (sm_site m)) + u32_len"

definition w_schema :: "SchemaMacro \<Rightarrow> write_step" where
  "w_schema m =
     w_seq [w_u8 ENTITY_SCHEMA, w_str (us_module_path (sm_site m)), w_str (sm_ident m),
       w_str (us_file (sm_site m)), w_u32 (us_line (sm_site m))]"

definition enc_schema :: "SchemaMacro \<Rightarrow> u8 list" where
  "enc_schema m =
     enc_seq [[ENTITY_SCHEMA], enc_str (us_module_path (sm_site m)), enc_str (sm_ident m),
       enc_str (us_file (sm_site m)), to_le_bytes (us_line (sm_site m))]"

definition schema_ok :: "SchemaMacro \<Rightarrow> bool" where
  "schema_ok m \<longleftrightarrow> site_ok (sm_site m) \<and> str_ok (sm_ident m)"

text \<open>
  A reader that runs inside another one: an entity is read after its tag, then wrapped in its
  variant of \<open>SqlGraphEntity\<close>.
\<close>

lemma reads_wrapped:
  "reads p bs v \<Longrightarrow> reads (r_bind p (\<lambda>e. r_return (f e))) bs (f v)"
  by (rule reads_last [OF _ reads_Nil])

interpretation schema_c: codec w_schema enc_schema schema_payload_len read_entity
    "\<lambda>m. SqlGraphEntity.Schema (schema_entity m)" schema_ok
proof
  fix x
  show "emits (w_schema x) (enc_schema x)"
    unfolding w_schema_def enc_schema_def by (intro emits_intros)
  show "length (enc_schema x) = schema_payload_len x"
    by (simp add: enc_schema_def schema_payload_len_def enc_len_simps)
  assume ok: "schema_ok x"
  have "reads read_schema_entity
      (enc_seq [enc_str (us_module_path (sm_site x)), enc_str (sm_ident x),
        enc_str (us_file (sm_site x)), to_le_bytes (us_line (sm_site x))]) (schema_entity x)"
    unfolding read_schema_entity_def schema_entity_def
    using ok [unfolded schema_ok_def site_ok_def] by - (rule reads_intros | simp)+
  then show "reads read_entity (enc_schema x) (SqlGraphEntity.Schema (schema_entity x))"
    by (simp add: read_entity_def enc_schema_def reads_tagged reads_wrapped)
qed

section \<open>\<open>extension_sql!\<close>\<close>

datatype SqlDeclared = Type string | Enum string | Function string

fun sql_declared_ident :: "SqlDeclared \<Rightarrow> string" where
  "sql_declared_ident (SqlDeclared.Type s) = s"
| "sql_declared_ident (SqlDeclared.Enum s) = s"
| "sql_declared_ident (SqlDeclared.Function s) = s"

text \<open>A path of one segment is completed with the module path.\<close>

definition section_identifier :: "use_site \<Rightarrow> SqlDeclared \<Rightarrow> string" where
  "section_identifier site d =
     (if length (split_str ''::'' (sql_declared_ident d)) = 1
      then us_module_path site @ ''::'' @ sql_declared_ident d
      else sql_declared_ident d)"

datatype declare_error =
    BadVariant
  | NotExtensionOwned
  | NotConcrete
  | SkippedType
  | DeclareArgument ArgumentError

text \<open>\<open>SqlDeclaredEntity::build_type\<close>: \<open>mk\<close> is the variant the macro names.\<close>

definition decl_build_type ::
    "(SqlDeclaredTypeEntityData \<Rightarrow> SqlDeclaredEntity) \<Rightarrow> SqlTranslatable \<Rightarrow> string
     \<Rightarrow> declare_error + SqlDeclaredEntity" where
  "decl_build_type mk T name =
     (if st_TYPE_ORIGIN T = External then Inl NotExtensionOwned
      else case st_argument_sql T of
          Inr (SqlMapping.As sql) \<Rightarrow>
            Inr (mk \<lparr>dt_sql = sql, dt_name = name, dt_type_ident = st_TYPE_IDENT T\<rparr>)
        | Inr SqlMapping.Skip \<Rightarrow> Inl SkippedType
        | Inr _ \<Rightarrow> Inl NotConcrete
        | Inl err \<Rightarrow> Inl (DeclareArgument err))"

text \<open>What the section reader builds for a declared type: the same, with no test of the origin.\<close>

fun plain_sql :: "ArgumentError + SqlMappingRef \<Rightarrow> string" where
  "plain_sql (Inr (SqlMappingRef.As sql)) = sql"
| "plain_sql (Inr (SqlMappingRef.Numeric p s)) = numeric_sql_string p s"
| "plain_sql _ = []"

fun has_plain_sql :: "ArgumentError + SqlMappingRef \<Rightarrow> bool" where
  "has_plain_sql (Inr (SqlMappingRef.As sql)) = True"
| "has_plain_sql (Inr (SqlMappingRef.Numeric p s)) = True"
| "has_plain_sql _ = False"

definition declared_type_data ::
    "trait_impls \<Rightarrow> use_site \<Rightarrow> SqlDeclared \<Rightarrow> SqlDeclaredTypeEntityData" where
  "declared_type_data tr site d =
     (let T = tr (sql_declared_ident d)
      in \<lparr>dt_sql = plain_sql (st_ARGUMENT_SQL T), dt_name = section_identifier site d,
          dt_type_ident = st_TYPE_IDENT T\<rparr>)"

fun sql_declared_entity :: "trait_impls \<Rightarrow> use_site \<Rightarrow> SqlDeclared \<Rightarrow> SqlDeclaredEntity" where
  "sql_declared_entity tr site (SqlDeclared.Type s) =
     DeclType (declared_type_data tr site (SqlDeclared.Type s))"
| "sql_declared_entity tr site (SqlDeclared.Enum s) =
     DeclEnum (declared_type_data tr site (SqlDeclared.Enum s))"
| "sql_declared_entity tr site (SqlDeclared.Function s) =
     DeclFunction
       \<lparr>df_sql = last (split_str ''::'' (section_identifier site (SqlDeclared.Function s))),
        df_name = section_identifier site (SqlDeclared.Function s)\<rparr>"

fun sql_declared_len :: "trait_impls \<Rightarrow> use_site \<Rightarrow> SqlDeclared \<Rightarrow> nat" where
  "sql_declared_len tr site (SqlDeclared.Function s) =
     u8_len + str_len (section_identifier site (SqlDeclared.Function s))"
| "sql_declared_len tr site d =
     (let T = tr (sql_declared_ident d)
      in u8_len + str_len (section_identifier site d) + str_len (st_TYPE_IDENT T)
         + argument_sql_len (st_ARGUMENT_SQL T))"

fun w_sql_declared :: "trait_impls \<Rightarrow> use_site \<Rightarrow> SqlDeclared \<Rightarrow> write_step" where
  "w_sql_declared tr site (SqlDeclared.Type s) =
     w_seq [w_u8 SQL_DECLARED_TYPE, w_str (section_identifier site (SqlDeclared.Type s)),
       w_str (st_TYPE_IDENT (tr s)), w_argument_sql (st_ARGUMENT_SQL (tr s))]"
| "w_sql_declared tr site (SqlDeclared.Enum s) =
     w_seq [w_u8 SQL_DECLARED_ENUM, w_str (section_identifier site (SqlDeclared.Enum s)),
       w_str (st_TYPE_IDENT (tr s)), w_argument_sql (st_ARGUMENT_SQL (tr s))]"
| "w_sql_declared tr site (SqlDeclared.Function s) =
     w_seq [w_u8 SQL_DECLARED_FUNCTION, w_str (section_identifier site (SqlDeclared.Function s))]"

fun enc_sql_declared :: "trait_impls \<Rightarrow> use_site \<Rightarrow> SqlDeclared \<Rightarrow> u8 list" where
  "enc_sql_declared tr site (SqlDeclared.Type s) =
     enc_seq [[SQL_DECLARED_TYPE], enc_str (section_identifier site (SqlDeclared.Type s)),
       enc_str (st_TYPE_IDENT (tr s)), enc_argument_sql (st_ARGUMENT_SQL (tr s))]"
| "enc_sql_declared tr site (SqlDeclared.Enum s) =
     enc_seq [[SQL_DECLARED_ENUM], enc_str (section_identifier site (SqlDeclared.Enum s)),
       enc_str (st_TYPE_IDENT (tr s)), enc_argument_sql (st_ARGUMENT_SQL (tr s))]"
| "enc_sql_declared tr site (SqlDeclared.Function s) =
     enc_seq [[SQL_DECLARED_FUNCTION],
       enc_str (section_identifier site (SqlDeclared.Function s))]"

fun sql_declared_ok :: "trait_impls \<Rightarrow> use_site \<Rightarrow> SqlDeclared \<Rightarrow> bool" where
  "sql_declared_ok tr site (SqlDeclared.Function s) =
     str_ok (section_identifier site (SqlDeclared.Function s))"
| "sql_declared_ok tr site d =
     (let T = tr (sql_declared_ident d)
      in str_ok (section_identifier site d) \<and> str_ok (st_TYPE_IDENT T)
         \<and> argument_sql_ok (st_ARGUMENT_SQL T) \<and> has_plain_sql (st_ARGUMENT_SQL T))"

lemma split_aux_not_Nil: "split_aux k sep acc s \<noteq> []"
  by (induction k sep acc s rule: split_aux.induct) simp_all

lemma declared_function_name_total:
  "declared_function_name name = Inr (last (split_str ''::'' name))"
  using split_aux_not_Nil [of 0 "''::''" "[]" name]
  by (auto simp: declared_function_name_def split_str_def split: list.splits)

lemma has_plain_sql_mapping:
  "has_plain_sql x \<Longrightarrow> map_res mapping_from x = Inr (SqlMapping.As (plain_sql x))"
  by (cases x rule: has_plain_sql.cases) simp_all

lemma reads_declared_type:
  assumes "has_plain_sql x" and "argument_sql_ok x"
    and "reads (f (Inr (SqlMapping.As (plain_sql x)))) [] v"
  shows "reads (r_bind read_argument_sql_owned f) (enc_seq [enc_argument_sql x]) v"
proof -
  have "reads read_argument_sql_owned (enc_argument_sql x) (Inr (SqlMapping.As (plain_sql x)))"
    using argument_sql_c.read_reads [OF assms(2)] has_plain_sql_mapping [OF assms(1)] by simp
  then have "reads (r_bind read_argument_sql_owned f) (enc_argument_sql x) v"
    using assms(3) by (rule reads_last)
  then show ?thesis by (simp add: enc_seq_def)
qed

interpretation sql_declared_c: codec "w_sql_declared tr site" "enc_sql_declared tr site"
    "sql_declared_len tr site" read_sql_declared "sql_declared_entity tr site"
    "sql_declared_ok tr site" for tr site
proof
  fix x
  show "emits (w_sql_declared tr site x) (enc_sql_declared tr site x)"
    by (cases x) (simp_all add: emits_intros argument_sql_c.write_emits)
  show "length (enc_sql_declared tr site x) = sql_declared_len tr site x"
    by (cases x) (simp_all add: enc_len_simps argument_sql_c.enc_length Let_def)
  assume "sql_declared_ok tr site x"
  then show "reads read_sql_declared (enc_sql_declared tr site x) (sql_declared_entity tr site x)"
    unfolding read_sql_declared_def
    by (cases x; simp add: Let_def; (elim conjE)?)
       (rule reads_declared_type reads_intros | assumption
         | simp add: declared_function_name_total declared_type_data_def Let_def)+
qed

interpretation sql_declareds_c: codec "w_list (w_sql_declared tr site)"
    "enc_list (enc_sql_declared tr site)" "\<lambda>xs. list_len (map (sql_declared_len tr site) xs)"
    "read_list read_sql_declared" "map (sql_declared_entity tr site)"
    "list_ok (sql_declared_ok tr site)" for tr site
  by (rule sql_declared_c.list_codec)

end
