(* ===== verification/Item_Producers.thy ===== *)
theory Item_Producers
  imports Entity_Producers
begin

text \<open>
  The items a macro expands to an entry for, continued: \<open>extension_sql!\<close>, \<open>extension_sql_file!\<close>,
  \<open>#[pg_extern]\<close>, the four derives, \<open>#[pg_trigger]\<close> and \<open>#[pg_aggregate]\<close>.
\<close>

section \<open>\<open>extension_sql!\<close> and \<open>extension_sql_file!\<close>\<close>

datatype ExtensionSqlAttribute =
    Requires "PositioningRef list"
  | Creates "SqlDeclared list"
  | Bootstrap
  | Finalize
  | Name string

record sql_attrs =
  sa_name :: "string option"
  sa_bootstrap :: bool
  sa_finalize :: bool
  sa_requires :: "PositioningRef list"
  sa_creates :: "SqlDeclared list"

fun apply_sql_attr :: "sql_attrs \<Rightarrow> ExtensionSqlAttribute \<Rightarrow> sql_attrs" where
  "apply_sql_attr a (ExtensionSqlAttribute.Creates items) =
     a\<lparr>sa_creates := sa_creates a @ items\<rparr>"
| "apply_sql_attr a (ExtensionSqlAttribute.Requires items) =
     a\<lparr>sa_requires := sa_requires a @ items\<rparr>"
| "apply_sql_attr a Bootstrap = a\<lparr>sa_bootstrap := True\<rparr>"
| "apply_sql_attr a Finalize = a\<lparr>sa_finalize := True\<rparr>"
| "apply_sql_attr a (ExtensionSqlAttribute.Name n) = a\<lparr>sa_name := Some n\<rparr>"

definition collect_sql_attrs :: "ExtensionSqlAttribute list \<Rightarrow> sql_attrs" where
  "collect_sql_attrs attrs =
     foldl apply_sql_attr
       \<lparr>sa_name = None, sa_bootstrap = False, sa_finalize = False, sa_requires = [],
        sa_creates = []\<rparr> attrs"

text \<open>A parsed item: where it is, its SQL text, its name and its attributes.\<close>

record ExtensionSql =
  xs_site :: use_site
  xs_sql :: string
  xs_name :: string
  xs_attrs :: "ExtensionSqlAttribute list"

text \<open>
  \<open>extension_sql!\<close> without a \<open>name\<close> does not parse; \<open>extension_sql_file!\<close> falls back to the stem of
  the file name, and panics when the path has none.
\<close>

definition extension_sql_new ::
    "use_site \<Rightarrow> string \<Rightarrow> ExtensionSqlAttribute list \<Rightarrow> ExtensionSql option" where
  "extension_sql_new site sql attrs =
     map_option (\<lambda>n. \<lparr>xs_site = site, xs_sql = sql, xs_name = n, xs_attrs = attrs\<rparr>)
       (sa_name (collect_sql_attrs attrs))"

definition file_name :: "string \<Rightarrow> string option" where
  "file_name path =
     (case filter (\<lambda>c. c \<noteq> [] \<and> c \<noteq> ''.'') (split_str ''/'' path) of
        [] \<Rightarrow> None
      | cs \<Rightarrow> if last cs = ''..'' then None else Some (last cs))"

definition file_stem :: "string \<Rightarrow> string option" where
  "file_stem path =
     map_option (\<lambda>n.
       (let parts = split_str ''.'' n; before = join_str ''.'' (butlast parts)
        in if length parts = 1 \<or> before = [] then n else before)) (file_name path)"

definition extension_sql_file_new ::
    "use_site \<Rightarrow> string \<Rightarrow> string \<Rightarrow> ExtensionSqlAttribute list \<Rightarrow> ExtensionSql option" where
  "extension_sql_file_new site path contents attrs =
     map_option (\<lambda>n. \<lparr>xs_site = site, xs_sql = contents, xs_name = n, xs_attrs = attrs\<rparr>)
       (case sa_name (collect_sql_attrs attrs) of
          Some n \<Rightarrow> (case file_stem path of Some _ \<Rightarrow> Some n | None \<Rightarrow> None)
        | None \<Rightarrow> file_stem path)"

text \<open>\<open>concat!(file!(), ':', line!())\<close>\<close>

definition file_line :: "use_site \<Rightarrow> string" where
  "file_line site = us_file site @ '':'' @ show_u32 (us_line site)"

definition extension_sql_entity :: "trait_impls \<Rightarrow> ExtensionSql \<Rightarrow> ExtensionSqlEntity" where
  "extension_sql_entity tr x =
     (let a = collect_sql_attrs (xs_attrs x); site = xs_site x in
      \<lparr>es_module_path = us_module_path site, es_full_path = file_line site, es_sql = xs_sql x,
       es_file = us_file site, es_line = us_line site, es_name = xs_name x,
       es_bootstrap = sa_bootstrap a, es_finalize = sa_finalize a,
       es_requires = sa_requires a,
       es_creates = map (sql_declared_entity tr site) (sa_creates a)\<rparr>)"

definition extension_sql_payload_len :: "trait_impls \<Rightarrow> ExtensionSql \<Rightarrow> nat" where
  "extension_sql_payload_len tr x =
     (let a = collect_sql_attrs (xs_attrs x); site = xs_site x in
      u8_len + str_len (xs_sql x) + str_len (us_module_path site) + str_len (file_line site)
      + str_len (us_file site) + u32_len + str_len (xs_name x) + bool_len + bool_len
      + list_len (map positioning_ref_len (sa_requires a))
      + list_len (map (sql_declared_len tr site) (sa_creates a)))"

definition w_extension_sql :: "trait_impls \<Rightarrow> ExtensionSql \<Rightarrow> write_step" where
  "w_extension_sql tr x =
     (let a = collect_sql_attrs (xs_attrs x); site = xs_site x in
      w_seq [w_u8 ENTITY_CUSTOM_SQL, w_str (xs_sql x), w_str (us_module_path site),
        w_str (file_line site), w_str (us_file site), w_u32 (us_line site), w_str (xs_name x),
        w_bool (sa_bootstrap a), w_bool (sa_finalize a),
        w_list w_positioning_ref (sa_requires a),
        w_list (w_sql_declared tr site) (sa_creates a)])"

definition enc_extension_sql :: "trait_impls \<Rightarrow> ExtensionSql \<Rightarrow> u8 list" where
  "enc_extension_sql tr x =
     (let a = collect_sql_attrs (xs_attrs x); site = xs_site x in
      enc_seq [[ENTITY_CUSTOM_SQL], enc_str (xs_sql x), enc_str (us_module_path site),
        enc_str (file_line site), enc_str (us_file site), to_le_bytes (us_line site),
        enc_str (xs_name x), enc_bool (sa_bootstrap a), enc_bool (sa_finalize a),
        enc_list enc_positioning_ref (sa_requires a),
        enc_list (enc_sql_declared tr site) (sa_creates a)])"

definition extension_sql_ok :: "trait_impls \<Rightarrow> ExtensionSql \<Rightarrow> bool" where
  "extension_sql_ok tr x \<longleftrightarrow>
     (let a = collect_sql_attrs (xs_attrs x); site = xs_site x in
      str_ok (xs_sql x) \<and> site_ok site \<and> str_ok (file_line site) \<and> str_ok (xs_name x)
      \<and> list_ok positioning_ref_ok (sa_requires a)
      \<and> list_ok (sql_declared_ok tr site) (sa_creates a))"

interpretation extension_sql_c: codec "w_extension_sql tr" "enc_extension_sql tr"
    "extension_sql_payload_len tr" read_entity
    "\<lambda>x. CustomSql (extension_sql_entity tr x)" "extension_sql_ok tr" for tr
proof
  fix x
  show "emits (w_extension_sql tr x) (enc_extension_sql tr x)"
    unfolding w_extension_sql_def enc_extension_sql_def Let_def
    by (intro emits_intros positioning_refs_c.write_emits sql_declareds_c.write_emits)
  show "length (enc_extension_sql tr x) = extension_sql_payload_len tr x"
    by (simp add: enc_extension_sql_def extension_sql_payload_len_def enc_len_simps Let_def
      positioning_refs_c.enc_length sql_declareds_c.enc_length)
  assume ok: "extension_sql_ok tr x"
  let ?a = "collect_sql_attrs (xs_attrs x)" and ?s = "xs_site x"
  have "reads read_extension_sql_entity
      (enc_seq [enc_str (xs_sql x), enc_str (us_module_path ?s), enc_str (file_line ?s),
        enc_str (us_file ?s), to_le_bytes (us_line ?s), enc_str (xs_name x),
        enc_bool (sa_bootstrap ?a), enc_bool (sa_finalize ?a),
        enc_list enc_positioning_ref (sa_requires ?a),
        enc_list (enc_sql_declared tr ?s) (sa_creates ?a)])
      (extension_sql_entity tr x)"
    unfolding read_extension_sql_entity_def extension_sql_entity_def Let_def
    using ok [unfolded extension_sql_ok_def site_ok_def Let_def]
    by - (rule reads_intros positioning_refs_c.read_reads sql_declareds_c.read_reads | simp)+
  then show "reads read_entity (enc_extension_sql tr x) (CustomSql (extension_sql_entity tr x))"
    by (simp add: read_entity_def enc_extension_sql_def Let_def reads_tagged reads_wrapped)
qed

section \<open>\<open>#[pg_extern]\<close>\<close>

datatype Attribute =
    Immutable | Strict | Stable | Volatile | Raw | NoGuard | CreateOrReplace
  | SecurityDefiner | SecurityInvoker | ParallelSafe | ParallelUnsafe | ParallelRestricted
  | ShouldPanic string | Schema string | Support PositioningRef | Name string | Cost string
  | Requires "PositioningRef list" | Sql ToSqlConfigEntity

fun as_extern_arg :: "Attribute \<Rightarrow> ExternArgs option" where
  "as_extern_arg Attribute.CreateOrReplace = Some ExternArgs.CreateOrReplace"
| "as_extern_arg Attribute.Immutable = Some ExternArgs.Immutable"
| "as_extern_arg Attribute.Strict = Some ExternArgs.Strict"
| "as_extern_arg Attribute.Stable = Some ExternArgs.Stable"
| "as_extern_arg Attribute.Volatile = Some ExternArgs.Volatile"
| "as_extern_arg Attribute.Raw = Some ExternArgs.Raw"
| "as_extern_arg Attribute.NoGuard = Some ExternArgs.NoGuard"
| "as_extern_arg Attribute.SecurityDefiner = Some ExternArgs.SecurityDefiner"
| "as_extern_arg Attribute.SecurityInvoker = Some ExternArgs.SecurityInvoker"
| "as_extern_arg Attribute.ParallelSafe = Some ExternArgs.ParallelSafe"
| "as_extern_arg Attribute.ParallelUnsafe = Some ExternArgs.ParallelUnsafe"
| "as_extern_arg Attribute.ParallelRestricted = Some ExternArgs.ParallelRestricted"
| "as_extern_arg (Attribute.ShouldPanic v) = Some (ExternArgs.ShouldPanic v)"
| "as_extern_arg (Attribute.Schema v) = Some (ExternArgs.Schema v)"
| "as_extern_arg (Attribute.Support v) = Some (ExternArgs.Support v)"
| "as_extern_arg (Attribute.Name v) = Some (ExternArgs.Name v)"
| "as_extern_arg (Attribute.Cost v) = Some (ExternArgs.Cost v)"
| "as_extern_arg (Attribute.Requires items) = Some (ExternArgs.Requires items)"
| "as_extern_arg (Attribute.Sql c) = None"

text \<open>The parsed function; \<open>px_docs\<close> are the values of its \<open>doc\<close> attributes, in order.\<close>

record PgExtern =
  px_site :: use_site
  px_ident :: string
  px_attrs :: "Attribute list"
  px_docs :: "string list"
  px_to_sql_config :: ToSqlConfigEntity
  px_operator :: "PgOperator option"
  px_cast :: "PgCastEntity option"
  px_search_path :: "SearchPath list option"
  px_inputs :: "PgExternArgument list"
  px_returns :: Returning

fun find_name :: "Attribute list \<Rightarrow> string option" where
  "find_name [] = None"
| "find_name (a # as) = (case a of Attribute.Name n \<Rightarrow> Some n | _ \<Rightarrow> find_name as)"

fun find_schema :: "Attribute list \<Rightarrow> string option" where
  "find_schema [] = None"
| "find_schema (a # as) = (case a of Attribute.Schema n \<Rightarrow> Some n | _ \<Rightarrow> find_schema as)"

definition px_name :: "PgExtern \<Rightarrow> string" where
  "px_name x = (case find_name (px_attrs x) of Some n \<Rightarrow> n | None \<Rightarrow> px_ident x)"

definition px_schema :: "PgExtern \<Rightarrow> string option" where
  "px_schema x = find_schema (px_attrs x)"

text \<open>\<open>overridden\<close>: the lines of the \<open>pgrxsql\<close> fences of the doc comment.\<close>

fun overridden_loop :: "string \<Rightarrow> string list \<Rightarrow> bool \<Rightarrow> string option \<Rightarrow> string option" where
  "overridden_loop ident [] in_block retval = retval"
| "overridden_loop ident (v # vs) in_block retval =
     (if \<not> in_block \<and> trim v = ''```pgrxsql'' then overridden_loop ident vs True retval
      else if in_block \<and> trim v = ''```'' then overridden_loop ident vs False retval
      else if in_block then
        overridden_loop ident vs in_block
          (Some ((case retval of None \<Rightarrow> [] | Some s \<Rightarrow> s)
             @ replace_str ''@FUNCTION_NAME@'' (ident @ ''_wrapper'') (trim_start v)
             @ ''\<newline>''))
      else overridden_loop ident vs in_block retval)"

definition overridden :: "PgExtern \<Rightarrow> string option" where
  "overridden x = overridden_loop (px_ident x) (px_docs x) False None"

definition px_config :: "PgExtern \<Rightarrow> ToSqlConfigEntity" where
  "px_config x =
     (case overridden x of
        None \<Rightarrow> px_to_sql_config x
      | Some content \<Rightarrow> (px_to_sql_config x)\<lparr>tsc_content := Some content\<rparr>)"

definition px_extern_args :: "PgExtern \<Rightarrow> ExternArgs list" where
  "px_extern_args x = List.map_filter as_extern_arg (px_attrs x)"

definition pg_extern_entity :: "trait_impls \<Rightarrow> PgExtern \<Rightarrow> PgExternEntity" where
  "pg_extern_entity tr x =
     \<lparr>pe_name = px_name x, pe_unaliased_name = px_ident x,
      pe_module_path = us_module_path (px_site x),
      pe_full_path = us_module_path (px_site x) @ ''::'' @ px_ident x,
      pe_fn_args = map (pg_extern_argument_entity tr) (px_inputs x),
      pe_fn_return = returning_entity tr (px_returns x), pe_schema = px_schema x,
      pe_file = us_file (px_site x), pe_line = us_line (px_site x),
      pe_extern_attrs = px_extern_args x,
      pe_search_path = map_option (map search_path_str) (px_search_path x),
      pe_operator = map_option pg_operator_entity (px_operator x),
      pe_cast = px_cast x, pe_to_sql_config = px_config x\<rparr>"

definition pg_extern_payload_len :: "trait_impls \<Rightarrow> PgExtern \<Rightarrow> nat" where
  "pg_extern_payload_len tr x =
     u8_len + str_len (px_name x) + str_len (px_ident x)
     + str_len (us_module_path (px_site x))
     + str_len (us_module_path (px_site x) @ ''::'' @ px_ident x)
     + list_len (map (pg_extern_argument_len tr) (px_inputs x))
     + returning_len tr (px_returns x) + opt_field_len str_len (px_schema x)
     + str_len (us_file (px_site x)) + u32_len
     + list_len (map extern_arg_len (px_extern_args x))
     + search_path_len (px_search_path x) + opt_field_len pg_operator_len (px_operator x)
     + opt_field_len pg_cast_len (px_cast x) + to_sql_config_len (px_config x)"

definition w_pg_extern :: "trait_impls \<Rightarrow> PgExtern \<Rightarrow> write_step" where
  "w_pg_extern tr x =
     w_seq [w_u8 ENTITY_FUNCTION, w_str (px_name x), w_str (px_ident x),
       w_str (us_module_path (px_site x)),
       w_str (us_module_path (px_site x) @ ''::'' @ px_ident x),
       w_list (w_pg_extern_argument tr) (px_inputs x), w_returning tr (px_returns x),
       w_opt w_str (px_schema x), w_str (us_file (px_site x)), w_u32 (us_line (px_site x)),
       w_list w_extern_arg (px_extern_args x), w_search_path (px_search_path x),
       w_opt w_pg_operator (px_operator x), w_opt w_pg_cast (px_cast x),
       w_to_sql_config (px_config x)]"

definition enc_pg_extern_fields :: "trait_impls \<Rightarrow> PgExtern \<Rightarrow> u8 list list" where
  "enc_pg_extern_fields tr x =
     [enc_str (px_name x), enc_str (px_ident x), enc_str (us_module_path (px_site x)),
      enc_str (us_module_path (px_site x) @ ''::'' @ px_ident x),
      enc_list (enc_pg_extern_argument tr) (px_inputs x), enc_returning tr (px_returns x),
      enc_opt enc_str (px_schema x), enc_str (us_file (px_site x)),
      to_le_bytes (us_line (px_site x)), enc_list enc_extern_arg (px_extern_args x),
      enc_opt (enc_list (\<lambda>p. enc_str (search_path_str p))) (px_search_path x),
      enc_opt enc_pg_operator (px_operator x), enc_opt (\<lambda>c. [pg_cast_tag c]) (px_cast x),
      enc_to_sql_config (px_config x)]"

definition enc_pg_extern :: "trait_impls \<Rightarrow> PgExtern \<Rightarrow> u8 list" where
  "enc_pg_extern tr x = enc_seq ([ENTITY_FUNCTION] # enc_pg_extern_fields tr x)"

definition pg_extern_ok :: "trait_impls \<Rightarrow> PgExtern \<Rightarrow> bool" where
  "pg_extern_ok tr x \<longleftrightarrow>
     str_ok (px_name x) \<and> str_ok (px_ident x) \<and> site_ok (px_site x)
     \<and> str_ok (us_module_path (px_site x) @ ''::'' @ px_ident x)
     \<and> list_ok (pg_extern_argument_ok tr) (px_inputs x) \<and> returning_ok tr (px_returns x)
     \<and> opt_ok str_ok (px_schema x) \<and> list_ok extern_arg_ok (px_extern_args x)
     \<and> opt_ok (list_ok (\<lambda>p. str_ok (search_path_str p))) (px_search_path x)
     \<and> opt_ok pg_operator_ok (px_operator x) \<and> opt_ok (\<lambda>_. True) (px_cast x)
     \<and> to_sql_config_ok (px_config x)"

lemmas item_emits = pg_extern_arguments_c.write_emits returning_c.write_emits
  opt_str_c.write_emits extern_args_c.write_emits search_path_c.write_emits
  opt_pg_operator_c.write_emits opt_pg_cast_c.write_emits to_sql_config_c.write_emits
  positioning_refs_c.write_emits sql_declareds_c.write_emits

lemmas item_lengths = pg_extern_arguments_c.enc_length returning_c.enc_length
  extern_args_c.enc_length search_path_c.enc_length opt_pg_operator_c.enc_length
  opt_pg_cast_c.enc_length to_sql_config_c.enc_length positioning_refs_c.enc_length
  sql_declareds_c.enc_length

lemmas item_reads = pg_extern_arguments_c.read_reads returning_c.read_reads
  opt_str_c.read_reads extern_args_c.read_reads search_path_c.read_reads
  opt_pg_operator_c.read_reads opt_pg_cast_c.read_reads to_sql_config_c.read_reads
  positioning_refs_c.read_reads sql_declareds_c.read_reads

interpretation pg_extern_c: codec "w_pg_extern tr" "enc_pg_extern tr"
    "pg_extern_payload_len tr" read_entity
    "\<lambda>x. SqlGraphEntity.Function (pg_extern_entity tr x)" "pg_extern_ok tr" for tr
proof
  fix x
  show "emits (w_pg_extern tr x) (enc_pg_extern tr x)"
    unfolding w_pg_extern_def enc_pg_extern_def enc_pg_extern_fields_def
    by (intro emits_intros item_emits)
  show "length (enc_pg_extern tr x) = pg_extern_payload_len tr x"
    by (simp add: enc_pg_extern_def enc_pg_extern_fields_def pg_extern_payload_len_def
      enc_len_simps item_lengths)
  assume ok: "pg_extern_ok tr x"
  have "reads read_pg_extern_entity (enc_seq (enc_pg_extern_fields tr x)) (pg_extern_entity tr x)"
    unfolding read_pg_extern_entity_def pg_extern_entity_def enc_pg_extern_fields_def
    using ok [unfolded pg_extern_ok_def site_ok_def]
    by - (rule reads_intros item_reads | simp)+
  then show "reads read_entity (enc_pg_extern tr x)
      (SqlGraphEntity.Function (pg_extern_entity tr x))"
    by (simp add: read_entity_def enc_pg_extern_def reads_tagged reads_wrapped)
qed

end
