(* ===== verification/Derive_Producers.thy ===== *)
theory Derive_Producers
  imports Item_Producers
begin

text \<open>
  The derive macros \<open>PostgresType\<close>, \<open>PostgresEnum\<close>, \<open>PostgresOrd\<close> and \<open>PostgresHash\<close>, and
  \<open>#[pg_trigger]\<close>. The order of the module path and the full path differs between them: types and
  enums write the module path first, \<open>Ord\<close> and \<open>Hash\<close> the full path; the reader follows each.
\<close>

section \<open>\<open>#[derive(PostgresType)]\<close>\<close>

datatype Alignment = On | Off

text \<open>
  \<open>pt_full_path\<close> is the type printed with anonymous lifetimes, \<open>pt_type_ident\<close> the expansion of
  \<open>pgrx_resolved_type!\<close> and \<open>pt_align_of\<close> the alignment the compiler gives the type.
\<close>

record PostgresTypeDerive =
  pt_site :: use_site
  pt_name :: string
  pt_full_path :: string
  pt_type_ident :: string
  pt_in_fn :: string
  pt_out_fn :: string
  pt_receive_fn :: "string option"
  pt_send_fn :: "string option"
  pt_to_sql_config :: ToSqlConfigEntity
  pt_alignment :: Alignment
  pt_align_of :: nat

text \<open>The implementation of \<open>SqlTranslatable\<close> that the derive generates.\<close>

definition postgres_type_impl :: "PostgresTypeDerive \<Rightarrow> SqlTranslatable" where
  "postgres_type_impl x =
     \<lparr>st_TYPE_IDENT = pt_type_ident x, st_TYPE_ORIGIN = ThisExtension,
      st_ARGUMENT_SQL = Inr (SqlMappingRef.As (pt_name x)),
      st_RETURN_SQL = Inr (ReturnsRef.One (SqlMappingRef.As (pt_name x)))\<rparr>"

definition type_align :: "PostgresTypeDerive \<Rightarrow> u32 option" where
  "type_align x =
     (case pt_alignment x of On \<Rightarrow> Some (word_of_nat (pt_align_of x)) | Off \<Rightarrow> None)"

definition postgres_type_entity :: "PostgresTypeDerive \<Rightarrow> PostgresTypeEntity" where
  "postgres_type_entity x =
     \<lparr>ty_name = pt_name x, ty_file = us_file (pt_site x), ty_line = us_line (pt_site x),
      ty_full_path = pt_full_path x, ty_module_path = us_module_path (pt_site x),
      ty_type_ident = pt_type_ident x, ty_in_fn_path = pt_in_fn x, ty_out_fn_path = pt_out_fn x,
      ty_receive_fn_path = pt_receive_fn x, ty_send_fn_path = pt_send_fn x,
      ty_to_sql_config = pt_to_sql_config x, ty_alignment = map_option unat (type_align x)\<rparr>"

definition postgres_type_payload_len :: "PostgresTypeDerive \<Rightarrow> nat" where
  "postgres_type_payload_len x =
     u8_len + str_len (pt_name x) + str_len (us_file (pt_site x)) + u32_len
     + str_len (us_module_path (pt_site x)) + str_len (pt_full_path x)
     + str_len (pt_type_ident x) + str_len (pt_in_fn x) + str_len (pt_out_fn x)
     + opt_field_len str_len (pt_receive_fn x) + opt_field_len str_len (pt_send_fn x)
     + to_sql_config_len (pt_to_sql_config x)
     + (case pt_alignment x of On \<Rightarrow> bool_len + u32_len | Off \<Rightarrow> bool_len)"

definition w_postgres_type :: "PostgresTypeDerive \<Rightarrow> write_step" where
  "w_postgres_type x =
     w_seq [w_u8 ENTITY_TYPE, w_str (pt_name x), w_str (us_file (pt_site x)),
       w_u32 (us_line (pt_site x)), w_str (us_module_path (pt_site x)), w_str (pt_full_path x),
       w_str (pt_type_ident x), w_str (pt_in_fn x), w_str (pt_out_fn x),
       w_opt w_str (pt_receive_fn x), w_opt w_str (pt_send_fn x),
       w_to_sql_config (pt_to_sql_config x), w_opt w_u32 (type_align x)]"

definition enc_postgres_type_fields :: "PostgresTypeDerive \<Rightarrow> u8 list list" where
  "enc_postgres_type_fields x =
     [enc_str (pt_name x), enc_str (us_file (pt_site x)), to_le_bytes (us_line (pt_site x)),
      enc_str (us_module_path (pt_site x)), enc_str (pt_full_path x), enc_str (pt_type_ident x),
      enc_str (pt_in_fn x), enc_str (pt_out_fn x), enc_opt enc_str (pt_receive_fn x),
      enc_opt enc_str (pt_send_fn x), enc_to_sql_config (pt_to_sql_config x),
      enc_opt to_le_bytes (type_align x)]"

definition enc_postgres_type :: "PostgresTypeDerive \<Rightarrow> u8 list" where
  "enc_postgres_type x = enc_seq ([ENTITY_TYPE] # enc_postgres_type_fields x)"

definition postgres_type_ok :: "PostgresTypeDerive \<Rightarrow> bool" where
  "postgres_type_ok x \<longleftrightarrow>
     site_ok (pt_site x) \<and> str_ok (pt_name x) \<and> str_ok (pt_full_path x)
     \<and> str_ok (pt_type_ident x) \<and> str_ok (pt_in_fn x) \<and> str_ok (pt_out_fn x)
     \<and> opt_ok str_ok (pt_receive_fn x) \<and> opt_ok str_ok (pt_send_fn x)
     \<and> to_sql_config_ok (pt_to_sql_config x)"

interpretation opt_u32_c: codec "w_opt w_u32" "enc_opt to_le_bytes"
    "opt_field_len (\<lambda>_. u32_len)" "read_opt read_u32" "\<lambda>x. x" "opt_ok (\<lambda>_. True)"
  using u32_c.opt_codec by simp

lemma opt_ok_True [simp]: "opt_ok (\<lambda>_. True) x"
  by (cases x) simp_all

interpretation postgres_type_c: codec w_postgres_type enc_postgres_type
    postgres_type_payload_len read_entity
    "\<lambda>x. SqlGraphEntity.Type (postgres_type_entity x)" postgres_type_ok
proof
  fix x
  show "emits (w_postgres_type x) (enc_postgres_type x)"
    unfolding w_postgres_type_def enc_postgres_type_def enc_postgres_type_fields_def
    by (intro emits_intros item_emits opt_u32_c.write_emits)
  show "length (enc_postgres_type x) = postgres_type_payload_len x"
    by (simp add: enc_postgres_type_def enc_postgres_type_fields_def postgres_type_payload_len_def
      enc_len_simps item_lengths opt_u32_c.enc_length type_align_def opt_field_len_def
      split: Alignment.splits)
  assume ok: "postgres_type_ok x"
  have "reads read_postgres_type_entity (enc_seq (enc_postgres_type_fields x))
      (postgres_type_entity x)"
    unfolding read_postgres_type_entity_def postgres_type_entity_def enc_postgres_type_fields_def
    using ok [unfolded postgres_type_ok_def site_ok_def]
    by - (rule reads_intros item_reads opt_u32_c.read_reads | simp)+
  then show "reads read_entity (enc_postgres_type x)
      (SqlGraphEntity.Type (postgres_type_entity x))"
    by (simp add: read_entity_def enc_postgres_type_def reads_tagged reads_wrapped)
qed

section \<open>\<open>#[derive(PostgresEnum)]\<close>\<close>

record PostgresEnum =
  pn_site :: use_site
  pn_name :: string
  pn_full_path :: string
  pn_type_ident :: string
  pn_variants :: "string list"
  pn_to_sql_config :: ToSqlConfigEntity

definition postgres_enum_impl :: "PostgresEnum \<Rightarrow> SqlTranslatable" where
  "postgres_enum_impl x =
     \<lparr>st_TYPE_IDENT = pn_type_ident x, st_TYPE_ORIGIN = ThisExtension,
      st_ARGUMENT_SQL = Inr (SqlMappingRef.As (pn_name x)),
      st_RETURN_SQL = Inr (ReturnsRef.One (SqlMappingRef.As (pn_name x)))\<rparr>"

definition postgres_enum_entity :: "PostgresEnum \<Rightarrow> PostgresEnumEntity" where
  "postgres_enum_entity x =
     \<lparr>en_name = pn_name x, en_file = us_file (pn_site x), en_line = us_line (pn_site x),
      en_full_path = pn_full_path x, en_module_path = us_module_path (pn_site x),
      en_type_ident = pn_type_ident x, en_variants = pn_variants x,
      en_to_sql_config = pn_to_sql_config x\<rparr>"

definition postgres_enum_payload_len :: "PostgresEnum \<Rightarrow> nat" where
  "postgres_enum_payload_len x =
     u8_len + str_len (pn_name x) + str_len (us_file (pn_site x)) + u32_len
     + str_len (us_module_path (pn_site x)) + str_len (pn_full_path x)
     + str_len (pn_type_ident x) + list_len (map str_len (pn_variants x))
     + to_sql_config_len (pn_to_sql_config x)"

definition w_postgres_enum :: "PostgresEnum \<Rightarrow> write_step" where
  "w_postgres_enum x =
     w_seq [w_u8 ENTITY_ENUM, w_str (pn_name x), w_str (us_file (pn_site x)),
       w_u32 (us_line (pn_site x)), w_str (us_module_path (pn_site x)), w_str (pn_full_path x),
       w_str (pn_type_ident x), w_list w_str (pn_variants x),
       w_to_sql_config (pn_to_sql_config x)]"

definition enc_postgres_enum_fields :: "PostgresEnum \<Rightarrow> u8 list list" where
  "enc_postgres_enum_fields x =
     [enc_str (pn_name x), enc_str (us_file (pn_site x)), to_le_bytes (us_line (pn_site x)),
      enc_str (us_module_path (pn_site x)), enc_str (pn_full_path x), enc_str (pn_type_ident x),
      enc_list enc_str (pn_variants x), enc_to_sql_config (pn_to_sql_config x)]"

definition enc_postgres_enum :: "PostgresEnum \<Rightarrow> u8 list" where
  "enc_postgres_enum x = enc_seq ([ENTITY_ENUM] # enc_postgres_enum_fields x)"

definition postgres_enum_ok :: "PostgresEnum \<Rightarrow> bool" where
  "postgres_enum_ok x \<longleftrightarrow>
     site_ok (pn_site x) \<and> str_ok (pn_name x) \<and> str_ok (pn_full_path x)
     \<and> str_ok (pn_type_ident x) \<and> list_ok str_ok (pn_variants x)
     \<and> to_sql_config_ok (pn_to_sql_config x)"

interpretation strs_c: codec "w_list w_str" "enc_list enc_str"
    "\<lambda>xs. list_len (map str_len xs)" "read_list read_str" "\<lambda>xs. xs" "list_ok str_ok"
  using str_c.list_codec by simp

interpretation postgres_enum_c: codec w_postgres_enum enc_postgres_enum
    postgres_enum_payload_len read_entity
    "\<lambda>x. SqlGraphEntity.Enum (postgres_enum_entity x)" postgres_enum_ok
proof
  fix x
  show "emits (w_postgres_enum x) (enc_postgres_enum x)"
    unfolding w_postgres_enum_def enc_postgres_enum_def enc_postgres_enum_fields_def
    by (intro emits_intros item_emits strs_c.write_emits)
  show "length (enc_postgres_enum x) = postgres_enum_payload_len x"
    by (simp add: enc_postgres_enum_def enc_postgres_enum_fields_def postgres_enum_payload_len_def
      enc_len_simps item_lengths strs_c.enc_length)
  assume ok: "postgres_enum_ok x"
  have "reads read_postgres_enum_entity (enc_seq (enc_postgres_enum_fields x))
      (postgres_enum_entity x)"
    unfolding read_postgres_enum_entity_def postgres_enum_entity_def enc_postgres_enum_fields_def
    using ok [unfolded postgres_enum_ok_def site_ok_def]
    by - (rule reads_intros item_reads strs_c.read_reads | simp)+
  then show "reads read_entity (enc_postgres_enum x)
      (SqlGraphEntity.Enum (postgres_enum_entity x))"
    by (simp add: read_entity_def enc_postgres_enum_def reads_tagged reads_wrapped)
qed

section \<open>\<open>#[derive(PostgresOrd)]\<close>\<close>

record PostgresOrd =
  pod_site :: use_site
  pod_name :: string
  pod_type_ident :: string
  pod_to_sql_config :: ToSqlConfigEntity

definition postgres_ord_entity :: "PostgresOrd \<Rightarrow> PostgresOrdEntity" where
  "postgres_ord_entity x =
     \<lparr>or_name = pod_name x, or_file = us_file (pod_site x), or_line = us_line (pod_site x),
      or_full_path = pod_name x, or_module_path = us_module_path (pod_site x),
      or_type_ident = pod_type_ident x, or_to_sql_config = pod_to_sql_config x\<rparr>"

definition postgres_ord_payload_len :: "PostgresOrd \<Rightarrow> nat" where
  "postgres_ord_payload_len x =
     u8_len + str_len (pod_name x) + str_len (us_file (pod_site x)) + u32_len
     + str_len (pod_name x) + str_len (us_module_path (pod_site x)) + str_len (pod_type_ident x)
     + to_sql_config_len (pod_to_sql_config x)"

definition w_postgres_ord :: "PostgresOrd \<Rightarrow> write_step" where
  "w_postgres_ord x =
     w_seq [w_u8 ENTITY_ORD, w_str (pod_name x), w_str (us_file (pod_site x)),
       w_u32 (us_line (pod_site x)), w_str (pod_name x), w_str (us_module_path (pod_site x)),
       w_str (pod_type_ident x), w_to_sql_config (pod_to_sql_config x)]"

definition enc_postgres_ord_fields :: "PostgresOrd \<Rightarrow> u8 list list" where
  "enc_postgres_ord_fields x =
     [enc_str (pod_name x), enc_str (us_file (pod_site x)), to_le_bytes (us_line (pod_site x)),
      enc_str (pod_name x), enc_str (us_module_path (pod_site x)), enc_str (pod_type_ident x),
      enc_to_sql_config (pod_to_sql_config x)]"

definition enc_postgres_ord :: "PostgresOrd \<Rightarrow> u8 list" where
  "enc_postgres_ord x = enc_seq ([ENTITY_ORD] # enc_postgres_ord_fields x)"

definition postgres_ord_ok :: "PostgresOrd \<Rightarrow> bool" where
  "postgres_ord_ok x \<longleftrightarrow>
     site_ok (pod_site x) \<and> str_ok (pod_name x) \<and> str_ok (pod_type_ident x)
     \<and> to_sql_config_ok (pod_to_sql_config x)"

interpretation postgres_ord_c: codec w_postgres_ord enc_postgres_ord postgres_ord_payload_len
    read_entity "\<lambda>x. SqlGraphEntity.Ord (postgres_ord_entity x)" postgres_ord_ok
proof
  fix x
  show "emits (w_postgres_ord x) (enc_postgres_ord x)"
    unfolding w_postgres_ord_def enc_postgres_ord_def enc_postgres_ord_fields_def
    by (intro emits_intros item_emits)
  show "length (enc_postgres_ord x) = postgres_ord_payload_len x"
    by (simp add: enc_postgres_ord_def enc_postgres_ord_fields_def postgres_ord_payload_len_def
      enc_len_simps item_lengths)
  assume ok: "postgres_ord_ok x"
  have "reads read_postgres_ord_entity (enc_seq (enc_postgres_ord_fields x))
      (postgres_ord_entity x)"
    unfolding read_postgres_ord_entity_def postgres_ord_entity_def enc_postgres_ord_fields_def
    using ok [unfolded postgres_ord_ok_def site_ok_def]
    by - (rule reads_intros item_reads | simp)+
  then show "reads read_entity (enc_postgres_ord x) (SqlGraphEntity.Ord (postgres_ord_entity x))"
    by (simp add: read_entity_def enc_postgres_ord_def reads_tagged reads_wrapped)
qed

section \<open>\<open>#[derive(PostgresHash)]\<close>\<close>

record PostgresHash =
  phd_site :: use_site
  phd_name :: string
  phd_type_ident :: string
  phd_to_sql_config :: ToSqlConfigEntity

definition postgres_hash_entity :: "PostgresHash \<Rightarrow> PostgresHashEntity" where
  "postgres_hash_entity x =
     \<lparr>ha_name = phd_name x, ha_file = us_file (phd_site x), ha_line = us_line (phd_site x),
      ha_full_path = phd_name x, ha_module_path = us_module_path (phd_site x),
      ha_type_ident = phd_type_ident x, ha_to_sql_config = phd_to_sql_config x\<rparr>"

definition postgres_hash_payload_len :: "PostgresHash \<Rightarrow> nat" where
  "postgres_hash_payload_len x =
     u8_len + str_len (phd_name x) + str_len (us_file (phd_site x)) + u32_len
     + str_len (phd_name x) + str_len (us_module_path (phd_site x)) + str_len (phd_type_ident x)
     + to_sql_config_len (phd_to_sql_config x)"

definition w_postgres_hash :: "PostgresHash \<Rightarrow> write_step" where
  "w_postgres_hash x =
     w_seq [w_u8 ENTITY_HASH, w_str (phd_name x), w_str (us_file (phd_site x)),
       w_u32 (us_line (phd_site x)), w_str (phd_name x), w_str (us_module_path (phd_site x)),
       w_str (phd_type_ident x), w_to_sql_config (phd_to_sql_config x)]"

definition enc_postgres_hash_fields :: "PostgresHash \<Rightarrow> u8 list list" where
  "enc_postgres_hash_fields x =
     [enc_str (phd_name x), enc_str (us_file (phd_site x)), to_le_bytes (us_line (phd_site x)),
      enc_str (phd_name x), enc_str (us_module_path (phd_site x)), enc_str (phd_type_ident x),
      enc_to_sql_config (phd_to_sql_config x)]"

definition enc_postgres_hash :: "PostgresHash \<Rightarrow> u8 list" where
  "enc_postgres_hash x = enc_seq ([ENTITY_HASH] # enc_postgres_hash_fields x)"

definition postgres_hash_ok :: "PostgresHash \<Rightarrow> bool" where
  "postgres_hash_ok x \<longleftrightarrow>
     site_ok (phd_site x) \<and> str_ok (phd_name x) \<and> str_ok (phd_type_ident x)
     \<and> to_sql_config_ok (phd_to_sql_config x)"

interpretation postgres_hash_c: codec w_postgres_hash enc_postgres_hash postgres_hash_payload_len
    read_entity "\<lambda>x. SqlGraphEntity.Hash (postgres_hash_entity x)" postgres_hash_ok
proof
  fix x
  show "emits (w_postgres_hash x) (enc_postgres_hash x)"
    unfolding w_postgres_hash_def enc_postgres_hash_def enc_postgres_hash_fields_def
    by (intro emits_intros item_emits)
  show "length (enc_postgres_hash x) = postgres_hash_payload_len x"
    by (simp add: enc_postgres_hash_def enc_postgres_hash_fields_def postgres_hash_payload_len_def
      enc_len_simps item_lengths)
  assume ok: "postgres_hash_ok x"
  have "reads read_postgres_hash_entity (enc_seq (enc_postgres_hash_fields x))
      (postgres_hash_entity x)"
    unfolding read_postgres_hash_entity_def postgres_hash_entity_def enc_postgres_hash_fields_def
    using ok [unfolded postgres_hash_ok_def site_ok_def]
    by - (rule reads_intros item_reads | simp)+
  then show "reads read_entity (enc_postgres_hash x) (SqlGraphEntity.Hash (postgres_hash_entity x))"
    by (simp add: read_entity_def enc_postgres_hash_def reads_tagged reads_wrapped)
qed

section \<open>\<open>#[pg_trigger]\<close>\<close>

record PgTrigger =
  ptr_site :: use_site
  ptr_ident :: string
  ptr_to_sql_config :: ToSqlConfigEntity

definition ptr_full_path :: "PgTrigger \<Rightarrow> string" where
  "ptr_full_path x = us_module_path (ptr_site x) @ ''::'' @ ptr_ident x"

definition pg_trigger_entity :: "PgTrigger \<Rightarrow> PgTriggerEntity" where
  "pg_trigger_entity x =
     \<lparr>tr_function_name = ptr_ident x, tr_to_sql_config = ptr_to_sql_config x,
      tr_file = us_file (ptr_site x), tr_line = us_line (ptr_site x),
      tr_module_path = us_module_path (ptr_site x), tr_full_path = ptr_full_path x\<rparr>"

definition pg_trigger_payload_len :: "PgTrigger \<Rightarrow> nat" where
  "pg_trigger_payload_len x =
     u8_len + str_len (ptr_ident x) + str_len (us_file (ptr_site x)) + u32_len
     + str_len (us_module_path (ptr_site x)) + str_len (ptr_full_path x)
     + to_sql_config_len (ptr_to_sql_config x)"

definition w_pg_trigger :: "PgTrigger \<Rightarrow> write_step" where
  "w_pg_trigger x =
     w_seq [w_u8 ENTITY_TRIGGER, w_str (ptr_ident x), w_str (us_file (ptr_site x)),
       w_u32 (us_line (ptr_site x)), w_str (us_module_path (ptr_site x)),
       w_str (ptr_full_path x), w_to_sql_config (ptr_to_sql_config x)]"

definition enc_pg_trigger_fields :: "PgTrigger \<Rightarrow> u8 list list" where
  "enc_pg_trigger_fields x =
     [enc_str (ptr_ident x), enc_str (us_file (ptr_site x)),
      to_le_bytes (us_line (ptr_site x)), enc_str (us_module_path (ptr_site x)),
      enc_str (ptr_full_path x), enc_to_sql_config (ptr_to_sql_config x)]"

definition enc_pg_trigger :: "PgTrigger \<Rightarrow> u8 list" where
  "enc_pg_trigger x = enc_seq ([ENTITY_TRIGGER] # enc_pg_trigger_fields x)"

definition pg_trigger_ok :: "PgTrigger \<Rightarrow> bool" where
  "pg_trigger_ok x \<longleftrightarrow>
     site_ok (ptr_site x) \<and> str_ok (ptr_ident x) \<and> str_ok (ptr_full_path x)
     \<and> to_sql_config_ok (ptr_to_sql_config x)"

interpretation pg_trigger_c: codec w_pg_trigger enc_pg_trigger pg_trigger_payload_len
    read_entity "\<lambda>x. Trigger (pg_trigger_entity x)" pg_trigger_ok
proof
  fix x
  show "emits (w_pg_trigger x) (enc_pg_trigger x)"
    unfolding w_pg_trigger_def enc_pg_trigger_def enc_pg_trigger_fields_def
    by (intro emits_intros item_emits)
  show "length (enc_pg_trigger x) = pg_trigger_payload_len x"
    by (simp add: enc_pg_trigger_def enc_pg_trigger_fields_def pg_trigger_payload_len_def
      enc_len_simps item_lengths)
  assume ok: "pg_trigger_ok x"
  have "reads read_pg_trigger_entity (enc_seq (enc_pg_trigger_fields x)) (pg_trigger_entity x)"
    unfolding read_pg_trigger_entity_def pg_trigger_entity_def enc_pg_trigger_fields_def
    using ok [unfolded pg_trigger_ok_def site_ok_def]
    by - (rule reads_intros item_reads | simp)+
  then show "reads read_entity (enc_pg_trigger x) (Trigger (pg_trigger_entity x))"
    by (simp add: read_entity_def enc_pg_trigger_def reads_tagged reads_wrapped)
qed

end
