(* ===== verification/Aggregate_Producer.thy ===== *)
theory Aggregate_Producer
  imports Derive_Producers
begin

text \<open>
  \<open>#[pg_aggregate]\<close>: the largest entry, and the only one whose optional tags
  (\<open>FINALIZE_MODIFY\<close>, \<open>MOVING_FINALIZE_MODIFY\<close>, \<open>PARALLEL\<close>) are const expressions of an \<open>Option\<close> type
  that the expansion matches on.
\<close>

section \<open>Argument types and options\<close>

record AggregateType =
  agt_used_ty :: UsedType
  agt_name :: "string option"

definition aggregate_type_entity :: "trait_impls \<Rightarrow> AggregateType \<Rightarrow> AggregateTypeEntity" where
  "aggregate_type_entity tr a =
     \<lparr>at_used_ty = used_type_entity tr (agt_used_ty a), at_name = agt_name a\<rparr>"

definition aggregate_type_len :: "trait_impls \<Rightarrow> AggregateType \<Rightarrow> nat" where
  "aggregate_type_len tr a =
     used_type_len tr (agt_used_ty a) + opt_field_len str_len (agt_name a)"

definition w_aggregate_type :: "trait_impls \<Rightarrow> AggregateType \<Rightarrow> write_step" where
  "w_aggregate_type tr a = w_seq [w_opt w_str (agt_name a), w_used_type tr (agt_used_ty a)]"

definition enc_aggregate_type :: "trait_impls \<Rightarrow> AggregateType \<Rightarrow> u8 list" where
  "enc_aggregate_type tr a =
     enc_seq [enc_opt enc_str (agt_name a), enc_used_type tr (agt_used_ty a)]"

definition aggregate_type_ok :: "trait_impls \<Rightarrow> AggregateType \<Rightarrow> bool" where
  "aggregate_type_ok tr a \<longleftrightarrow>
     opt_ok str_ok (agt_name a) \<and> used_type_ok tr (agt_used_ty a)"

interpretation aggregate_type_c: codec "w_aggregate_type tr" "enc_aggregate_type tr"
    "aggregate_type_len tr" read_aggregate_type "aggregate_type_entity tr"
    "aggregate_type_ok tr" for tr
proof
  fix x
  show "emits (w_aggregate_type tr x) (enc_aggregate_type tr x)"
    unfolding w_aggregate_type_def enc_aggregate_type_def
    by (intro emits_intros opt_str_c.write_emits used_type_c.write_emits)
  show "length (enc_aggregate_type tr x) = aggregate_type_len tr x"
    by (simp add: enc_aggregate_type_def aggregate_type_len_def enc_len_simps
      used_type_c.enc_length)
  assume "aggregate_type_ok tr x"
  then show "reads read_aggregate_type (enc_aggregate_type tr x) (aggregate_type_entity tr x)"
    unfolding read_aggregate_type_def enc_aggregate_type_def aggregate_type_entity_def
      aggregate_type_ok_def
    by - (rule reads_intros opt_str_c.read_reads used_type_c.read_reads | simp)+
qed

interpretation aggregate_types_c: codec "w_list (w_aggregate_type tr)"
    "enc_list (enc_aggregate_type tr)" "\<lambda>xs. list_len (map (aggregate_type_len tr) xs)"
    read_aggregate_type_list "map (aggregate_type_entity tr)" "list_ok (aggregate_type_ok tr)"
  for tr
  unfolding read_aggregate_type_list_def by (rule aggregate_type_c.list_codec)

interpretation opt_aggregate_types_c: codec "w_opt (w_list (w_aggregate_type tr))"
    "enc_opt (enc_list (enc_aggregate_type tr))"
    "opt_field_len (\<lambda>xs. list_len (map (aggregate_type_len tr) xs))"
    "read_opt read_aggregate_type_list" "map_option (map (aggregate_type_entity tr))"
    "opt_ok (list_ok (aggregate_type_ok tr))" for tr
  by (rule aggregate_types_c.opt_codec)

interpretation opt_used_type_c: codec "w_opt (w_used_type tr)" "enc_opt (enc_used_type tr)"
    "opt_field_len (used_type_len tr)" "read_opt read_used_type"
    "map_option (used_type_entity tr)" "opt_ok (used_type_ok tr)" for tr
  by (rule used_type_c.opt_codec)

fun finalize_modify_tag :: "FinalizeModify \<Rightarrow> u8" where
  "finalize_modify_tag ReadOnly = AGGREGATE_FINALIZE_READ_ONLY"
| "finalize_modify_tag Shareable = AGGREGATE_FINALIZE_SHAREABLE"
| "finalize_modify_tag ReadWrite = AGGREGATE_FINALIZE_READ_WRITE"

fun w_finalize_modify :: "FinalizeModify option \<Rightarrow> write_step" where
  "w_finalize_modify (Some ReadOnly) = w_seq [w_bool True, w_u8 AGGREGATE_FINALIZE_READ_ONLY]"
| "w_finalize_modify (Some Shareable) = w_seq [w_bool True, w_u8 AGGREGATE_FINALIZE_SHAREABLE]"
| "w_finalize_modify (Some ReadWrite) = w_seq [w_bool True, w_u8 AGGREGATE_FINALIZE_READ_WRITE]"
| "w_finalize_modify None = w_bool False"

fun parallel_option_tag :: "ParallelOption \<Rightarrow> u8" where
  "parallel_option_tag Safe = AGGREGATE_PARALLEL_SAFE"
| "parallel_option_tag Restricted = AGGREGATE_PARALLEL_RESTRICTED"
| "parallel_option_tag Unsafe = AGGREGATE_PARALLEL_UNSAFE"

fun w_parallel_option :: "ParallelOption option \<Rightarrow> write_step" where
  "w_parallel_option (Some Safe) = w_seq [w_bool True, w_u8 AGGREGATE_PARALLEL_SAFE]"
| "w_parallel_option (Some Restricted) = w_seq [w_bool True, w_u8 AGGREGATE_PARALLEL_RESTRICTED]"
| "w_parallel_option (Some Unsafe) = w_seq [w_bool True, w_u8 AGGREGATE_PARALLEL_UNSAFE]"
| "w_parallel_option None = w_bool False"

text \<open>\<open>bool_len() + match value \{ Some(_) => u8_len(), None => 0 \}\<close>\<close>

definition tag_opt_len :: "'a option \<Rightarrow> nat" where
  "tag_opt_len x = bool_len + (case x of Some _ \<Rightarrow> u8_len | None \<Rightarrow> 0)"

interpretation finalize_modify_c: codec w_finalize_modify
    "enc_opt (\<lambda>m. [finalize_modify_tag m])" tag_opt_len "read_opt read_finalize_modify"
    "\<lambda>x. x" "\<lambda>_. True"
proof
  fix x :: "FinalizeModify option"
  show "emits (w_finalize_modify x) (enc_opt (\<lambda>m. [finalize_modify_tag m]) x)"
    by (cases x rule: w_finalize_modify.cases) (simp_all add: enc_opt_def emits_intros)
  show "length (enc_opt (\<lambda>m. [finalize_modify_tag m]) x) = tag_opt_len x"
    by (cases x) (simp_all add: length_enc_list_opt enc_len_simps tag_opt_len_def)
  have "reads read_finalize_modify [finalize_modify_tag m] m" for m
    unfolding read_finalize_modify_def by (cases m) (auto intro!: reads_intros)
  then show "reads (read_opt read_finalize_modify) (enc_opt (\<lambda>m. [finalize_modify_tag m]) x) x"
    using reads_opt [of x read_finalize_modify "\<lambda>m. [finalize_modify_tag m]" "\<lambda>m. m"] by simp
qed

interpretation parallel_option_c: codec w_parallel_option
    "enc_opt (\<lambda>m. [parallel_option_tag m])" tag_opt_len "read_opt read_parallel_option"
    "\<lambda>x. x" "\<lambda>_. True"
proof
  fix x :: "ParallelOption option"
  show "emits (w_parallel_option x) (enc_opt (\<lambda>m. [parallel_option_tag m]) x)"
    by (cases x rule: w_parallel_option.cases) (simp_all add: enc_opt_def emits_intros)
  show "length (enc_opt (\<lambda>m. [parallel_option_tag m]) x) = tag_opt_len x"
    by (cases x) (simp_all add: length_enc_list_opt enc_len_simps tag_opt_len_def)
  have "reads read_parallel_option [parallel_option_tag m] m" for m
    unfolding read_parallel_option_def by (cases m) (auto intro!: reads_intros)
  then show "reads (read_opt read_parallel_option) (enc_opt (\<lambda>m. [parallel_option_tag m]) x) x"
    using reads_opt [of x read_parallel_option "\<lambda>m. [parallel_option_tag m]" "\<lambda>m. m"] by simp
qed

section \<open>\<open>#[pg_aggregate]\<close>\<close>

record PgAggregate =
  pgg_site :: use_site
  pgg_target_ident :: string
  pgg_name :: string
  pgg_const_ordered_set :: bool
  pgg_type_args :: "AggregateType list"
  pgg_type_ordered_set_args :: "AggregateType list option"
  pgg_type_stype :: AggregateType
  pgg_fn_state :: string
  pgg_fn_finalize :: "string option"
  pgg_const_finalize_modify :: "FinalizeModify option"
  pgg_fn_combine :: "string option"
  pgg_fn_serial :: "string option"
  pgg_fn_deserial :: "string option"
  pgg_const_initial_condition :: "string option"
  pgg_fn_moving_state :: "string option"
  pgg_fn_moving_state_inverse :: "string option"
  pgg_type_moving_state :: "UsedType option"
  pgg_fn_moving_finalize :: "string option"
  pgg_const_moving_finalize_modify :: "FinalizeModify option"
  pgg_const_moving_intial_condition :: "string option"
  pgg_const_sort_operator :: "string option"
  pgg_const_parallel :: "ParallelOption option"
  pgg_hypothetical :: bool
  pgg_to_sql_config :: ToSqlConfigEntity

definition pgg_full_path :: "PgAggregate \<Rightarrow> string" where
  "pgg_full_path x = us_module_path (pgg_site x) @ ''::'' @ pgg_target_ident x"

definition pg_aggregate_entity :: "trait_impls \<Rightarrow> PgAggregate \<Rightarrow> PgAggregateEntity" where
  "pg_aggregate_entity tr x =
     \<lparr>ag_full_path = pgg_full_path x, ag_module_path = us_module_path (pgg_site x),
      ag_file = us_file (pgg_site x), ag_line = us_line (pgg_site x), ag_name = pgg_name x,
      ag_ordered_set = pgg_const_ordered_set x,
      ag_args = map (aggregate_type_entity tr) (pgg_type_args x),
      ag_direct_args =
        map_option (map (aggregate_type_entity tr)) (pgg_type_ordered_set_args x),
      ag_stype = aggregate_type_entity tr (pgg_type_stype x), ag_sfunc = pgg_fn_state x,
      ag_finalfunc = pgg_fn_finalize x, ag_finalfunc_modify = pgg_const_finalize_modify x,
      ag_combinefunc = pgg_fn_combine x, ag_serialfunc = pgg_fn_serial x,
      ag_deserialfunc = pgg_fn_deserial x, ag_initcond = pgg_const_initial_condition x,
      ag_msfunc = pgg_fn_moving_state x, ag_minvfunc = pgg_fn_moving_state_inverse x,
      ag_mstype = map_option (used_type_entity tr) (pgg_type_moving_state x),
      ag_mfinalfunc = pgg_fn_moving_finalize x,
      ag_mfinalfunc_modify = pgg_const_moving_finalize_modify x,
      ag_minitcond = pgg_const_moving_intial_condition x,
      ag_sortop = pgg_const_sort_operator x, ag_parallel = pgg_const_parallel x,
      ag_hypothetical = pgg_hypothetical x, ag_to_sql_config = pgg_to_sql_config x\<rparr>"

definition pg_aggregate_payload_len :: "trait_impls \<Rightarrow> PgAggregate \<Rightarrow> nat" where
  "pg_aggregate_payload_len tr x =
     u8_len + str_len (pgg_full_path x) + str_len (us_module_path (pgg_site x))
     + str_len (us_file (pgg_site x)) + u32_len + str_len (pgg_name x) + bool_len
     + list_len (map (aggregate_type_len tr) (pgg_type_args x))
     + opt_field_len (\<lambda>xs. list_len (map (aggregate_type_len tr) xs))
         (pgg_type_ordered_set_args x)
     + aggregate_type_len tr (pgg_type_stype x) + str_len (pgg_fn_state x)
     + opt_field_len str_len (pgg_fn_finalize x) + tag_opt_len (pgg_const_finalize_modify x)
     + opt_field_len str_len (pgg_fn_combine x) + opt_field_len str_len (pgg_fn_serial x)
     + opt_field_len str_len (pgg_fn_deserial x)
     + opt_field_len str_len (pgg_const_initial_condition x)
     + opt_field_len str_len (pgg_fn_moving_state x)
     + opt_field_len str_len (pgg_fn_moving_state_inverse x)
     + opt_field_len (used_type_len tr) (pgg_type_moving_state x)
     + opt_field_len str_len (pgg_fn_moving_finalize x)
     + tag_opt_len (pgg_const_moving_finalize_modify x)
     + opt_field_len str_len (pgg_const_moving_intial_condition x)
     + opt_field_len str_len (pgg_const_sort_operator x) + tag_opt_len (pgg_const_parallel x)
     + bool_len + to_sql_config_len (pgg_to_sql_config x)"

definition w_pg_aggregate :: "trait_impls \<Rightarrow> PgAggregate \<Rightarrow> write_step" where
  "w_pg_aggregate tr x =
     w_seq [w_u8 ENTITY_AGGREGATE, w_str (pgg_full_path x), w_str (us_module_path (pgg_site x)),
       w_str (us_file (pgg_site x)), w_u32 (us_line (pgg_site x)), w_str (pgg_name x),
       w_bool (pgg_const_ordered_set x), w_list (w_aggregate_type tr) (pgg_type_args x),
       w_opt (w_list (w_aggregate_type tr)) (pgg_type_ordered_set_args x),
       w_aggregate_type tr (pgg_type_stype x), w_str (pgg_fn_state x),
       w_opt w_str (pgg_fn_finalize x), w_finalize_modify (pgg_const_finalize_modify x),
       w_opt w_str (pgg_fn_combine x), w_opt w_str (pgg_fn_serial x),
       w_opt w_str (pgg_fn_deserial x), w_opt w_str (pgg_const_initial_condition x),
       w_opt w_str (pgg_fn_moving_state x), w_opt w_str (pgg_fn_moving_state_inverse x),
       w_opt (w_used_type tr) (pgg_type_moving_state x),
       w_opt w_str (pgg_fn_moving_finalize x),
       w_finalize_modify (pgg_const_moving_finalize_modify x),
       w_opt w_str (pgg_const_moving_intial_condition x),
       w_opt w_str (pgg_const_sort_operator x), w_parallel_option (pgg_const_parallel x),
       w_bool (pgg_hypothetical x), w_to_sql_config (pgg_to_sql_config x)]"

definition enc_pg_aggregate_fields :: "trait_impls \<Rightarrow> PgAggregate \<Rightarrow> u8 list list" where
  "enc_pg_aggregate_fields tr x =
     [enc_str (pgg_full_path x), enc_str (us_module_path (pgg_site x)),
      enc_str (us_file (pgg_site x)), to_le_bytes (us_line (pgg_site x)), enc_str (pgg_name x),
      enc_bool (pgg_const_ordered_set x), enc_list (enc_aggregate_type tr) (pgg_type_args x),
      enc_opt (enc_list (enc_aggregate_type tr)) (pgg_type_ordered_set_args x),
      enc_aggregate_type tr (pgg_type_stype x), enc_str (pgg_fn_state x),
      enc_opt enc_str (pgg_fn_finalize x),
      enc_opt (\<lambda>m. [finalize_modify_tag m]) (pgg_const_finalize_modify x),
      enc_opt enc_str (pgg_fn_combine x), enc_opt enc_str (pgg_fn_serial x),
      enc_opt enc_str (pgg_fn_deserial x), enc_opt enc_str (pgg_const_initial_condition x),
      enc_opt enc_str (pgg_fn_moving_state x), enc_opt enc_str (pgg_fn_moving_state_inverse x),
      enc_opt (enc_used_type tr) (pgg_type_moving_state x),
      enc_opt enc_str (pgg_fn_moving_finalize x),
      enc_opt (\<lambda>m. [finalize_modify_tag m]) (pgg_const_moving_finalize_modify x),
      enc_opt enc_str (pgg_const_moving_intial_condition x),
      enc_opt enc_str (pgg_const_sort_operator x),
      enc_opt (\<lambda>m. [parallel_option_tag m]) (pgg_const_parallel x),
      enc_bool (pgg_hypothetical x), enc_to_sql_config (pgg_to_sql_config x)]"

definition enc_pg_aggregate :: "trait_impls \<Rightarrow> PgAggregate \<Rightarrow> u8 list" where
  "enc_pg_aggregate tr x = enc_seq ([ENTITY_AGGREGATE] # enc_pg_aggregate_fields tr x)"

definition pg_aggregate_ok :: "trait_impls \<Rightarrow> PgAggregate \<Rightarrow> bool" where
  "pg_aggregate_ok tr x \<longleftrightarrow>
     site_ok (pgg_site x) \<and> str_ok (pgg_full_path x) \<and> str_ok (pgg_name x)
     \<and> list_ok (aggregate_type_ok tr) (pgg_type_args x)
     \<and> opt_ok (list_ok (aggregate_type_ok tr)) (pgg_type_ordered_set_args x)
     \<and> aggregate_type_ok tr (pgg_type_stype x) \<and> str_ok (pgg_fn_state x)
     \<and> list_all (opt_ok str_ok)
         [pgg_fn_finalize x, pgg_fn_combine x, pgg_fn_serial x, pgg_fn_deserial x,
          pgg_const_initial_condition x, pgg_fn_moving_state x, pgg_fn_moving_state_inverse x,
          pgg_fn_moving_finalize x, pgg_const_moving_intial_condition x,
          pgg_const_sort_operator x]
     \<and> opt_ok (used_type_ok tr) (pgg_type_moving_state x)
     \<and> to_sql_config_ok (pgg_to_sql_config x)"

lemmas aggregate_emits = item_emits aggregate_type_c.write_emits aggregate_types_c.write_emits
  opt_aggregate_types_c.write_emits opt_used_type_c.write_emits finalize_modify_c.write_emits
  parallel_option_c.write_emits

lemmas aggregate_lengths = item_lengths aggregate_type_c.enc_length
  aggregate_types_c.enc_length opt_aggregate_types_c.enc_length opt_used_type_c.enc_length
  finalize_modify_c.enc_length parallel_option_c.enc_length

lemmas aggregate_reads = item_reads aggregate_type_c.read_reads aggregate_types_c.read_reads
  opt_aggregate_types_c.read_reads opt_used_type_c.read_reads finalize_modify_c.read_reads
  parallel_option_c.read_reads

interpretation pg_aggregate_c: codec "w_pg_aggregate tr" "enc_pg_aggregate tr"
    "pg_aggregate_payload_len tr" read_entity
    "\<lambda>x. Aggregate (pg_aggregate_entity tr x)" "pg_aggregate_ok tr" for tr
proof
  fix x
  show "emits (w_pg_aggregate tr x) (enc_pg_aggregate tr x)"
    unfolding w_pg_aggregate_def enc_pg_aggregate_def enc_pg_aggregate_fields_def
    by (intro emits_intros aggregate_emits)
  show "length (enc_pg_aggregate tr x) = pg_aggregate_payload_len tr x"
    by (simp add: enc_pg_aggregate_def enc_pg_aggregate_fields_def pg_aggregate_payload_len_def
      enc_len_simps aggregate_lengths)
  assume ok: "pg_aggregate_ok tr x"
  have "reads read_pg_aggregate_entity (enc_seq (enc_pg_aggregate_fields tr x))
      (pg_aggregate_entity tr x)"
    unfolding read_pg_aggregate_entity_def pg_aggregate_entity_def enc_pg_aggregate_fields_def
    using ok [unfolded pg_aggregate_ok_def site_ok_def]
    by - (rule reads_intros aggregate_reads | simp)+
  then show "reads read_entity (enc_pg_aggregate tr x) (Aggregate (pg_aggregate_entity tr x))"
    by (simp add: read_entity_def enc_pg_aggregate_def reads_tagged reads_wrapped)
qed

end
