(* ===== verification/Section_Roundtrip.thy ===== *)
theory Section_Roundtrip
  imports Aggregate_Producer
begin

text \<open>
  The whole schema section. The linker concatenates the static arrays of every macro expansion and
  of the sentinel that each crate carries, in some order, and may pad the end with zero bytes
  (\<open>[u8; N]\<close> has alignment one, so nothing goes between entries). \<open>decode_entities\<close> splits the section
  into payloads, drops the sentinels and decodes the rest.
\<close>

section \<open>Items and their entries\<close>

datatype macro_item =
    MSchema SchemaMacro
  | MSql ExtensionSql
  | MExtern PgExtern
  | MType PostgresTypeDerive
  | MEnum PostgresEnum
  | MOrd PostgresOrd
  | MHash PostgresHash
  | MAggregate PgAggregate
  | MTrigger PgTrigger

fun item_entry :: "trait_impls \<Rightarrow> macro_item \<Rightarrow> u8 list option" where
  "item_entry tr (MSchema x) = schema_entry (schema_payload_len x) (w_schema x)"
| "item_entry tr (MSql x) = schema_entry (extension_sql_payload_len tr x) (w_extension_sql tr x)"
| "item_entry tr (MExtern x) = schema_entry (pg_extern_payload_len tr x) (w_pg_extern tr x)"
| "item_entry tr (MType x) = schema_entry (postgres_type_payload_len x) (w_postgres_type x)"
| "item_entry tr (MEnum x) = schema_entry (postgres_enum_payload_len x) (w_postgres_enum x)"
| "item_entry tr (MOrd x) = schema_entry (postgres_ord_payload_len x) (w_postgres_ord x)"
| "item_entry tr (MHash x) = schema_entry (postgres_hash_payload_len x) (w_postgres_hash x)"
| "item_entry tr (MAggregate x) =
     schema_entry (pg_aggregate_payload_len tr x) (w_pg_aggregate tr x)"
| "item_entry tr (MTrigger x) = schema_entry (pg_trigger_payload_len x) (w_pg_trigger x)"

fun item_payload :: "trait_impls \<Rightarrow> macro_item \<Rightarrow> u8 list" where
  "item_payload tr (MSchema x) = enc_schema x"
| "item_payload tr (MSql x) = enc_extension_sql tr x"
| "item_payload tr (MExtern x) = enc_pg_extern tr x"
| "item_payload tr (MType x) = enc_postgres_type x"
| "item_payload tr (MEnum x) = enc_postgres_enum x"
| "item_payload tr (MOrd x) = enc_postgres_ord x"
| "item_payload tr (MHash x) = enc_postgres_hash x"
| "item_payload tr (MAggregate x) = enc_pg_aggregate tr x"
| "item_payload tr (MTrigger x) = enc_pg_trigger x"

fun item_entity :: "trait_impls \<Rightarrow> macro_item \<Rightarrow> SqlGraphEntity" where
  "item_entity tr (MSchema x) = SqlGraphEntity.Schema (schema_entity x)"
| "item_entity tr (MSql x) = SqlGraphEntity.CustomSql (extension_sql_entity tr x)"
| "item_entity tr (MExtern x) = SqlGraphEntity.Function (pg_extern_entity tr x)"
| "item_entity tr (MType x) = SqlGraphEntity.Type (postgres_type_entity x)"
| "item_entity tr (MEnum x) = SqlGraphEntity.Enum (postgres_enum_entity x)"
| "item_entity tr (MOrd x) = SqlGraphEntity.Ord (postgres_ord_entity x)"
| "item_entity tr (MHash x) = SqlGraphEntity.Hash (postgres_hash_entity x)"
| "item_entity tr (MAggregate x) = SqlGraphEntity.Aggregate (pg_aggregate_entity tr x)"
| "item_entity tr (MTrigger x) = SqlGraphEntity.Trigger (pg_trigger_entity x)"

fun item_strings_ok :: "trait_impls \<Rightarrow> macro_item \<Rightarrow> bool" where
  "item_strings_ok tr (MSchema x) = schema_ok x"
| "item_strings_ok tr (MSql x) = extension_sql_ok tr x"
| "item_strings_ok tr (MExtern x) = pg_extern_ok tr x"
| "item_strings_ok tr (MType x) = postgres_type_ok x"
| "item_strings_ok tr (MEnum x) = postgres_enum_ok x"
| "item_strings_ok tr (MOrd x) = postgres_ord_ok x"
| "item_strings_ok tr (MHash x) = postgres_hash_ok x"
| "item_strings_ok tr (MAggregate x) = pg_aggregate_ok tr x"
| "item_strings_ok tr (MTrigger x) = pg_trigger_ok x"

text \<open>
  An item the format can carry: its strings are valid, its lists and the whole payload fit the
  32-bit counts, and its declared types have a plain SQL name.
\<close>

definition item_ok :: "trait_impls \<Rightarrow> macro_item \<Rightarrow> bool" where
  "item_ok tr i \<longleftrightarrow> item_strings_ok tr i \<and> length (item_payload tr i) < 2 ^ 32"

text \<open>What the linker places in the section: entries of items, and sentinels.\<close>

datatype link_unit = LSentinel | LItem macro_item

fun unit_entry :: "trait_impls \<Rightarrow> link_unit \<Rightarrow> u8 list option" where
  "unit_entry tr LSentinel = schema_section_sentinel_entry"
| "unit_entry tr (LItem i) = item_entry tr i"

fun unit_payload :: "trait_impls \<Rightarrow> link_unit \<Rightarrow> u8 list" where
  "unit_payload tr LSentinel = 0 # enc_str SECTION_SENTINEL_MAGIC"
| "unit_payload tr (LItem i) = item_payload tr i"

fun unit_ok :: "trait_impls \<Rightarrow> link_unit \<Rightarrow> bool" where
  "unit_ok tr LSentinel = True"
| "unit_ok tr (LItem i) = item_ok tr i"

fun unit_items :: "link_unit list \<Rightarrow> macro_item list" where
  "unit_items [] = []"
| "unit_items (LSentinel # us) = unit_items us"
| "unit_items (LItem i # us) = i # unit_items us"

section \<open>Every entry is built and decoded\<close>

lemma item_entry_bytes: "item_entry tr i = Some (enc_entry (item_payload tr i))"
  by (cases i)
     (simp_all add: schema_c.schema_entry_bytes extension_sql_c.schema_entry_bytes
       pg_extern_c.schema_entry_bytes postgres_type_c.schema_entry_bytes
       postgres_enum_c.schema_entry_bytes postgres_ord_c.schema_entry_bytes
       postgres_hash_c.schema_entry_bytes pg_aggregate_c.schema_entry_bytes
       pg_trigger_c.schema_entry_bytes)

lemma sentinel_entry_bytes:
  "schema_section_sentinel_entry = Some (enc_entry (0 # enc_str SECTION_SENTINEL_MAGIC))"
proof -
  let ?p = "0 # enc_str SECTION_SENTINEL_MAGIC"
  have len: "SECTION_SENTINEL_PAYLOAD_LEN = length ?p"
    by (simp add: SECTION_SENTINEL_PAYLOAD_LEN_def enc_len_simps)
  have "emits (w_seq [w_u32 (word_of_nat (length ?p)), w_bytes ?p])
      (enc_seq [to_le_bytes (word_of_nat (length ?p)), ?p])"
    by (intro emits_intros)
  from ew_run_emits [OF this, of SECTION_SENTINEL_ENTRY_LEN] show ?thesis
    unfolding schema_section_sentinel_entry_def sentinel_payload
    by (simp add: len SECTION_SENTINEL_ENTRY_LEN_def enc_len_simps enc_seq_def enc_entry_def)
qed

lemma unit_entry_bytes: "unit_entry tr u = Some (enc_entry (unit_payload tr u))"
  by (cases u) (simp_all add: item_entry_bytes sentinel_entry_bytes)

lemma item_reads_entity:
  "item_strings_ok tr i \<Longrightarrow> reads read_entity (item_payload tr i) (item_entity tr i)"
  by (cases i)
     (simp_all add: schema_c.read_reads extension_sql_c.read_reads pg_extern_c.read_reads
       postgres_type_c.read_reads postgres_enum_c.read_reads postgres_ord_c.read_reads
       postgres_hash_c.read_reads pg_aggregate_c.read_reads pg_trigger_c.read_reads)

lemma decode_entity_reads:
  assumes "reads read_entity bs e"
  shows "decode_entity bs = Inr e"
proof -
  have "read_entity \<lparr>er_bytes = bs, er_pos = 0\<rparr> =
      Inr (e, \<lparr>er_bytes = bs, er_pos = length bs\<rparr>)"
    using assms [unfolded reads_def, rule_format, of "[]" "[]"] by simp
  then show ?thesis
    by (simp add: decode_entity_def r_bind_def er_new_def er_finish_def er_is_empty_def
      r_return_def)
qed

lemma item_payload_tag: "\<exists>t ts. item_payload tr i = t # ts \<and> t \<noteq> 0"
  by (cases i)
     (simp_all add: enc_schema_def enc_extension_sql_def enc_pg_extern_def
       enc_postgres_type_def enc_postgres_enum_def enc_postgres_ord_def enc_postgres_hash_def
       enc_pg_aggregate_def enc_pg_trigger_def enc_seq_def Let_def)

section \<open>Splitting the section\<close>

lemma payload_loop_padding:
  "payload_loop (pre @ replicate k 0)
     \<lparr>er_bytes = pre @ replicate k 0, er_pos = length pre\<rparr> out = Inr out"
proof -
  have zero: "from_le_bytes (replicate 4 0) = 0"
    by (simp add: from_le_bytes_def)
  show ?thesis
    by (subst payload_loop.simps)
       (auto simp: er_is_empty_def er_remaining_def read_u32_def er_slice_def zero list_all_iff)
qed

lemma payload_loop_entry:
  assumes "p \<noteq> []" and "length p < 2 ^ 32"
  shows "payload_loop (pre @ enc_entry p @ rest)
      \<lparr>er_bytes = pre @ enc_entry p @ rest, er_pos = length pre\<rparr> out
    = payload_loop (pre @ enc_entry p @ rest)
      \<lparr>er_bytes = pre @ enc_entry p @ rest, er_pos = length (pre @ enc_entry p)\<rparr> (out @ [p])"
proof -
  let ?n = "word_of_nat (length p) :: u32"
  have n: "unat ?n = length p"
    using assms(2) by (simp add: unat_of_nat)
  then have nz: "?n \<noteq> 0"
    using assms(1) by (metis length_0_conv unat_0)
  have read: "read_u32 \<lparr>er_bytes = pre @ enc_entry p @ rest, er_pos = length pre\<rparr> =
      Inr (?n, \<lparr>er_bytes = pre @ enc_entry p @ rest, er_pos = length pre + 4\<rparr>)"
    by (simp add: read_u32_def er_remaining_def er_slice_def enc_entry_def)
  have len: "length (enc_entry p) = 4 + length p"
    and rest: "drop (length pre + 4) (pre @ enc_entry p @ rest) = p @ rest"
    by (simp_all add: enc_entry_def)
  show ?thesis
    by (subst payload_loop.simps)
       (simp only: er_is_empty_def er_remaining_def read rbind_simps, simp add: n nz len rest
         add.assoc del: drop_append)
qed

lemma payload_loop_entries:
  assumes "\<forall>p \<in> set ps. p \<noteq> [] \<and> length p < 2 ^ 32"
  shows "payload_loop (pre @ concat (map enc_entry ps) @ replicate k 0)
      \<lparr>er_bytes = pre @ concat (map enc_entry ps) @ replicate k 0, er_pos = length pre\<rparr> out
    = Inr (out @ ps)"
  using assms
proof (induction ps arbitrary: pre out)
  case Nil
  show ?case using payload_loop_padding by simp
next
  case (Cons p ps)
  then show ?case
    using payload_loop_entry [of p pre "concat (map enc_entry ps) @ replicate k 0" out]
      Cons.IH [of "pre @ enc_entry p" "out @ [p]"] by simp
qed

lemma entry_payloads_entries:
  assumes "\<forall>p \<in> set ps. p \<noteq> [] \<and> length p < 2 ^ 32"
  shows "entry_payloads (concat (map enc_entry ps) @ replicate k 0) = Inr ps"
  using payload_loop_entries [OF assms, of "[]" k "[]"] by (simp add: entry_payloads_def er_new_def)

section \<open>The round trip\<close>

text \<open>The bytes of the section, when every entry compiles.\<close>

definition linked_section :: "trait_impls \<Rightarrow> link_unit list \<Rightarrow> nat \<Rightarrow> u8 list option" where
  "linked_section tr us pad =
     (if list_all (\<lambda>u. unit_entry tr u \<noteq> None) us
      then Some (concat (map (\<lambda>u. the (unit_entry tr u)) us) @ replicate pad 0)
      else None)"

lemma linked_section_bytes:
  "linked_section tr us pad =
     Some (concat (map enc_entry (map (unit_payload tr) us)) @ replicate pad 0)"
  by (simp add: linked_section_def list_all_iff unit_entry_bytes comp_def)

lemma unit_payload_bounds:
  "unit_ok tr u \<Longrightarrow> unit_payload tr u \<noteq> [] \<and> length (unit_payload tr u) < 2 ^ 32"
proof (cases u)
  case LSentinel
  then show ?thesis
    by (simp add: enc_len_simps SECTION_SENTINEL_MAGIC_def)
next
  case (LItem i)
  moreover assume "unit_ok tr u"
  ultimately show ?thesis
    using item_payload_tag [of tr i] by (auto simp: item_ok_def)
qed

lemma decode_units:
  "list_all (unit_ok tr) us \<Longrightarrow>
   rmap decode_entity
     (filter (\<lambda>p. Some p \<noteq> SECTION_SENTINEL_PAYLOAD) (map (unit_payload tr) us))
   = Inr (map (item_entity tr) (unit_items us))"
proof (induction us rule: unit_items.induct)
  case (3 i us)
  obtain t ts where "item_payload tr i = t # ts" "t \<noteq> 0"
    using item_payload_tag by blast
  then have "Some (item_payload tr i) \<noteq> SECTION_SENTINEL_PAYLOAD"
    by (simp add: sentinel_payload)
  moreover have "decode_entity (item_payload tr i) = Inr (item_entity tr i)"
    using 3 by (intro decode_entity_reads item_reads_entity) (simp add: item_ok_def)
  ultimately show ?case using 3 by simp
qed (simp_all add: sentinel_payload)

lemma linked_section_decodes:
  assumes "list_all (unit_ok tr) us"
  shows "\<exists>bs. linked_section tr us pad = Some bs
    \<and> decode_entities bs = Inr (map (item_entity tr) (unit_items us))"
proof -
  have "entry_payloads (concat (map enc_entry (map (unit_payload tr) us)) @ replicate pad 0)
      = Inr (map (unit_payload tr) us)"
    using assms unit_payload_bounds
    by (intro entry_payloads_entries) (auto simp: list_all_iff simp del: power_numeral)
  then show ?thesis
    using decode_units [OF assms] by (simp add: linked_section_bytes decode_entities_def)
qed

section \<open>What the decoder rejects\<close>

lemma decode_entity_run:
  "decode_entity p = Inr e \<longleftrightarrow>
     (\<exists>r. read_entity (er_new p) = Inr (e, r) \<and> er_is_empty r)"
  by (auto simp: decode_entity_def r_bind_def er_finish_def r_return_def split: sum.splits
      if_splits)

text \<open>A decoded payload stays decodable as a prefix, with the same result.\<close>

lemma read_entity_extends:
  assumes "decode_entity p = Inr e"
  shows "read_entity (er_new (p @ q)) = Inr (e, \<lparr>er_bytes = p @ q, er_pos = length p\<rparr>)"
proof -
  from assms obtain r where run: "read_entity \<lparr>er_bytes = p, er_pos = 0\<rparr> = Inr (e, r)"
    and empty: "er_is_empty r"
    by (auto simp: decode_entity_run er_new_def)
  from bounded_readD [OF bounded_read_entity _ run, of q] obtain j where
    "j \<le> length p" and r: "r = \<lparr>er_bytes = p, er_pos = j\<rparr>"
    and ext: "read_entity \<lparr>er_bytes = p @ q, er_pos = 0\<rparr> =
      Inr (e, \<lparr>er_bytes = p @ q, er_pos = j\<rparr>)"
    by auto
  with empty have "j = length p"
    by (simp add: er_is_empty_def)
  with ext show ?thesis by (simp add: er_new_def)
qed

lemma decode_trailing:
  assumes "decode_entity p = Inr e" and "q \<noteq> []"
  shows "decode_entity (p @ q) = Inl (TrailingBytes (length q))"
  using read_entity_extends [OF assms(1), of q] assms(2)
  by (simp add: decode_entity_def r_bind_def er_finish_def er_is_empty_def er_remaining_def)

text \<open>Hence the encodings are prefix free: a truncated payload never decodes.\<close>

lemma decode_truncated:
  assumes "decode_entity p = Inr e" and "k < length p"
  shows "\<exists>err. decode_entity (take k p) = Inl err"
proof (cases "decode_entity (take k p)")
  case (Inr e')
  have "drop k p \<noteq> []"
    using assms(2) by simp
  from decode_trailing [OF Inr this] assms(1) show ?thesis by simp
qed simp

text \<open>The framing that \<open>entry_payloads\<close> accepts is exactly the one the producers write.\<close>

lemma all_zero_replicate: "list_all (\<lambda>b. b = 0) xs \<Longrightarrow> xs = replicate (length xs) (0 :: u8)"
  by (intro replicate_eqI) (auto simp: list_all_iff)

text \<open>One round of the loop either stops at zero padding or takes one framed payload.\<close>

lemma payload_loop_round:
  assumes run: "payload_loop sect r out = Inr ps" and bytes: "er_bytes r = sect"
  shows "(ps = out \<and> (\<exists>k. drop (er_pos r) sect = replicate k 0))
    \<or> (\<exists>p. p \<noteq> [] \<and> length p < 2 ^ 32 \<and> er_pos r + 4 + length p \<le> length sect
          \<and> drop (er_pos r) sect = enc_entry p @ drop (er_pos r + 4 + length p) sect
          \<and> payload_loop sect (r\<lparr>er_pos := er_pos r + 4 + length p\<rparr>) (out @ [p]) = Inr ps)"
    (is "?stop \<or> ?take")
proof (cases "er_remaining r < 4")
  case True
  then show ?thesis
    using run bytes all_zero_replicate [of "drop (er_pos r) sect"]
    by (subst (asm) payload_loop.simps) (auto simp: er_is_empty_def split: if_splits)
next
  case False
  let ?rest = "drop (er_pos r) sect" and ?tail = "drop (er_pos r + 4) sect"
  define len where "len = from_le_bytes (take 4 ?rest)"
  have read: "read_u32 r = Inr (len, r\<lparr>er_pos := er_pos r + 4\<rparr>)"
    using False bytes by (simp add: read_u32_def er_slice_def len_def)
  have rest: "?rest = to_le_bytes len @ ?tail"
    using append_take_drop_id [of 4 ?rest] False bytes
    by (simp add: len_def to_from_le_bytes er_remaining_def add.commute)
  have ne: "\<not> er_is_empty r"
    using False by (simp add: er_is_empty_def er_remaining_def)
  show ?thesis
  proof (cases "len = 0")
    case True
    then have "list_all (\<lambda>b. b = 0) ?tail \<and> ps = out"
      using run False read ne by (subst (asm) payload_loop.simps) (simp split: if_splits)
    then have "?rest = replicate (4 + length ?tail) 0" and "ps = out"
      using rest True all_zero_replicate [of ?tail]
      by (simp_all add: to_le_bytes_0 replicate_add)
    then show ?thesis by blast
  next
    case nz: False
    let ?p = "take (unat len) ?tail"
    have fits: "unat len \<le> length ?tail"
      and step: "payload_loop sect (r\<lparr>er_pos := er_pos r + 4 + unat len\<rparr>) (out @ [?p]) = Inr ps"
      using run False read ne nz bytes
      by (subst (asm) payload_loop.simps, simp add: er_remaining_def split: if_splits)+
    have p: "length ?p = unat len"
      using fits by simp
    have "unat len \<noteq> 0" and "unat len < 2 ^ 32"
      using nz unsigned_less [of len, where ?'a = nat] by (simp_all add: unat_eq_0)
    moreover from this have "?p \<noteq> []"
      using p by (metis length_0_conv)
    moreover have "?rest = enc_entry ?p @ drop (er_pos r + 4 + unat len) sect"
      unfolding enc_entry_def p using rest append_take_drop_id [of "unat len" ?tail]
      by (simp add: add.commute)
    ultimately have ?take
      using step fits False bytes p by (intro exI [of _ ?p]) (simp add: er_remaining_def)
    then show ?thesis ..
  qed
qed

lemma payload_loop_sound:
  assumes "payload_loop sect r out = Inr ps" and "er_bytes r = sect"
  shows "\<exists>qs k. ps = out @ qs \<and> drop (er_pos r) sect = concat (map enc_entry qs) @ replicate k 0
    \<and> (\<forall>p \<in> set qs. p \<noteq> [] \<and> length p < 2 ^ 32)"
  using assms
proof (induction "length sect - er_pos r" arbitrary: r out rule: less_induct)
  case less
  from payload_loop_round [OF less.prems] show ?case
  proof (elim disjE exE conjE)
    fix k
    assume "ps = out" "drop (er_pos r) sect = replicate k 0"
    then show ?thesis by (intro exI [of _ "[]"]) auto
  next
    fix p :: "u8 list"
    let ?r = "r\<lparr>er_pos := er_pos r + 4 + length p\<rparr>"
    assume p: "p \<noteq> []" "length p < 2 ^ 32" and fits: "er_pos r + 4 + length p \<le> length sect"
      and rest: "drop (er_pos r) sect = enc_entry p @ drop (er_pos r + 4 + length p) sect"
      and run: "payload_loop sect ?r (out @ [p]) = Inr ps"
    have "length sect - er_pos ?r < length sect - er_pos r"
      using fits by simp
    from less.hyps [OF this run] less.prems(2) obtain qs k where
      "ps = (out @ [p]) @ qs" "drop (er_pos ?r) sect = concat (map enc_entry qs) @ replicate k 0"
      "\<forall>p \<in> set qs. p \<noteq> [] \<and> length p < 2 ^ 32"
      by auto
    with p rest show ?thesis
      by (intro exI [of _ "p # qs"] exI [of _ k]) simp
  qed
qed

lemma entry_payloads_iff:
  "entry_payloads sect = Inr ps \<longleftrightarrow>
     (\<exists>k. sect = concat (map enc_entry ps) @ replicate k 0)
     \<and> (\<forall>p \<in> set ps. p \<noteq> [] \<and> length p < 2 ^ 32)"
proof
  assume "entry_payloads sect = Inr ps"
  from payload_loop_sound [OF this [unfolded entry_payloads_def]]
  show "(\<exists>k. sect = concat (map enc_entry ps) @ replicate k 0)
      \<and> (\<forall>p \<in> set ps. p \<noteq> [] \<and> length p < 2 ^ 32)"
    by (auto simp: er_new_def simp del: power_numeral)
next
  assume "(\<exists>k. sect = concat (map enc_entry ps) @ replicate k 0)
      \<and> (\<forall>p \<in> set ps. p \<noteq> [] \<and> length p < 2 ^ 32)"
  then show "entry_payloads sect = Inr ps"
    using entry_payloads_entries by blast
qed

end
