(* ===== verification/Section_Properties.thy ===== *)
theory Section_Properties
  imports Section_Roundtrip
begin

text \<open>
  The properties of the schema section: what the macros write is what the schema generator reads,
  the declared lengths are exact, the framing is unambiguous, and damaged payloads are rejected.
  The example items below are the inputs of the witnesses.
\<close>

section \<open>Example items\<close>

definition ex_site :: use_site where
  "ex_site = \<lparr>us_module_path = ''ext'', us_file = ''lib.rs'', us_line = 7\<rparr>"

definition ex_i32 :: SqlTranslatable where
  "ex_i32 = \<lparr>st_TYPE_IDENT = ''i32'', st_TYPE_ORIGIN = External,
     st_ARGUMENT_SQL = Inr (SqlMappingRef.As ''INT''),
     st_RETURN_SQL = Inr (ReturnsRef.One (SqlMappingRef.As ''INT''))\<rparr>"

definition ex_traits :: trait_impls where
  "ex_traits = (\<lambda>_. ex_i32)"

definition ex_used :: UsedType where
  "ex_used = \<lparr>u_resolved_ty = ''i32'', u_composite_type = None, u_variadic = False, u_default = None,
     u_optional = False\<rparr>"

definition ex_extern :: PgExtern where
  "ex_extern = \<lparr>px_site = ex_site, px_ident = ''inc'', px_attrs = [Attribute.Immutable], px_docs = [],
     px_to_sql_config = \<lparr>tsc_enabled = True, tsc_content = None\<rparr>, px_operator = None, px_cast = None,
     px_search_path = None, px_inputs = [\<lparr>pga_pat = ''x'', pga_used_ty = ex_used\<rparr>],
     px_returns = ReturningType ex_used\<rparr>"

definition ex_schema :: SchemaMacro where
  "ex_schema = \<lparr>sm_site = ex_site, sm_ident = ''s''\<rparr>"

definition ex_units :: "link_unit list" where
  "ex_units = [LSentinel, LItem (MSchema ex_schema), LSentinel, LItem (MExtern ex_extern)]"

lemmas ex_items = ex_units_def ex_schema_def ex_extern_def ex_used_def ex_traits_def ex_i32_def ex_site_def

lemma str_ok_ascii:
  assumes "list_all (\<lambda>c. (of_char c :: nat) < 128) s" and "length s < 2 ^ 32"
  shows "str_ok s"
proof -
  have "b < 128" if "b \<in> set (as_bytes s)" for b
    using that assms(1)
    by (auto simp: as_bytes_def byte_of_char_def list_all_iff word_less_nat_alt unat_of_nat)
  then show ?thesis
    using assms(2) utf8_valid_ascii unfolding str_ok_def by blast
qed

lemma ex_schema_ok: "item_ok ex_traits (MSchema ex_schema)"
  by (simp add: ex_items item_ok_def schema_ok_def site_ok_def str_ok_ascii enc_schema_def enc_len_simps)




section \<open>Properties\<close>



text \<open>
  C2. The length arithmetic of every macro is exact: no entry overruns or underfills its array, which
  would stop the compilation of the crate, and every entry is its little-endian payload length and
  then the payload.
\<close>

theorem entries_fill_their_arrays:
  "item_entry tr i =
     Some (to_le_bytes (word_of_nat (length (item_payload tr i))) @ item_payload tr i)"
  by (simp add: item_entry_bytes enc_entry_def)


text \<open>
  C4. The framing is unambiguous and complete: \<open>entry_payloads\<close> accepts a section exactly when it is a
  sequence of entries with non-empty payloads followed by zero bytes, and returns those payloads.
\<close>

theorem framing_exact:
  "entry_payloads sect = Inr ps \<longleftrightarrow>
     (\<exists>k. sect = concat (map (\<lambda>p. to_le_bytes (word_of_nat (length p)) @ p) ps) @ replicate k 0)
     \<and> list_all (\<lambda>p. 0 < length p \<and> length p < 2 ^ 32) ps"
  using entry_payloads_iff [of sect ps] by (auto simp: enc_entry_def [abs_def] list_all_iff)

text \<open>
  C5. Decoding is prefix free: a payload with bytes appended is rejected with the number of trailing
  bytes, and no proper prefix of a payload decodes.
\<close>

theorem decode_prefix_free:
  assumes "decode_entity p = Inr e" and "q \<noteq> []" and "k < length p"
  shows "decode_entity (p @ q) = Inl (TrailingBytes (length q)) \<and> (\<exists>err. decode_entity (take k p) = Inl err)"
  using decode_trailing [OF assms(1,2)] decode_truncated [OF assms(1,3)] by simp

definition ex_payload :: "u8 list" where
  "ex_payload = item_payload ex_traits (MSchema ex_schema)"

definition ex_payload_entity :: SqlGraphEntity where
  "ex_payload_entity =
     SqlGraphEntity.Schema \<lparr>sc_module_path = ''ext'', sc_name = ''s'', sc_file = ''lib.rs'', sc_line = 7\<rparr>"

lemma ex_payload_decodes: "decode_entity ex_payload = Inr ex_payload_entity"
proof -
  have "reads read_entity ex_payload (item_entity ex_traits (MSchema ex_schema))"
    unfolding ex_payload_def using ex_schema_ok by (intro item_reads_entity) (simp add: item_ok_def)
  from decode_entity_reads [OF this] show ?thesis
    by (simp add: ex_payload_entity_def schema_entity_def ex_items)
qed

lemma ex_payload_length: "length ex_payload = 27"
  by (simp add: ex_payload_def ex_items enc_schema_def enc_len_simps)

theorem decode_prefix_free_witness:
  "decode_entity ex_payload = Inr ex_payload_entity
   \<and> decode_entity (ex_payload @ [0, 0]) = Inl (TrailingBytes 2)
   \<and> (\<exists>err. decode_entity (take 26 ex_payload) = Inl err)"
  using decode_prefix_free [OF ex_payload_decodes, of "[0, 0]" 26] ex_payload_decodes
  by (simp add: ex_payload_length)

text \<open>
  C6. The reader stays inside its buffer: reading an entity from a position inside the buffer leaves
  the buffer as it is and the position between the start and the end.
\<close>

theorem read_entity_in_bounds:
  assumes "i \<le> length bs" and "read_entity \<lparr>er_bytes = bs, er_pos = i\<rparr> = Inr (e, r)"
  shows "er_bytes r = bs \<and> i \<le> er_pos r \<and> er_pos r \<le> length bs"
  using bounded_readD [OF bounded_read_entity assms] by (metis EntryReader.select_convs)

theorem read_entity_in_bounds_witness:
  "read_entity \<lparr>er_bytes = ex_payload @ [9], er_pos = 0\<rparr> =
     Inr (ex_payload_entity, \<lparr>er_bytes = ex_payload @ [9], er_pos = 27\<rparr>)
   \<and> (27::nat) \<le> length (ex_payload @ [9])"
proof -
  have run: "read_entity \<lparr>er_bytes = ex_payload @ [9], er_pos = 0\<rparr> =
      Inr (ex_payload_entity, \<lparr>er_bytes = ex_payload @ [9], er_pos = 27\<rparr>)"
    using read_entity_extends [OF ex_payload_decodes, of "[9]"] by (simp add: er_new_def ex_payload_length)
  with read_entity_in_bounds [OF _ run] show ?thesis by simp
qed

text \<open>A payload whose tag is none of the nine entity tags is rejected with that tag.\<close>

lemma unknown_tag_rejected:
  assumes "9 < tag \<or> tag = 0"
  shows "decode_entity (tag # rest) = Inl (InvalidEntityTag tag)"
proof -
  have "tag \<notin> {1, 2, 3, 4, 5, 6, 7, 8, 9}"
    using assms by auto
  then show ?thesis
    by (simp add: decode_entity_def read_entity_def r_bind_def read_u8_def er_new_def er_remaining_def
        r_err_def)
qed

text \<open>
  A type named by \<open>creates = [Type(..)]\<close> whose mapping is plain SQL: the two ways to build the
  declaration agree when the type belongs to the extension, and for an external type
  \<open>SqlDeclaredEntity::build_type\<close> refuses what the section reader accepts.
\<close>

lemma declared_type_paths:
  assumes "sql_declared_ok tr site (SqlDeclared.Type s)"
  defines "d \<equiv> SqlDeclared.Type s"
  shows "decl_build_type DeclType (tr s) (section_identifier site d) =
      (if st_TYPE_ORIGIN (tr s) = ThisExtension then Inr (sql_declared_entity tr site d)
       else Inl NotExtensionOwned)
    \<and> read_sql_declared (er_new (enc_sql_declared tr site d)) =
        Inr (sql_declared_entity tr site d,
          \<lparr>er_bytes = enc_sql_declared tr site d, er_pos = length (enc_sql_declared tr site d)\<rparr>)"
proof
  have plain: "has_plain_sql (st_ARGUMENT_SQL (tr s))"
    using assms(1) by (simp add: Let_def)
  show "decl_build_type DeclType (tr s) (section_identifier site d) =
      (if st_TYPE_ORIGIN (tr s) = ThisExtension then Inr (sql_declared_entity tr site d)
       else Inl NotExtensionOwned)"
    using has_plain_sql_mapping [OF plain]
    by (cases "st_TYPE_ORIGIN (tr s)")
      (simp_all add: d_def decl_build_type_def st_argument_sql_def declared_type_data_def Let_def)
  have "reads read_sql_declared (enc_sql_declared tr site d) (sql_declared_entity tr site d)"
    unfolding d_def by (rule sql_declared_c.read_reads [OF assms(1)])
  from this [unfolded reads_def, rule_format, of "[]" "[]"]
  show "read_sql_declared (er_new (enc_sql_declared tr site d)) =
        Inr (sql_declared_entity tr site d,
          \<lparr>er_bytes = enc_sql_declared tr site d, er_pos = length (enc_sql_declared tr site d)\<rparr>)"
    by (simp add: er_new_def)
qed

end
