(* ===== verification/Entity_Order.thy ===== *)
theory Entity_Order
  imports Entities "HOL-Library.List_Lexorder"
begin

text \<open>
  The derived \<open>Ord\<close> of the entities, which fixes the order in which \<open>PgrxSql::build\<close> adds nodes
  (\<open>entities.sort()\<close>). A derived order compares structs field by field, enums by variant and then by
  content, strings and vectors lexicographically, \<open>None\<close> below \<open>Some\<close> and \<open>Ok\<close> below \<open>Err\<close>. Here
  every value is encoded as a list of numbers, self-delimiting, so that the lexicographic order of
  the encodings is that order, and sorting is \<open>sort_key\<close>. Being self-delimiting also makes the
  encoding injective: equal keys mean equal entities, so sorting depends only on the multiset of
  entities.
\<close>

type_synonym okey = "nat list"

definition k_nat :: "nat \<Rightarrow> okey" where
  "k_nat n = [n]"

definition k_u32 :: "u32 \<Rightarrow> okey" where
  "k_u32 w = [unat w]"

definition k_bool :: "bool \<Rightarrow> okey" where
  "k_bool b = [if b then 1 else 0]"

definition k_opt :: "('a \<Rightarrow> okey) \<Rightarrow> 'a option \<Rightarrow> okey" where
  "k_opt k x = (case x of None \<Rightarrow> [0] | Some y \<Rightarrow> 1 # k y)"

definition k_res :: "('e \<Rightarrow> okey) \<Rightarrow> ('a \<Rightarrow> okey) \<Rightarrow> 'e + 'a \<Rightarrow> okey" where
  "k_res ke ka r = (case r of Inr a \<Rightarrow> 0 # ka a | Inl e \<Rightarrow> 1 # ke e)"

fun k_list :: "('a \<Rightarrow> okey) \<Rightarrow> 'a list \<Rightarrow> okey" where
  "k_list k [] = [0]"
| "k_list k (x # xs) = 1 # k x @ k_list k xs"

definition k_char :: "char \<Rightarrow> okey" where
  "k_char c = [of_char c]"

definition k_str :: "string \<Rightarrow> okey" where
  "k_str s = k_list k_char s"

definition prefix_code :: "('a \<Rightarrow> okey) \<Rightarrow> bool" where
  "prefix_code k \<longleftrightarrow> (\<forall>x y r s. k x @ r = k y @ s \<longrightarrow> x = y \<and> r = s)"

lemma prefix_codeI:
  "(\<And>x y r s. k x @ r = k y @ s \<Longrightarrow> x = y \<and> r = s) \<Longrightarrow> prefix_code k"
  unfolding prefix_code_def by (intro allI impI)

lemma prefix_codeD:
  assumes "prefix_code k"
  shows "k x @ r = k y @ s \<longleftrightarrow> x = y \<and> r = s"
  using assms [unfolded prefix_code_def, rule_format, of x r y s] by (intro iffI) simp_all

lemma prefix_code_inj: "prefix_code k \<Longrightarrow> inj k"
proof (rule injI)
  fix x y
  assume "prefix_code k" and "k x = k y"
  then show "x = y"
    using prefix_codeD [of k x "[]" y "[]"] by simp
qed

lemma prefix_basic:
  "prefix_code k_nat" "prefix_code k_u32" "prefix_code k_bool" "prefix_code k_char"
  by (auto simp: prefix_code_def k_nat_def k_u32_def k_bool_def k_char_def
      intro: word_unat_eq_iff [THEN iffD2] split: if_splits)

lemma prefix_opt: "prefix_code k \<Longrightarrow> prefix_code (k_opt k)"
  by (rule prefix_codeI) (simp add: k_opt_def prefix_codeD split: option.splits)

lemma prefix_res: "prefix_code ke \<Longrightarrow> prefix_code ka \<Longrightarrow> prefix_code (k_res ke ka)"
  by (rule prefix_codeI) (simp add: k_res_def prefix_codeD split: sum.splits)

lemma prefix_list:
  assumes "prefix_code k"
  shows "prefix_code (k_list k)"
proof -
  have "xs = ys \<and> r = s" if "k_list k xs @ r = k_list k ys @ s" for xs ys r s
    using that
  proof (induction xs arbitrary: ys)
    case Nil
    then show ?case by (cases ys) auto
  next
    case (Cons x xs)
    then show ?case by (cases ys) (auto simp: prefix_codeD [OF assms])
  qed
  then show ?thesis by (rule prefix_codeI)
qed

lemma prefix_str: "prefix_code k_str"
  using prefix_list [OF prefix_basic(4)] by (simp add: prefix_code_def k_str_def)

lemmas prefix_shapes = prefix_basic prefix_str prefix_opt prefix_res prefix_list

section \<open>Enums\<close>

fun k_TypeOrigin :: "TypeOrigin \<Rightarrow> okey" where
  "k_TypeOrigin ThisExtension = [0]"
| "k_TypeOrigin External = [1]"

lemma prefix_TypeOrigin: "prefix_code k_TypeOrigin"
proof -
  note codes = refl
  have "x = y \<and> r = s" if "k_TypeOrigin x @ r = k_TypeOrigin y @ s" for x y r s
    using that by (cases x; cases y; simp add: codes)
  then show ?thesis by (rule prefix_codeI)
qed

fun k_ArgumentError :: "ArgumentError \<Rightarrow> okey" where
  "k_ArgumentError ArgumentError.SetOf = [0]"
| "k_ArgumentError ArgumentError.Table = [1]"
| "k_ArgumentError ArgumentError.NestedArray = [2]"
| "k_ArgumentError ArgumentError.BareU8 = [3]"
| "k_ArgumentError ArgumentError.SkipInArray = [4]"
| "k_ArgumentError ArgumentError.Datum = [5]"
| "k_ArgumentError (ArgumentError.NotValidAsArgument v0) = 6 # k_str v0"

lemma prefix_ArgumentError: "prefix_code k_ArgumentError"
proof -
  note codes = prefix_codeD [OF prefix_str]
  have "x = y \<and> r = s" if "k_ArgumentError x @ r = k_ArgumentError y @ s" for x y r s
    using that by (cases x; cases y; simp add: codes)
  then show ?thesis by (rule prefix_codeI)
qed

fun k_ReturnsError :: "ReturnsError \<Rightarrow> okey" where
  "k_ReturnsError ReturnsError.NestedSetOf = [0]"
| "k_ReturnsError ReturnsError.NestedTable = [1]"
| "k_ReturnsError ReturnsError.NestedArray = [2]"
| "k_ReturnsError ReturnsError.SetOfContainingTable = [3]"
| "k_ReturnsError ReturnsError.TableContainingSetOf = [4]"
| "k_ReturnsError ReturnsError.SetOfInArray = [5]"
| "k_ReturnsError ReturnsError.TableInArray = [6]"
| "k_ReturnsError ReturnsError.BareU8 = [7]"
| "k_ReturnsError ReturnsError.SkipInArray = [8]"
| "k_ReturnsError ReturnsError.Datum = [9]"

lemma prefix_ReturnsError: "prefix_code k_ReturnsError"
proof -
  note codes = refl
  have "x = y \<and> r = s" if "k_ReturnsError x @ r = k_ReturnsError y @ s" for x y r s
    using that by (cases x; cases y; simp add: codes)
  then show ?thesis by (rule prefix_codeI)
qed

fun k_SqlArrayMapping :: "SqlArrayMapping \<Rightarrow> okey" where
  "k_SqlArrayMapping (SqlArrayMapping.As v0) = 0 # k_str v0"
| "k_SqlArrayMapping SqlArrayMapping.Composite = [1]"

lemma prefix_SqlArrayMapping: "prefix_code k_SqlArrayMapping"
proof -
  note codes = prefix_codeD [OF prefix_str]
  have "x = y \<and> r = s" if "k_SqlArrayMapping x @ r = k_SqlArrayMapping y @ s" for x y r s
    using that by (cases x; cases y; simp add: codes)
  then show ?thesis by (rule prefix_codeI)
qed

fun k_SqlMapping :: "SqlMapping \<Rightarrow> okey" where
  "k_SqlMapping (SqlMapping.As v0) = 0 # k_str v0"
| "k_SqlMapping SqlMapping.Composite = [1]"
| "k_SqlMapping (SqlMapping.Array v0) = 2 # k_SqlArrayMapping v0"
| "k_SqlMapping SqlMapping.Skip = [3]"

lemma prefix_SqlMapping: "prefix_code k_SqlMapping"
proof -
  note codes = prefix_codeD [OF prefix_str]
    prefix_codeD [OF prefix_SqlArrayMapping]
  have "x = y \<and> r = s" if "k_SqlMapping x @ r = k_SqlMapping y @ s" for x y r s
    using that by (cases x; cases y; simp add: codes)
  then show ?thesis by (rule prefix_codeI)
qed

fun k_Returns :: "Returns \<Rightarrow> okey" where
  "k_Returns (Returns.One v0) = 0 # k_SqlMapping v0"
| "k_Returns (Returns.SetOf v0) = 1 # k_SqlMapping v0"
| "k_Returns (Returns.Table v0) = 2 # k_list k_SqlMapping v0"

lemma prefix_Returns: "prefix_code k_Returns"
proof -
  note codes = prefix_codeD [OF prefix_SqlMapping]
    prefix_codeD [OF prefix_list [OF prefix_SqlMapping]]
  have "x = y \<and> r = s" if "k_Returns x @ r = k_Returns y @ s" for x y r s
    using that by (cases x; cases y; simp add: codes)
  then show ?thesis by (rule prefix_codeI)
qed

fun k_PositioningRef :: "PositioningRef \<Rightarrow> okey" where
  "k_PositioningRef (PositioningRef.FullPath v0) = 0 # k_str v0"
| "k_PositioningRef (PositioningRef.Name v0) = 1 # k_str v0"

lemma prefix_PositioningRef: "prefix_code k_PositioningRef"
proof -
  note codes = prefix_codeD [OF prefix_str]
  have "x = y \<and> r = s" if "k_PositioningRef x @ r = k_PositioningRef y @ s" for x y r s
    using that by (cases x; cases y; simp add: codes)
  then show ?thesis by (rule prefix_codeI)
qed

fun k_ExternArgs :: "ExternArgs \<Rightarrow> okey" where
  "k_ExternArgs CreateOrReplace = [0]"
| "k_ExternArgs Immutable = [1]"
| "k_ExternArgs Strict = [2]"
| "k_ExternArgs Stable = [3]"
| "k_ExternArgs Volatile = [4]"
| "k_ExternArgs Raw = [5]"
| "k_ExternArgs NoGuard = [6]"
| "k_ExternArgs SecurityDefiner = [7]"
| "k_ExternArgs SecurityInvoker = [8]"
| "k_ExternArgs ParallelSafe = [9]"
| "k_ExternArgs ParallelUnsafe = [10]"
| "k_ExternArgs ParallelRestricted = [11]"
| "k_ExternArgs (ShouldPanic v0) = 12 # k_str v0"
| "k_ExternArgs (ExternArgs.Schema v0) = 13 # k_str v0"
| "k_ExternArgs (Support v0) = 14 # k_PositioningRef v0"
| "k_ExternArgs (ExternArgs.Name v0) = 15 # k_str v0"
| "k_ExternArgs (Cost v0) = 16 # k_str v0"
| "k_ExternArgs (Requires v0) = 17 # k_list k_PositioningRef v0"

lemma prefix_ExternArgs: "prefix_code k_ExternArgs"
proof -
  note codes = prefix_codeD [OF prefix_str]
    prefix_codeD [OF prefix_PositioningRef]
    prefix_codeD [OF prefix_list [OF prefix_PositioningRef]]
  have "x = y \<and> r = s" if "k_ExternArgs x @ r = k_ExternArgs y @ s" for x y r s
    using that by (cases x; cases y; simp add: codes)
  then show ?thesis by (rule prefix_codeI)
qed

fun k_PgCastEntity :: "PgCastEntity \<Rightarrow> okey" where
  "k_PgCastEntity CastDefault = [0]"
| "k_PgCastEntity CastAssignment = [1]"
| "k_PgCastEntity CastImplicit = [2]"

lemma prefix_PgCastEntity: "prefix_code k_PgCastEntity"
proof -
  note codes = refl
  have "x = y \<and> r = s" if "k_PgCastEntity x @ r = k_PgCastEntity y @ s" for x y r s
    using that by (cases x; cases y; simp add: codes)
  then show ?thesis by (rule prefix_codeI)
qed

fun k_ParallelOption :: "ParallelOption \<Rightarrow> okey" where
  "k_ParallelOption Safe = [0]"
| "k_ParallelOption Restricted = [1]"
| "k_ParallelOption Unsafe = [2]"

lemma prefix_ParallelOption: "prefix_code k_ParallelOption"
proof -
  note codes = refl
  have "x = y \<and> r = s" if "k_ParallelOption x @ r = k_ParallelOption y @ s" for x y r s
    using that by (cases x; cases y; simp add: codes)
  then show ?thesis by (rule prefix_codeI)
qed

fun k_FinalizeModify :: "FinalizeModify \<Rightarrow> okey" where
  "k_FinalizeModify ReadOnly = [0]"
| "k_FinalizeModify Shareable = [1]"
| "k_FinalizeModify ReadWrite = [2]"

lemma prefix_FinalizeModify: "prefix_code k_FinalizeModify"
proof -
  note codes = refl
  have "x = y \<and> r = s" if "k_FinalizeModify x @ r = k_FinalizeModify y @ s" for x y r s
    using that by (cases x; cases y; simp add: codes)
  then show ?thesis by (rule prefix_codeI)
qed

section \<open>Structs\<close>

definition k_FunctionMetadataTypeResolutionEntity :: "FunctionMetadataTypeResolutionEntity \<Rightarrow> okey" where
  "k_FunctionMetadataTypeResolutionEntity x =
     k_str (re_type_ident x)
     @ k_TypeOrigin (re_type_origin x)"

lemma prefix_FunctionMetadataTypeResolutionEntity: "prefix_code k_FunctionMetadataTypeResolutionEntity"
proof -
  note codes = prefix_codeD [OF prefix_str]
    prefix_codeD [OF prefix_TypeOrigin]
  have "x = y \<and> r = s" if "k_FunctionMetadataTypeResolutionEntity x @ r = k_FunctionMetadataTypeResolutionEntity y @ s" for x y :: FunctionMetadataTypeResolutionEntity and r s
    using that unfolding k_FunctionMetadataTypeResolutionEntity_def append_assoc codes
    by (auto intro: FunctionMetadataTypeResolutionEntity.equality)
  then show ?thesis by (rule prefix_codeI)
qed

definition k_FunctionMetadataTypeEntity :: "FunctionMetadataTypeEntity \<Rightarrow> okey" where
  "k_FunctionMetadataTypeEntity x =
     (k_opt k_FunctionMetadataTypeResolutionEntity) (md_resolution x)
     @ (k_res k_ArgumentError k_SqlMapping) (md_argument_sql x)
     @ (k_res k_ReturnsError k_Returns) (md_return_sql x)"

lemma prefix_FunctionMetadataTypeEntity: "prefix_code k_FunctionMetadataTypeEntity"
proof -
  note codes = prefix_codeD [OF prefix_opt [OF prefix_FunctionMetadataTypeResolutionEntity]]
    prefix_codeD [OF prefix_res [OF prefix_ArgumentError prefix_SqlMapping]]
    prefix_codeD [OF prefix_res [OF prefix_ReturnsError prefix_Returns]]
  have "x = y \<and> r = s" if "k_FunctionMetadataTypeEntity x @ r = k_FunctionMetadataTypeEntity y @ s" for x y :: FunctionMetadataTypeEntity and r s
    using that unfolding k_FunctionMetadataTypeEntity_def append_assoc codes
    by (auto intro: FunctionMetadataTypeEntity.equality)
  then show ?thesis by (rule prefix_codeI)
qed

definition k_ToSqlConfigEntity :: "ToSqlConfigEntity \<Rightarrow> okey" where
  "k_ToSqlConfigEntity x =
     k_bool (tsc_enabled x)
     @ (k_opt k_str) (tsc_content x)"

lemma prefix_ToSqlConfigEntity: "prefix_code k_ToSqlConfigEntity"
proof -
  note codes = prefix_codeD [OF prefix_basic(3)]
    prefix_codeD [OF prefix_opt [OF prefix_str]]
  have "x = y \<and> r = s" if "k_ToSqlConfigEntity x @ r = k_ToSqlConfigEntity y @ s" for x y :: ToSqlConfigEntity and r s
    using that unfolding k_ToSqlConfigEntity_def append_assoc codes
    by (auto intro: ToSqlConfigEntity.equality)
  then show ?thesis by (rule prefix_codeI)
qed

definition k_UsedTypeEntity :: "UsedTypeEntity \<Rightarrow> okey" where
  "k_UsedTypeEntity x =
     k_str (ut_ty_source x)
     @ k_str (ut_full_path x)
     @ (k_opt k_str) (ut_composite_type x)
     @ k_bool (ut_variadic x)
     @ (k_opt k_str) (ut_default x)
     @ k_bool (ut_optional x)
     @ k_FunctionMetadataTypeEntity (ut_metadata x)"

lemma prefix_UsedTypeEntity: "prefix_code k_UsedTypeEntity"
proof -
  note codes = prefix_codeD [OF prefix_str]
    prefix_codeD [OF prefix_opt [OF prefix_str]]
    prefix_codeD [OF prefix_basic(3)]
    prefix_codeD [OF prefix_FunctionMetadataTypeEntity]
  have "x = y \<and> r = s" if "k_UsedTypeEntity x @ r = k_UsedTypeEntity y @ s" for x y :: UsedTypeEntity and r s
    using that unfolding k_UsedTypeEntity_def append_assoc codes
    by (auto intro: UsedTypeEntity.equality)
  then show ?thesis by (rule prefix_codeI)
qed

definition k_PgExternArgumentEntity :: "PgExternArgumentEntity \<Rightarrow> okey" where
  "k_PgExternArgumentEntity x =
     k_str (pa_pattern x)
     @ k_UsedTypeEntity (pa_used_ty x)"

lemma prefix_PgExternArgumentEntity: "prefix_code k_PgExternArgumentEntity"
proof -
  note codes = prefix_codeD [OF prefix_str]
    prefix_codeD [OF prefix_UsedTypeEntity]
  have "x = y \<and> r = s" if "k_PgExternArgumentEntity x @ r = k_PgExternArgumentEntity y @ s" for x y :: PgExternArgumentEntity and r s
    using that unfolding k_PgExternArgumentEntity_def append_assoc codes
    by (auto intro: PgExternArgumentEntity.equality)
  then show ?thesis by (rule prefix_codeI)
qed

definition k_PgExternReturnEntityIteratedItem :: "PgExternReturnEntityIteratedItem \<Rightarrow> okey" where
  "k_PgExternReturnEntityIteratedItem x =
     k_UsedTypeEntity (ri_ty x)
     @ (k_opt k_str) (ri_name x)"

lemma prefix_PgExternReturnEntityIteratedItem: "prefix_code k_PgExternReturnEntityIteratedItem"
proof -
  note codes = prefix_codeD [OF prefix_UsedTypeEntity]
    prefix_codeD [OF prefix_opt [OF prefix_str]]
  have "x = y \<and> r = s" if "k_PgExternReturnEntityIteratedItem x @ r = k_PgExternReturnEntityIteratedItem y @ s" for x y :: PgExternReturnEntityIteratedItem and r s
    using that unfolding k_PgExternReturnEntityIteratedItem_def append_assoc codes
    by (auto intro: PgExternReturnEntityIteratedItem.equality)
  then show ?thesis by (rule prefix_codeI)
qed

fun k_PgExternReturnEntity :: "PgExternReturnEntity \<Rightarrow> okey" where
  "k_PgExternReturnEntity RetNone = [0]"
| "k_PgExternReturnEntity (RetType v0) = 1 # k_UsedTypeEntity v0"
| "k_PgExternReturnEntity (RetSetOf v0) = 2 # k_UsedTypeEntity v0"
| "k_PgExternReturnEntity (RetIterated v0) = 3 # k_list k_PgExternReturnEntityIteratedItem v0"
| "k_PgExternReturnEntity RetTrigger = [4]"

lemma prefix_PgExternReturnEntity: "prefix_code k_PgExternReturnEntity"
proof -
  note codes = prefix_codeD [OF prefix_UsedTypeEntity]
    prefix_codeD [OF prefix_list [OF prefix_PgExternReturnEntityIteratedItem]]
  have "x = y \<and> r = s" if "k_PgExternReturnEntity x @ r = k_PgExternReturnEntity y @ s" for x y r s
    using that by (cases x; cases y; simp add: codes)
  then show ?thesis by (rule prefix_codeI)
qed

definition k_PgOperatorEntity :: "PgOperatorEntity \<Rightarrow> okey" where
  "k_PgOperatorEntity x =
     (k_opt k_str) (op_opname x)
     @ (k_opt k_str) (op_commutator x)
     @ (k_opt k_str) (op_negator x)
     @ (k_opt k_str) (op_restrict x)
     @ (k_opt k_str) (op_join x)
     @ k_bool (op_hashes x)
     @ k_bool (op_merges x)"

lemma prefix_PgOperatorEntity: "prefix_code k_PgOperatorEntity"
proof -
  note codes = prefix_codeD [OF prefix_opt [OF prefix_str]]
    prefix_codeD [OF prefix_basic(3)]
  have "x = y \<and> r = s" if "k_PgOperatorEntity x @ r = k_PgOperatorEntity y @ s" for x y :: PgOperatorEntity and r s
    using that unfolding k_PgOperatorEntity_def append_assoc codes
    by (auto intro: PgOperatorEntity.equality)
  then show ?thesis by (rule prefix_codeI)
qed

definition k_SqlDeclaredTypeEntityData :: "SqlDeclaredTypeEntityData \<Rightarrow> okey" where
  "k_SqlDeclaredTypeEntityData x =
     k_str (dt_sql x)
     @ k_str (dt_name x)
     @ k_str (dt_type_ident x)"

lemma prefix_SqlDeclaredTypeEntityData: "prefix_code k_SqlDeclaredTypeEntityData"
proof -
  note codes = prefix_codeD [OF prefix_str]
  have "x = y \<and> r = s" if "k_SqlDeclaredTypeEntityData x @ r = k_SqlDeclaredTypeEntityData y @ s" for x y :: SqlDeclaredTypeEntityData and r s
    using that unfolding k_SqlDeclaredTypeEntityData_def append_assoc codes
    by (auto intro: SqlDeclaredTypeEntityData.equality)
  then show ?thesis by (rule prefix_codeI)
qed

definition k_SqlDeclaredFunctionEntityData :: "SqlDeclaredFunctionEntityData \<Rightarrow> okey" where
  "k_SqlDeclaredFunctionEntityData x =
     k_str (df_sql x)
     @ k_str (df_name x)"

lemma prefix_SqlDeclaredFunctionEntityData: "prefix_code k_SqlDeclaredFunctionEntityData"
proof -
  note codes = prefix_codeD [OF prefix_str]
  have "x = y \<and> r = s" if "k_SqlDeclaredFunctionEntityData x @ r = k_SqlDeclaredFunctionEntityData y @ s" for x y :: SqlDeclaredFunctionEntityData and r s
    using that unfolding k_SqlDeclaredFunctionEntityData_def append_assoc codes
    by (auto intro: SqlDeclaredFunctionEntityData.equality)
  then show ?thesis by (rule prefix_codeI)
qed

fun k_SqlDeclaredEntity :: "SqlDeclaredEntity \<Rightarrow> okey" where
  "k_SqlDeclaredEntity (DeclType v0) = 0 # k_SqlDeclaredTypeEntityData v0"
| "k_SqlDeclaredEntity (DeclEnum v0) = 1 # k_SqlDeclaredTypeEntityData v0"
| "k_SqlDeclaredEntity (DeclFunction v0) = 2 # k_SqlDeclaredFunctionEntityData v0"

lemma prefix_SqlDeclaredEntity: "prefix_code k_SqlDeclaredEntity"
proof -
  note codes = prefix_codeD [OF prefix_SqlDeclaredTypeEntityData]
    prefix_codeD [OF prefix_SqlDeclaredFunctionEntityData]
  have "x = y \<and> r = s" if "k_SqlDeclaredEntity x @ r = k_SqlDeclaredEntity y @ s" for x y r s
    using that by (cases x; cases y; simp add: codes)
  then show ?thesis by (rule prefix_codeI)
qed

definition k_AggregateTypeEntity :: "AggregateTypeEntity \<Rightarrow> okey" where
  "k_AggregateTypeEntity x =
     k_UsedTypeEntity (at_used_ty x)
     @ (k_opt k_str) (at_name x)"

lemma prefix_AggregateTypeEntity: "prefix_code k_AggregateTypeEntity"
proof -
  note codes = prefix_codeD [OF prefix_UsedTypeEntity]
    prefix_codeD [OF prefix_opt [OF prefix_str]]
  have "x = y \<and> r = s" if "k_AggregateTypeEntity x @ r = k_AggregateTypeEntity y @ s" for x y :: AggregateTypeEntity and r s
    using that unfolding k_AggregateTypeEntity_def append_assoc codes
    by (auto intro: AggregateTypeEntity.equality)
  then show ?thesis by (rule prefix_codeI)
qed

definition k_ControlFile :: "ControlFile \<Rightarrow> okey" where
  "k_ControlFile x =
     k_str (cf_comment x)
     @ k_str (cf_default_version x)
     @ (k_opt k_str) (cf_module_pathname x)
     @ k_bool (cf_relocatable x)
     @ k_bool (cf_superuser x)
     @ (k_opt k_str) (cf_schema x)
     @ k_bool (cf_trusted x)"

lemma prefix_ControlFile: "prefix_code k_ControlFile"
proof -
  note codes = prefix_codeD [OF prefix_str]
    prefix_codeD [OF prefix_opt [OF prefix_str]]
    prefix_codeD [OF prefix_basic(3)]
  have "x = y \<and> r = s" if "k_ControlFile x @ r = k_ControlFile y @ s" for x y :: ControlFile and r s
    using that unfolding k_ControlFile_def append_assoc codes
    by (auto intro: ControlFile.equality)
  then show ?thesis by (rule prefix_codeI)
qed

definition k_SchemaEntity :: "SchemaEntity \<Rightarrow> okey" where
  "k_SchemaEntity x =
     k_str (sc_module_path x)
     @ k_str (sc_name x)
     @ k_str (sc_file x)
     @ k_u32 (sc_line x)"

lemma prefix_SchemaEntity: "prefix_code k_SchemaEntity"
proof -
  note codes = prefix_codeD [OF prefix_str]
    prefix_codeD [OF prefix_basic(2)]
  have "x = y \<and> r = s" if "k_SchemaEntity x @ r = k_SchemaEntity y @ s" for x y :: SchemaEntity and r s
    using that unfolding k_SchemaEntity_def append_assoc codes
    by (auto intro: SchemaEntity.equality)
  then show ?thesis by (rule prefix_codeI)
qed

definition k_ExtensionSqlEntity :: "ExtensionSqlEntity \<Rightarrow> okey" where
  "k_ExtensionSqlEntity x =
     k_str (es_module_path x)
     @ k_str (es_full_path x)
     @ k_str (es_sql x)
     @ k_str (es_file x)
     @ k_u32 (es_line x)
     @ k_str (es_name x)
     @ k_bool (es_bootstrap x)
     @ k_bool (es_finalize x)
     @ (k_list k_PositioningRef) (es_requires x)
     @ (k_list k_SqlDeclaredEntity) (es_creates x)"

lemma prefix_ExtensionSqlEntity: "prefix_code k_ExtensionSqlEntity"
proof -
  note codes = prefix_codeD [OF prefix_str]
    prefix_codeD [OF prefix_basic(2)]
    prefix_codeD [OF prefix_basic(3)]
    prefix_codeD [OF prefix_list [OF prefix_PositioningRef]]
    prefix_codeD [OF prefix_list [OF prefix_SqlDeclaredEntity]]
  have "x = y \<and> r = s" if "k_ExtensionSqlEntity x @ r = k_ExtensionSqlEntity y @ s" for x y :: ExtensionSqlEntity and r s
    using that unfolding k_ExtensionSqlEntity_def append_assoc codes
    by (auto intro: ExtensionSqlEntity.equality)
  then show ?thesis by (rule prefix_codeI)
qed

definition k_PgExternEntity :: "PgExternEntity \<Rightarrow> okey" where
  "k_PgExternEntity x =
     k_str (pe_name x)
     @ k_str (pe_unaliased_name x)
     @ k_str (pe_module_path x)
     @ k_str (pe_full_path x)
     @ (k_list k_PgExternArgumentEntity) (pe_fn_args x)
     @ k_PgExternReturnEntity (pe_fn_return x)
     @ (k_opt k_str) (pe_schema x)
     @ k_str (pe_file x)
     @ k_u32 (pe_line x)
     @ (k_list k_ExternArgs) (pe_extern_attrs x)
     @ (k_opt (k_list k_str)) (pe_search_path x)
     @ (k_opt k_PgOperatorEntity) (pe_operator x)
     @ (k_opt k_PgCastEntity) (pe_cast x)
     @ k_ToSqlConfigEntity (pe_to_sql_config x)"

lemma prefix_PgExternEntity: "prefix_code k_PgExternEntity"
proof -
  note codes = prefix_codeD [OF prefix_str]
    prefix_codeD [OF prefix_list [OF prefix_PgExternArgumentEntity]]
    prefix_codeD [OF prefix_PgExternReturnEntity]
    prefix_codeD [OF prefix_opt [OF prefix_str]]
    prefix_codeD [OF prefix_basic(2)]
    prefix_codeD [OF prefix_list [OF prefix_ExternArgs]]
    prefix_codeD [OF prefix_opt [OF prefix_list [OF prefix_str]]]
    prefix_codeD [OF prefix_opt [OF prefix_PgOperatorEntity]]
    prefix_codeD [OF prefix_opt [OF prefix_PgCastEntity]]
    prefix_codeD [OF prefix_ToSqlConfigEntity]
  have "x = y \<and> r = s" if "k_PgExternEntity x @ r = k_PgExternEntity y @ s" for x y :: PgExternEntity and r s
    using that unfolding k_PgExternEntity_def append_assoc codes
    by (auto intro: PgExternEntity.equality)
  then show ?thesis by (rule prefix_codeI)
qed

definition k_PostgresTypeEntity :: "PostgresTypeEntity \<Rightarrow> okey" where
  "k_PostgresTypeEntity x =
     k_str (ty_name x)
     @ k_str (ty_file x)
     @ k_u32 (ty_line x)
     @ k_str (ty_full_path x)
     @ k_str (ty_module_path x)
     @ k_str (ty_type_ident x)
     @ k_str (ty_in_fn_path x)
     @ k_str (ty_out_fn_path x)
     @ (k_opt k_str) (ty_receive_fn_path x)
     @ (k_opt k_str) (ty_send_fn_path x)
     @ k_ToSqlConfigEntity (ty_to_sql_config x)
     @ (k_opt k_nat) (ty_alignment x)"

lemma prefix_PostgresTypeEntity: "prefix_code k_PostgresTypeEntity"
proof -
  note codes = prefix_codeD [OF prefix_str]
    prefix_codeD [OF prefix_basic(2)]
    prefix_codeD [OF prefix_opt [OF prefix_str]]
    prefix_codeD [OF prefix_ToSqlConfigEntity]
    prefix_codeD [OF prefix_opt [OF prefix_basic(1)]]
  have "x = y \<and> r = s" if "k_PostgresTypeEntity x @ r = k_PostgresTypeEntity y @ s" for x y :: PostgresTypeEntity and r s
    using that unfolding k_PostgresTypeEntity_def append_assoc codes
    by (auto intro: PostgresTypeEntity.equality)
  then show ?thesis by (rule prefix_codeI)
qed

definition k_PostgresEnumEntity :: "PostgresEnumEntity \<Rightarrow> okey" where
  "k_PostgresEnumEntity x =
     k_str (en_name x)
     @ k_str (en_file x)
     @ k_u32 (en_line x)
     @ k_str (en_full_path x)
     @ k_str (en_module_path x)
     @ k_str (en_type_ident x)
     @ (k_list k_str) (en_variants x)
     @ k_ToSqlConfigEntity (en_to_sql_config x)"

lemma prefix_PostgresEnumEntity: "prefix_code k_PostgresEnumEntity"
proof -
  note codes = prefix_codeD [OF prefix_str]
    prefix_codeD [OF prefix_basic(2)]
    prefix_codeD [OF prefix_list [OF prefix_str]]
    prefix_codeD [OF prefix_ToSqlConfigEntity]
  have "x = y \<and> r = s" if "k_PostgresEnumEntity x @ r = k_PostgresEnumEntity y @ s" for x y :: PostgresEnumEntity and r s
    using that unfolding k_PostgresEnumEntity_def append_assoc codes
    by (auto intro: PostgresEnumEntity.equality)
  then show ?thesis by (rule prefix_codeI)
qed

definition k_PostgresOrdEntity :: "PostgresOrdEntity \<Rightarrow> okey" where
  "k_PostgresOrdEntity x =
     k_str (or_name x)
     @ k_str (or_file x)
     @ k_u32 (or_line x)
     @ k_str (or_full_path x)
     @ k_str (or_module_path x)
     @ k_str (or_type_ident x)
     @ k_ToSqlConfigEntity (or_to_sql_config x)"

lemma prefix_PostgresOrdEntity: "prefix_code k_PostgresOrdEntity"
proof -
  note codes = prefix_codeD [OF prefix_str]
    prefix_codeD [OF prefix_basic(2)]
    prefix_codeD [OF prefix_ToSqlConfigEntity]
  have "x = y \<and> r = s" if "k_PostgresOrdEntity x @ r = k_PostgresOrdEntity y @ s" for x y :: PostgresOrdEntity and r s
    using that unfolding k_PostgresOrdEntity_def append_assoc codes
    by (auto intro: PostgresOrdEntity.equality)
  then show ?thesis by (rule prefix_codeI)
qed

definition k_PostgresHashEntity :: "PostgresHashEntity \<Rightarrow> okey" where
  "k_PostgresHashEntity x =
     k_str (ha_name x)
     @ k_str (ha_file x)
     @ k_u32 (ha_line x)
     @ k_str (ha_full_path x)
     @ k_str (ha_module_path x)
     @ k_str (ha_type_ident x)
     @ k_ToSqlConfigEntity (ha_to_sql_config x)"

lemma prefix_PostgresHashEntity: "prefix_code k_PostgresHashEntity"
proof -
  note codes = prefix_codeD [OF prefix_str]
    prefix_codeD [OF prefix_basic(2)]
    prefix_codeD [OF prefix_ToSqlConfigEntity]
  have "x = y \<and> r = s" if "k_PostgresHashEntity x @ r = k_PostgresHashEntity y @ s" for x y :: PostgresHashEntity and r s
    using that unfolding k_PostgresHashEntity_def append_assoc codes
    by (auto intro: PostgresHashEntity.equality)
  then show ?thesis by (rule prefix_codeI)
qed

definition k_PgAggregateEntity :: "PgAggregateEntity \<Rightarrow> okey" where
  "k_PgAggregateEntity x =
     k_str (ag_full_path x)
     @ k_str (ag_module_path x)
     @ k_str (ag_file x)
     @ k_u32 (ag_line x)
     @ k_str (ag_name x)
     @ k_bool (ag_ordered_set x)
     @ (k_list k_AggregateTypeEntity) (ag_args x)
     @ (k_opt (k_list k_AggregateTypeEntity)) (ag_direct_args x)
     @ k_AggregateTypeEntity (ag_stype x)
     @ k_str (ag_sfunc x)
     @ (k_opt k_str) (ag_finalfunc x)
     @ (k_opt k_FinalizeModify) (ag_finalfunc_modify x)
     @ (k_opt k_str) (ag_combinefunc x)
     @ (k_opt k_str) (ag_serialfunc x)
     @ (k_opt k_str) (ag_deserialfunc x)
     @ (k_opt k_str) (ag_initcond x)
     @ (k_opt k_str) (ag_msfunc x)
     @ (k_opt k_str) (ag_minvfunc x)
     @ (k_opt k_UsedTypeEntity) (ag_mstype x)
     @ (k_opt k_str) (ag_mfinalfunc x)
     @ (k_opt k_FinalizeModify) (ag_mfinalfunc_modify x)
     @ (k_opt k_str) (ag_minitcond x)
     @ (k_opt k_str) (ag_sortop x)
     @ (k_opt k_ParallelOption) (ag_parallel x)
     @ k_bool (ag_hypothetical x)
     @ k_ToSqlConfigEntity (ag_to_sql_config x)"

lemma prefix_PgAggregateEntity: "prefix_code k_PgAggregateEntity"
proof -
  note codes = prefix_codeD [OF prefix_str]
    prefix_codeD [OF prefix_basic(2)]
    prefix_codeD [OF prefix_basic(3)]
    prefix_codeD [OF prefix_list [OF prefix_AggregateTypeEntity]]
    prefix_codeD [OF prefix_opt [OF prefix_list [OF prefix_AggregateTypeEntity]]]
    prefix_codeD [OF prefix_AggregateTypeEntity]
    prefix_codeD [OF prefix_opt [OF prefix_str]]
    prefix_codeD [OF prefix_opt [OF prefix_FinalizeModify]]
    prefix_codeD [OF prefix_opt [OF prefix_UsedTypeEntity]]
    prefix_codeD [OF prefix_opt [OF prefix_ParallelOption]]
    prefix_codeD [OF prefix_ToSqlConfigEntity]
  have "x = y \<and> r = s" if "k_PgAggregateEntity x @ r = k_PgAggregateEntity y @ s" for x y :: PgAggregateEntity and r s
    using that unfolding k_PgAggregateEntity_def append_assoc codes
    by (auto intro: PgAggregateEntity.equality)
  then show ?thesis by (rule prefix_codeI)
qed

definition k_PgTriggerEntity :: "PgTriggerEntity \<Rightarrow> okey" where
  "k_PgTriggerEntity x =
     k_str (tr_function_name x)
     @ k_ToSqlConfigEntity (tr_to_sql_config x)
     @ k_str (tr_file x)
     @ k_u32 (tr_line x)
     @ k_str (tr_module_path x)
     @ k_str (tr_full_path x)"

lemma prefix_PgTriggerEntity: "prefix_code k_PgTriggerEntity"
proof -
  note codes = prefix_codeD [OF prefix_str]
    prefix_codeD [OF prefix_ToSqlConfigEntity]
    prefix_codeD [OF prefix_basic(2)]
  have "x = y \<and> r = s" if "k_PgTriggerEntity x @ r = k_PgTriggerEntity y @ s" for x y :: PgTriggerEntity and r s
    using that unfolding k_PgTriggerEntity_def append_assoc codes
    by (auto intro: PgTriggerEntity.equality)
  then show ?thesis by (rule prefix_codeI)
qed

section \<open>Entities\<close>

fun k_SqlGraphEntity :: "SqlGraphEntity \<Rightarrow> okey" where
  "k_SqlGraphEntity (ExtensionRoot v0) = 0 # k_ControlFile v0"
| "k_SqlGraphEntity (SqlGraphEntity.Schema v0) = 1 # k_SchemaEntity v0"
| "k_SqlGraphEntity (CustomSql v0) = 2 # k_ExtensionSqlEntity v0"
| "k_SqlGraphEntity (Function v0) = 3 # k_PgExternEntity v0"
| "k_SqlGraphEntity (Type v0) = 4 # k_PostgresTypeEntity v0"
| "k_SqlGraphEntity (BuiltinType v0) = 5 # k_str v0"
| "k_SqlGraphEntity (Enum v0) = 6 # k_PostgresEnumEntity v0"
| "k_SqlGraphEntity (Ord v0) = 7 # k_PostgresOrdEntity v0"
| "k_SqlGraphEntity (Hash v0) = 8 # k_PostgresHashEntity v0"
| "k_SqlGraphEntity (Aggregate v0) = 9 # k_PgAggregateEntity v0"
| "k_SqlGraphEntity (Trigger v0) = 10 # k_PgTriggerEntity v0"

lemma prefix_SqlGraphEntity: "prefix_code k_SqlGraphEntity"
proof -
  note codes = prefix_codeD [OF prefix_ControlFile]
    prefix_codeD [OF prefix_SchemaEntity]
    prefix_codeD [OF prefix_ExtensionSqlEntity]
    prefix_codeD [OF prefix_PgExternEntity]
    prefix_codeD [OF prefix_PostgresTypeEntity]
    prefix_codeD [OF prefix_str]
    prefix_codeD [OF prefix_PostgresEnumEntity]
    prefix_codeD [OF prefix_PostgresOrdEntity]
    prefix_codeD [OF prefix_PostgresHashEntity]
    prefix_codeD [OF prefix_PgAggregateEntity]
    prefix_codeD [OF prefix_PgTriggerEntity]
  have "x = y \<and> r = s" if "k_SqlGraphEntity x @ r = k_SqlGraphEntity y @ s" for x y r s
    using that by (cases x; cases y; simp add: codes)
  then show ?thesis by (rule prefix_codeI)
qed

text \<open>\<open>entities.sort()\<close>\<close>

definition sort_entities :: "SqlGraphEntity list \<Rightarrow> SqlGraphEntity list" where
  "sort_entities es = sort_key k_SqlGraphEntity es"

lemma mset_sort_entities [simp]: "mset (sort_entities es) = mset es"
  by (simp add: sort_entities_def)

lemma set_sort_entities [simp]: "set (sort_entities es) = set es"
  by (simp add: sort_entities_def)

text \<open>Sorting depends only on which entities there are, not on the order they come in.\<close>

lemma sort_entities_cong:
  assumes "mset es = mset fs"
  shows "sort_entities es = sort_entities fs"
  unfolding sort_entities_def
proof (rule sort_key_inj_key_eq)
  show "mset es = mset (sort_key k_SqlGraphEntity fs)"
    using assms by simp
  show "inj_on k_SqlGraphEntity (set es)"
    using prefix_code_inj [OF prefix_SqlGraphEntity] by (rule inj_on_subset) simp
  show "sorted (map k_SqlGraphEntity (sort_key k_SqlGraphEntity fs))"
    by simp
qed

end
