(* ===== verification/Graph_Build.thy ===== *)
theory Graph_Build
  imports Entity_Order
begin

text \<open>
  The construction of the dependency graph, \<open>PgrxSql::build\<close> of \<open>pgrx_sql.rs\<close> and the functions it
  calls, in the order of the source: the entities become nodes of a graph and keys of one table per
  kind (\<open>initialize_*\<close>), then the edges that order their SQL are added (\<open>connect_*\<close>).

  The \<open>StableGraph\<close> of petgraph is represented by the calls that built it: the weights given to
  \<open>add_node\<close> in their order, whose positions are the node indices since no node is ever removed,
  and the arguments of \<open>add_edge\<close> in their order. The queries petgraph answers on such a graph are
  parameters of the theories that emit SQL.

  Two parameters stand for what a run does not determine: \<open>rank\<close>, the iteration order of the hash
  tables, and \<open>uni\<close>, the Unicode case tables behind \<open>str::to_lowercase\<close>.
\<close>

section \<open>The graph\<close>

datatype SqlGraphRequires = By | ByArg | ByReturn

type_synonym edge = "node_index \<times> node_index \<times> SqlGraphRequires"

record StableGraph =
  g_nodes :: "SqlGraphEntity list"
  g_edges :: "edge list"

definition new_graph :: StableGraph where
  "new_graph = \<lparr>g_nodes = [], g_edges = []\<rparr>"

definition add_node :: "SqlGraphEntity \<Rightarrow> StableGraph \<Rightarrow> node_index \<times> StableGraph" where
  "add_node w g = (length (g_nodes g), g\<lparr>g_nodes := g_nodes g @ [w]\<rparr>)"

definition add_edge :: "node_index \<Rightarrow> node_index \<Rightarrow> SqlGraphRequires \<Rightarrow> StableGraph \<Rightarrow> StableGraph" where
  "add_edge a b w g = g\<lparr>g_edges := g_edges g @ [(a, b, w)]\<rparr>"

section \<open>Tables and errors\<close>

text \<open>The entity tables of \<open>PgrxSql\<close>, passed one by one in the source.\<close>

record Tables =
  m_schemas :: "SchemaEntity hmap"
  m_extension_sqls :: "ExtensionSqlEntity hmap"
  m_externs :: "PgExternEntity hmap"
  m_types :: "PostgresTypeEntity hmap"
  m_builtin_types :: "string hmap"
  m_enums :: "PostgresEnumEntity hmap"
  m_ords :: "PostgresOrdEntity hmap"
  m_hashes :: "PostgresHashEntity hmap"
  m_aggregates :: "PgAggregateEntity hmap"
  m_triggers :: "PgTriggerEntity hmap"

record PgrxSql =
  ps_control :: ControlFile
  ps_graph :: StableGraph
  ps_graph_root :: node_index
  ps_graph_bootstrap :: "node_index option"
  ps_graph_finalize :: "node_index option"
  ps_tables :: Tables
  ps_extension_name :: string
  ps_versioned_so :: bool
  ps_qualify_default_schema :: bool

text \<open>
  The errors of the construction, with the values their messages show. \<open>Panicked\<close> is a failed
  \<open>expect\<close>.
\<close>

datatype build_error =
    MultipleBootstrap string string
  | MultipleFinalize string string
  | DuplicateTypeIdent string "string list"
  | UnresolvedType string string string string string
  | MissingPlaceholder string string string string
  | RequiresNotFound string string string
  | ExternRequiresNotFound PositioningRef
  | SchemaNotFound string
  | ConnectionNotFound string "string list"
  | Panicked string

section \<open>Standard library\<close>

text \<open>
  \<open>str::to_lowercase\<close>: exact on ASCII strings, the parameter \<open>uni\<close> otherwise.
\<close>

type_synonym case_table = "string \<Rightarrow> string"

definition ascii_lower :: "char \<Rightarrow> char" where
  "ascii_lower c =
     (if 65 \<le> (of_char c :: nat) \<and> (of_char c :: nat) \<le> 90 then char_of ((of_char c :: nat) + 32) else c)"

definition to_lowercase :: "case_table \<Rightarrow> string \<Rightarrow> string" where
  "to_lowercase uni s =
     (if list_all (\<lambda>c. (of_char c :: nat) < 128) s then map ascii_lower s else uni s)"

text \<open>The first entry of a table, in iteration order, whose key satisfies a test.\<close>

definition hm_find :: "iter_rank \<Rightarrow> ('k \<Rightarrow> bool) \<Rightarrow> 'k hmap \<Rightarrow> node_index option" where
  "hm_find rank P m = map_option snd (find (\<lambda>p. P (fst p)) (hm_iter rank m))"

definition or_else :: "'a option \<Rightarrow> 'a option \<Rightarrow> 'a option" where
  "or_else x y = (case x of None \<Rightarrow> y | Some a \<Rightarrow> Some a)"

section \<open>Extension SQL blocks\<close>

definition opt_edge_from :: "node_index option \<Rightarrow> node_index \<Rightarrow> StableGraph \<Rightarrow> StableGraph" where
  "opt_edge_from a b g = (case a of None \<Rightarrow> g | Some a \<Rightarrow> add_edge a b By g)"

definition opt_edge_to :: "node_index \<Rightarrow> node_index option \<Rightarrow> StableGraph \<Rightarrow> StableGraph" where
  "opt_edge_to a b g = (case b of None \<Rightarrow> g | Some b \<Rightarrow> add_edge a b By g)"

definition build_base_edges ::
  "node_index \<Rightarrow> node_index \<Rightarrow> node_index option \<Rightarrow> node_index option \<Rightarrow> StableGraph \<Rightarrow> StableGraph"
  where
  "build_base_edges index root bootstrap finalize g =
     opt_edge_to index finalize (opt_edge_from bootstrap index (add_edge root index By g))"

record sqls_state =
  x_graph :: StableGraph
  x_mapped :: "ExtensionSqlEntity hmap"
  x_bootstrap :: "node_index option"
  x_finalize :: "node_index option"

definition set_bootstrap :: "ExtensionSqlEntity \<Rightarrow> node_index \<Rightarrow> sqls_state \<Rightarrow> build_error + sqls_state"
  where
  "set_bootstrap item index s =
     (if es_bootstrap item then
        (case x_bootstrap s of
           Some existing \<Rightarrow>
             Inl (MultipleBootstrap (es_name item) (rust_identifier (g_nodes (x_graph s) ! existing)))
         | None \<Rightarrow> Inr (s\<lparr>x_bootstrap := Some index\<rparr>))
      else Inr s)"

definition set_finalize :: "ExtensionSqlEntity \<Rightarrow> node_index \<Rightarrow> sqls_state \<Rightarrow> build_error + sqls_state"
  where
  "set_finalize item index s =
     (if es_finalize item then
        (case x_finalize s of
           Some existing \<Rightarrow>
             Inl (MultipleFinalize (es_name item) (rust_identifier (g_nodes (x_graph s) ! existing)))
         | None \<Rightarrow> Inr (s\<lparr>x_finalize := Some index\<rparr>))
      else Inr s)"

definition initialize_extension_sql :: "ExtensionSqlEntity \<Rightarrow> sqls_state \<Rightarrow> build_error + sqls_state"
  where
  "initialize_extension_sql item s =
     (let (index, g) = add_node (CustomSql item) (x_graph s);
          s1 = s\<lparr>x_graph := g, x_mapped := hm_insert item index (x_mapped s)\<rparr>
      in rbind (set_bootstrap item index s1) (set_finalize item index))"

definition extension_sql_edges ::
  "node_index \<Rightarrow> node_index option \<Rightarrow> node_index option \<Rightarrow> ExtensionSqlEntity \<times> node_index
    \<Rightarrow> StableGraph \<Rightarrow> StableGraph" where
  "extension_sql_edges root bootstrap finalize p g =
     (let (item, index) = p;
          g1 = add_edge root index By g;
          g2 = (if es_bootstrap item then g1 else opt_edge_from bootstrap index g1)
      in if es_finalize item then g2 else opt_edge_to index finalize g2)"

definition initialize_extension_sqls ::
  "iter_rank \<Rightarrow> node_index \<Rightarrow> ExtensionSqlEntity list \<Rightarrow> StableGraph \<Rightarrow> build_error + sqls_state" where
  "initialize_extension_sqls rank root items g =
     rbind (rfold initialize_extension_sql items
              \<lparr>x_graph = g, x_mapped = [], x_bootstrap = None, x_finalize = None\<rparr>)
       (\<lambda>s. Inr (s\<lparr>x_graph := fold (extension_sql_edges root (x_bootstrap s) (x_finalize s))
                                (hm_iter rank (x_mapped s)) (x_graph s)\<rparr>))"

section \<open>Nodes of the other kinds\<close>

text \<open>
  The loop that every \<open>initialize_*\<close> function below runs over its items, with the edges a new node
  gets as a parameter.
\<close>

definition initialize_loop ::
  "('k \<Rightarrow> SqlGraphEntity) \<Rightarrow> (node_index \<Rightarrow> StableGraph \<Rightarrow> StableGraph) \<Rightarrow> 'k list
    \<Rightarrow> StableGraph \<Rightarrow> StableGraph \<times> 'k hmap" where
  "initialize_loop into base items g =
     fold (\<lambda>item (g, m).
         let (index, g1) = add_node (into item) g
         in (base index g1, hm_insert item index m))
       items (g, [])"

text \<open>Schemas get their edge from the root in \<open>connect_schemas\<close>.\<close>

definition initialize_schemas ::
  "node_index option \<Rightarrow> node_index option \<Rightarrow> SchemaEntity list \<Rightarrow> StableGraph
    \<Rightarrow> StableGraph \<times> SchemaEntity hmap" where
  "initialize_schemas bootstrap finalize =
     initialize_loop SqlGraphEntity.Schema
       (\<lambda>index g. opt_edge_to index finalize (opt_edge_from bootstrap index g))"

definition initialize_items ::
  "('k \<Rightarrow> SqlGraphEntity) \<Rightarrow> node_index \<Rightarrow> node_index option \<Rightarrow> node_index option \<Rightarrow> 'k list
    \<Rightarrow> StableGraph \<Rightarrow> StableGraph \<times> 'k hmap" where
  "initialize_items into root bootstrap finalize =
     initialize_loop into (\<lambda>index. build_base_edges index root bootstrap finalize)"

definition initialize_enums ::
  "node_index \<Rightarrow> node_index option \<Rightarrow> node_index option \<Rightarrow> PostgresEnumEntity list
    \<Rightarrow> StableGraph \<Rightarrow> StableGraph \<times> PostgresEnumEntity hmap" where
  "initialize_enums = initialize_items Enum"

definition initialize_types ::
  "node_index \<Rightarrow> node_index option \<Rightarrow> node_index option \<Rightarrow> PostgresTypeEntity list
    \<Rightarrow> StableGraph \<Rightarrow> StableGraph \<times> PostgresTypeEntity hmap" where
  "initialize_types = initialize_items SqlGraphEntity.Type"

definition initialize_ords ::
  "node_index \<Rightarrow> node_index option \<Rightarrow> node_index option \<Rightarrow> PostgresOrdEntity list
    \<Rightarrow> StableGraph \<Rightarrow> StableGraph \<times> PostgresOrdEntity hmap" where
  "initialize_ords = initialize_items Ord"

definition initialize_hashes ::
  "node_index \<Rightarrow> node_index option \<Rightarrow> node_index option \<Rightarrow> PostgresHashEntity list
    \<Rightarrow> StableGraph \<Rightarrow> StableGraph \<times> PostgresHashEntity hmap" where
  "initialize_hashes = initialize_items Hash"

definition initialize_triggers ::
  "node_index \<Rightarrow> node_index option \<Rightarrow> node_index option \<Rightarrow> PgTriggerEntity list
    \<Rightarrow> StableGraph \<Rightarrow> StableGraph \<times> PgTriggerEntity hmap" where
  "initialize_triggers = initialize_items Trigger"


section \<open>Type targets\<close>

definition find_type_or_enum :: "iter_rank \<Rightarrow> string \<Rightarrow> Tables \<Rightarrow> node_index option" where
  "find_type_or_enum rank type_ident t =
     or_else (hm_find rank (\<lambda>ty. ty_type_ident ty = type_ident) (m_types t))
       (hm_find rank (\<lambda>en. en_type_ident en = type_ident) (m_enums t))"

definition find_declared_type_or_enum :: "iter_rank \<Rightarrow> Tables \<Rightarrow> string \<Rightarrow> node_index option" where
  "find_declared_type_or_enum rank t type_ident =
     hm_find rank (\<lambda>item. list_ex (\<lambda>d. decl_matches_type_ident d type_ident) (es_creates item))
       (m_extension_sqls t)"

definition find_graph_type_target :: "iter_rank \<Rightarrow> string \<Rightarrow> Tables \<Rightarrow> node_index option" where
  "find_graph_type_target rank type_ident t =
     or_else (find_type_or_enum rank type_ident t) (find_declared_type_or_enum rank t type_ident)"

fun decl_display :: "SqlDeclaredEntity \<Rightarrow> string" where
  "decl_display (DeclType d) = ''Type('' @ dt_name d @ '')''"
| "decl_display (DeclEnum d) = ''Enum('' @ dt_name d @ '')''"
| "decl_display (DeclFunction d) = ''Function('' @ df_name d @ '')''"

text \<open>Every type identifier with the place that declares it, in the order they are collected.\<close>

definition declared_locations :: "ExtensionSqlEntity \<Rightarrow> (string \<times> string) list" where
  "declared_locations item =
     concat (map (\<lambda>d. case decl_type_ident d of
         None \<Rightarrow> []
       | Some i \<Rightarrow> [(i, ''extension_sql `'' @ es_name item @ ''` ('' @ decl_display d @ '')'')])
       (es_creates item))"

definition type_locations :: "iter_rank \<Rightarrow> Tables \<Rightarrow> (string \<times> string) list" where
  "type_locations rank t =
     map (\<lambda>(ty, _). (ty_type_ident ty, ''type `'' @ ty_full_path ty @ ''`'')) (hm_iter rank (m_types t))
     @ map (\<lambda>(en, _). (en_type_ident en, ''enum `'' @ en_full_path en @ ''`'')) (hm_iter rank (m_enums t))
     @ concat (map (\<lambda>(item, _). declared_locations item) (hm_iter rank (m_extension_sqls t)))"

text \<open>
  \<open>seen\<close> is a \<open>BTreeMap\<close> from identifiers to the places that declare them: its keys in their order,
  and for a key the sorted places.
\<close>

definition seen_locations :: "(string \<times> string) list \<Rightarrow> string \<Rightarrow> string list" where
  "seen_locations seen i = sort_key k_str (map snd (filter (\<lambda>p. fst p = i) seen))"

definition ensure_unique_type_targets :: "iter_rank \<Rightarrow> Tables \<Rightarrow> build_error + unit" where
  "ensure_unique_type_targets rank t =
     (let seen = type_locations rank t
      in case find (\<lambda>i. 1 < length (seen_locations seen i)) (sort_key k_str (remdups (map fst seen))) of
           Some i \<Rightarrow> Inl (DuplicateTypeIdent i (seen_locations seen i))
         | None \<Rightarrow> Inr ())"

text \<open>
  A type a function or an aggregate mentions, before there are edges: an external type gets a
  placeholder node, once for each identifier; a type of this extension must be declared.
\<close>

definition initialize_resolved_type ::
  "iter_rank \<Rightarrow> Tables \<Rightarrow> string \<Rightarrow> string \<Rightarrow> string \<Rightarrow> string \<Rightarrow> string \<times> TypeOrigin
    \<Rightarrow> StableGraph \<times> string hmap \<Rightarrow> build_error + StableGraph \<times> string hmap" where
  "initialize_resolved_type rank t owner_kind owner_name slot type_name r st =
     (let (type_ident, type_origin) = r; (g, builtin_types) = st
      in if type_origin = External then
           (case hm_get builtin_types type_ident of
              Some _ \<Rightarrow> Inr (g, builtin_types)
            | None \<Rightarrow>
                (let (index, g1) = add_node (BuiltinType type_ident) g
                 in Inr (g1, hm_insert type_ident index builtin_types)))
         else if find_graph_type_target rank type_ident t \<noteq> None then Inr (g, builtin_types)
         else Inl (UnresolvedType owner_kind owner_name slot type_name type_ident))"

definition connect_resolved_type ::
  "iter_rank \<Rightarrow> Tables \<Rightarrow> node_index \<Rightarrow> SqlGraphRequires \<Rightarrow> string \<Rightarrow> string \<Rightarrow> string \<Rightarrow> string
    \<Rightarrow> string \<times> TypeOrigin \<Rightarrow> StableGraph \<Rightarrow> build_error + StableGraph" where
  "connect_resolved_type rank t index req owner_kind owner_name slot type_name r g =
     (let (type_ident, type_origin) = r
      in if type_origin = External then
           (case hm_get (m_builtin_types t) type_ident of
              Some builtin_index \<Rightarrow> Inr (add_edge builtin_index index req g)
            | None \<Rightarrow> Inl (MissingPlaceholder type_ident owner_kind owner_name slot))
         else case find_graph_type_target rank type_ident t of
           Some ty_index \<Rightarrow> Inr (add_edge ty_index index req g)
         | None \<Rightarrow> Inl (UnresolvedType owner_kind owner_name slot type_name type_ident))"

text \<open>The result of \<open>make_type_or_enum_connection\<close>, whether it added an edge, is never used.\<close>

definition make_type_or_enum_connection ::
  "iter_rank \<Rightarrow> Tables \<Rightarrow> node_index \<Rightarrow> string \<Rightarrow> StableGraph \<Rightarrow> StableGraph" where
  "make_type_or_enum_connection rank t index type_ident g =
     opt_edge_from (find_type_or_enum rank type_ident t) index g"

section \<open>Functions and aggregates\<close>

text \<open>The types of a return value with the name of their slot, in the order they are visited.\<close>

fun return_slots :: "PgExternReturnEntity \<Rightarrow> (string \<times> UsedTypeEntity) list" where
  "return_slots RetNone = []"
| "return_slots RetTrigger = []"
| "return_slots (RetType ty) = [(''return type'', ty)]"
| "return_slots (RetSetOf ty) = [(''return type'', ty)]"
| "return_slots (RetIterated tys) = map (\<lambda>i. (''table return column'', ri_ty i)) tys"

definition arg_slot :: "PgExternArgumentEntity \<Rightarrow> string" where
  "arg_slot arg = ''argument `'' @ pa_pattern arg @ ''`''"

definition aggregate_slot :: "string option \<Rightarrow> string \<Rightarrow> string" where
  "aggregate_slot name kind =
     (case name of Some name \<Rightarrow> kind @ '' `'' @ name @ ''`'' | None \<Rightarrow> kind)"

text \<open>
  The two ways the source visits a type: \<open>if let Some(r) = ty.resolution()\<close>, and, for an argument
  known to need resolution, \<open>ty.resolution().expect(..)\<close>.
\<close>

definition if_resolved ::
  "UsedTypeEntity \<Rightarrow> (string \<times> TypeOrigin \<Rightarrow> 's \<Rightarrow> build_error + 's) \<Rightarrow> 's \<Rightarrow> build_error + 's" where
  "if_resolved u f s = (case ut_resolution u of None \<Rightarrow> Inr s | Some r \<Rightarrow> f r s)"

definition expect_resolved ::
  "string \<Rightarrow> UsedTypeEntity \<Rightarrow> (string \<times> TypeOrigin \<Rightarrow> 's \<Rightarrow> build_error + 's) \<Rightarrow> 's \<Rightarrow> build_error + 's"
  where
  "expect_resolved msg u f s = (case ut_resolution u of None \<Rightarrow> Inl (Panicked msg) | Some r \<Rightarrow> f r s)"

text \<open>
  The loops over the arguments and the return types of a function, with the action \<open>f slot type_name r\<close> taken
  for each resolved type, and with different actions for arguments and results.
\<close>

definition visit_extern_args ::
  "PgExternEntity \<Rightarrow> (string \<Rightarrow> string \<Rightarrow> string \<times> TypeOrigin \<Rightarrow> 's \<Rightarrow> build_error + 's) \<Rightarrow> 's
    \<Rightarrow> build_error + 's" where
  "visit_extern_args item f =
     rfold (\<lambda>arg s.
         let u = pa_used_ty arg
         in if \<not> ut_emits_argument_sql u \<or> \<not> ut_needs_type_resolution u then Inr s
            else expect_resolved ''SQL-visible extern arguments should carry resolution metadata'' u
              (f (arg_slot arg) (ut_full_path u)) s)
       (pe_fn_args item)"

definition visit_extern_returns ::
  "PgExternEntity \<Rightarrow> (string \<Rightarrow> string \<Rightarrow> string \<times> TypeOrigin \<Rightarrow> 's \<Rightarrow> build_error + 's) \<Rightarrow> 's
    \<Rightarrow> build_error + 's" where
  "visit_extern_returns item f =
     rfold (\<lambda>(slot, ty). if_resolved ty (f slot (ut_full_path ty))) (return_slots (pe_fn_return item))"

definition visit_aggregate_args ::
  "string \<Rightarrow> string \<Rightarrow> AggregateTypeEntity list
    \<Rightarrow> (string \<Rightarrow> string \<Rightarrow> string \<times> TypeOrigin \<Rightarrow> 's \<Rightarrow> build_error + 's) \<Rightarrow> 's \<Rightarrow> build_error + 's" where
  "visit_aggregate_args kind msg args f =
     rfold (\<lambda>arg s.
         let u = at_used_ty arg
         in if \<not> ut_needs_type_resolution u then Inr s
            else expect_resolved msg u (f (aggregate_slot (at_name arg) kind) (ut_full_path u)) s)
       args"

definition ag_direct :: "PgAggregateEntity \<Rightarrow> AggregateTypeEntity list" where
  "ag_direct item = (case ag_direct_args item of None \<Rightarrow> [] | Some args \<Rightarrow> args)"

definition visit_stype ::
  "PgAggregateEntity \<Rightarrow> (string \<Rightarrow> string \<Rightarrow> string \<times> TypeOrigin \<Rightarrow> 's \<Rightarrow> build_error + 's) \<Rightarrow> 's
    \<Rightarrow> build_error + 's" where
  "visit_stype item f =
     if_resolved (at_used_ty (ag_stype item)) (f ''STYPE'' (ut_full_path (at_used_ty (ag_stype item))))"

definition visit_mstype ::
  "PgAggregateEntity \<Rightarrow> (string \<Rightarrow> string \<Rightarrow> string \<times> TypeOrigin \<Rightarrow> 's \<Rightarrow> build_error + 's) \<Rightarrow> 's
    \<Rightarrow> build_error + 's" where
  "visit_mstype item f s =
     (case ag_mstype item of
        None \<Rightarrow> Inr s
      | Some ty \<Rightarrow> if_resolved ty (f ''MSTYPE'' (ut_full_path ty)) s)"

definition initialize_extern ::
  "iter_rank \<Rightarrow> Tables \<Rightarrow> node_index \<Rightarrow> node_index option \<Rightarrow> node_index option \<Rightarrow> PgExternEntity
    \<Rightarrow> (StableGraph \<times> string hmap) \<times> PgExternEntity hmap
    \<Rightarrow> build_error + (StableGraph \<times> string hmap) \<times> PgExternEntity hmap" where
  "initialize_extern rank t root bootstrap finalize item s =
     (let ((g, builtin_types), m) = s;
          (index, g1) = add_node (Function item) g;
          g2 = build_base_edges index root bootstrap finalize g1;
          f = initialize_resolved_type rank t ''Function'' (pe_full_path item)
      in rbind (rbind (visit_extern_args item f (g2, builtin_types)) (visit_extern_returns item f))
           (\<lambda>st. Inr (st, hm_insert item index m)))"

definition initialize_externs ::
  "iter_rank \<Rightarrow> Tables \<Rightarrow> node_index \<Rightarrow> node_index option \<Rightarrow> node_index option \<Rightarrow> PgExternEntity list
    \<Rightarrow> StableGraph \<Rightarrow> build_error + (StableGraph \<times> string hmap) \<times> PgExternEntity hmap" where
  "initialize_externs rank t root bootstrap finalize items g =
     rfold (initialize_extern rank t root bootstrap finalize) items ((g, []), [])"

definition aggregate_args_msg :: string where
  "aggregate_args_msg = ''aggregate arguments should carry resolution metadata''"

definition aggregate_direct_args_msg :: string where
  "aggregate_direct_args_msg = ''aggregate direct arguments should carry resolution metadata''"

definition initialize_aggregate ::
  "iter_rank \<Rightarrow> Tables \<Rightarrow> node_index \<Rightarrow> node_index option \<Rightarrow> node_index option \<Rightarrow> PgAggregateEntity
    \<Rightarrow> (StableGraph \<times> string hmap) \<times> PgAggregateEntity hmap
    \<Rightarrow> build_error + (StableGraph \<times> string hmap) \<times> PgAggregateEntity hmap" where
  "initialize_aggregate rank t root bootstrap finalize item s =
     (let ((g, builtin_types), m) = s;
          (index, g1) = add_node (Aggregate item) g;
          f = initialize_resolved_type rank t ''Aggregate'' (ag_full_path item)
      in rbind (visit_aggregate_args ''argument'' aggregate_args_msg (ag_args item) f (g1, builtin_types))
           (\<lambda>st. rbind (visit_aggregate_args ''direct argument'' aggregate_direct_args_msg
                          (ag_direct item) f st)
           (\<lambda>st. rbind (visit_stype item f st)
           (\<lambda>st. rbind (visit_mstype item f st)
           (\<lambda>(g2, b2). Inr ((build_base_edges index root bootstrap finalize g2, b2),
                            hm_insert item index m))))))"

definition initialize_aggregates ::
  "iter_rank \<Rightarrow> Tables \<Rightarrow> node_index \<Rightarrow> node_index option \<Rightarrow> node_index option \<Rightarrow> PgAggregateEntity list
    \<Rightarrow> StableGraph \<times> string hmap
    \<Rightarrow> build_error + (StableGraph \<times> string hmap) \<times> PgAggregateEntity hmap" where
  "initialize_aggregates rank t root bootstrap finalize items st =
     rfold (initialize_aggregate rank t root bootstrap finalize) items (st, [])"

end
