(* ===== verification/Petgraph.thy ===== *)
theory Petgraph
  imports Graph_Build
begin

text \<open>
  The queries of the \<open>petgraph\<close> crate that the emission asks of the built graph. The crate is not part
  of this repository: its functions are the fields of a record that the emission takes as a parameter,
  and \<open>petgraph_ok\<close> says what its documentation promises of them on one graph.
\<close>

record petgraph =
  pg_tarjan_scc :: "StableGraph \<Rightarrow> node_index list list"
  pg_edges :: "StableGraph \<Rightarrow> node_index \<Rightarrow> (node_index \<times> SqlGraphRequires) list"
  pg_neighbors_undirected :: "StableGraph \<Rightarrow> node_index \<Rightarrow> node_index list"
  pg_neighbors_incoming :: "StableGraph \<Rightarrow> node_index \<Rightarrow> node_index list"

definition edge_rel :: "StableGraph \<Rightarrow> (node_index \<times> node_index) set" where
  "edge_rel g = {(a, b). \<exists>w. (a, b, w) \<in> set (g_edges g)}"

text \<open>
  \<open>edges\<close> yields the outgoing edges of a node, \<open>neighbors_*\<close> the nodes at the other end, in no
  particular order. \<open>tarjan_scc\<close> yields the strongly connected components, each node in one of them,
  in an order where a component comes after those it has edges to.
\<close>

definition petgraph_ok :: "petgraph \<Rightarrow> StableGraph \<Rightarrow> bool" where
  "petgraph_ok pg g \<longleftrightarrow>
     (\<forall>i < length (g_nodes g).
        set (pg_edges pg g i) = {(b, w). (i, b, w) \<in> set (g_edges g)}
        \<and> set (pg_neighbors_undirected pg g i) = {a. (a, i) \<in> edge_rel g \<or> (i, a) \<in> edge_rel g}
        \<and> set (pg_neighbors_incoming pg g i) = {a. (a, i) \<in> edge_rel g})
     \<and> distinct (concat (pg_tarjan_scc pg g))
     \<and> set (concat (pg_tarjan_scc pg g)) = {..< length (g_nodes g)}
     \<and> (\<forall>c \<in> set (pg_tarjan_scc pg g). \<forall>a \<in> set c. \<forall>b \<in> set c. (a, b) \<in> (edge_rel g)\<^sup>*)
     \<and> (\<forall>i < length (pg_tarjan_scc pg g). \<forall>j < length (pg_tarjan_scc pg g).
          \<forall>a \<in> set (pg_tarjan_scc pg g ! i). \<forall>b \<in> set (pg_tarjan_scc pg g ! j).
            (a, b) \<in> edge_rel g \<longrightarrow> j \<le> i)"

lemma petgraph_okD:
  assumes "petgraph_ok pg g"
  shows "i < length (g_nodes g) \<Longrightarrow> set (pg_edges pg g i) = {(b, w). (i, b, w) \<in> set (g_edges g)}"
    and "i < length (g_nodes g) \<Longrightarrow>
      set (pg_neighbors_undirected pg g i) = {a. (a, i) \<in> edge_rel g \<or> (i, a) \<in> edge_rel g}"
    and "i < length (g_nodes g) \<Longrightarrow> set (pg_neighbors_incoming pg g i) = {a. (a, i) \<in> edge_rel g}"
    and "distinct (concat (pg_tarjan_scc pg g))"
    and "set (concat (pg_tarjan_scc pg g)) = {..< length (g_nodes g)}"
  using assms by (simp_all add: petgraph_ok_def)

lemma petgraph_ok_order:
  assumes "petgraph_ok pg g" and "i < length (pg_tarjan_scc pg g)" and "j < length (pg_tarjan_scc pg g)"
    and "a \<in> set (pg_tarjan_scc pg g ! i)" and "b \<in> set (pg_tarjan_scc pg g ! j)" and "(a, b) \<in> edge_rel g"
  shows "j \<le> i"
  using assms unfolding petgraph_ok_def by blast

lemma petgraph_ok_connected:
  assumes "petgraph_ok pg g" and "c \<in> set (pg_tarjan_scc pg g)" and "a \<in> set c" and "b \<in> set c"
  shows "(a, b) \<in> (edge_rel g)\<^sup>*"
  using assms unfolding petgraph_ok_def by blast

end
