(* ===== verification/Graph_Connect.thy ===== *)
theory Graph_Connect
  imports Graph_Build
begin

text \<open>
  The second phase of \<open>PgrxSql::build\<close>, the \<open>connect_*\<close> functions of \<open>pgrx_sql.rs\<close>, which add the
  edges between entities, and \<open>build\<close> itself. An edge from \<open>a\<close> to \<open>b\<close> says that the SQL of \<open>a\<close>
  comes before the SQL of \<open>b\<close>.
\<close>

section \<open>Lookups\<close>

definition find_full_path :: "iter_rank \<Rightarrow> Tables \<Rightarrow> string \<Rightarrow> node_index option" where
  "find_full_path rank t path =
     (let segments = split_str ''::'' path;
          last_segment = last segments;
          module_path = join_str ''::'' (butlast segments)
      in or_else (hm_find rank (\<lambda>o'. last_segment = ty_name o' \<and> ends_with (ty_module_path o') module_path)
             (m_types t))
         (or_else (hm_find rank (\<lambda>o'. last_segment = en_name o' \<and> ends_with (en_module_path o') module_path)
             (m_enums t))
         (or_else (hm_find rank
             (\<lambda>o'. last_segment = pe_unaliased_name o' \<and> ends_with (pe_module_path o') module_path)
             (m_externs t))
         (or_else (hm_find rank (\<lambda>o'. ends_with (sc_module_path o') path) (m_schemas t))
           (hm_find rank
             (\<lambda>o'. last_segment = tr_function_name o' \<and> ends_with (tr_module_path o') module_path)
             (m_triggers t))))))"

fun find_positioning_ref_target :: "iter_rank \<Rightarrow> Tables \<Rightarrow> PositioningRef \<Rightarrow> node_index option" where
  "find_positioning_ref_target rank t (FullPath path) = find_full_path rank t path"
| "find_positioning_ref_target rank t (PositioningRef.Name name) =
     hm_find rank (\<lambda>o'. es_name o' = name) (m_extension_sqls t)"

text \<open>The result of \<open>make_schema_connection\<close>, whether it found a schema, is never used.\<close>

definition make_schema_connection ::
  "iter_rank \<Rightarrow> Tables \<Rightarrow> node_index \<Rightarrow> string \<Rightarrow> StableGraph \<Rightarrow> StableGraph" where
  "make_schema_connection rank t index module_path g =
     opt_edge_from (hm_find rank (\<lambda>s. module_path = sc_module_path s) (m_schemas t)) index g"

definition make_extern_connection ::
  "iter_rank \<Rightarrow> Tables \<Rightarrow> node_index \<Rightarrow> string \<Rightarrow> StableGraph \<Rightarrow> build_error + StableGraph" where
  "make_extern_connection rank t index full_path g =
     (case hm_find rank (\<lambda>e. full_path = pe_full_path e) (m_externs t) of
        Some extern_index \<Rightarrow> Inr (add_edge extern_index index By g)
      | None \<Rightarrow>
          Inl (ConnectionNotFound full_path
            (sort_key k_str (map (\<lambda>(e, _). pe_full_path e) (hm_iter rank (m_externs t))))))"

definition make_opt_extern_connection ::
  "iter_rank \<Rightarrow> Tables \<Rightarrow> node_index \<Rightarrow> string option \<Rightarrow> StableGraph \<Rightarrow> build_error + StableGraph" where
  "make_opt_extern_connection rank t index path g =
     (case path of None \<Rightarrow> Inr g | Some path \<Rightarrow> make_extern_connection rank t index path g)"

definition resolve_function_path :: "string \<Rightarrow> string \<Rightarrow> string" where
  "resolve_function_path module_path path =
     (if contains path ''::'' then path else module_path @ ''::'' @ path)"

section \<open>Connecting each kind\<close>

definition connect_schemas :: "iter_rank \<Rightarrow> Tables \<Rightarrow> node_index \<Rightarrow> StableGraph \<Rightarrow> StableGraph" where
  "connect_schemas rank t root g =
     fold (\<lambda>(_, index). add_edge root index By) (hm_iter rank (m_schemas t)) g"

fun requires_text :: "PositioningRef \<Rightarrow> string" where
  "requires_text (FullPath path) = path"
| "requires_text (PositioningRef.Name name) = ''\"'' @ name @ ''\"''"

definition connect_extension_sql ::
  "iter_rank \<Rightarrow> Tables \<Rightarrow> ExtensionSqlEntity \<times> node_index \<Rightarrow> StableGraph \<Rightarrow> build_error + StableGraph" where
  "connect_extension_sql rank t p g =
     (let (item, index) = p
      in rfold (\<lambda>requires g.
             case find_positioning_ref_target rank t requires of
               Some target \<Rightarrow> Inr (add_edge target index By g)
             | None \<Rightarrow>
                 Inl (RequiresNotFound (es_name item)
                   ('' ('' @ es_file item @ '':'' @ show_u32 (es_line item) @ '')'')
                   (requires_text requires)))
           (es_requires item)
           (make_schema_connection rank t index (es_module_path item) g))"

definition connect_extension_sqls ::
  "iter_rank \<Rightarrow> Tables \<Rightarrow> StableGraph \<Rightarrow> build_error + StableGraph" where
  "connect_extension_sqls rank t g =
     rfold (connect_extension_sql rank t) (hm_iter rank (m_extension_sqls t)) g"

definition connect_enums :: "iter_rank \<Rightarrow> Tables \<Rightarrow> StableGraph \<Rightarrow> StableGraph" where
  "connect_enums rank t g =
     fold (\<lambda>(item, index). make_schema_connection rank t index (en_module_path item))
       (hm_iter rank (m_enums t)) g"

definition connect_type ::
  "iter_rank \<Rightarrow> Tables \<Rightarrow> PostgresTypeEntity \<times> node_index \<Rightarrow> StableGraph \<Rightarrow> build_error + StableGraph" where
  "connect_type rank t p g =
     (let (item, index) = p;
          path = resolve_function_path (ty_module_path item)
      in rbind (make_extern_connection rank t index (path (ty_in_fn_path item))
             (make_schema_connection rank t index (ty_module_path item) g))
           (\<lambda>g. rbind (make_extern_connection rank t index (path (ty_out_fn_path item)) g)
           (\<lambda>g. rbind (make_opt_extern_connection rank t index
                          (map_option path (ty_receive_fn_path item)) g)
           (\<lambda>g. make_opt_extern_connection rank t index
                          (map_option path (ty_send_fn_path item)) g))))"

definition connect_types :: "iter_rank \<Rightarrow> Tables \<Rightarrow> StableGraph \<Rightarrow> build_error + StableGraph" where
  "connect_types rank t g = rfold (connect_type rank t) (hm_iter rank (m_types t)) g"

text \<open>One attribute of a function. The flag is \<open>found_schema_declaration\<close>.\<close>

definition declared_schema_edges ::
  "iter_rank \<Rightarrow> Tables \<Rightarrow> node_index \<Rightarrow> string \<Rightarrow> bool \<times> StableGraph \<Rightarrow> bool \<times> StableGraph" where
  "declared_schema_edges rank t index name s =
     fold (\<lambda>(schema, schema_index) (found, g).
         if sc_name schema = name then (True, add_edge schema_index index By g) else (found, g))
       (hm_iter rank (m_schemas t)) s"

fun connect_extern_attr ::
  "iter_rank \<Rightarrow> Tables \<Rightarrow> node_index \<Rightarrow> ExternArgs \<Rightarrow> bool \<times> StableGraph
    \<Rightarrow> build_error + bool \<times> StableGraph" where
  "connect_extern_attr rank t index (Requires requirements) s =
     rfold (\<lambda>requires (found, g).
         case find_positioning_ref_target rank t requires of
           Some target \<Rightarrow> Inr (found, add_edge target index By g)
         | None \<Rightarrow> Inl (ExternRequiresNotFound requires))
       requirements s"
| "connect_extern_attr rank t index (Support support_fn) (found, g) =
     Inr (found, opt_edge_from (find_positioning_ref_target rank t support_fn) index g)"
| "connect_extern_attr rank t index (ExternArgs.Schema name) s =
     (let s1 = declared_schema_edges rank t index name s
      in if fst s1 then Inr s1 else Inl (SchemaNotFound name))"
| "connect_extern_attr rank t index _ s = Inr s"

definition connect_extern ::
  "case_table \<Rightarrow> iter_rank \<Rightarrow> Tables \<Rightarrow> PgExternEntity \<times> node_index \<Rightarrow> StableGraph
    \<Rightarrow> build_error + StableGraph" where
  "connect_extern uni rank t p g =
     (let (item, index) = p;
          f = (\<lambda>req. connect_resolved_type rank t index req ''Function'' (pe_full_path item))
      in rbind (rfold (connect_extern_attr rank t index) (pe_extern_attrs item) (False, g))
           (\<lambda>(found, g).
             let g1 = (if found then g
                       else make_schema_connection rank t index (pe_module_path item) g);
                 g2 = fold (\<lambda>(hash_item, hash_index) g.
                        if pe_module_path item = ha_module_path hash_item
                          \<and> pe_name item = to_lowercase uni (ha_name hash_item) @ ''_eq''
                        then add_edge index hash_index By g else g)
                      (hm_iter rank (m_hashes t)) g1
             in rbind (visit_extern_args item (f ByArg) g2) (visit_extern_returns item (f ByReturn))))"

definition connect_externs ::
  "case_table \<Rightarrow> iter_rank \<Rightarrow> Tables \<Rightarrow> StableGraph \<Rightarrow> build_error + StableGraph" where
  "connect_externs uni rank t g =
     rfold (connect_extern uni rank t) (hm_iter rank (m_externs t)) g"

definition ord_fn_names :: "case_table \<Rightarrow> PostgresOrdEntity \<Rightarrow> string list" where
  "ord_fn_names uni item =
     map (\<lambda>suffix. to_lowercase uni (or_name item) @ suffix)
       [''_cmp'', ''_lt'', ''_le'', ''_eq'', ''_gt'', ''_ge'']"

definition connect_ord ::
  "case_table \<Rightarrow> iter_rank \<Rightarrow> Tables \<Rightarrow> PostgresOrdEntity \<times> node_index \<Rightarrow> StableGraph \<Rightarrow> StableGraph"
  where
  "connect_ord uni rank t p g =
     (let (item, index) = p
      in fold (\<lambda>(extern_item, extern_index) g.
             if or_module_path item = pe_module_path extern_item
               \<and> pe_name extern_item \<in> set (ord_fn_names uni item)
             then add_edge extern_index index By g else g)
           (hm_iter rank (m_externs t))
           (make_type_or_enum_connection rank t index (or_type_ident item)
             (make_schema_connection rank t index (or_module_path item) g)))"

definition connect_ords :: "case_table \<Rightarrow> iter_rank \<Rightarrow> Tables \<Rightarrow> StableGraph \<Rightarrow> StableGraph" where
  "connect_ords uni rank t g = fold (connect_ord uni rank t) (hm_iter rank (m_ords t)) g"

definition hash_fn_name :: "case_table \<Rightarrow> PostgresHashEntity \<Rightarrow> string" where
  "hash_fn_name uni item = to_lowercase uni (ha_name item) @ ''_hash''"

definition connect_hash ::
  "case_table \<Rightarrow> iter_rank \<Rightarrow> Tables \<Rightarrow> PostgresHashEntity \<times> node_index \<Rightarrow> StableGraph \<Rightarrow> StableGraph"
  where
  "connect_hash uni rank t p g =
     (let (item, index) = p
      in opt_edge_from
           (hm_find rank (\<lambda>e. ha_module_path item = pe_module_path e \<and> pe_name e = hash_fn_name uni item)
             (m_externs t))
           index
           (make_type_or_enum_connection rank t index (ha_type_ident item)
             (make_schema_connection rank t index (ha_module_path item) g)))"

definition connect_hashes :: "case_table \<Rightarrow> iter_rank \<Rightarrow> Tables \<Rightarrow> StableGraph \<Rightarrow> StableGraph" where
  "connect_hashes uni rank t g = fold (connect_hash uni rank t) (hm_iter rank (m_hashes t)) g"

text \<open>The support functions of an aggregate in the order they are connected.\<close>

definition aggregate_fns :: "PgAggregateEntity \<Rightarrow> string option list" where
  "aggregate_fns item =
     [Some (ag_sfunc item), ag_finalfunc item, ag_combinefunc item, ag_serialfunc item,
      ag_deserialfunc item, ag_msfunc item, ag_minvfunc item, ag_mfinalfunc item, ag_sortop item]"

definition connect_aggregate ::
  "iter_rank \<Rightarrow> Tables \<Rightarrow> PgAggregateEntity \<times> node_index \<Rightarrow> StableGraph \<Rightarrow> build_error + StableGraph" where
  "connect_aggregate rank t p g =
     (let (item, index) = p;
          f = connect_resolved_type rank t index ByArg ''Aggregate'' (ag_full_path item)
      in rbind (visit_aggregate_args ''argument'' aggregate_args_msg (ag_args item) f
             (make_schema_connection rank t index (ag_module_path item) g))
           (\<lambda>g. rbind (visit_aggregate_args ''direct argument'' aggregate_direct_args_msg
                         (ag_direct item) f g)
           (\<lambda>g. rbind (visit_mstype item f g)
           (\<lambda>g. rbind (visit_stype item f g)
           (rfold (\<lambda>fn. make_opt_extern_connection rank t index
                     (map_option (\<lambda>value. ag_module_path item @ ''::'' @ value) fn))
             (aggregate_fns item))))))"

definition connect_aggregates :: "iter_rank \<Rightarrow> Tables \<Rightarrow> StableGraph \<Rightarrow> build_error + StableGraph" where
  "connect_aggregates rank t g =
     rfold (connect_aggregate rank t) (hm_iter rank (m_aggregates t)) g"

definition connect_triggers :: "iter_rank \<Rightarrow> Tables \<Rightarrow> StableGraph \<Rightarrow> StableGraph" where
  "connect_triggers rank t g =
     fold (\<lambda>(item, index). make_schema_connection rank t index (tr_module_path item))
       (hm_iter rank (m_triggers t)) g"

section \<open>Building\<close>

text \<open>The entities of each kind, in their sorted order.\<close>

record SplitEntities =
  se_control :: "ControlFile option"
  se_schemas :: "SchemaEntity list"
  se_extension_sqls :: "ExtensionSqlEntity list"
  se_externs :: "PgExternEntity list"
  se_types :: "PostgresTypeEntity list"
  se_enums :: "PostgresEnumEntity list"
  se_ords :: "PostgresOrdEntity list"
  se_hashes :: "PostgresHashEntity list"
  se_aggregates :: "PgAggregateEntity list"
  se_triggers :: "PgTriggerEntity list"

definition no_entities :: SplitEntities where
  "no_entities = \<lparr>se_control = None, se_schemas = [], se_extension_sqls = [], se_externs = [],
     se_types = [], se_enums = [], se_ords = [], se_hashes = [], se_aggregates = [], se_triggers = []\<rparr>"

fun split_entity :: "SqlGraphEntity \<Rightarrow> SplitEntities \<Rightarrow> SplitEntities" where
  "split_entity (ExtensionRoot e) s = s\<lparr>se_control := Some e\<rparr>"
| "split_entity (SqlGraphEntity.Schema e) s = s\<lparr>se_schemas := se_schemas s @ [e]\<rparr>"
| "split_entity (CustomSql e) s = s\<lparr>se_extension_sqls := se_extension_sqls s @ [e]\<rparr>"
| "split_entity (Function e) s = s\<lparr>se_externs := se_externs s @ [e]\<rparr>"
| "split_entity (SqlGraphEntity.Type e) s = s\<lparr>se_types := se_types s @ [e]\<rparr>"
| "split_entity (BuiltinType e) s = s"
| "split_entity (Enum e) s = s\<lparr>se_enums := se_enums s @ [e]\<rparr>"
| "split_entity (Ord e) s = s\<lparr>se_ords := se_ords s @ [e]\<rparr>"
| "split_entity (Hash e) s = s\<lparr>se_hashes := se_hashes s @ [e]\<rparr>"
| "split_entity (Aggregate e) s = s\<lparr>se_aggregates := se_aggregates s @ [e]\<rparr>"
| "split_entity (Trigger e) s = s\<lparr>se_triggers := se_triggers s @ [e]\<rparr>"

definition split_entities :: "SqlGraphEntity list \<Rightarrow> SplitEntities" where
  "split_entities es = fold split_entity (sort_entities es) no_entities"

text \<open>The first phase: every entity becomes a node, in a table of its kind.\<close>

definition empty_tables :: Tables where
  "empty_tables = \<lparr>m_schemas = [], m_extension_sqls = [], m_externs = [], m_types = [],
     m_builtin_types = [], m_enums = [], m_ords = [], m_hashes = [], m_aggregates = [], m_triggers = []\<rparr>"

record Initialized =
  i_graph :: StableGraph
  i_tables :: Tables
  i_root :: node_index
  i_bootstrap :: "node_index option"
  i_finalize :: "node_index option"

definition build_nodes :: "iter_rank \<Rightarrow> ControlFile \<Rightarrow> SplitEntities \<Rightarrow> build_error + Initialized" where
  "build_nodes rank control se =
     (let (root, g) = add_node (ExtensionRoot control) new_graph
      in rbind (initialize_extension_sqls rank root (se_extension_sqls se) g) (\<lambda>s.
         let bootstrap = x_bootstrap s;
             finalize = x_finalize s;
             (g, schemas) = initialize_schemas bootstrap finalize (se_schemas se) (x_graph s);
             (g, enums) = initialize_enums root bootstrap finalize (se_enums se) g;
             (g, types) = initialize_types root bootstrap finalize (se_types se) g;
             t = empty_tables\<lparr>m_extension_sqls := x_mapped s, m_schemas := schemas,
                   m_enums := enums, m_types := types\<rparr>
         in rbind (ensure_unique_type_targets rank t) (\<lambda>_.
         rbind (initialize_externs rank t root bootstrap finalize (se_externs se) g)
           (\<lambda>((g, builtin_types), externs).
         let (g, ords) = initialize_ords root bootstrap finalize (se_ords se) g;
             (g, hashes) = initialize_hashes root bootstrap finalize (se_hashes se) g
         in rbind (initialize_aggregates rank t root bootstrap finalize (se_aggregates se)
                    (g, builtin_types))
           (\<lambda>((g, builtin_types), aggregates).
         let (g, triggers) = initialize_triggers root bootstrap finalize (se_triggers se) g
         in Inr \<lparr>i_graph = g,
              i_tables = t\<lparr>m_externs := externs, m_builtin_types := builtin_types, m_ords := ords,
                m_hashes := hashes, m_aggregates := aggregates, m_triggers := triggers\<rparr>,
              i_root = root, i_bootstrap = bootstrap, i_finalize = finalize\<rparr>)))))"

text \<open>The second phase: the edges.\<close>

definition build_edges ::
  "case_table \<Rightarrow> iter_rank \<Rightarrow> Tables \<Rightarrow> node_index \<Rightarrow> StableGraph \<Rightarrow> build_error + StableGraph" where
  "build_edges uni rank t root g =
     rbind (connect_extension_sqls rank t (connect_schemas rank t root g))
       (\<lambda>g. rbind (connect_types rank t (connect_enums rank t g))
       (\<lambda>g. rbind (connect_externs uni rank t g)
       (\<lambda>g. rbind (connect_aggregates rank t (connect_hashes uni rank t (connect_ords uni rank t g)))
       (\<lambda>g. Inr (connect_triggers rank t g)))))"

definition build ::
  "case_table \<Rightarrow> iter_rank \<Rightarrow> SqlGraphEntity list \<Rightarrow> string \<Rightarrow> bool \<Rightarrow> build_error + PgrxSql" where
  "build uni rank entities extension_name versioned_so =
     (let se = split_entities entities
      in case se_control se of
           None \<Rightarrow> Inl (Panicked ''No control file found'')
         | Some control \<Rightarrow>
             rbind (build_nodes rank control se) (\<lambda>i.
             rbind (build_edges uni rank (i_tables i) (i_root i) (i_graph i)) (\<lambda>g.
               Inr \<lparr>ps_control = control, ps_graph = g, ps_graph_root = i_root i,
                 ps_graph_bootstrap = i_bootstrap i, ps_graph_finalize = i_finalize i,
                 ps_tables = i_tables i, ps_extension_name = extension_name,
                 ps_versioned_so = versioned_so, ps_qualify_default_schema = False\<rparr>)))"

end
