(* ===== verification/Sql_Context.thy ===== *)
theory Sql_Context
  imports Petgraph Graph_Connect
begin

text \<open>
  What the SQL of an entity needs from the built graph (\<open>PgrxSql\<close>): schema prefixes, the node of a
  type it mentions, the module path name. And the SQL of the entities that need nothing else.
\<close>

section \<open>Environment and errors\<close>

text \<open>
  The parameters of the emission: the graph library, the iteration order of the hash maps, and the
  case tables of \<open>str::to_lowercase\<close> and \<open>str::to_uppercase\<close> outside ASCII.
\<close>

record emit_env =
  env_pg :: petgraph
  env_rank :: iter_rank
  env_lower :: case_table
  env_upper :: case_table

datatype sql_error =
    TypeNotInGraph string UsedTypeEntity
  | CompositeTypeMissing
  | SkippedSqlType
  | SkippedReturn
  | SkippedAggregateType
  | MappingArgument ArgumentError
  | MappingReturn ReturnsError
  | NotPlainReturn Returns
  | NotSetOfItem Returns
  | NotTableItem Returns
  | NotScalar Returns
  | NoReturnType
  | NotScalarReturn PgExternReturnEntity
  | MissingLeftArg string
  | MissingRightArg string
  | CastNotPlain PgExternReturnEntity
  | MissingCastSource string
  | NotAType SqlGraphEntity
  | FnNotFound string
  | FnNotNeighbor string
  | NoMatch string
  | Ambiguous string "string list"
  | SqlPanicked string
  | Diverges

text \<open>\<open>Diverges\<close> stands for a loop that does not end; it is no error of the code.\<close>

type_synonym sql_result = "sql_error + string"

definition nl :: string where "nl = [CHR 0x0A]"

definition tab :: string where "tab = [CHR 0x09]"

definition ascii_upper :: "char \<Rightarrow> char" where
  "ascii_upper c =
     (if 97 \<le> (of_char c :: nat) \<and> (of_char c :: nat) \<le> 122 then char_of ((of_char c :: nat) - 32) else c)"

definition to_uppercase :: "case_table \<Rightarrow> string \<Rightarrow> string" where
  "to_uppercase uni s =
     (if list_all (\<lambda>c. (of_char c :: nat) < 128) s then map ascii_upper s else uni s)"

text \<open>Indexing a table by an entity panics when the entity is not in it.\<close>

definition node_of :: "'k hmap \<Rightarrow> 'k \<Rightarrow> sql_error + node_index" where
  "node_of m k = (case hm_get m k of None \<Rightarrow> Inl (SqlPanicked ''no entry found for key'') | Some i \<Rightarrow> Inr i)"

section \<open>Lookups in the graph\<close>

abbreviation neighbors :: "emit_env \<Rightarrow> PgrxSql \<Rightarrow> node_index \<Rightarrow> node_index list" where
  "neighbors env p \<equiv> pg_neighbors_undirected (env_pg env) (ps_graph p)"

abbreviation node_at :: "PgrxSql \<Rightarrow> node_index \<Rightarrow> SqlGraphEntity" where
  "node_at p i \<equiv> g_nodes (ps_graph p) ! i"

fun schema_name :: "SqlGraphEntity \<Rightarrow> string option" where
  "schema_name (SqlGraphEntity.Schema s) = Some (sc_name s)"
| "schema_name _ = None"

definition schema_alias_of :: "emit_env \<Rightarrow> PgrxSql \<Rightarrow> node_index \<Rightarrow> string option" where
  "schema_alias_of env p item_index =
     (case List.map_filter (\<lambda>n. schema_name (node_at p n)) (neighbors env p item_index) of
        [] \<Rightarrow> None
      | name # _ \<Rightarrow> Some name)"

definition schema_prefix_for :: "emit_env \<Rightarrow> PgrxSql \<Rightarrow> node_index \<Rightarrow> string" where
  "schema_prefix_for env p target =
     (case or_else (schema_alias_of env p target)
             (case node_at p target of
                BuiltinType _ \<Rightarrow> None
              | _ \<Rightarrow> if ps_qualify_default_schema p then cf_schema (ps_control p) else None) of
        None \<Rightarrow> []
      | Some v \<Rightarrow> v @ ''.'')"

definition find_type_dependency :: "emit_env \<Rightarrow> PgrxSql \<Rightarrow> node_index \<Rightarrow> string \<Rightarrow> node_index option" where
  "find_type_dependency env p owner type_ident =
     find (\<lambda>n. type_ident_matches (node_at p n) type_ident) (neighbors env p owner)"

definition schema_prefix_for_used_type ::
  "emit_env \<Rightarrow> PgrxSql \<Rightarrow> node_index \<Rightarrow> string \<Rightarrow> UsedTypeEntity \<Rightarrow> sql_result" where
  "schema_prefix_for_used_type env p owner slot used_ty =
     (case ut_resolution used_ty of
        None \<Rightarrow> Inr []
      | Some (type_ident, origin) \<Rightarrow>
          if origin = External then Inr []
          else case find_type_dependency env p owner type_ident of
            None \<Rightarrow> Inl (TypeNotInGraph slot used_ty)
          | Some graph_index \<Rightarrow> Inr (schema_prefix_for env p graph_index))"

definition get_module_pathname :: "PgrxSql \<Rightarrow> string" where
  "get_module_pathname p =
     (if ps_versioned_so p
      then ps_extension_name p @ ''-'' @ cf_default_version (ps_control p)
      else ''MODULE_PATHNAME'')"

definition find_matching_fn :: "emit_env \<Rightarrow> PgrxSql \<Rightarrow> string \<Rightarrow> PgExternEntity option" where
  "find_matching_fn env p name =
     map_option fst (find (\<lambda>(key, _). ends_with (pe_full_path key) name)
       (hm_iter (env_rank env) (m_externs (ps_tables p))))"

section \<open>Overridden SQL\<close>

definition config_to_sql :: "ToSqlConfigEntity \<Rightarrow> SqlGraphEntity \<Rightarrow> PgrxSql \<Rightarrow> string option" where
  "config_to_sql config entity p =
     (if \<not> tsc_enabled config then
        Some (nl @ sql_anchor_comment entity @ nl @ ''-- Skipped due to `#[pgrx(sql = false)]`'' @ nl)
      else case tsc_content config of
        None \<Rightarrow> None
      | Some content \<Rightarrow>
          Some (nl @ sql_anchor_comment entity @ nl
            @ replace_str ''@MODULE_PATHNAME@'' (get_module_pathname p) content @ nl))"

section \<open>Entities without types\<close>

definition location_comment :: "string \<Rightarrow> u32 \<Rightarrow> string" where
  "location_comment file line = nl @ ''-- '' @ file @ '':'' @ show_u32 line @ nl"

definition schema_to_sql :: "SchemaEntity \<Rightarrow> string" where
  "schema_to_sql item =
     location_comment (sc_file item) (sc_line item)
     @ ''CREATE SCHEMA IF NOT EXISTS '' @ sc_name item @ ''; /* '' @ sc_module_path item @ '' */''"

fun positioning_ref_display :: "PositioningRef \<Rightarrow> string" where
  "positioning_ref_display (FullPath i) = i"
| "positioning_ref_display (PositioningRef.Name i) = i"

definition comment_list :: "string list \<Rightarrow> string" where
  "comment_list items = join_str nl (map (\<lambda>i. ''--   '' @ i) items)"

definition extension_sql_to_sql :: "ExtensionSqlEntity \<Rightarrow> string" where
  "extension_sql_to_sql item =
     (let creates = (if es_creates item \<noteq> []
                     then ''-- creates:'' @ nl @ comment_list (map decl_display (es_creates item)) @ nl @ nl
                     else []);
          requires = (if es_requires item \<noteq> []
                      then ''-- requires:'' @ nl
                             @ comment_list (map positioning_ref_display (es_requires item)) @ nl @ nl
                      else [])
      in location_comment (es_file item) (es_line item)
         @ (if es_bootstrap item then ''-- bootstrap'' @ nl else [])
         @ creates @ requires
         @ (if es_finalize item then ''-- finalize'' @ nl else [])
         @ es_sql item)"

definition control_file_to_sql :: "ControlFile \<Rightarrow> string" where
  "control_file_to_sql item =
     nl @ ''/*'' @ nl @ ''This file is auto generated by pgrx.'' @ nl @ nl
     @ ''The ordering of items is not stable, it is driven by a dependency graph.'' @ nl @ ''*/'' @ nl"

definition enum_to_sql :: "emit_env \<Rightarrow> PgrxSql \<Rightarrow> PostgresEnumEntity \<Rightarrow> sql_result" where
  "enum_to_sql env p item =
     rbind (node_of (m_enums (ps_tables p)) item) (\<lambda>self_index. Inr (
       location_comment (en_file item) (en_line item)
       @ ''-- '' @ en_full_path item @ nl
       @ ''CREATE TYPE '' @ schema_prefix_for env p self_index @ en_name item @ '' AS ENUM ('' @ nl
       @ join_str ('','' @ nl) (map (\<lambda>variant. tab @ [CHR 0x27] @ variant @ [CHR 0x27]) (en_variants item))
       @ nl @ '');''))"

definition cmp_fn_name :: "emit_env \<Rightarrow> PostgresOrdEntity \<Rightarrow> string" where
  "cmp_fn_name env item = to_lowercase (env_lower env) (or_name item) @ ''_cmp''"

definition ord_to_sql :: "emit_env \<Rightarrow> PgrxSql \<Rightarrow> PostgresOrdEntity \<Rightarrow> sql_result" where
  "ord_to_sql env p item =
     rbind (node_of (m_ords (ps_tables p)) item) (\<lambda>self_index.
       let schema = schema_prefix_for env p self_index; name = or_name item
       in Inr (
         location_comment (or_file item) (or_line item)
         @ ''-- '' @ or_full_path item @ nl
         @ ''CREATE OPERATOR FAMILY '' @ schema @ name @ ''_btree_ops USING btree;'' @ nl
         @ ''CREATE OPERATOR CLASS '' @ schema @ name @ ''_btree_ops DEFAULT FOR TYPE '' @ schema @ name
         @ '' USING btree FAMILY '' @ schema @ name @ ''_btree_ops AS'' @ nl
         @ tab @ ''OPERATOR 1 <,'' @ nl
         @ tab @ ''OPERATOR 2 <=,'' @ nl
         @ tab @ ''OPERATOR 3 =,'' @ nl
         @ tab @ ''OPERATOR 4 >=,'' @ nl
         @ tab @ ''OPERATOR 5 >,'' @ nl
         @ tab @ ''FUNCTION 1 '' @ schema @ cmp_fn_name env item
         @ ''('' @ schema @ name @ '', '' @ schema @ name @ '');''))"

definition hash_to_sql :: "emit_env \<Rightarrow> PgrxSql \<Rightarrow> PostgresHashEntity \<Rightarrow> sql_result" where
  "hash_to_sql env p item =
     rbind (node_of (m_hashes (ps_tables p)) item) (\<lambda>self_index.
       let schema = schema_prefix_for env p self_index; name = ha_name item
       in Inr (
         location_comment (ha_file item) (ha_line item)
         @ ''-- '' @ ha_full_path item @ nl
         @ ''CREATE OPERATOR FAMILY '' @ schema @ name @ ''_hash_ops USING hash;'' @ nl
         @ ''CREATE OPERATOR CLASS '' @ schema @ name @ ''_hash_ops DEFAULT FOR TYPE '' @ schema @ name
         @ '' USING hash FAMILY '' @ schema @ name @ ''_hash_ops AS'' @ nl
         @ tab @ ''OPERATOR    1   =  ('' @ schema @ name @ '', '' @ schema @ name @ ''),'' @ nl
         @ tab @ ''FUNCTION    1   '' @ schema @ hash_fn_name (env_lower env) item
         @ ''('' @ schema @ name @ '');''))"

definition wrapper_function_name :: "PgTriggerEntity \<Rightarrow> string" where
  "wrapper_function_name item = tr_function_name item @ ''_wrapper''"

definition trigger_to_sql :: "emit_env \<Rightarrow> PgrxSql \<Rightarrow> PgTriggerEntity \<Rightarrow> sql_result" where
  "trigger_to_sql env p item =
     rbind (node_of (m_triggers (ps_tables p)) item) (\<lambda>self_index. Inr (
       location_comment (tr_file item) (tr_line item)
       @ ''-- '' @ tr_full_path item @ nl
       @ ''CREATE FUNCTION '' @ schema_prefix_for env p self_index
       @ ''\"'' @ tr_function_name item @ ''\"()'' @ nl
       @ tab @ ''RETURNS TRIGGER'' @ nl
       @ tab @ ''LANGUAGE c'' @ nl
       @ tab @ ''AS '' @ [CHR 0x27] @ ''MODULE_PATHNAME'' @ [CHR 0x27] @ '', ''
       @ [CHR 0x27] @ wrapper_function_name item @ [CHR 0x27] @ '';''))"

end
