(* ===== verification/Function_Sql.thy ===== *)
theory Function_Sql
  imports Sql_Context Entity_Order
begin

text \<open>
  The SQL of a function (\<open>pg_extern/entity/mod.rs\<close>): \<open>CREATE FUNCTION\<close>, and the operator and the cast
  the function implements.
\<close>

section \<open>SQL types\<close>

definition with_array_brackets :: "string \<Rightarrow> nat \<Rightarrow> string" where
  "with_array_brackets s dimensions = s @ concat (replicate dimensions ''[]'')"

definition composite_sql_type :: "string option \<Rightarrow> sql_result" where
  "composite_sql_type composite_type =
     (case composite_type of None \<Rightarrow> Inl CompositeTypeMissing | Some t \<Rightarrow> Inr t)"

fun array_sql_type :: "SqlArrayMapping \<Rightarrow> string option \<Rightarrow> sql_result" where
  "array_sql_type (SqlArrayMapping.As sql) composite_type = Inr (with_array_brackets sql 1)"
| "array_sql_type SqlArrayMapping.Composite composite_type =
     rbind (composite_sql_type composite_type) (\<lambda>t. Inr (with_array_brackets t 1))"

fun sql_type :: "SqlMapping \<Rightarrow> string option \<Rightarrow> sql_result" where
  "sql_type (SqlMapping.As sql) composite_type = Inr sql"
| "sql_type SqlMapping.Composite composite_type = composite_sql_type composite_type"
| "sql_type (SqlMapping.Array value) composite_type = array_sql_type value composite_type"
| "sql_type SqlMapping.Skip composite_type = Inl SkippedSqlType"

text \<open>The SQL type of an argument slot, as three functions of the source spell it.\<close>

definition argument_type_sql :: "UsedTypeEntity \<Rightarrow> sql_result" where
  "argument_type_sql used_ty =
     (case md_argument_sql (ut_metadata used_ty) of
        Inl err \<Rightarrow> Inl (MappingArgument err)
      | Inr mapping \<Rightarrow> sql_type mapping (ut_composite_type used_ty))"

definition render_used_type_sql ::
  "emit_env \<Rightarrow> PgrxSql \<Rightarrow> node_index \<Rightarrow> string \<Rightarrow> UsedTypeEntity \<Rightarrow> sql_result" where
  "render_used_type_sql env p owner slot used_ty =
     rbind (schema_prefix_for_used_type env p owner slot used_ty) (\<lambda>schema_prefix.
     rbind (argument_type_sql used_ty) (\<lambda>body. Inr (schema_prefix @ body)))"

definition variadic_prefix :: "UsedTypeEntity \<Rightarrow> string" where
  "variadic_prefix used_ty = (if ut_variadic used_ty then ''VARIADIC '' else [])"

definition sql_args :: "PgExternEntity \<Rightarrow> PgExternArgumentEntity list" where
  "sql_args f = filter (\<lambda>arg. ut_emits_argument_sql (pa_used_ty arg)) (pe_fn_args f)"

definition render_function_argtypes ::
  "emit_env \<Rightarrow> PgrxSql \<Rightarrow> node_index \<Rightarrow> PgExternEntity \<Rightarrow> sql_result" where
  "render_function_argtypes env p owner f =
     rbind (rmap (\<lambda>arg. rbind (render_used_type_sql env p owner (arg_slot arg) (pa_used_ty arg))
                     (\<lambda>rendered. Inr (variadic_prefix (pa_used_ty arg) @ rendered)))
              (sql_args f))
       (\<lambda>pieces. Inr (join_str '', '' pieces))"

fun scalar_return_sql :: "ReturnsError + Returns \<Rightarrow> string option \<Rightarrow> sql_result" where
  "scalar_return_sql (Inr (Returns.One SqlMapping.Skip)) composite_type = Inl SkippedReturn"
| "scalar_return_sql (Inr (Returns.One mapping)) composite_type = sql_type mapping composite_type"
| "scalar_return_sql (Inr other) composite_type = Inl (NotScalar other)"
| "scalar_return_sql (Inl err) composite_type = Inl (MappingReturn err)"

definition render_function_return_type ::
  "emit_env \<Rightarrow> PgrxSql \<Rightarrow> node_index \<Rightarrow> PgExternEntity \<Rightarrow> sql_result" where
  "render_function_return_type env p owner f =
     (case pe_fn_return f of
        RetType ty \<Rightarrow>
          rbind (schema_prefix_for_used_type env p owner ''return type'' ty) (\<lambda>schema_prefix.
          rbind (scalar_return_sql (md_return_sql (ut_metadata ty)) (ut_composite_type ty)) (\<lambda>body.
            Inr (schema_prefix @ body)))
      | RetNone \<Rightarrow> Inl NoReturnType
      | other \<Rightarrow> Inl (NotScalarReturn other))"

section \<open>Attributes\<close>

fun extern_args_display :: "ExternArgs \<Rightarrow> string" where
  "extern_args_display CreateOrReplace = ''CREATE OR REPLACE''"
| "extern_args_display Immutable = ''IMMUTABLE''"
| "extern_args_display Strict = ''STRICT''"
| "extern_args_display Stable = ''STABLE''"
| "extern_args_display Volatile = ''VOLATILE''"
| "extern_args_display Raw = []"
| "extern_args_display ParallelSafe = ''PARALLEL SAFE''"
| "extern_args_display ParallelUnsafe = ''PARALLEL UNSAFE''"
| "extern_args_display SecurityDefiner = ''SECURITY DEFINER''"
| "extern_args_display SecurityInvoker = ''SECURITY INVOKER''"
| "extern_args_display ParallelRestricted = ''PARALLEL RESTRICTED''"
| "extern_args_display (Support item) = positioning_ref_display item"
| "extern_args_display (ShouldPanic _) = []"
| "extern_args_display NoGuard = []"
| "extern_args_display (ExternArgs.Schema _) = []"
| "extern_args_display (ExternArgs.Name _) = []"
| "extern_args_display (Cost cost) = ''COST '' @ cost"
| "extern_args_display (Requires _) = []"

text \<open>The declared attributes with an inferred \<open>STRICT\<close>, sorted and without repetitions.\<close>

definition strict_upgrade :: "PgExternEntity \<Rightarrow> bool" where
  "strict_upgrade item \<longleftrightarrow>
     Strict \<notin> set (pe_extern_attrs item)
     \<and> list_all (\<lambda>arg. \<not> ut_optional (pa_used_ty arg)) (pe_fn_args item)"

definition emitted_attrs :: "PgExternEntity \<Rightarrow> ExternArgs list" where
  "emitted_attrs item =
     remdups_adj (sort_key k_ExternArgs
       (pe_extern_attrs item @ (if strict_upgrade item then [Strict] else [])))"

definition extern_schema :: "emit_env \<Rightarrow> PgrxSql \<Rightarrow> node_index \<Rightarrow> PgExternEntity \<Rightarrow> string" where
  "extern_schema env p self_index item =
     (case pe_schema item of Some schema \<Rightarrow> schema @ ''.'' | None \<Rightarrow> schema_prefix_for env p self_index)"

definition sql_name :: "emit_env \<Rightarrow> PgrxSql \<Rightarrow> PgExternEntity \<Rightarrow> sql_result" where
  "sql_name env p item =
     rbind (node_of (m_externs (ps_tables p)) item) (\<lambda>self_index.
       Inr (extern_schema env p self_index item @ ''\"'' @ pe_name item @ ''\"''))"

definition attr_sql :: "emit_env \<Rightarrow> PgrxSql \<Rightarrow> PgExternEntity \<Rightarrow> ExternArgs \<Rightarrow> sql_result" where
  "attr_sql env p item attr =
     (case attr of
        Support _ \<Rightarrow>
          (case find_matching_fn env p (extern_args_display attr) of
             Some entity \<Rightarrow> rbind (sql_name env p entity) (\<lambda>name. Inr (''SUPPORT '' @ name))
           | None \<Rightarrow>
               Inl (SqlPanicked (''cannot locate SUPPORT function `'' @ extern_args_display attr
                 @ ''` attached to function `'' @ pe_full_path item @ ''`'')))
      | _ \<Rightarrow> Inr (to_uppercase (env_upper env) (extern_args_display attr)))"

definition attrs_sql :: "emit_env \<Rightarrow> PgrxSql \<Rightarrow> PgExternEntity \<Rightarrow> sql_result" where
  "attrs_sql env p item =
     (if emitted_attrs item = [] then Inr []
      else rbind (rmap (attr_sql env p item)
                   (filter (\<lambda>attr. attr \<noteq> CreateOrReplace) (emitted_attrs item)))
             (\<lambda>pieces. Inr (join_str '' '' pieces @ nl)))"

section \<open>Arguments and return\<close>

text \<open>
  The position decides whether a comma follows. Every argument kept here emits SQL, so the
  \<open>SqlMapping::Skip\<close> arm of the loop adds nothing.
\<close>

definition argument_sql_piece ::
  "emit_env \<Rightarrow> PgrxSql \<Rightarrow> node_index \<Rightarrow> bool \<Rightarrow> PgExternArgumentEntity \<Rightarrow> sql_error + string option" where
  "argument_sql_piece env p self_index needs_comma arg =
     (let used_ty = pa_used_ty arg
      in rbind (schema_prefix_for_used_type env p self_index (arg_slot arg) used_ty) (\<lambda>schema_prefix.
         case md_argument_sql (ut_metadata used_ty) of
           Inl err \<Rightarrow> Inl (MappingArgument err)
         | Inr SqlMapping.Skip \<Rightarrow> Inr None
         | Inr mapping \<Rightarrow>
             rbind (sql_type mapping (ut_composite_type used_ty)) (\<lambda>sql.
               Inr (Some (tab @ ''\"'' @ pa_pattern arg @ ''\" '' @ variadic_prefix used_ty @ schema_prefix @ sql
                 @ (case ut_default used_ty of None \<Rightarrow> [] | Some def \<Rightarrow> '' DEFAULT '' @ def)
                 @ (if needs_comma then '', '' else '' '')
                 @ ''/* '' @ ut_full_path used_ty @ '' */'')))))"

fun with_commas :: "'a list \<Rightarrow> (bool \<times> 'a) list" where
  "with_commas [] = []"
| "with_commas [x] = [(False, x)]"
| "with_commas (x # y # zs) = (True, x) # with_commas (y # zs)"

definition arguments_sql :: "emit_env \<Rightarrow> PgrxSql \<Rightarrow> node_index \<Rightarrow> PgExternEntity \<Rightarrow> sql_result" where
  "arguments_sql env p self_index item =
     (if pe_fn_args item = [] then Inr []
      else rbind (rmap (\<lambda>(needs_comma, arg). argument_sql_piece env p self_index needs_comma arg)
                   (with_commas (sql_args item)))
             (\<lambda>args. Inr (nl @ join_str nl (List.map_filter (\<lambda>x. x) args) @ nl)))"

text \<open>The type of a return slot, its schema prefix in front: the prefix is looked up first.\<close>

definition return_slot_sql ::
  "emit_env \<Rightarrow> PgrxSql \<Rightarrow> node_index \<Rightarrow> string \<Rightarrow> UsedTypeEntity \<Rightarrow> SqlMapping \<Rightarrow> sql_result" where
  "return_slot_sql env p self_index slot ty mapping =
     rbind (schema_prefix_for_used_type env p self_index slot ty) (\<lambda>schema_prefix.
     rbind (sql_type mapping (ut_composite_type ty)) (\<lambda>sql. Inr (schema_prefix @ sql)))"

definition type_return_sql :: "emit_env \<Rightarrow> PgrxSql \<Rightarrow> node_index \<Rightarrow> UsedTypeEntity \<Rightarrow> sql_result" where
  "type_return_sql env p self_index ty =
     (case md_return_sql (ut_metadata ty) of
        Inl err \<Rightarrow> Inl (MappingReturn err)
      | Inr (Returns.One SqlMapping.Skip) \<Rightarrow> Inl (NotPlainReturn (Returns.One SqlMapping.Skip))
      | Inr (Returns.One mapping) \<Rightarrow> return_slot_sql env p self_index ''return type'' ty mapping
      | Inr other \<Rightarrow> Inl (NotPlainReturn other))"

definition setof_return_slot_sql :: "emit_env \<Rightarrow> PgrxSql \<Rightarrow> node_index \<Rightarrow> UsedTypeEntity \<Rightarrow> sql_result" where
  "setof_return_slot_sql env p self_index ty =
     (case md_return_sql (ut_metadata ty) of
        Inl err \<Rightarrow> Inl (MappingReturn err)
      | Inr (Returns.One SqlMapping.Skip) \<Rightarrow> Inl (NotSetOfItem (Returns.One SqlMapping.Skip))
      | Inr (Returns.SetOf SqlMapping.Skip) \<Rightarrow> Inl (NotSetOfItem (Returns.SetOf SqlMapping.Skip))
      | Inr (Returns.One mapping) \<Rightarrow> return_slot_sql env p self_index ''setof return type'' ty mapping
      | Inr (Returns.SetOf mapping) \<Rightarrow> return_slot_sql env p self_index ''setof return type'' ty mapping
      | Inr other \<Rightarrow> Inl (NotSetOfItem other))"

definition table_column_sql ::
  "emit_env \<Rightarrow> PgrxSql \<Rightarrow> node_index \<Rightarrow> bool \<Rightarrow> PgExternReturnEntityIteratedItem \<Rightarrow> sql_result" where
  "table_column_sql env p self_index needs_comma item =
     (let ty = ri_ty item
      in rbind (case md_return_sql (ut_metadata ty) of
             Inl err \<Rightarrow> Inl (MappingReturn err)
           | Inr (Returns.One SqlMapping.Skip) \<Rightarrow> Inl (NotTableItem (Returns.One SqlMapping.Skip))
           | Inr (Returns.One mapping) \<Rightarrow> return_slot_sql env p self_index ''table return column'' ty mapping
           | Inr other \<Rightarrow> Inl (NotTableItem other))
           (\<lambda>sql. case ri_name item of
              None \<Rightarrow> Inl (SqlPanicked ''An iterator of tuples should have `named!()` macro declarations.'')
            | Some col_name \<Rightarrow>
                Inr (nl @ tab @ col_name @ '' '' @ sql @ (if needs_comma then '', '' else '' '')
                  @ '' /* '' @ ut_full_path ty @ '' */'')))"

definition returns_sql :: "emit_env \<Rightarrow> PgrxSql \<Rightarrow> node_index \<Rightarrow> PgExternReturnEntity \<Rightarrow> sql_result" where
  "returns_sql env p self_index fn_return =
     (case fn_return of
        RetNone \<Rightarrow> Inr ''RETURNS void''
      | RetType ty \<Rightarrow>
          rbind (type_return_sql env p self_index ty) (\<lambda>sql.
            Inr (''RETURNS '' @ sql @ '' /* '' @ ut_full_path ty @ '' */''))
      | RetSetOf ty \<Rightarrow>
          rbind (setof_return_slot_sql env p self_index ty) (\<lambda>sql.
            Inr (''RETURNS SETOF '' @ sql @ '' /* '' @ ut_full_path ty @ '' */''))
      | RetIterated table_items \<Rightarrow>
          rbind (rmap (\<lambda>(needs_comma, item). table_column_sql env p self_index needs_comma item)
                   (with_commas table_items))
            (\<lambda>items. Inr (''RETURNS TABLE ('' @ concat items @ nl @ '')''))
      | RetTrigger \<Rightarrow> Inr ''RETURNS trigger'')"

section \<open>The statement\<close>

definition create_function_sql :: "emit_env \<Rightarrow> PgrxSql \<Rightarrow> node_index \<Rightarrow> PgExternEntity \<Rightarrow> sql_result" where
  "create_function_sql env p self_index item =
     rbind (arguments_sql env p self_index item) (\<lambda>arguments.
     rbind (returns_sql env p self_index (pe_fn_return item)) (\<lambda>returns.
     rbind (attrs_sql env p item) (\<lambda>extern_attrs.
       Inr (''CREATE '' @ (if CreateOrReplace \<in> set (emitted_attrs item) then ''OR REPLACE'' else [])
         @ '' FUNCTION '' @ extern_schema env p self_index item @ ''\"'' @ pe_name item @ ''\"(''
         @ arguments @ '') '' @ returns @ nl
         @ extern_attrs
         @ (case pe_search_path item of
              None \<Rightarrow> []
            | Some search_path \<Rightarrow> ''SET search_path TO '' @ join_str '', '' search_path @ nl)
         @ ''LANGUAGE c /* Rust */'' @ nl
         @ ''AS '' @ [CHR 0x27] @ get_module_pathname p @ [CHR 0x27] @ '', ''
         @ [CHR 0x27] @ pe_unaliased_name item @ ''_wrapper'' @ [CHR 0x27] @ '';''))))"

fun attr_requirements :: "ExternArgs \<Rightarrow> PositioningRef list" where
  "attr_requirements (Requires requirements) = requirements"
| "attr_requirements (Support support_fn) = [support_fn]"
| "attr_requirements _ = []"

definition requires_comment :: "PgExternEntity \<Rightarrow> string" where
  "requires_comment item =
     (let requires_attrs = concat (map attr_requirements (pe_extern_attrs item))
      in if requires_attrs \<noteq> []
         then ''-- requires:'' @ nl @ comment_list (map positioning_ref_display requires_attrs) @ nl
         else [])"

definition extern_comment :: "PgExternEntity \<Rightarrow> string" where
  "extern_comment item =
     location_comment (pe_file item) (pe_line item)
     @ ''-- '' @ pe_module_path item @ ''::'' @ pe_name item @ nl"

text \<open>The optional clauses of an operator.\<close>

definition operator_optionals :: "PgOperatorEntity \<Rightarrow> string list" where
  "operator_optionals op =
     (case op_commutator op of None \<Rightarrow> [] | Some it \<Rightarrow> [tab @ ''COMMUTATOR = '' @ it])
     @ (case op_negator op of None \<Rightarrow> [] | Some it \<Rightarrow> [tab @ ''NEGATOR = '' @ it])
     @ (case op_restrict op of None \<Rightarrow> [] | Some it \<Rightarrow> [tab @ ''RESTRICT = '' @ it])
     @ (case op_join op of None \<Rightarrow> [] | Some it \<Rightarrow> [tab @ ''JOIN = '' @ it])
     @ (if op_hashes op then [tab @ ''HASHES''] else [])
     @ (if op_merges op then [tab @ ''MERGES''] else [])"

text \<open>The error for a missing right argument names the left argument, as in the source.\<close>

definition operator_sql ::
  "emit_env \<Rightarrow> PgrxSql \<Rightarrow> node_index \<Rightarrow> PgExternEntity \<Rightarrow> PgOperatorEntity \<Rightarrow> sql_result" where
  "operator_sql env p self_index item op =
     (let optionals = operator_optionals op; schema = extern_schema env p self_index item
      in case pe_fn_args item of
           [] \<Rightarrow> Inl (MissingLeftArg (pe_name item))
         | left_arg # rest \<Rightarrow>
             rbind (render_used_type_sql env p self_index ''operator left argument'' (pa_used_ty left_arg))
               (\<lambda>left_arg_sql.
             case rest of
               [] \<Rightarrow> Inl (MissingLeftArg (pe_name item))
             | right_arg # _ \<Rightarrow>
                 rbind (render_used_type_sql env p self_index ''operator right argument'' (pa_used_ty right_arg))
                   (\<lambda>right_arg_sql.
                 case op_opname op of
                   None \<Rightarrow> Inl (SqlPanicked ''called `Option::unwrap()` on a `None` value'')
                 | Some opname \<Rightarrow>
                     Inr (nl @ extern_comment item
                       @ ''CREATE OPERATOR '' @ schema @ opname @ '' ('' @ nl
                       @ tab @ ''PROCEDURE='' @ schema @ ''\"'' @ pe_name item @ ''\",'' @ nl
                       @ tab @ ''LEFTARG='' @ left_arg_sql @ '', /* '' @ ut_full_path (pa_used_ty left_arg)
                       @ '' */'' @ nl
                       @ tab @ ''RIGHTARG='' @ right_arg_sql @ (if optionals \<noteq> [] then '','' else [])
                       @ '' /* '' @ ut_full_path (pa_used_ty right_arg) @ '' */'' @ nl
                       @ (if optionals \<noteq> [] then join_str ('','' @ nl) optionals @ nl else [])
                       @ '');''))))"

fun cast_optional :: "PgCastEntity \<Rightarrow> string" where
  "cast_optional CastDefault = []"
| "cast_optional CastAssignment = '' AS ASSIGNMENT''"
| "cast_optional CastImplicit = '' AS IMPLICIT''"

definition cast_sql ::
  "emit_env \<Rightarrow> PgrxSql \<Rightarrow> node_index \<Rightarrow> PgExternEntity \<Rightarrow> PgCastEntity \<Rightarrow> sql_result" where
  "cast_sql env p self_index item cast =
     (case pe_fn_return item of
        RetType target_ty \<Rightarrow>
          rbind (render_function_return_type env p self_index item) (\<lambda>target_arg_sql.
          case pe_fn_args item of
            [] \<Rightarrow> Inl (MissingCastSource (pe_name item))
          | source_arg # _ \<Rightarrow>
              rbind (render_used_type_sql env p self_index ''cast source type'' (pa_used_ty source_arg))
                (\<lambda>source_arg_sql.
              rbind (sql_name env p item) (\<lambda>function_name.
                Inr (nl @ extern_comment item
                  @ ''CREATE CAST ('' @ nl
                  @ tab @ source_arg_sql @ '' /* '' @ ut_full_path (pa_used_ty source_arg) @ '' */'' @ nl
                  @ tab @ ''AS'' @ nl
                  @ tab @ target_arg_sql @ '' /* '' @ ut_full_path target_ty @ '' */'' @ nl
                  @ '')'' @ nl
                  @ ''WITH FUNCTION '' @ function_name @ cast_optional cast @ '';''))))
      | other \<Rightarrow> Inl (CastNotPlain other))"

definition extern_to_sql :: "emit_env \<Rightarrow> PgrxSql \<Rightarrow> PgExternEntity \<Rightarrow> sql_result" where
  "extern_to_sql env p item =
     rbind (node_of (m_externs (ps_tables p)) item) (\<lambda>self_index.
     rbind (create_function_sql env p self_index item) (\<lambda>fn_sql.
     rbind (case pe_operator item of None \<Rightarrow> Inr [] | Some op \<Rightarrow> operator_sql env p self_index item op)
       (\<lambda>operator_sql.
     rbind (case pe_cast item of None \<Rightarrow> Inr [] | Some cast \<Rightarrow> cast_sql env p self_index item cast)
       (\<lambda>cast_sql.
       Inr (extern_comment item @ requires_comment item @ fn_sql @ operator_sql @ cast_sql)))))"

end
