(* ===== verification/Entity_Sql.thy ===== *)
theory Entity_Sql
  imports Function_Sql
begin

text \<open>
  The SQL of types (\<open>postgres_type/entity.rs\<close>) and aggregates (\<open>aggregate/entity.rs\<close>), and
  \<open>SqlGraphEntity::to_sql\<close>, which dispatches on the kind of the entity.
\<close>

section \<open>Types\<close>

definition function_name :: "string \<Rightarrow> string" where
  "function_name path = rev (hd (split_str ''::'' (rev path)))"

fun is_fn_at :: "string \<Rightarrow> SqlGraphEntity \<Rightarrow> bool" where
  "is_fn_at path (Function func) = (pe_full_path func = path)"
| "is_fn_at path _ = False"

text \<open>
  A support function of a type: it must be a function of the extension and a neighbor of the type.
  The result is its node, its SQL and its path.
\<close>

definition support_fn_sql ::
  "emit_env \<Rightarrow> PgrxSql \<Rightarrow> node_index \<Rightarrow> string \<Rightarrow> sql_error + node_index \<times> string \<times> string" where
  "support_fn_sql env p self_index path =
     (case find (\<lambda>(k, _). pe_full_path k = path) (hm_iter (env_rank env) (m_externs (ps_tables p))) of
        None \<Rightarrow> Inl (FnNotFound path)
      | Some _ \<Rightarrow>
          (case find (\<lambda>n. is_fn_at path (node_at p n)) (neighbors env p self_index) of
             None \<Rightarrow> Inl (FnNotNeighbor path)
           | Some n \<Rightarrow>
               (case node_at p n of
                  Function func \<Rightarrow> rbind (extern_to_sql env p func) (\<lambda>sql. Inr (n, sql, path))
                | _ \<Rightarrow> Inl (FnNotNeighbor path))))"

definition opt_support_fn_sql ::
  "emit_env \<Rightarrow> PgrxSql \<Rightarrow> node_index \<Rightarrow> string option
    \<Rightarrow> sql_error + (node_index \<times> string \<times> string) option" where
  "opt_support_fn_sql env p self_index path =
     (case path of
        None \<Rightarrow> Inr None
      | Some path \<Rightarrow> map_res Some (support_fn_sql env p self_index path))"

definition is_power_of_two :: "nat \<Rightarrow> bool" where
  "is_power_of_two n \<longleftrightarrow> list_ex (\<lambda>k. n = 2 ^ k) [0..<64]"

definition alignment_sql :: "PostgresTypeEntity \<Rightarrow> sql_result" where
  "alignment_sql item =
     (case ty_alignment item of
        None \<Rightarrow> Inr []
      | Some alignment \<Rightarrow>
          rbind (if \<not> is_power_of_two alignment
                 then Inl (SqlPanicked ''assertion failed: alignment.is_power_of_two()'')
                 else if alignment = 1 then Inr ''char''
                 else if alignment = 2 then Inr ''int2''
                 else if alignment = 4 then Inr ''int4''
                 else if alignment = 8 then Inr ''double''
                 else Inl (SqlPanicked (''type '' @ [CHR 0x27] @ ty_name item @ [CHR 0x27]
                        @ '' wants unsupported alignment '' @ [CHR 0x27] @ show_nat alignment @ [CHR 0x27])))
            (\<lambda>name. Inr ('','' @ nl @ tab @ ''ALIGNMENT = '' @ name)))"

definition shell_type_sql :: "emit_env \<Rightarrow> PgrxSql \<Rightarrow> node_index \<Rightarrow> PostgresTypeEntity \<Rightarrow> string" where
  "shell_type_sql env p self_index item =
     location_comment (ty_file item) (ty_line item)
     @ ''-- '' @ ty_full_path item @ nl
     @ ''CREATE TYPE '' @ schema_prefix_for env p self_index @ ty_name item @ '';''"

definition support_attribute ::
  "emit_env \<Rightarrow> PgrxSql \<Rightarrow> string \<Rightarrow> node_index \<times> string \<times> string \<Rightarrow> string" where
  "support_attribute env p keyword fn =
     (case fn of (n, sql, path) \<Rightarrow>
        tab @ keyword @ '' = '' @ schema_prefix_for env p n @ function_name path @ '', /* '' @ path @ '' */'' @ nl)"

fun receive_send ::
  "emit_env \<Rightarrow> PgrxSql \<Rightarrow> (node_index \<times> string \<times> string) option \<Rightarrow> (node_index \<times> string \<times> string) option
    \<Rightarrow> string \<times> string" where
  "receive_send env p (Some receive) (Some send) =
     (support_attribute env p ''RECEIVE'' receive @ support_attribute env p ''SEND'' send,
      nl @ fst (snd receive) @ nl @ fst (snd send) @ nl)"
| "receive_send env p _ _ = ([], [])"

definition type_to_sql :: "emit_env \<Rightarrow> PgrxSql \<Rightarrow> PostgresTypeEntity \<Rightarrow> sql_result" where
  "type_to_sql env p item =
     rbind (node_of (m_types (ps_tables p)) item) (\<lambda>self_index.
     case node_at p self_index of
       SqlGraphEntity.Type ty \<Rightarrow>
         (let resolve = resolve_function_path (ty_module_path ty)
          in rbind (support_fn_sql env p self_index (resolve (ty_in_fn_path ty))) (\<lambda>in_fn.
             rbind (support_fn_sql env p self_index (resolve (ty_out_fn_path ty))) (\<lambda>out_fn.
             rbind (opt_support_fn_sql env p self_index (map_option resolve (ty_receive_fn_path ty))) (\<lambda>receive.
             rbind (opt_support_fn_sql env p self_index (map_option resolve (ty_send_fn_path ty))) (\<lambda>send.
             rbind (alignment_sql ty) (\<lambda>alignment.
               let (attributes, receive_send_sql) = receive_send env p receive send;
                   shell_type = shell_type_sql env p self_index ty;
                   materialized_type =
                     location_comment (ty_file ty) (ty_line ty)
                     @ ''-- '' @ ty_full_path ty @ nl
                     @ ''CREATE TYPE '' @ schema_prefix_for env p self_index @ ty_name ty @ '' ('' @ nl
                     @ tab @ ''INTERNALLENGTH = variable,'' @ nl
                     @ support_attribute env p ''INPUT'' in_fn
                     @ support_attribute env p ''OUTPUT'' out_fn
                     @ attributes
                     @ tab @ ''STORAGE = extended'' @ alignment @ nl
                     @ '');''
               in Inr (shell_type @ nl @ fst (snd in_fn) @ nl @ fst (snd out_fn) @ receive_send_sql @ nl
                    @ materialized_type)))))))
     | other \<Rightarrow> Inl (NotAType other))"

section \<open>Aggregates\<close>

fun aggregate_sql_type :: "SqlMapping \<Rightarrow> string option \<Rightarrow> sql_result" where
  "aggregate_sql_type (SqlMapping.As sql) composite_type = Inr sql"
| "aggregate_sql_type SqlMapping.Composite composite_type = composite_sql_type composite_type"
| "aggregate_sql_type (SqlMapping.Array (SqlArrayMapping.As sql)) composite_type =
     Inr (with_array_brackets sql 1)"
| "aggregate_sql_type (SqlMapping.Array SqlArrayMapping.Composite) composite_type =
     map_res (\<lambda>sql. with_array_brackets sql 1) (composite_sql_type composite_type)"
| "aggregate_sql_type SqlMapping.Skip composite_type = Inl SkippedAggregateType"

definition map_ty :: "UsedTypeEntity \<Rightarrow> sql_result" where
  "map_ty used_ty =
     (case md_argument_sql (ut_metadata used_ty) of
        Inl err \<Rightarrow> Inl (MappingArgument err)
      | Inr mapping \<Rightarrow> aggregate_sql_type mapping (ut_composite_type used_ty))"

definition name_or :: "string \<Rightarrow> AggregateTypeEntity \<Rightarrow> string" where
  "name_or fallback arg = (case at_name arg of None \<Rightarrow> fallback | Some name \<Rightarrow> name)"

definition render_slot ::
  "emit_env \<Rightarrow> PgrxSql \<Rightarrow> node_index \<Rightarrow> AggregateTypeEntity \<Rightarrow> sql_result" where
  "render_slot env p owner arg =
     rbind (schema_prefix_for_used_type env p owner (name_or ''aggregate argument'' arg) (at_used_ty arg))
       (\<lambda>prefix. rbind (map_ty (at_used_ty arg)) (\<lambda>sql.
         Inr (variadic_prefix (at_used_ty arg) @ prefix @ sql)))"

definition render_aggregate_argtypes ::
  "emit_env \<Rightarrow> PgrxSql \<Rightarrow> node_index \<Rightarrow> PgAggregateEntity \<Rightarrow> sql_result" where
  "render_aggregate_argtypes env p owner a =
     rbind (rmap (render_slot env p owner) (ag_args a)) (\<lambda>args.
       if ag_ordered_set a
       then rbind (rmap (render_slot env p owner) (case ag_direct_args a of None \<Rightarrow> [] | Some d \<Rightarrow> d)) (\<lambda>direct.
              Inr (''('' @ join_str '', '' direct @ '' ORDER BY '' @ join_str '', '' args @ '')''))
       else Inr (''('' @ join_str '', '' args @ '')''))"

fun finalize_modify_to_sql :: "FinalizeModify \<Rightarrow> string" where
  "finalize_modify_to_sql ReadOnly = ''READ_ONLY''"
| "finalize_modify_to_sql Shareable = ''SHAREABLE''"
| "finalize_modify_to_sql ReadWrite = ''READ_WRITE''"

fun parallel_option_to_sql :: "ParallelOption \<Rightarrow> string" where
  "parallel_option_to_sql Safe = ''SAFE''"
| "parallel_option_to_sql Restricted = ''RESTRICTED''"
| "parallel_option_to_sql Unsafe = ''UNSAFE''"

definition opt_attribute ::
  "PgAggregateEntity \<Rightarrow> 'v option \<Rightarrow> ('v \<Rightarrow> string) \<Rightarrow> string \<Rightarrow> (string \<times> string) list" where
  "opt_attribute item v render what =
     (case v of
        None \<Rightarrow> []
      | Some value \<Rightarrow> [(render value, ''/* '' @ ag_full_path item @ ''::'' @ what @ '' */'')])"

text \<open>The optional attributes with their comments, all but \<open>MSTYPE\<close>, which comes last.\<close>

definition optional_attributes :: "string \<Rightarrow> PgAggregateEntity \<Rightarrow> (string \<times> string) list" where
  "optional_attributes schema item =
     (let quoted = (\<lambda>keyword value. tab @ keyword @ '' = '' @ schema @ ''\"'' @ value @ ''\"'');
          plain = (\<lambda>keyword value. tab @ keyword @ '' = '' @ value);
          literal = (\<lambda>keyword value. tab @ keyword @ '' = '' @ [CHR 0x27] @ value @ [CHR 0x27])
      in opt_attribute item (ag_finalfunc item) (quoted ''FINALFUNC'') ''final''
         @ opt_attribute item (ag_finalfunc_modify item) (\<lambda>v. plain ''FINALFUNC_MODIFY'' (finalize_modify_to_sql v))
             ''FINALIZE_MODIFY''
         @ opt_attribute item (ag_combinefunc item) (quoted ''COMBINEFUNC'') ''combine''
         @ opt_attribute item (ag_serialfunc item) (quoted ''SERIALFUNC'') ''serial''
         @ opt_attribute item (ag_deserialfunc item) (\<lambda>v. tab @ ''DESERIALFUNC ='' @ schema @ '' \"'' @ v @ ''\"'') ''deserial''
         @ opt_attribute item (ag_initcond item) (literal ''INITCOND'') ''INITIAL_CONDITION''
         @ opt_attribute item (ag_msfunc item) (quoted ''MSFUNC'') ''moving_state''
         @ opt_attribute item (ag_minvfunc item) (quoted ''MINVFUNC'') ''moving_state_inverse''
         @ opt_attribute item (ag_mfinalfunc item) (quoted ''MFINALFUNC'') ''moving_state_finalize''
         @ opt_attribute item (ag_mfinalfunc_modify item) (\<lambda>v. plain ''MFINALFUNC_MODIFY'' (finalize_modify_to_sql v))
             ''MOVING_FINALIZE_MODIFY''
         @ opt_attribute item (ag_minitcond item) (literal ''MINITCOND'') ''MOVING_INITIAL_CONDITION''
         @ opt_attribute item (ag_sortop item) (\<lambda>v. tab @ ''SORTOP = \"'' @ v @ ''\"'') ''SORT_OPERATOR''
         @ opt_attribute item (ag_parallel item) (\<lambda>v. plain ''PARALLEL'' (parallel_option_to_sql v)) ''PARALLEL''
         @ (if ag_hypothetical item then opt_attribute item (Some ()) (\<lambda>_. tab @ ''HYPOTHETICAL'') ''hypothetical'' else []))"

definition sql_type_for_slot ::
  "emit_env \<Rightarrow> PgrxSql \<Rightarrow> node_index \<Rightarrow> string \<Rightarrow> UsedTypeEntity \<Rightarrow> sql_result" where
  "sql_type_for_slot env p self_index slot used_ty =
     rbind (map_ty used_ty) (\<lambda>sql.
     rbind (schema_prefix_for_used_type env p self_index slot used_ty) (\<lambda>schema_prefix.
       Inr (schema_prefix @ sql)))"

definition mstype_attribute ::
  "emit_env \<Rightarrow> PgrxSql \<Rightarrow> node_index \<Rightarrow> PgAggregateEntity \<Rightarrow> sql_error + (string \<times> string) list" where
  "mstype_attribute env p self_index item =
     (case ag_mstype item of
        None \<Rightarrow> Inr []
      | Some value \<Rightarrow>
          rbind (sql_type_for_slot env p self_index ''MSTYPE'' value) (\<lambda>sql.
            Inr [(tab @ ''MSTYPE = '' @ sql,
                  ''/* '' @ ag_full_path item @ ''::MovingState = '' @ ut_full_path value @ '' */'')]))"

definition attributes_string :: "(string \<times> string) list \<Rightarrow> string" where
  "attributes_string attributes =
     concat (map (\<lambda>(more, (attribute, comment)).
         attribute @ (if more then '','' else []) @ '' '' @ comment @ (if more then nl else []))
       (with_commas attributes))"

definition aggregate_arg_sql ::
  "emit_env \<Rightarrow> PgrxSql \<Rightarrow> node_index \<Rightarrow> bool \<Rightarrow> AggregateTypeEntity \<Rightarrow> sql_result" where
  "aggregate_arg_sql env p self_index needs_comma arg =
     rbind (schema_prefix_for_used_type env p self_index (name_or ''aggregate argument'' arg) (at_used_ty arg))
       (\<lambda>schema_prefix. rbind (map_ty (at_used_ty arg)) (\<lambda>sql.
         Inr (tab @ (case at_name arg of None \<Rightarrow> [] | Some name \<Rightarrow> ''\"'' @ name @ ''\" '')
           @ variadic_prefix (at_used_ty arg) @ schema_prefix @ sql
           @ (if needs_comma then '', '' else '' '') @ ''/* '' @ ut_full_path (at_used_ty arg) @ '' */'')))"

definition aggregate_direct_arg_sql ::
  "emit_env \<Rightarrow> PgrxSql \<Rightarrow> node_index \<Rightarrow> bool \<Rightarrow> AggregateTypeEntity \<Rightarrow> sql_result" where
  "aggregate_direct_arg_sql env p self_index needs_comma arg =
     rbind (schema_prefix_for_used_type env p self_index (name_or ''aggregate direct argument'' arg)
              (at_used_ty arg))
       (\<lambda>schema_prefix. rbind (map_ty (at_used_ty arg)) (\<lambda>sql.
         Inr (tab @ (case at_name arg of None \<Rightarrow> [] | Some name \<Rightarrow> ''\"'' @ name @ ''\" '')
           @ schema_prefix @ sql
           @ (if needs_comma then '', '' else '' '') @ ''/* '' @ ut_full_path (at_used_ty arg) @ '' */'')))"

definition aggregate_to_sql :: "emit_env \<Rightarrow> PgrxSql \<Rightarrow> PgAggregateEntity \<Rightarrow> sql_result" where
  "aggregate_to_sql env p item =
     rbind (node_of (m_aggregates (ps_tables p)) item) (\<lambda>self_index.
     let schema = schema_prefix_for env p self_index
     in rbind (sql_type_for_slot env p self_index ''STYPE'' (at_used_ty (ag_stype item))) (\<lambda>stype.
        rbind (mstype_attribute env p self_index item) (\<lambda>mstype.
        let attributes = optional_attributes schema item @ mstype
        in rbind (rmap (\<lambda>(needs_comma, arg). aggregate_arg_sql env p self_index needs_comma arg)
                    (with_commas (ag_args item))) (\<lambda>args.
           rbind (case ag_direct_args item of
                    None \<Rightarrow> Inr []
                  | Some direct_args \<Rightarrow>
                      rbind (rmap (\<lambda>(needs_comma, arg). aggregate_direct_arg_sql env p self_index needs_comma arg)
                               (with_commas direct_args))
                        (\<lambda>args. Inr (nl @ join_str nl args @ nl))) (\<lambda>direct_args.
             Inr (location_comment (ag_file item) (ag_line item)
               @ ''-- '' @ ag_full_path item @ nl
               @ ''CREATE AGGREGATE '' @ schema @ ag_name item @ '' ('' @ direct_args
               @ (if ag_ordered_set item then tab @ ''ORDER BY'' else [])
               @ nl @ join_str nl args @ nl @ '')'' @ nl
               @ ''('' @ nl
               @ tab @ ''SFUNC = '' @ schema @ ''\"'' @ ag_sfunc item @ ''\", /* '' @ ag_full_path item
               @ ''::state */'' @ nl
               @ tab @ ''STYPE = '' @ stype @ (if attributes = [] then [] else '','')
               @ '' /* '' @ ut_full_path (at_used_ty (ag_stype item)) @ '' */''
               @ nl @ attributes_string attributes @ (if attributes = [] then [] else nl)
               @ '');''))))))"

section \<open>Any entity\<close>

text \<open>A function that a neighboring type lists is emitted with that type, and not on its own.\<close>

fun lists_fn :: "PgExternEntity \<Rightarrow> SqlGraphEntity \<Rightarrow> bool" where
  "lists_fn item (SqlGraphEntity.Type ty) =
     (let resolve = resolve_function_path (ty_module_path ty)
      in pe_full_path item = resolve (ty_in_fn_path ty)
         \<or> pe_full_path item = resolve (ty_out_fn_path ty)
         \<or> map_option resolve (ty_receive_fn_path ty) = Some (pe_full_path item)
         \<or> map_option resolve (ty_send_fn_path ty) = Some (pe_full_path item))"
| "lists_fn item _ = False"

definition configured ::
  "ToSqlConfigEntity \<Rightarrow> SqlGraphEntity \<Rightarrow> PgrxSql \<Rightarrow> sql_result \<Rightarrow> sql_result" where
  "configured config entity p sql =
     (case config_to_sql config entity p of Some result \<Rightarrow> Inr result | None \<Rightarrow> sql)"

definition function_sql :: "emit_env \<Rightarrow> PgrxSql \<Rightarrow> PgExternEntity \<Rightarrow> sql_result" where
  "function_sql env p item =
     rbind (node_of (m_externs (ps_tables p)) item) (\<lambda>index.
       if list_ex (\<lambda>n. lists_fn item (node_at p n)) (neighbors env p index) then Inr []
       else extern_to_sql env p item)"

fun entity_to_sql :: "emit_env \<Rightarrow> PgrxSql \<Rightarrow> SqlGraphEntity \<Rightarrow> sql_result" where
  "entity_to_sql env p (SqlGraphEntity.Schema item) =
     Inr (if sc_name item = ''public'' \<or> sc_name item = ''pg_catalog'' then [] else schema_to_sql item)"
| "entity_to_sql env p (CustomSql item) = Inr (extension_sql_to_sql item)"
| "entity_to_sql env p (Function item) =
     configured (pe_to_sql_config item) (Function item) p (function_sql env p item)"
| "entity_to_sql env p (SqlGraphEntity.Type item) =
     configured (ty_to_sql_config item) (SqlGraphEntity.Type item) p (type_to_sql env p item)"
| "entity_to_sql env p (BuiltinType _) = Inr []"
| "entity_to_sql env p (Enum item) =
     configured (en_to_sql_config item) (Enum item) p (enum_to_sql env p item)"
| "entity_to_sql env p (Ord item) =
     configured (or_to_sql_config item) (Ord item) p (ord_to_sql env p item)"
| "entity_to_sql env p (Hash item) =
     configured (ha_to_sql_config item) (Hash item) p (hash_to_sql env p item)"
| "entity_to_sql env p (Aggregate item) =
     configured (ag_to_sql_config item) (Aggregate item) p (aggregate_to_sql env p item)"
| "entity_to_sql env p (Trigger item) =
     configured (tr_to_sql_config item) (Trigger item) p (trigger_to_sql env p item)"
| "entity_to_sql env p (ExtensionRoot item) = Inr (control_file_to_sql item)"

end
