(* ===== verification/Emit_Order.thy ===== *)
theory Emit_Order
  imports Petgraph Entity_Order "HOL-Library.AList" "HOL-Library.Product_Lexorder"
begin

text \<open>
  \<open>PgrxSql::connected_component_emit_order\<close>: inside a strongly connected component, the order that
  follows the explicit (\<open>By\<close>) edges, when there is one.
\<close>

section \<open>The function\<close>

text \<open>
  \<open>explicit_dependents\<close>, \<open>remaining_explicit_dependencies\<close> and \<open>has_explicit_edges\<close>. The hash maps are
  association lists; \<open>rank\<close> gives the order in which one is iterated.
\<close>

record order_state =
  os_dependents :: "(node_index \<times> node_index list) list"
  os_remaining :: "(node_index \<times> nat) list"
  os_has_explicit_edges :: bool

definition order_init :: "node_index list \<Rightarrow> order_state" where
  "order_init nodes =
     \<lparr>os_dependents = fold (\<lambda>node. AList.update node []) nodes [],
      os_remaining = fold (\<lambda>node. AList.update node 0) nodes [],
      os_has_explicit_edges = False\<rparr>"

definition note_edge :: "node_index \<Rightarrow> node_index \<times> SqlGraphRequires \<Rightarrow> order_state \<Rightarrow> order_state" where
  "note_edge node e s =
     (let (dependent, weight) = e
      in if weight \<noteq> By then s
         else if map_of (os_remaining s) dependent = None then s
         else \<lparr>os_dependents = AList.map_entry node (\<lambda>ds. ds @ [dependent]) (os_dependents s),
               os_remaining = AList.map_entry dependent Suc (os_remaining s),
               os_has_explicit_edges = True\<rparr>)"

definition explicit_edges :: "petgraph \<Rightarrow> StableGraph \<Rightarrow> node_index list \<Rightarrow> order_state" where
  "explicit_edges pg g nodes =
     fold (\<lambda>node s. fold (note_edge node) (pg_edges pg g node) s) nodes (order_init nodes)"

text \<open>
  One pass over the dependents of a node that was emitted. \<^const>\<open>None\<close> is a panic: a dependent that is
  not in the map, or a count that would go below zero.
\<close>

fun release :: "node_index list \<Rightarrow> (node_index \<times> nat) list \<Rightarrow> node_index list
    \<Rightarrow> ((node_index \<times> nat) list \<times> node_index list) option" where
  "release [] remaining ready = Some (remaining, ready)"
| "release (d # ds) remaining ready =
     (case map_of remaining d of
        None \<Rightarrow> None
      | Some 0 \<Rightarrow> None
      | Some (Suc r) \<Rightarrow>
          release ds (AList.update d r remaining) (if r = 0 then ready @ [d] else ready))"

definition entity_key :: "StableGraph \<Rightarrow> node_index \<Rightarrow> okey \<times> node_index" where
  "entity_key g i = (k_SqlGraphEntity (g_nodes g ! i), i)"

definition total_count :: "(node_index \<times> nat) list \<Rightarrow> nat" where
  "total_count m = sum_list (map snd m)"

lemma total_count_update:
  "map_of m d = Some (Suc r) \<Longrightarrow> Suc (total_count (AList.update d r m)) = total_count m"
  by (induction m) (auto simp: total_count_def)

lemma release_measure:
  "release ds m ready = Some (m', ready') \<Longrightarrow> total_count m' + length ready' \<le> total_count m + length ready"
proof (induction ds m ready rule: release.induct)
  case (2 d ds m ready)
  then show ?case
    using total_count_update [of m d] by (fastforce split: option.splits nat.splits if_splits)
qed simp

function emit_loop :: "StableGraph \<Rightarrow> (node_index \<times> node_index list) list \<Rightarrow> node_index list
    \<Rightarrow> (node_index \<times> nat) list \<Rightarrow> node_index list \<Rightarrow> node_index list option" where
  "emit_loop g deps ready remaining ordered =
     (case sort_key (entity_key g) ready of
        [] \<Rightarrow> Some ordered
      | next # rest \<Rightarrow>
          (case release (case map_of deps next of None \<Rightarrow> [] | Some ds \<Rightarrow> ds) remaining rest of
             None \<Rightarrow> None
           | Some (remaining', ready') \<Rightarrow> emit_loop g deps ready' remaining' (ordered @ [next])))"
  by pat_completeness auto

termination
proof (relation "measure (\<lambda>(g, deps, ready, remaining, ordered). total_count remaining + length ready)")
  fix g :: StableGraph and deps ready remaining ordered n rest p remaining' ready'
  assume sorted: "sort_key (entity_key g) ready = n # rest"
    and run: "release (case map_of deps n of None \<Rightarrow> [] | Some ds \<Rightarrow> ds) remaining rest = Some p"
    and p: "(remaining', ready') = p"
  have "length ready = Suc (length rest)"
    using arg_cong [OF sorted, of length] by simp
  then show "((g, deps, ready', remaining', ordered @ [n]), g, deps, ready, remaining, ordered)
      \<in> measure (\<lambda>(g, deps, ready, remaining, ordered). total_count remaining + length ready)"
    using release_measure [OF run [folded p]] by simp
qed simp

declare emit_loop.simps [simp del]

definition connected_component_emit_order ::
  "petgraph \<Rightarrow> iter_rank \<Rightarrow> StableGraph \<Rightarrow> node_index list \<Rightarrow> node_index list option" where
  "connected_component_emit_order pg rank g nodes =
     (if length nodes \<le> 1 then Some nodes
      else
        let s = explicit_edges pg g nodes
        in if \<not> os_has_explicit_edges s then Some nodes
           else
             let ready = map fst (filter (\<lambda>(_, count). count = 0)
                           (sort_key (\<lambda>p. rank (fst p)) (os_remaining s)))
             in case emit_loop g (os_dependents s) ready (os_remaining s) [] of
                  None \<Rightarrow> None
                | Some ordered \<Rightarrow> Some (if length ordered = length nodes then ordered else nodes))"

end
