(* ===== verification/Emission.thy ===== *)
theory Emission
  imports Entity_Sql Emit_Order
begin

text \<open>
  \<open>PgrxSql::to_sql\<close>, the whole script, and the slices of it: \<open>resolve_item\<close>,
  \<open>collect_transitive_deps\<close>, \<open>render_alter_extension_for_node\<close> and \<open>emit_slice_*\<close>.
\<close>

section \<open>The script\<close>

text \<open>The nodes of one component in emit order; a panic of the ordering is an error here.\<close>

definition component_order :: "emit_env \<Rightarrow> PgrxSql \<Rightarrow> node_index list \<Rightarrow> sql_error + node_index list" where
  "component_order env p nodes =
     (case connected_component_emit_order (env_pg env) (env_rank env) (ps_graph p) nodes of
        None \<Rightarrow> Inl (SqlPanicked ''component members should be initialized'')
      | Some ordered \<Rightarrow> Inr ordered)"

definition components :: "emit_env \<Rightarrow> PgrxSql \<Rightarrow> node_index list list" where
  "components env p = rev (pg_tarjan_scc (env_pg env) (ps_graph p))"

definition begin_marker :: string where
  "begin_marker = ''/* <begin connected objects> */'' @ nl"

definition end_marker :: string where
  "end_marker = ''/* </end connected objects> */'' @ nl @ nl"

definition block_text :: "string \<Rightarrow> string list \<Rightarrow> string" where
  "block_text sep pieces = (if pieces = [] then [] else begin_marker @ join_str sep pieces @ end_marker)"

definition node_sql :: "emit_env \<Rightarrow> PgrxSql \<Rightarrow> node_index \<Rightarrow> sql_error + string option" where
  "node_sql env p node =
     rbind (entity_to_sql env p (node_at p node)) (\<lambda>sql.
       let trimmed = trim sql
       in Inr (if trimmed = [] then None else Some (trimmed @ nl)))"

definition component_sql :: "emit_env \<Rightarrow> PgrxSql \<Rightarrow> node_index list \<Rightarrow> sql_result" where
  "component_sql env p nodes =
     rbind (component_order env p nodes) (\<lambda>ordered.
     rbind (rmap (node_sql env p) ordered) (\<lambda>inner_sql.
       Inr (block_text (nl @ nl) (List.map_filter (\<lambda>x. x) inner_sql))))"

definition to_sql :: "emit_env \<Rightarrow> PgrxSql \<Rightarrow> sql_result" where
  "to_sql env p = map_res concat (rmap (component_sql env p) (components env p))"

section \<open>Items by name\<close>

type_synonym item_match = "node_index \<times> string"

definition backquoted :: "string \<Rightarrow> string" where
  "backquoted s = ''`'' @ s @ ''`''"

definition match_extern ::
  "bool \<Rightarrow> string \<Rightarrow> PgExternEntity \<times> node_index \<Rightarrow> item_match list \<Rightarrow> item_match list" where
  "match_extern by_path name e matches =
     (let (entity, idx) = e;
          fn_hit = (if by_path then pe_full_path entity = name
                    else pe_name entity = name \<or> pe_unaliased_name entity = name);
          matches1 = (if fn_hit then matches @ [(idx, ''function '' @ backquoted (pe_full_path entity))]
                      else matches)
      in if \<not> by_path
            \<and> (case pe_operator entity of None \<Rightarrow> False | Some op \<Rightarrow> op_opname op = Some name)
            \<and> idx \<notin> fst ` set matches1
         then matches1 @ [(idx, ''operator '' @ backquoted name @ '' on '' @ backquoted (pe_full_path entity))]
         else matches1)"

text \<open>A table whose entities have a full path and a name.\<close>

definition match_named ::
  "string \<Rightarrow> ('k \<Rightarrow> string) \<Rightarrow> ('k \<Rightarrow> string) \<Rightarrow> bool \<Rightarrow> string \<Rightarrow> 'k \<times> node_index
    \<Rightarrow> item_match list \<Rightarrow> item_match list" where
  "match_named kind full_path short by_path name e matches =
     (let (entity, idx) = e
      in if (if by_path then full_path entity = name else short entity = name)
         then matches @ [(idx, kind @ '' '' @ backquoted (full_path entity))] else matches)"

fun declared_name :: "SqlDeclaredEntity \<Rightarrow> string" where
  "declared_name (DeclType data) = dt_name data"
| "declared_name (DeclEnum data) = dt_name data"
| "declared_name (DeclFunction data) = df_name data"

definition match_extension_sql ::
  "bool \<Rightarrow> string \<Rightarrow> ExtensionSqlEntity \<times> node_index \<Rightarrow> item_match list \<Rightarrow> item_match list" where
  "match_extension_sql by_path name e matches =
     (let (entity, idx) = e
      in if \<not> by_path \<and> es_name entity = name
         then matches @ [(idx, ''extension_sql '' @ backquoted (es_name entity))]
         else case find (\<lambda>d. declared_name d = name) (es_creates entity) of
           None \<Rightarrow> matches
         | Some d \<Rightarrow>
             matches @ [(idx, ''extension_sql '' @ backquoted (es_name entity)
               @ '' (declares '' @ backquoted (declared_name d) @ '')'')])"

definition match_schema ::
  "bool \<Rightarrow> string \<Rightarrow> SchemaEntity \<times> node_index \<Rightarrow> item_match list \<Rightarrow> item_match list" where
  "match_schema by_path name e matches =
     (let (entity, idx) = e
      in if \<not> by_path \<and> sc_name entity = name
         then matches @ [(idx, ''schema '' @ backquoted (sc_name entity))] else matches)"

definition item_matches :: "emit_env \<Rightarrow> PgrxSql \<Rightarrow> string \<Rightarrow> item_match list" where
  "item_matches env p name =
     (let t = ps_tables p; by_path = contains name ''::'';
          m1 = fold (match_extern by_path name) (hm_iter (env_rank env) (m_externs t)) [];
          m2 = fold (match_named ''type'' ty_full_path ty_name by_path name)
                 (hm_iter (env_rank env) (m_types t)) m1;
          m3 = fold (match_named ''enum'' en_full_path en_name by_path name)
                 (hm_iter (env_rank env) (m_enums t)) m2;
          m4 = fold (match_named ''aggregate'' ag_full_path ag_name by_path name)
                 (hm_iter (env_rank env) (m_aggregates t)) m3;
          m5 = fold (match_named ''trigger'' tr_full_path tr_function_name by_path name)
                 (hm_iter (env_rank env) (m_triggers t)) m4;
          m6 = fold (match_extension_sql by_path name)
                 (hm_iter (env_rank env) (m_extension_sqls t)) m5
      in fold (match_schema by_path name) (hm_iter (env_rank env) (m_schemas t)) m6)"

definition resolve_item :: "emit_env \<Rightarrow> PgrxSql \<Rightarrow> string \<Rightarrow> sql_error + node_index" where
  "resolve_item env p name =
     (case item_matches env p name of
        [] \<Rightarrow> Inl (NoMatch name)
      | [(idx, _)] \<Rightarrow> Inr idx
      | matches \<Rightarrow> Inl (Ambiguous name (map snd matches)))"

section \<open>Transitive dependencies\<close>

text \<open>\<open>visited\<close> is the hash set, \<open>queue\<close> the deque.\<close>

definition enqueue ::
  "node_index \<Rightarrow> node_index list \<times> node_index list \<Rightarrow> node_index list \<times> node_index list" where
  "enqueue n s =
     (let (visited, queue) = s
      in if n \<in> set visited then (visited, queue) else (n # visited, queue @ [n]))"

partial_function (option) collect_loop ::
  "(node_index \<Rightarrow> node_index list) \<Rightarrow> node_index list \<times> node_index list \<Rightarrow> node_index list option" where
  "collect_loop preds s =
     (case s of
        (visited, []) \<Rightarrow> Some visited
      | (visited, node # queue) \<Rightarrow> collect_loop preds (fold enqueue (preds node) (visited, queue)))"

definition collect_transitive_deps ::
  "emit_env \<Rightarrow> PgrxSql \<Rightarrow> node_index list \<Rightarrow> node_index list option" where
  "collect_transitive_deps env p targets =
     collect_loop (pg_neighbors_incoming (env_pg env) (ps_graph p)) (fold enqueue targets ([], []))"

section \<open>Attaching objects to an installed extension\<close>

definition alter_extension :: "string \<Rightarrow> string \<Rightarrow> string" where
  "alter_extension ext what = ''ALTER EXTENSION \"'' @ ext @ ''\" ADD '' @ what @ '';''"

definition alter_operator_sql ::
  "emit_env \<Rightarrow> PgrxSql \<Rightarrow> node_index \<Rightarrow> string \<Rightarrow> PgExternEntity \<Rightarrow> sql_result" where
  "alter_operator_sql env p node ext f =
     (case pe_operator f of
        None \<Rightarrow> Inr []
      | Some op \<Rightarrow>
          (case op_opname op of
             None \<Rightarrow> Inr []
           | Some opname \<Rightarrow>
               (case pe_fn_args f of
                  [] \<Rightarrow> Inl (MissingLeftArg (pe_name f))
                | [_] \<Rightarrow> Inl (MissingRightArg (pe_name f))
                | left # right # _ \<Rightarrow>
                    rbind (render_used_type_sql env p node ''operator left argument'' (pa_used_ty left)) (\<lambda>left_sql.
                    rbind (render_used_type_sql env p node ''operator right argument'' (pa_used_ty right)) (\<lambda>right_sql.
                      Inr (nl @ alter_extension ext (''OPERATOR '' @ extern_schema env p node f @ opname
                        @ ''('' @ left_sql @ '', '' @ right_sql @ '')'')))))))"

definition alter_cast_sql ::
  "emit_env \<Rightarrow> PgrxSql \<Rightarrow> node_index \<Rightarrow> string \<Rightarrow> PgExternEntity \<Rightarrow> sql_result" where
  "alter_cast_sql env p node ext f =
     (case pe_cast f of
        None \<Rightarrow> Inr []
      | Some _ \<Rightarrow>
          (case pe_fn_args f of
             [] \<Rightarrow> Inl (MissingCastSource (pe_name f))
           | source # _ \<Rightarrow>
               rbind (render_used_type_sql env p node ''cast source type'' (pa_used_ty source)) (\<lambda>source_sql.
               rbind (render_function_return_type env p node f) (\<lambda>target_sql.
                 Inr (nl @ alter_extension ext (''CAST ('' @ source_sql @ '' AS '' @ target_sql @ '')''))))))"

definition declared_kind :: "SqlDeclaredEntity \<Rightarrow> string" where
  "declared_kind d = (case d of DeclFunction _ \<Rightarrow> ''FUNCTION '' | _ \<Rightarrow> ''TYPE '')"

definition render_alter_extension_for_node ::
  "emit_env \<Rightarrow> PgrxSql \<Rightarrow> node_index \<Rightarrow> string \<Rightarrow> sql_error + string option" where
  "render_alter_extension_for_node env p node ext =
     (let schema = schema_prefix_for env p node
      in case node_at p node of
           Function f \<Rightarrow>
             rbind (render_function_argtypes env p node f) (\<lambda>argtypes.
             rbind (alter_operator_sql env p node ext f) (\<lambda>operator.
             rbind (alter_cast_sql env p node ext f) (\<lambda>cast.
               Inr (Some (alter_extension ext (''FUNCTION '' @ extern_schema env p node f
                 @ ''\"'' @ pe_name f @ ''\"('' @ argtypes @ '')'') @ operator @ cast)))))
         | SqlGraphEntity.Type t \<Rightarrow> Inr (Some (alter_extension ext (''TYPE '' @ schema @ ty_name t)))
         | Enum e \<Rightarrow> Inr (Some (alter_extension ext (''TYPE '' @ schema @ en_name e)))
         | Aggregate a \<Rightarrow>
             rbind (render_aggregate_argtypes env p node a) (\<lambda>argtypes.
               Inr (Some (alter_extension ext (''AGGREGATE '' @ schema @ ''\"'' @ ag_name a @ ''\"'' @ argtypes))))
         | Trigger t \<Rightarrow>
             Inr (Some (alter_extension ext (''FUNCTION '' @ schema @ ''\"'' @ tr_function_name t @ ''\"()'')))
         | Ord o' \<Rightarrow>
             Inr (Some (alter_extension ext (''OPERATOR FAMILY '' @ schema @ or_name o' @ ''_btree_ops USING btree'')
               @ nl
               @ alter_extension ext (''OPERATOR CLASS '' @ schema @ or_name o' @ ''_btree_ops USING btree'')))
         | Hash h \<Rightarrow>
             Inr (Some (alter_extension ext (''OPERATOR FAMILY '' @ schema @ ha_name h @ ''_hash_ops USING hash'')
               @ nl
               @ alter_extension ext (''OPERATOR CLASS '' @ schema @ ha_name h @ ''_hash_ops USING hash'')))
         | SqlGraphEntity.Schema s \<Rightarrow>
             Inr (if sc_name s = ''public'' \<or> sc_name s = ''pg_catalog'' then None
                  else Some (alter_extension ext (''SCHEMA '' @ sc_name s)))
         | CustomSql c \<Rightarrow>
             Inr (if es_creates c = [] then None
                  else Some (join_str nl (map (\<lambda>d. alter_extension ext (declared_kind d @ decl_sql d))
                         (es_creates c))))
         | BuiltinType _ \<Rightarrow> Inr None
         | ExtensionRoot _ \<Rightarrow> Inr None)"

section \<open>Slices\<close>

definition no_creates_warning :: "ExtensionSqlEntity \<Rightarrow> string" where
  "no_creates_warning c =
     ''warning: extension_sql block at '' @ es_file c @ '':'' @ show_u32 (es_line c)
     @ '' does not declare `creates = [...]`; its objects won'' @ [CHR 0x27]
     @ ''t be attached to the extension automatically''"

definition warning_for :: "SqlGraphEntity \<Rightarrow> string list" where
  "warning_for ent =
     (case ent of CustomSql c \<Rightarrow> if es_creates c = [] then [no_creates_warning c] else [] | _ \<Rightarrow> [])"

text \<open>The text of one node of a slice, and the warnings it gives.\<close>

definition slice_piece ::
  "emit_env \<Rightarrow> PgrxSql \<Rightarrow> string option \<Rightarrow> node_index \<Rightarrow> sql_error + string \<times> string list" where
  "slice_piece env p extension_name node =
     (let ent = node_at p node
      in rbind (entity_to_sql env p ent) (\<lambda>create_sql.
         let create = trim create_sql;
             piece = (if create = [] then [] else create @ nl)
         in case extension_name of
              None \<Rightarrow> Inr (piece, [])
            | Some ext \<Rightarrow>
                rbind (render_alter_extension_for_node env p node ext) (\<lambda>alter.
                  Inr (case alter of
                         Some alter_sql \<Rightarrow>
                           (piece @ alter_sql @ (if ends_with alter_sql nl then [] else nl), [])
                       | None \<Rightarrow> (piece, warning_for ent)))))"

definition in_slice :: "PgrxSql \<Rightarrow> node_index list \<Rightarrow> node_index \<Rightarrow> bool" where
  "in_slice p keep node \<longleftrightarrow>
     node \<in> set keep \<and> (case node_at p node of ExtensionRoot _ \<Rightarrow> False | _ \<Rightarrow> True)"

definition component_slice ::
  "emit_env \<Rightarrow> PgrxSql \<Rightarrow> string option \<Rightarrow> node_index list \<Rightarrow> node_index list
    \<Rightarrow> sql_error + string \<times> string list" where
  "component_slice env p extension_name keep nodes =
     rbind (component_order env p nodes) (\<lambda>ordered.
     rbind (rmap (slice_piece env p extension_name) (filter (in_slice p keep) ordered)) (\<lambda>pieces.
       Inr (block_text nl (filter (\<lambda>piece. piece \<noteq> []) (map fst pieces)), concat (map snd pieces))))"

definition libdir_replacement :: "string \<Rightarrow> string" where
  "libdir_replacement lib_name = [CHR 0x27] @ ''$libdir/'' @ lib_name @ [CHR 0x27]"

definition emit_slice_from_nodes_inner ::
  "emit_env \<Rightarrow> PgrxSql \<Rightarrow> node_index list \<Rightarrow> string \<Rightarrow> string option \<Rightarrow> sql_error + string \<times> string list"
  where
  "emit_slice_from_nodes_inner env p targets lib_name extension_name =
     (case collect_transitive_deps env p targets of
        None \<Rightarrow> Inl Diverges
      | Some keep \<Rightarrow>
          rbind (rmap (component_slice env p extension_name keep) (components env p)) (\<lambda>blocks.
            let body = replace_str ([CHR 0x27] @ ''MODULE_PATHNAME'' @ [CHR 0x27]) (libdir_replacement lib_name)
                         (concat (map fst blocks))
            in Inr (case extension_name of
                      Some _ \<Rightarrow> ''BEGIN;'' @ nl @ nl @ body @ nl @ ''COMMIT;'' @ nl
                    | None \<Rightarrow> body,
                    concat (map snd blocks))))"

definition item_slice_context :: "PgrxSql \<Rightarrow> PgrxSql" where
  "item_slice_context p =
     (if cf_schema (ps_control p) \<noteq> None \<and> \<not> ps_qualify_default_schema p
      then p\<lparr>ps_qualify_default_schema := True\<rparr> else p)"

definition emit_slice_from_nodes ::
  "emit_env \<Rightarrow> PgrxSql \<Rightarrow> node_index list \<Rightarrow> string \<Rightarrow> string option \<Rightarrow> sql_error + string \<times> string list"
  where
  "emit_slice_from_nodes env p targets lib_name extension_name =
     emit_slice_from_nodes_inner env (item_slice_context p) targets lib_name extension_name"

definition emit_slice_with_warnings ::
  "emit_env \<Rightarrow> PgrxSql \<Rightarrow> string list \<Rightarrow> string \<Rightarrow> string option \<Rightarrow> sql_error + string \<times> string list" where
  "emit_slice_with_warnings env p item_names lib_name extension_name =
     rbind (rmap (resolve_item env p) item_names) (\<lambda>targets.
       emit_slice_from_nodes env p targets lib_name extension_name)"

text \<open>\<open>to_sql_for_items\<close> writes the warnings to the standard error.\<close>

definition to_sql_for_items ::
  "emit_env \<Rightarrow> PgrxSql \<Rightarrow> string list \<Rightarrow> string \<Rightarrow> string option \<Rightarrow> sql_result" where
  "to_sql_for_items env p item_names lib_name extension_name =
     map_res fst (emit_slice_with_warnings env p item_names lib_name extension_name)"

end
