(* ===== verification/Emit_Order_Correct.thy ===== *)
theory Emit_Order_Correct
  imports Emit_Order
begin

text \<open>
  The emit order of a component is a permutation of it, the function never panics, and when the
  explicit edges have no cycle every one of them is respected.
\<close>

section \<open>The counts\<close>

definition kept :: "node_index list \<Rightarrow> (node_index \<times> SqlGraphRequires) list \<Rightarrow> node_index list" where
  "kept nodes es = map fst (filter (\<lambda>(b, w). w = By \<and> b \<in> set nodes) es)"

lemma kept_Cons: "kept nodes (e # es) = kept nodes [e] @ kept nodes es"
  by (simp add: kept_def)

definition explicit_targets :: "petgraph \<Rightarrow> StableGraph \<Rightarrow> node_index list \<Rightarrow> node_index \<Rightarrow> node_index list" where
  "explicit_targets pg g nodes a = kept nodes (pg_edges pg g a)"

lemma map_of_fold_update:
  "map_of (fold (\<lambda>n. AList.update n v) ns m) = (\<lambda>k. if k \<in> set ns then Some v else map_of m k)"
  by (induction ns arbitrary: m) (auto simp: AList.update_conv')

lemma distinct_fold_update:
  "distinct (map fst m) \<Longrightarrow> distinct (map fst (fold (\<lambda>n. AList.update n v) ns m))"
  by (induction ns arbitrary: m) (simp_all add: AList.distinct_update)

lemma fst_map_entry [simp]: "map fst (AList.map_entry k f m) = map fst m"
  by (induction m) auto

definition counted :: "node_index list \<Rightarrow> (node_index \<Rightarrow> node_index list) \<Rightarrow> order_state \<Rightarrow> bool" where
  "counted nodes D s \<longleftrightarrow>
     map_of (os_dependents s) = (\<lambda>a. if a \<in> set nodes then Some (D a) else None)
     \<and> map_of (os_remaining s) =
         (\<lambda>b. if b \<in> set nodes then Some (\<Sum>a \<in> set nodes. count_list (D a) b) else None)
     \<and> distinct (map fst (os_remaining s))
     \<and> os_has_explicit_edges s = (\<exists>a \<in> set nodes. D a \<noteq> [])"

lemma counted_init: "counted nodes (\<lambda>_. []) (order_init nodes)"
  by (simp add: counted_def order_init_def map_of_fold_update distinct_fold_update cong: if_cong)

lemma sum_fun_upd:
  assumes "finite A" and "a \<in> A"
  shows "(\<Sum>x \<in> A. count_list ((D(a := ys)) x) b) + count_list (D a) b =
    (\<Sum>x \<in> A. count_list (D x) b) + count_list ys b"
  using assms by (simp add: sum.remove [of A a] cong: sum.cong_simp)

lemma counted_note_edge:
  assumes "counted nodes D s" and "a \<in> set nodes"
  shows "counted nodes (D(a := D a @ kept nodes [e])) (note_edge a e s)"
proof -
  obtain d w where e: "e = (d, w)" by (cases e)
  show ?thesis
  proof (cases "w = By \<and> d \<in> set nodes")
    case True
    have "(\<Sum>x \<in> set nodes. count_list ((D(a := D a @ [d])) x) b) =
        (\<Sum>x \<in> set nodes. count_list (D x) b) + (if b = d then 1 else 0)" for b
      using sum_fun_upd [of "set nodes" a D "D a @ [d]" b] assms(2) by auto
    with assms True show ?thesis
      by (auto simp: counted_def note_edge_def e kept_def fun_eq_iff AList.map_of_map_entry split: if_splits)
  next
    case False
    with assms show ?thesis
      by (auto simp: counted_def note_edge_def e kept_def split: if_splits)
  qed
qed

lemma counted_note_edges:
  assumes "counted nodes D s" and "a \<in> set nodes"
  shows "counted nodes (D(a := D a @ kept nodes es))
    (fold (note_edge a) es s)"
  using assms(1)
proof (induction es arbitrary: D s)
  case (Cons e es)
  let ?D = "D(a := D a @ kept nodes [e])"
  have eq: "?D(a := ?D a @ kept nodes es) = D(a := D a @ kept nodes (e # es))"
    by (simp add: fun_eq_iff kept_Cons [of nodes e es])
  from Cons.IH [OF counted_note_edge [OF Cons.prems assms(2)], of e] show ?case
    by (simp only: eq fold_simps)
qed (simp add: kept_def)

lemma counted_explicit_edges:
  assumes "distinct nodes"
  shows "counted nodes (\<lambda>a. if a \<in> set nodes then explicit_targets pg g nodes a else []) (explicit_edges pg g nodes)"
proof -
  have "counted nodes (\<lambda>a. if a \<in> set done then explicit_targets pg g nodes a else [])
      (fold (\<lambda>node s. fold (note_edge node) (pg_edges pg g node) s) done (order_init nodes))"
    if "distinct done" "set done \<subseteq> set nodes" for "done"
    using that
  proof (induction "done" rule: rev_induct)
    case Nil
    show ?case by (simp add: counted_init)
  next
    case (snoc a "done")
    let ?D = "\<lambda>x. if x \<in> set done then explicit_targets pg g nodes x else []"
    have "counted nodes (?D(a := ?D a @ explicit_targets pg g nodes a))
        (fold (note_edge a) (pg_edges pg g a)
          (fold (\<lambda>node s. fold (note_edge node) (pg_edges pg g node) s) done (order_init nodes)))"
      using counted_note_edges [of nodes ?D _ a "pg_edges pg g a"] snoc by (simp add: explicit_targets_def)
    moreover have "?D(a := ?D a @ explicit_targets pg g nodes a) =
        (\<lambda>x. if x \<in> set (done @ [a]) then explicit_targets pg g nodes x else [])"
      using snoc.prems by (auto simp: fun_eq_iff)
    ultimately show ?case
      by simp
  qed
  from this [OF assms] show ?thesis
    by (simp add: explicit_edges_def)
qed

section \<open>Releasing dependents\<close>

lemma release_spec:
  assumes "\<And>b. b \<in> set ds \<Longrightarrow> \<exists>r. map_of m b = Some r \<and> count_list ds b \<le> r"
  obtains m' new where "release ds m ready = Some (m', ready @ new)"
    and "map_of m' = (\<lambda>b. map_option (\<lambda>r. r - count_list ds b) (map_of m b))"
    and "distinct new" and "set new = {b \<in> set ds. map_of m b = Some (count_list ds b)}"
  using assms
proof (induction ds m ready arbitrary: thesis rule: release.induct)
  case (1 m ready)
  show ?case
    by (rule "1.prems"(1)) (simp_all add: option.map_ident)
next
  case (2 d ds m ready)
  from "2.prems"(2) [of d] obtain k where "map_of m d = Some k" "Suc (count_list ds d) \<le> k"
    by auto
  then obtain r where r: "map_of m d = Some (Suc r)" "count_list ds d \<le> r"
    by (cases k) auto
  let ?m = "AList.update d r m" and ?ready = "if r = 0 then ready @ [d] else ready"
  have "\<exists>k. map_of ?m b = Some k \<and> count_list ds b \<le> k" if "b \<in> set ds" for b
    using "2.prems"(2) [of b] that r by (auto simp: AList.update_conv')
  then obtain m' new where run: "release ds ?m ?ready = Some (m', ?ready @ new)"
    and m': "map_of m' = (\<lambda>b. map_option (\<lambda>r. r - count_list ds b) (map_of ?m b))"
    and new: "distinct new" "set new = {b \<in> set ds. map_of ?m b = Some (count_list ds b)}"
    using "2.IH" [OF r(1) refl] by blast
  show ?case
  proof (rule "2.prems"(1))
    show "release (d # ds) m ready = Some (m', ready @ ((if r = 0 then [d] else []) @ new))"
      using run r(1) by simp
    show "map_of m' = (\<lambda>b. map_option (\<lambda>r. r - count_list (d # ds) b) (map_of m b))"
      using m' r(1) by (auto simp: fun_eq_iff AList.update_conv')
    have "d \<notin> set new" if "r = 0"
      using new(2) r that by (auto simp: AList.update_conv' count_list_0_iff)
    then show "distinct ((if r = 0 then [d] else []) @ new)"
      using new(1) by simp
    show "set ((if r = 0 then [d] else []) @ new) = {b \<in> set (d # ds). map_of m b = Some (count_list (d # ds) b)}"
      using new(2) r by (auto simp: AList.update_conv' count_list_0_iff)
  qed
qed

section \<open>The loop\<close>

definition follows :: "node_index list \<Rightarrow> (node_index \<Rightarrow> node_index list) \<Rightarrow> node_index list \<Rightarrow> bool" where
  "follows nodes D xs \<longleftrightarrow>
     (\<forall>us b vs. xs = us @ b # vs \<longrightarrow> (\<forall>a \<in> set nodes. b \<in> set (D a) \<longrightarrow> a \<in> set us))"

definition open_count :: "node_index list \<Rightarrow> (node_index \<Rightarrow> node_index list) \<Rightarrow> node_index list \<Rightarrow> node_index \<Rightarrow> nat"
  where
  "open_count nodes D ordered b = (\<Sum>a \<in> set nodes - set ordered. count_list (D a) b)"

definition loop_inv :: "node_index list \<Rightarrow> (node_index \<Rightarrow> node_index list) \<Rightarrow> node_index list \<Rightarrow> node_index list
    \<Rightarrow> (node_index \<times> nat) list \<Rightarrow> bool" where
  "loop_inv nodes D ordered ready remaining \<longleftrightarrow>
     set (ordered @ ready) \<subseteq> set nodes \<and> distinct (ordered @ ready)
     \<and> map_of remaining = (\<lambda>b. if b \<in> set nodes then Some (open_count nodes D ordered b) else None)
     \<and> (\<forall>b \<in> set nodes. b \<in> set (ordered @ ready) \<longleftrightarrow> open_count nodes D ordered b = 0)
     \<and> follows nodes D ordered"

lemma open_count_emit:
  assumes "n \<in> set nodes" and "n \<notin> set ordered"
  shows "open_count nodes D ordered b = count_list (D n) b + open_count nodes D (ordered @ [n]) b"
proof -
  have "set nodes - set (ordered @ [n]) = set nodes - set ordered - {n}"
    by auto
  then show ?thesis
    using assms by (simp add: open_count_def sum.remove [of "set nodes - set ordered" n])
qed

lemma open_count_0: "open_count nodes D ordered b = 0 \<longleftrightarrow> (\<forall>a \<in> set nodes. b \<in> set (D a) \<longrightarrow> a \<in> set ordered)"
  by (auto simp: open_count_def count_list_0_iff)

lemma follows_snoc:
  "follows nodes D xs \<Longrightarrow> open_count nodes D xs n = 0 \<Longrightarrow> follows nodes D (xs @ [n])"
  unfolding follows_def open_count_0 by (auto simp: append_eq_append_conv2 Cons_eq_append_conv append_eq_Cons_conv)

lemma loop_inv_step:
  assumes inv: "loop_inv nodes D ordered (n # rest) remaining" and sub: "set (D n) \<subseteq> set nodes"
  obtains remaining' new where "release (D n) remaining rest = Some (remaining', rest @ new)"
    and "loop_inv nodes D (ordered @ [n]) (rest @ new) remaining'"
proof -
  note inv' = inv [unfolded loop_inv_def]
  have n: "n \<in> set nodes" "n \<notin> set ordered"
    using inv' by auto
  note split = open_count_emit [OF n]
  have "\<exists>r. map_of remaining b = Some r \<and> count_list (D n) b \<le> r" if "b \<in> set (D n)" for b
    using inv' sub that split [of D b] by auto
  then obtain remaining' new where run: "release (D n) remaining rest = Some (remaining', rest @ new)"
    and rem': "map_of remaining' = (\<lambda>b. map_option (\<lambda>r. r - count_list (D n) b) (map_of remaining b))"
    and new: "distinct new" "set new = {b \<in> set (D n). map_of remaining b = Some (count_list (D n) b)}"
    by (rule release_spec)
  have new_iff: "b \<in> set new \<longleftrightarrow> b \<in> set (D n) \<and> open_count nodes D (ordered @ [n]) b = 0" for b
    using new(2) inv' sub split [of D b] by auto
  have fresh: "b \<notin> set (ordered @ n # rest)" if "b \<in> set new" for b
    using that inv' sub split [of D b] unfolding new_iff by (auto simp: count_list_0_iff)
  show thesis
  proof (rule that [OF run], unfold loop_inv_def, intro conjI ballI)
    show "set ((ordered @ [n]) @ rest @ new) \<subseteq> set nodes"
      using inv' sub new_iff by auto
    show "distinct ((ordered @ [n]) @ rest @ new)"
      using inv' new(1) fresh by auto
    show "map_of remaining' =
        (\<lambda>b. if b \<in> set nodes then Some (open_count nodes D (ordered @ [n]) b) else None)"
      using inv' rem' split by (auto simp: fun_eq_iff)
    show "follows nodes D (ordered @ [n])"
      using inv' n by (intro follows_snoc) auto
    fix b
    assume b: "b \<in> set nodes"
    show "b \<in> set ((ordered @ [n]) @ rest @ new) \<longleftrightarrow> open_count nodes D (ordered @ [n]) b = 0"
      using inv' b split [of D b] new_iff [of b] by (auto simp: count_list_0_iff)
  qed
qed

lemma loop_inv_mset:
  assumes "loop_inv nodes D ordered ready remaining" and "mset ready = mset ready'"
  shows "loop_inv nodes D ordered ready' remaining"
proof -
  have "set ready' = set ready" "distinct ready' = distinct ready"
    using assms(2) mset_eq_setD mset_eq_imp_distinct_iff by metis+
  then show ?thesis
    using assms(1) by (simp add: loop_inv_def)
qed

lemma emit_loop_correct:
  assumes "loop_inv nodes D ordered ready remaining"
    and deps: "map_of deps = (\<lambda>a. if a \<in> set nodes then Some (D a) else None)"
    and sub: "\<And>a. a \<in> set nodes \<Longrightarrow> set (D a) \<subseteq> set nodes"
  obtains res remaining' where "emit_loop g deps ready remaining ordered = Some res"
    and "loop_inv nodes D res [] remaining'"
  using assms(1,2)
proof (induction g deps ready remaining ordered arbitrary: thesis rule: emit_loop.induct)
  case (1 g deps ready remaining ordered)
  show ?case
  proof (cases "sort_key (entity_key g) ready")
    case Nil
    have "mset ready = mset []"
      using arg_cong [OF Nil, of mset] by simp
    from loop_inv_mset [OF 1(3) this] show ?thesis
      by (rule 1(2) [rotated]) (subst emit_loop.simps, simp add: Nil)
  next
    case (Cons n rest)
    have "mset ready = mset (n # rest)"
      using arg_cong [OF Cons, of mset] by simp
    then have inv: "loop_inv nodes D ordered (n # rest) remaining"
      using 1(3) loop_inv_mset by blast
    then have n: "n \<in> set nodes" "map_of deps n = Some (D n)"
      using 1(4) by (auto simp: loop_inv_def)
    from loop_inv_step [OF inv sub [OF n(1)]] obtain remaining' new where
      run: "release (D n) remaining rest = Some (remaining', rest @ new)"
      and inv': "loop_inv nodes D (ordered @ [n]) (rest @ new) remaining'" .
    have step: "emit_loop g deps ready remaining ordered = emit_loop g deps (rest @ new) remaining' (ordered @ [n])"
      by (subst emit_loop.simps) (simp add: run n(2) Cons)
    have run': "release (case map_of deps n of None \<Rightarrow> [] | Some ds \<Rightarrow> ds) remaining rest = Some (remaining', rest @ new)"
      using run n(2) by simp
    show ?thesis
    proof (rule 1(1) [OF Cons run' refl _ inv' 1(4)])
      fix res rem
      assume "emit_loop g deps (rest @ new) remaining' (ordered @ [n]) = Some res" "loop_inv nodes D res [] rem"
      then show ?thesis
        using 1(2) step by simp
    qed
  qed
qed

section \<open>The order of a component\<close>

text \<open>The explicit edges between nodes of a component.\<close>

definition explicit_rel :: "StableGraph \<Rightarrow> node_index list \<Rightarrow> (node_index \<times> node_index) set" where
  "explicit_rel g nodes = {(a, b). a \<in> set nodes \<and> b \<in> set nodes \<and> (a, b, By) \<in> set (g_edges g)}"

lemma explicit_targets_rel:
  assumes "petgraph_ok pg g" and "set nodes \<subseteq> {..< length (g_nodes g)}" and "a \<in> set nodes"
  shows "b \<in> set (explicit_targets pg g nodes a) \<longleftrightarrow> (a, b) \<in> explicit_rel g nodes"
proof -
  have "a < length (g_nodes g)"
    using assms(2,3) by auto
  then have "set (pg_edges pg g a) = {(b, w). (a, b, w) \<in> set (g_edges g)}"
    by (rule petgraph_okD(1) [OF assms(1)])
  then show ?thesis
    using assms(3) by (auto simp: explicit_targets_def kept_def explicit_rel_def image_iff)
qed

lemma loop_done_all:
  assumes inv: "loop_inv nodes D res [] remaining" and acyclic: "acyclic {(a, b). a \<in> set nodes \<and> b \<in> set (D a) \<inter> set nodes}"
  shows "set res = set nodes"
proof (rule ccontr)
  let ?R = "{(a, b). a \<in> set nodes \<and> b \<in> set (D a) \<inter> set nodes}"
  assume "set res \<noteq> set nodes"
  then obtain x where x: "x \<in> set nodes - set res"
    using inv by (auto simp: loop_inv_def)
  have "finite ?R"
    by (rule finite_subset [of _ "set nodes \<times> set nodes"]) auto
  then have "wf ?R"
    using acyclic by (rule finite_acyclic_wf)
  then obtain u where u: "u \<in> set nodes - set res" and least: "\<And>y. (y, u) \<in> ?R \<Longrightarrow> y \<notin> set nodes - set res"
    using x by (rule wfE_min) blast
  then have "open_count nodes D res u = 0"
    by (auto simp: open_count_0)
  then show False
    using inv u by (auto simp: loop_inv_def)
qed

definition comes_before :: "'a list \<Rightarrow> 'a \<Rightarrow> 'a \<Rightarrow> bool" where
  "comes_before xs a b \<longleftrightarrow> (\<exists>us vs. xs = us @ b # vs \<and> a \<in> set us)"

lemma loop_inv_start:
  assumes "counted nodes D s" and "mset ready = mset (map fst (filter (\<lambda>(_, count). count = 0) (os_remaining s)))"
  shows "loop_inv nodes D [] ready (os_remaining s)"
proof -
  let ?zero = "map fst (filter (\<lambda>(_, count). count = 0) (os_remaining s))"
  have map: "map_of (os_remaining s) = (\<lambda>b. if b \<in> set nodes then Some (open_count nodes D [] b) else None)"
    and dist: "distinct (map fst (os_remaining s))"
    using assms(1) by (simp_all add: counted_def open_count_def fun_eq_iff)
  have zero: "set ?zero = {b \<in> set nodes. open_count nodes D [] b = 0}"
  proof -
    have "b \<in> set ?zero \<longleftrightarrow> (b, 0) \<in> set (os_remaining s)" for b
      by force
    then show ?thesis
      using map by (auto simp: map_of_eq_Some_iff [OF dist, symmetric] split: if_splits)
  qed
  have "distinct ?zero"
    using dist by (simp add: distinct_map_filter)
  with zero have "loop_inv nodes D [] ?zero (os_remaining s)"
    by (auto simp: loop_inv_def map follows_def)
  then show ?thesis
    using assms(2) by (metis loop_inv_mset)
qed

lemma emit_order_correct:
  assumes ok: "petgraph_ok pg g" and dist: "distinct nodes" and sub: "set nodes \<subseteq> {..< length (g_nodes g)}"
  obtains res where "connected_component_emit_order pg rank g nodes = Some res" and "mset res = mset nodes"
    and "\<And>a b. acyclic (explicit_rel g nodes) \<Longrightarrow> (a, b) \<in> explicit_rel g nodes \<Longrightarrow> comes_before res a b"
proof -
  let ?s = "explicit_edges pg g nodes"
  define D where "D = (\<lambda>a. if a \<in> set nodes then explicit_targets pg g nodes a else [])"
  have counted: "counted nodes D ?s"
    unfolding D_def by (rule counted_explicit_edges [OF dist])
  have D: "b \<in> set (D a) \<longleftrightarrow> (a, b) \<in> explicit_rel g nodes" for a b
    using explicit_targets_rel [OF ok sub] by (auto simp: D_def explicit_rel_def)
  consider "length nodes \<le> 1" | "1 < length nodes" "\<not> os_has_explicit_edges ?s"
    | "1 < length nodes" "os_has_explicit_edges ?s" by linarith
  then show thesis
  proof cases
    case 1
    then have "a = b" if "(a, b) \<in> explicit_rel g nodes" for a b
      using that by (cases nodes) (auto simp: explicit_rel_def)
    then have "\<not> acyclic (explicit_rel g nodes)" if "(a, b) \<in> explicit_rel g nodes" for a b
      using that by (auto simp: acyclic_def)
    with 1 that [of nodes] show thesis
      by (simp add: connected_component_emit_order_def)
  next
    case 2
    then have "set (D a) = {}" if "a \<in> set nodes" for a
      using counted that by (simp add: counted_def)
    then have "explicit_rel g nodes = {}"
      unfolding set_eq_iff split_paired_All D [symmetric] by (auto simp: D_def)
    with 2 that [of nodes] show thesis
      by (simp add: connected_component_emit_order_def)
  next
    case 3
    let ?ready = "map fst (filter (\<lambda>(_, count). count = 0) (sort_key (\<lambda>p. rank (fst p)) (os_remaining ?s)))"
    have start: "loop_inv nodes D [] ?ready (os_remaining ?s)"
      by (rule loop_inv_start [OF counted]) simp
    obtain res remaining where run: "emit_loop g (os_dependents ?s) ?ready (os_remaining ?s) [] = Some res"
      and inv: "loop_inv nodes D res [] remaining"
      by (rule emit_loop_correct [OF start, of "os_dependents ?s" g])
        (use counted D in \<open>auto simp: counted_def explicit_rel_def\<close>)
    let ?res = "if length res = length nodes then res else nodes"
    have result: "connected_component_emit_order pg rank g nodes = Some ?res"
      using 3 run by (simp add: connected_component_emit_order_def Let_def)
    have res: "set res \<subseteq> set nodes" "distinct res" "follows nodes D res"
      using inv by (simp_all add: loop_inv_def)
    have mset: "mset ?res = mset nodes"
      using res dist card_subset_eq [of "set nodes" "set res"]
      by (auto simp: distinct_card set_eq_iff_mset_eq_distinct)
    show thesis
    proof (rule that [OF result mset])
      fix a b
      assume "acyclic (explicit_rel g nodes)" and ab: "(a, b) \<in> explicit_rel g nodes"
      moreover have "{(a, b). a \<in> set nodes \<and> b \<in> set (D a) \<inter> set nodes} = explicit_rel g nodes"
        by (auto simp: D) (auto simp: explicit_rel_def)
      ultimately have all: "set res = set nodes"
        using loop_done_all [OF inv] by simp
      then have "length res = length nodes"
        using res(2) dist by (metis distinct_card)
      moreover have "comes_before res a b"
        using all ab res(3) D unfolding follows_def comes_before_def explicit_rel_def
        by (metis (no_types, lifting) CollectD case_prodD ab split_list)
      ultimately show "comes_before ?res a b"
        by simp
    qed
  qed
qed

text \<open>The order in which the hash map of counts is iterated does not matter.\<close>

lemma inj_entity_key: "inj (entity_key g)"
  by (simp add: inj_def entity_key_def)

lemma emit_loop_mset:
  assumes "mset ready = mset ready'"
  shows "emit_loop g deps ready remaining ordered = emit_loop g deps ready' remaining ordered"
proof -
  have "sort_key (entity_key g) ready = sort_key (entity_key g) ready'"
    by (rule sort_key_inj_key_eq)
      (use assms inj_on_subset [OF inj_entity_key] in simp_all)
  then show ?thesis
    by (simp add: emit_loop.simps [of g deps ready] emit_loop.simps [of g deps ready'])
qed

lemma emit_order_any_rank:
  "connected_component_emit_order pg rank g nodes = connected_component_emit_order pg rank' g nodes"
proof -
  let ?ready = "\<lambda>rank. map fst (filter (\<lambda>(_, count). count = (0 :: nat))
      (sort_key (\<lambda>p. rank (fst p)) (os_remaining (explicit_edges pg g nodes))))"
  have "mset (?ready rank) = mset (?ready rank')"
    by simp
  from emit_loop_mset [OF this, of g "os_dependents (explicit_edges pg g nodes)"
      "os_remaining (explicit_edges pg g nodes)" "[]"] show ?thesis
    by (simp only: connected_component_emit_order_def Let_def)
qed

end
