(* ===== verification/Type_Refs.thy ===== *)
theory Type_Refs
  imports Graph_Build
begin

text \<open>
  The types a function or an aggregate refers to, as lists. Both phases of \<open>build\<close> visit them with
  the same loops; every such loop is one pass over the list of references, and the \<open>expect\<close> in it
  never fails.
\<close>

text \<open>A reference: the slot it fills, the Rust type, the resolved identifier and its origin.\<close>

type_synonym type_ref = "string \<times> string \<times> string \<times> TypeOrigin"

definition used_ref :: "string \<Rightarrow> UsedTypeEntity \<Rightarrow> type_ref list" where
  "used_ref slot u =
     (case ut_resolution u of None \<Rightarrow> [] | Some (i, origin) \<Rightarrow> [(slot, ut_full_path u, i, origin)])"

definition arg_refs :: "PgExternEntity \<Rightarrow> type_ref list" where
  "arg_refs item =
     concat (map (\<lambda>arg. if ut_emits_argument_sql (pa_used_ty arg)
                         then used_ref (arg_slot arg) (pa_used_ty arg) else [])
       (pe_fn_args item))"

definition return_refs :: "PgExternEntity \<Rightarrow> type_ref list" where
  "return_refs item =
     concat (map (\<lambda>(slot, ty). used_ref slot ty) (return_slots (pe_fn_return item)))"

definition aggregate_arg_refs :: "string \<Rightarrow> AggregateTypeEntity list \<Rightarrow> type_ref list" where
  "aggregate_arg_refs kind args =
     concat (map (\<lambda>arg. used_ref (aggregate_slot (at_name arg) kind) (at_used_ty arg)) args)"

definition stype_refs :: "PgAggregateEntity \<Rightarrow> type_ref list" where
  "stype_refs item = used_ref ''STYPE'' (at_used_ty (ag_stype item))"

definition mstype_refs :: "PgAggregateEntity \<Rightarrow> type_ref list" where
  "mstype_refs item = (case ag_mstype item of None \<Rightarrow> [] | Some ty \<Rightarrow> used_ref ''MSTYPE'' ty)"

definition aggregate_refs :: "PgAggregateEntity \<Rightarrow> type_ref list" where
  "aggregate_refs item =
     aggregate_arg_refs ''argument'' (ag_args item)
     @ aggregate_arg_refs ''direct argument'' (ag_direct item)
     @ stype_refs item @ mstype_refs item"

text \<open>One pass over a list of references.\<close>

definition visit_refs ::
  "(string \<Rightarrow> string \<Rightarrow> string \<times> TypeOrigin \<Rightarrow> 's \<Rightarrow> build_error + 's) \<Rightarrow> type_ref list \<Rightarrow> 's \<Rightarrow> build_error + 's"
  where
  "visit_refs f refs = rfold (\<lambda>(slot, path, r). f slot path r) refs"

lemma rfold_concat: "rfold (\<lambda>x. rfold f (h x)) xs s = rfold f (concat (map h xs)) s"
proof (induction xs arbitrary: s)
  case Nil
  show ?case by simp
next
  case (Cons x xs)
  show ?case
    by (cases "rfold f (h x) s") (simp_all add: rfold_append Cons.IH)
qed

lemma rfold_cong:
  assumes "\<And>x s. x \<in> set xs \<Longrightarrow> f x s = g x s"
  shows "rfold f xs s = rfold g xs s"
  using assms
proof (induction xs arbitrary: s)
  case Nil
  show ?case by simp
next
  case (Cons x xs)
  then show ?case by (cases "g x s") simp_all
qed

lemma rbind_Inr [simp]: "rbind r Inr = r"
  by (cases r) simp_all

lemma rfold_single: "rfold f [x] s = f x s"
  by (cases "f x s") simp_all

lemma visit_refs_append: "visit_refs f (xs @ ys) s = rbind (visit_refs f xs s) (visit_refs f ys)"
  by (simp add: visit_refs_def rfold_append)

lemma visit_refs_single: "visit_refs f [(slot, path, r)] s = f slot path r s"
  by (simp add: visit_refs_def rfold_single del: rfold.simps(2))

lemma if_resolved_refs: "if_resolved u (f slot (ut_full_path u)) s = visit_refs f (used_ref slot u) s"
  by (cases "ut_resolution u")
    (auto simp: if_resolved_def used_ref_def visit_refs_def rfold_single simp del: rfold.simps(2)
      ut_resolution_eq_None)

lemma expect_resolved_refs:
  assumes "ut_needs_type_resolution u"
  shows "expect_resolved msg u (f slot (ut_full_path u)) s = visit_refs f (used_ref slot u) s"
proof -
  obtain i origin where "ut_resolution u = Some (i, origin)"
    using assms ut_resolution_eq_None [of u] by (cases "ut_resolution u") auto
  then show ?thesis
    by (simp add: expect_resolved_def used_ref_def visit_refs_def rfold_single del: rfold.simps(2))
qed

lemma used_ref_none: "\<not> ut_needs_type_resolution u \<Longrightarrow> used_ref slot u = []"
  unfolding used_ref_def ut_resolution_eq_None [symmetric] by (simp del: ut_resolution_eq_None)

lemma visit_refs_Nil [simp]: "visit_refs f [] s = Inr s"
  by (simp add: visit_refs_def)

lemma visit_extern_args_refs: "visit_extern_args item f s = visit_refs f (arg_refs item) s"
proof -
  have "visit_extern_args item f s =
      rfold (\<lambda>arg. rfold (\<lambda>(slot, path, r). f slot path r)
        (if ut_emits_argument_sql (pa_used_ty arg)
         then used_ref (arg_slot arg) (pa_used_ty arg) else [])) (pe_fn_args item) s"
    unfolding visit_extern_args_def
    by (rule rfold_cong)
      (auto simp: Let_def expect_resolved_refs used_ref_none visit_refs_def [symmetric])
  then show ?thesis
    by (simp add: rfold_concat visit_refs_def arg_refs_def)
qed

lemma visit_extern_returns_refs: "visit_extern_returns item f s = visit_refs f (return_refs item) s"
proof -
  have "visit_extern_returns item f s =
      rfold (\<lambda>p. rfold (\<lambda>(slot, path, r). f slot path r) (case p of (slot, ty) \<Rightarrow> used_ref slot ty))
        (return_slots (pe_fn_return item)) s"
    unfolding visit_extern_returns_def
    by (rule rfold_cong) (auto simp: if_resolved_refs visit_refs_def [symmetric])
  then show ?thesis
    by (simp add: rfold_concat visit_refs_def return_refs_def)
qed

lemma visit_aggregate_args_refs:
  "visit_aggregate_args kind msg args f s = visit_refs f (aggregate_arg_refs kind args) s"
proof -
  have "visit_aggregate_args kind msg args f s =
      rfold (\<lambda>arg. rfold (\<lambda>(slot, path, r). f slot path r)
        (used_ref (aggregate_slot (at_name arg) kind) (at_used_ty arg))) args s"
    unfolding visit_aggregate_args_def
    by (rule rfold_cong)
      (auto simp: Let_def expect_resolved_refs used_ref_none visit_refs_def [symmetric])
  then show ?thesis
    by (simp add: rfold_concat visit_refs_def aggregate_arg_refs_def)
qed

lemma visit_stype_refs: "visit_stype item f s = visit_refs f (stype_refs item) s"
  by (simp add: visit_stype_def stype_refs_def if_resolved_refs)

lemma visit_mstype_refs: "visit_mstype item f s = visit_refs f (mstype_refs item) s"
  by (simp add: visit_mstype_def mstype_refs_def if_resolved_refs split: option.split)

lemmas visits = visit_extern_args_refs visit_extern_returns_refs visit_aggregate_args_refs
  visit_stype_refs visit_mstype_refs

end
