(* ===== verification/Graph_Nodes.thy ===== *)
theory Graph_Nodes
  imports Graph_Connect Type_Refs
begin

text \<open>
  What the first phase of \<open>build\<close> establishes: the graph only grows, its edges join nodes that exist
  (petgraph's \<open>add_edge\<close> panics otherwise), every entity is a key of its table, every table entry
  points at the node of its entity, and every such node has its edges from the root and the
  bootstrap block and to the finalize block.
\<close>

section \<open>Graphs that grow\<close>

definition in_range :: "StableGraph \<Rightarrow> bool" where
  "in_range g \<longleftrightarrow> (\<forall>(a, b, w) \<in> set (g_edges g). a < length (g_nodes g) \<and> b < length (g_nodes g))"

definition extends :: "StableGraph \<Rightarrow> StableGraph \<Rightarrow> bool" where
  "extends g h \<longleftrightarrow> (\<exists>ns. g_nodes h = g_nodes g @ ns) \<and> set (g_edges g) \<subseteq> set (g_edges h)"

definition points :: "('k \<Rightarrow> SqlGraphEntity) \<Rightarrow> StableGraph \<Rightarrow> 'k hmap \<Rightarrow> bool" where
  "points into g m \<longleftrightarrow> (\<forall>(k, i) \<in> set m. i < length (g_nodes g) \<and> g_nodes g ! i = into k)"

definition opt_below :: "node_index option \<Rightarrow> nat \<Rightarrow> bool" where
  "opt_below x n \<longleftrightarrow> (\<forall>i. x = Some i \<longrightarrow> i < n)"

text \<open>The edges of \<open>build_base_edges\<close>.\<close>

definition anchored :: "node_index option \<Rightarrow> node_index option \<Rightarrow> StableGraph \<Rightarrow> node_index \<Rightarrow> bool" where
  "anchored bootstrap finalize g i \<longleftrightarrow>
     (\<forall>b. bootstrap = Some b \<longrightarrow> (b, i, By) \<in> set (g_edges g))
     \<and> (\<forall>f. finalize = Some f \<longrightarrow> (i, f, By) \<in> set (g_edges g))"

definition based ::
  "node_index \<Rightarrow> node_index option \<Rightarrow> node_index option \<Rightarrow> StableGraph \<Rightarrow> node_index \<Rightarrow> bool" where
  "based root bootstrap finalize g i \<longleftrightarrow>
     (root, i, By) \<in> set (g_edges g) \<and> anchored bootstrap finalize g i"

lemma extends_refl [simp]: "extends g g"
  by (simp add: extends_def)

lemma extends_trans: "extends g h \<Longrightarrow> extends h k \<Longrightarrow> extends g k"
  by (auto simp: extends_def)

lemma extends_length: "extends g h \<Longrightarrow> length (g_nodes g) \<le> length (g_nodes h)"
  by (auto simp: extends_def)

lemma extends_nth: "extends g h \<Longrightarrow> i < length (g_nodes g) \<Longrightarrow> g_nodes h ! i = g_nodes g ! i"
  by (auto simp: extends_def nth_append)

lemma extends_edges: "extends g h \<Longrightarrow> e \<in> set (g_edges g) \<Longrightarrow> e \<in> set (g_edges h)"
  by (auto simp: extends_def)

lemma points_extends: "points into g m \<Longrightarrow> extends g h \<Longrightarrow> points into h m"
  using extends_length [of g h] extends_nth [of g h] by (fastforce simp: points_def)

lemma anchored_extends: "anchored b f g i \<Longrightarrow> extends g h \<Longrightarrow> anchored b f h i"
  using extends_edges [of g h] by (simp add: anchored_def)

lemma based_extends: "based r b f g i \<Longrightarrow> extends g h \<Longrightarrow> based r b f h i"
  using extends_edges [of g h] anchored_extends [of b f g i h] by (simp add: based_def)

lemma opt_below_mono: "opt_below x m \<Longrightarrow> m \<le> n \<Longrightarrow> opt_below x n"
  by (auto simp: opt_below_def)

lemma opt_below_simps [simp]: "opt_below None n" "opt_below (Some i) n \<longleftrightarrow> i < n"
  by (simp_all add: opt_below_def)

lemma add_node_simps [simp]:
  "fst (add_node w g) = length (g_nodes g)"
  "g_nodes (snd (add_node w g)) = g_nodes g @ [w]"
  "g_edges (snd (add_node w g)) = g_edges g"
  by (simp_all add: add_node_def)

lemma add_edge_simps [simp]:
  "g_nodes (add_edge a b w g) = g_nodes g"
  "g_edges (add_edge a b w g) = g_edges g @ [(a, b, w)]"
  by (simp_all add: add_edge_def)

lemma opt_edge_simps [simp]:
  "g_nodes (opt_edge_from x i g) = g_nodes g" "g_nodes (opt_edge_to i y g) = g_nodes g"
  "g_edges (opt_edge_from x i g) = g_edges g @ (case x of None \<Rightarrow> [] | Some a \<Rightarrow> [(a, i, By)])"
  "g_edges (opt_edge_to i y g) = g_edges g @ (case y of None \<Rightarrow> [] | Some b \<Rightarrow> [(i, b, By)])"
  by (simp_all add: opt_edge_from_def opt_edge_to_def split: option.split)

lemma extends_steps [simp, intro]:
  "extends g (snd (add_node w g))"
  "extends g (add_edge a b req g)"
  "extends g (opt_edge_from x i g)"
  "extends g (opt_edge_to i y g)"
  "extends g (build_base_edges i r x y g)"
  by (auto simp: extends_def build_base_edges_def)

lemma in_range_add_node [simp]: "in_range g \<Longrightarrow> in_range (snd (add_node w g))"
  by (fastforce simp: in_range_def)

lemma in_range_base:
  assumes "in_range g" and "i < length (g_nodes g)"
    and "opt_below x (length (g_nodes g))" and "opt_below y (length (g_nodes g))"
  shows "in_range (opt_edge_to i y (opt_edge_from x i g))"
  using assms by (auto simp: in_range_def opt_below_def split: option.splits)

lemma in_range_add_edge:
  "in_range g \<Longrightarrow> a < length (g_nodes g) \<Longrightarrow> b < length (g_nodes g) \<Longrightarrow> in_range (add_edge a b w g)"
  by (auto simp: in_range_def)

lemma anchored_base: "anchored x y (opt_edge_to i y (opt_edge_from x i g)) i"
  by (auto simp: anchored_def)

lemma in_range_build_base_edges:
  assumes "in_range g" and "i < length (g_nodes g)" and "r < length (g_nodes g)"
    and "opt_below x (length (g_nodes g))" and "opt_below y (length (g_nodes g))"
  shows "in_range (build_base_edges i r x y g)"
  unfolding build_base_edges_def using assms by (intro in_range_base in_range_add_edge) simp_all

lemma nodes_build_base_edges [simp]: "g_nodes (build_base_edges i r x y g) = g_nodes g"
  by (simp add: build_base_edges_def)

lemma based_build_base_edges: "based r x y (build_base_edges i r x y g) i"
  unfolding based_def
proof
  show "(r, i, By) \<in> set (g_edges (build_base_edges i r x y g))"
    by (simp add: build_base_edges_def)
  show "anchored x y (build_base_edges i r x y g) i"
    unfolding build_base_edges_def by (rule anchored_base)
qed

section \<open>One kind of entity initialized\<close>

text \<open>
  The contract every \<open>initialize_*\<close> function meets: from the graph \<open>g\<close> to the graph \<open>h\<close> with the
  table \<open>m\<close> of the items, where \<open>P h i\<close> says which edges the node of an item has.
\<close>

definition initialized ::
  "('k \<Rightarrow> SqlGraphEntity) \<Rightarrow> (StableGraph \<Rightarrow> node_index \<Rightarrow> bool) \<Rightarrow> 'k list \<Rightarrow> StableGraph \<Rightarrow> StableGraph
    \<Rightarrow> 'k hmap \<Rightarrow> bool" where
  "initialized into P items g h m \<longleftrightarrow>
     extends g h \<and> (in_range g \<longrightarrow> in_range h) \<and> points into h m \<and> fst ` set m = set items
     \<and> distinct (map fst m) \<and> (\<forall>(k, i) \<in> set m. P h i)
     \<and> set (g_nodes h) \<subseteq> set (g_nodes g) \<union> into ` set items \<union> range BuiltinType"

lemma initialized_Nil [simp]: "initialized into P [] g g []"
  by (simp add: initialized_def points_def)

lemma initialized_step:
  assumes init: "initialized into P items g h m"
    and ext: "extends h k" and rng: "in_range h \<Longrightarrow> in_range k"
    and new: "i < length (g_nodes k)" "g_nodes k ! i = into x" "P k i"
    and keep: "\<And>j. P h j \<Longrightarrow> P k j"
    and nodes: "set (g_nodes k) \<subseteq> insert (into x) (set (g_nodes h)) \<union> range BuiltinType"
  shows "initialized into P (items @ [x]) g k (hm_insert x i m)"
  unfolding initialized_def
proof (intro conjI)
  note init' = init [unfolded initialized_def]
  show "extends g k"
    using init' ext by (blast intro: extends_trans)
  show "in_range g \<longrightarrow> in_range k"
    using init' rng by blast
  have "points into k m"
    using init' ext by (blast intro: points_extends)
  then show "points into k (hm_insert x i m)"
    using new by (auto simp: points_def set_hm_insert)
  have "fst ` set (hm_insert x i m) = fst ` set m \<union> {x}"
    by (force simp: set_hm_insert)
  then show "fst ` set (hm_insert x i m) = set (items @ [x])"
    using init' by simp
  show "distinct (map fst (hm_insert x i m))"
    using init' by (simp add: distinct_hm_insert)
  show "\<forall>(y, j) \<in> set (hm_insert x i m). P k j"
    using init' new(3) keep by (auto simp: set_hm_insert)
  show "set (g_nodes k) \<subseteq> set (g_nodes g) \<union> into ` set (items @ [x]) \<union> range BuiltinType"
    using init' nodes by auto
qed

text \<open>The loop over the items of one kind, for any edges that a new node gets.\<close>

locale base_edges =
  fixes base :: "node_index \<Rightarrow> StableGraph \<Rightarrow> StableGraph"
    and P :: "StableGraph \<Rightarrow> node_index \<Rightarrow> bool"
    and n :: nat
  assumes base_nodes: "g_nodes (base i g) = g_nodes g"
    and base_extends: "extends g (base i g)"
    and base_in_range: "in_range g \<Longrightarrow> i < length (g_nodes g) \<Longrightarrow> n \<le> length (g_nodes g) \<Longrightarrow> in_range (base i g)"
    and base_holds: "P (base i g) i"
    and holds_extends: "P g i \<Longrightarrow> extends g h \<Longrightarrow> P h i"
begin

lemma initialize_loop_snoc:
  "initialize_loop into base (items @ [x]) g =
     (let (h, m) = initialize_loop into base items g; (i, h1) = add_node (into x) h
      in (base i h1, hm_insert x i m))"
  by (simp add: initialize_loop_def split_def Let_def)

lemma initialize_loop_initialized:
  assumes "n \<le> length (g_nodes g)" and "initialize_loop into base items g = (h, m)"
  shows "initialized into P items g h m"
  using assms(2)
proof (induction items arbitrary: h m rule: rev_induct)
  case Nil
  then show ?case by (simp add: initialize_loop_def)
next
  case (snoc x items)
  obtain h0 m0 where run: "initialize_loop into base items g = (h0, m0)"
    by (cases "initialize_loop into base items g")
  let ?k = "snd (add_node (into x) h0)"
  have h: "h = base (length (g_nodes h0)) ?k" and m: "m = hm_insert x (length (g_nodes h0)) m0"
    using snoc.prems by (simp_all add: initialize_loop_snoc run split_def)
  have init: "initialized into P items g h0 m0"
    by (rule snoc.IH [OF run])
  then have len: "n \<le> length (g_nodes ?k)"
    using assms(1) extends_length [of g h0] by (simp add: initialized_def)
  show ?case
    unfolding m
  proof (rule initialized_step [OF init])
    show ext: "extends h0 h"
      unfolding h by (rule extends_trans [OF _ base_extends]) simp
    show "in_range h" if "in_range h0"
      unfolding h using that len by (intro base_in_range) simp_all
    show "length (g_nodes h0) < length (g_nodes h)" "g_nodes h ! length (g_nodes h0) = into x"
      by (simp_all add: h base_nodes)
    show "P h (length (g_nodes h0))"
      unfolding h by (rule base_holds)
    show "P h j" if "P h0 j" for j
      using that ext by (rule holds_extends)
    show "set (g_nodes h) \<subseteq> insert (into x) (set (g_nodes h0)) \<union> range BuiltinType"
      by (simp add: h base_nodes) blast
  qed
qed

end

text \<open>
  The two kinds of edges a new node gets. The loop may start once the root, the bootstrap block and
  the finalize block are nodes.
\<close>

definition anchor_bound :: "node_index option \<Rightarrow> node_index option \<Rightarrow> nat" where
  "anchor_bound b f =
     max (case b of None \<Rightarrow> 0 | Some i \<Rightarrow> Suc i) (case f of None \<Rightarrow> 0 | Some i \<Rightarrow> Suc i)"

lemma anchor_bound_le [simp]: "anchor_bound b f \<le> n \<longleftrightarrow> opt_below b n \<and> opt_below f n"
  by (auto simp: anchor_bound_def split: option.splits)

interpretation schema_nodes: base_edges
  "\<lambda>i g. opt_edge_to i f (opt_edge_from b i g)" "anchored b f" "anchor_bound b f"
  for b f
proof
  fix i g
  show "extends g (opt_edge_to i f (opt_edge_from b i g))"
    by (auto simp: extends_def)
qed (auto intro: in_range_base anchored_base anchored_extends)

interpretation item_nodes: base_edges
  "\<lambda>i. build_base_edges i r b f" "based r b f" "max (Suc r) (anchor_bound b f)"
  for r b f
  by unfold_locales
    (auto intro: in_range_build_base_edges based_build_base_edges based_extends)

lemma initialize_schemas_initialized:
  assumes "initialize_schemas b f items g = (h, m)"
    and "opt_below b (length (g_nodes g))" and "opt_below f (length (g_nodes g))"
  shows "initialized SqlGraphEntity.Schema (anchored b f) items g h m"
  using schema_nodes.initialize_loop_initialized [of b f g] assms
  by (simp add: initialize_schemas_def)

lemma initialize_items_initialized:
  assumes "initialize_items into r b f items g = (h, m)"
    and "r < length (g_nodes g)"
    and "opt_below b (length (g_nodes g))" and "opt_below f (length (g_nodes g))"
  shows "initialized into (based r b f) items g h m"
  using item_nodes.initialize_loop_initialized [of r b f g] assms
  by (simp add: initialize_items_def)


section \<open>Extension SQL blocks\<close>

text \<open>
  At most one block has the position \<open>sel\<close> (\<open>bootstrap\<close> or \<open>finalize\<close>), and the recorded index is
  its node.
\<close>

definition position_ok ::
  "(ExtensionSqlEntity \<Rightarrow> bool) \<Rightarrow> ExtensionSqlEntity list \<Rightarrow> StableGraph \<Rightarrow> node_index option \<Rightarrow> bool"
  where
  "position_ok sel items g x \<longleftrightarrow>
     (case x of
        None \<Rightarrow> filter sel items = []
      | Some i \<Rightarrow> i < length (g_nodes g) \<and> (\<exists>e. filter sel items = [e] \<and> g_nodes g ! i = CustomSql e))"

lemma position_ok_below: "position_ok sel items g x \<Longrightarrow> opt_below x (length (g_nodes g))"
  by (auto simp: position_ok_def opt_below_def)

lemma position_ok_extends: "position_ok sel items g x \<Longrightarrow> extends g h \<Longrightarrow> position_ok sel items h x"
  using extends_length [of g h] extends_nth [of g h]
  by (auto simp: position_ok_def split: option.splits)

lemma position_ok_skip:
  "position_ok sel items g x \<Longrightarrow> extends g h \<Longrightarrow> \<not> sel e \<Longrightarrow> position_ok sel (items @ [e]) h x"
  by (drule (1) position_ok_extends) (simp add: position_ok_def split: option.splits)

lemma position_ok_set:
  "position_ok sel items g None \<Longrightarrow> extends g h \<Longrightarrow> sel e \<Longrightarrow> i < length (g_nodes h)
    \<Longrightarrow> g_nodes h ! i = CustomSql e \<Longrightarrow> position_ok sel (items @ [e]) h (Some i)"
  by (simp add: position_ok_def)

definition sqls_inv :: "ExtensionSqlEntity list \<Rightarrow> StableGraph \<Rightarrow> sqls_state \<Rightarrow> bool" where
  "sqls_inv items g s \<longleftrightarrow>
     initialized CustomSql (\<lambda>_ _. True) items g (x_graph s) (x_mapped s)
     \<and> position_ok es_bootstrap items (x_graph s) (x_bootstrap s)
     \<and> position_ok es_finalize items (x_graph s) (x_finalize s)"

lemma set_position_frames:
  assumes "set_bootstrap item i s = Inr t" and "set_finalize item i t = Inr u"
  shows "x_graph u = x_graph s" "x_mapped u = x_mapped s"
    and "x_bootstrap u = (if es_bootstrap item then Some i else x_bootstrap s)"
    and "x_finalize u = (if es_finalize item then Some i else x_finalize s)"
    and "es_bootstrap item \<Longrightarrow> x_bootstrap s = None"
    and "es_finalize item \<Longrightarrow> x_finalize s = None"
  using assms
  by (auto simp: set_bootstrap_def set_finalize_def split: if_splits option.splits)

lemma initialize_extension_sql_inv:
  assumes inv: "sqls_inv items g s" and run: "initialize_extension_sql item s = Inr u"
  shows "sqls_inv (items @ [item]) g u"
proof -
  let ?h = "snd (add_node (CustomSql item) (x_graph s))" and ?i = "length (g_nodes (x_graph s))"
  let ?s = "s\<lparr>x_graph := ?h, x_mapped := hm_insert item ?i (x_mapped s)\<rparr>"
  from run obtain t where "set_bootstrap item ?i ?s = Inr t" and "set_finalize item ?i t = Inr u"
    by (auto simp: initialize_extension_sql_def split_def Let_def rbind_eq_Inr)
  note u = set_position_frames [OF this, simplified]
  note inv' = inv [unfolded sqls_inv_def]
  have ext: "extends (x_graph s) ?h"
    by simp
  have "initialized CustomSql (\<lambda>_ _. True) (items @ [item]) g ?h (hm_insert item ?i (x_mapped s))"
    using inv' by (intro initialized_step [of _ _ _ _ "x_graph s"]) auto
  moreover have "position_ok es_bootstrap (items @ [item]) ?h (x_bootstrap u)"
    using inv' u(3,5) ext by (auto intro: position_ok_set position_ok_skip)
  moreover have "position_ok es_finalize (items @ [item]) ?h (x_finalize u)"
    using inv' u(4,6) ext by (auto intro: position_ok_set position_ok_skip)
  ultimately show ?thesis
    by (simp add: sqls_inv_def u(1,2))
qed

lemma initialize_extension_sql_loop:
  assumes "rfold initialize_extension_sql items
      \<lparr>x_graph = g, x_mapped = [], x_bootstrap = None, x_finalize = None\<rparr> = Inr s"
  shows "sqls_inv items g s"
  using assms
proof (induction items arbitrary: s rule: rev_induct)
  case Nil
  then show ?case by (auto simp: sqls_inv_def position_ok_def)
next
  case (snoc item items)
  then show ?case
    by (auto simp: rfold_append rbind_eq_Inr intro: initialize_extension_sql_inv)
qed

text \<open>The edges of one block, and of all blocks in any iteration order.\<close>

definition sql_based ::
  "node_index \<Rightarrow> node_index option \<Rightarrow> node_index option \<Rightarrow> StableGraph \<Rightarrow> ExtensionSqlEntity \<Rightarrow> node_index
    \<Rightarrow> bool" where
  "sql_based root b f g item i \<longleftrightarrow>
     (root, i, By) \<in> set (g_edges g)
     \<and> anchored (if es_bootstrap item then None else b) (if es_finalize item then None else f) g i"

lemma sql_based_extends: "sql_based r b f g item i \<Longrightarrow> extends g h \<Longrightarrow> sql_based r b f h item i"
  using extends_edges [of g h] anchored_extends [of _ _ g i h] unfolding sql_based_def by blast

lemma extension_sql_edges_simps:
  "extension_sql_edges r b f (item, i) g =
     opt_edge_to i (if es_finalize item then None else f)
       (opt_edge_from (if es_bootstrap item then None else b) i (add_edge r i By g))"
  by (simp add: extension_sql_edges_def opt_edge_to_def opt_edge_from_def Let_def split: option.split)

lemma extension_sql_edges_nodes [simp]: "g_nodes (extension_sql_edges r b f p g) = g_nodes g"
  by (cases p) (simp add: extension_sql_edges_simps)

lemma extension_sql_edges_extends [simp]: "extends g (extension_sql_edges r b f p g)"
  by (cases p) (auto simp: extends_def extension_sql_edges_simps)

lemma extension_sql_edges_based: "sql_based r b f (extension_sql_edges r b f (item, i) g) item i"
  unfolding sql_based_def extension_sql_edges_simps by (simp add: anchored_base)

lemma extension_sql_edges_in_range:
  assumes "in_range g" and "snd p < length (g_nodes g)" and "r < length (g_nodes g)"
    and "opt_below b (length (g_nodes g))" and "opt_below f (length (g_nodes g))"
  shows "in_range (extension_sql_edges r b f p g)"
proof (cases p)
  case (Pair item i)
  with assms show ?thesis
    unfolding Pair extension_sql_edges_simps
    by (intro in_range_base in_range_add_edge) simp_all
qed

lemma extension_sql_edges_fold:
  assumes "\<forall>p \<in> set ps. snd p < length (g_nodes g)" and "r < length (g_nodes g)"
    and "opt_below b (length (g_nodes g))" and "opt_below f (length (g_nodes g))"
  defines "h \<equiv> fold (extension_sql_edges r b f) ps g"
  shows "g_nodes h = g_nodes g" and "extends g h" and "in_range g \<Longrightarrow> in_range h"
    and "(item, i) \<in> set ps \<Longrightarrow> sql_based r b f h item i"
proof -
  have "g_nodes h = g_nodes g \<and> extends g h \<and> (in_range g \<longrightarrow> in_range h)
      \<and> (\<forall>(item, i) \<in> set ps. sql_based r b f h item i)"
    unfolding h_def using assms(1)
  proof (induction ps rule: rev_induct)
    case Nil
    then show ?case by simp
  next
    case (snoc p ps)
    let ?h = "fold (extension_sql_edges r b f) ps g"
    have IH: "g_nodes ?h = g_nodes g" "extends g ?h" "in_range g \<Longrightarrow> in_range ?h"
      "\<forall>(item, i) \<in> set ps. sql_based r b f ?h item i"
      using snoc by simp_all
    have "in_range (extension_sql_edges r b f p ?h)" if "in_range g"
      using that IH assms(2-4) snoc.prems by (intro extension_sql_edges_in_range) simp_all
    then show ?case
      using IH by (auto intro: extends_trans sql_based_extends extension_sql_edges_based)
  qed
  then show "g_nodes h = g_nodes g" and "extends g h" and "in_range g \<Longrightarrow> in_range h"
    and "(item, i) \<in> set ps \<Longrightarrow> sql_based r b f h item i"
    by auto
qed

text \<open>What \<open>initialize_extension_sqls\<close> returns.\<close>

definition sqls_done :: "node_index \<Rightarrow> ExtensionSqlEntity list \<Rightarrow> StableGraph \<Rightarrow> sqls_state \<Rightarrow> bool" where
  "sqls_done root items g s \<longleftrightarrow>
     sqls_inv items g s
     \<and> (\<forall>(item, i) \<in> set (x_mapped s). sql_based root (x_bootstrap s) (x_finalize s) (x_graph s) item i)"

lemma initialize_extension_sqls_done:
  assumes run: "initialize_extension_sqls rank root items g = Inr s" and root: "root < length (g_nodes g)"
  shows "sqls_done root items g s"
proof -
  from run obtain s0 where loop: "rfold initialize_extension_sql items
      \<lparr>x_graph = g, x_mapped = [], x_bootstrap = None, x_finalize = None\<rparr> = Inr s0"
    and s: "s = s0\<lparr>x_graph := fold (extension_sql_edges root (x_bootstrap s0) (x_finalize s0))
        (hm_iter rank (x_mapped s0)) (x_graph s0)\<rparr>"
    by (auto simp: initialize_extension_sqls_def rbind_eq_Inr)
  let ?h = "x_graph s0"
  have inv: "sqls_inv items g s0"
    using loop by (rule initialize_extension_sql_loop)
  note inv' = inv [unfolded sqls_inv_def initialized_def]
  have "\<forall>p \<in> set (hm_iter rank (x_mapped s0)). snd p < length (g_nodes ?h)"
    using inv' by (auto simp: points_def)
  moreover have "root < length (g_nodes ?h)"
    using root inv' extends_length [of g ?h] by simp
  moreover have "opt_below (x_bootstrap s0) (length (g_nodes ?h))"
    "opt_below (x_finalize s0) (length (g_nodes ?h))"
    using inv' by (auto intro: position_ok_below)
  ultimately have edges: "g_nodes (x_graph s) = g_nodes ?h" "extends ?h (x_graph s)"
    "in_range ?h \<Longrightarrow> in_range (x_graph s)"
    "\<And>item i. (item, i) \<in> set (x_mapped s0) \<Longrightarrow>
      sql_based root (x_bootstrap s0) (x_finalize s0) (x_graph s) item i"
    using extension_sql_edges_fold [of "hm_iter rank (x_mapped s0)" ?h root "x_bootstrap s0" "x_finalize s0"]
    by (simp_all add: s)
  have "sqls_inv items g s"
    using inv' edges by (auto simp: sqls_inv_def initialized_def s
        intro: extends_trans points_extends position_ok_extends)
  then show ?thesis
    using edges(4) by (auto simp: sqls_done_def s)
qed

end
