(* ===== verification/Graph_Init.thy ===== *)
theory Graph_Init
  imports Graph_Nodes
begin

text \<open>
  The functions and aggregates of the first phase, which also add placeholder nodes for the external
  types they mention and reject types of this extension that nothing declares, and the first phase
  as a whole.
\<close>

section \<open>Placeholders\<close>

text \<open>
  The placeholder table only grows, its entries point at placeholder nodes, and no other nodes are
  added.
\<close>

definition grown :: "StableGraph \<times> string hmap \<Rightarrow> StableGraph \<times> string hmap \<Rightarrow> bool" where
  "grown st st' \<longleftrightarrow>
     extends (fst st) (fst st') \<and> (in_range (fst st) \<longrightarrow> in_range (fst st'))
     \<and> (points BuiltinType (fst st) (snd st) \<longrightarrow> points BuiltinType (fst st') (snd st'))
     \<and> fst ` set (snd st) \<subseteq> fst ` set (snd st')
     \<and> set (g_nodes (fst st')) \<subseteq> set (g_nodes (fst st)) \<union> range BuiltinType"

definition ref_resolved :: "iter_rank \<Rightarrow> Tables \<Rightarrow> string hmap \<Rightarrow> type_ref \<Rightarrow> bool" where
  "ref_resolved rank t builtin_types ref \<longleftrightarrow>
     (case ref of (slot, path, i, origin) \<Rightarrow>
        if origin = External then i \<in> fst ` set builtin_types
        else find_graph_type_target rank i t \<noteq> None)"

lemma grown_refl [simp]: "grown st st"
  by (simp add: grown_def)

lemma grown_trans: "grown a b \<Longrightarrow> grown b c \<Longrightarrow> grown a c"
  unfolding grown_def by (blast intro: extends_trans)

lemma ref_resolved_mono:
  "ref_resolved rank t b ref \<Longrightarrow> fst ` set b \<subseteq> fst ` set b' \<Longrightarrow> ref_resolved rank t b' ref"
  by (auto simp: ref_resolved_def split: if_splits prod.splits)

lemma hm_get_None: "hm_get m k = None \<longleftrightarrow> k \<notin> fst ` set m"
  by (simp add: hm_get_def map_of_eq_None_iff)

lemma hm_get_Some: "hm_get m k = Some i \<Longrightarrow> (k, i) \<in> set m"
  by (simp add: hm_get_def map_of_SomeD)

lemma grown_placeholder:
  "grown (g, b) (snd (add_node (BuiltinType i) g), hm_insert i (length (g_nodes g)) b)"
proof -
  have "points BuiltinType (snd (add_node (BuiltinType i) g)) (hm_insert i (length (g_nodes g)) b)"
    if "points BuiltinType g b"
    using points_extends [OF that, of "snd (add_node (BuiltinType i) g)"]
    by (auto simp: points_def set_hm_insert)
  then show ?thesis
    by (force simp: grown_def set_hm_insert)
qed

lemma initialize_resolved_type_grown:
  assumes "initialize_resolved_type rank t k n slot path (i, origin) st = Inr st'"
  shows "grown st st' \<and> ref_resolved rank t (snd st') (slot, path, i, origin)"
proof (cases "origin = External")
  case True
  obtain g b where st: "st = (g, b)" by (cases st)
  show ?thesis
  proof (cases "hm_get b i")
    case None
    then have "st' = (snd (add_node (BuiltinType i) g), hm_insert i (length (g_nodes g)) b)"
      using assms True by (simp add: initialize_resolved_type_def st split_def Let_def)
    then show ?thesis
      using True by (auto simp: st grown_placeholder ref_resolved_def set_hm_insert)
  next
    case (Some j)
    then have "st' = st"
      using assms True by (simp add: initialize_resolved_type_def st)
    then show ?thesis
      using True Some by (simp add: st ref_resolved_def) (force dest: hm_get_Some)
  qed
next
  case False
  then show ?thesis
    using assms by (auto simp: initialize_resolved_type_def ref_resolved_def split: prod.splits if_splits)
qed

lemma visit_refs_grown:
  assumes "visit_refs (initialize_resolved_type rank t k n) refs st = Inr st'"
  shows "grown st st' \<and> (\<forall>ref \<in> set refs. ref_resolved rank t (snd st') ref)"
  using assms
proof (induction refs arbitrary: st' rule: rev_induct)
  case Nil
  then show ?case by simp
next
  case (snoc ref refs)
  obtain slot path i origin where ref: "ref = (slot, path, i, origin)"
    by (cases ref) auto
  from snoc.prems obtain st1 where st1: "visit_refs (initialize_resolved_type rank t k n) refs st = Inr st1"
    and step: "initialize_resolved_type rank t k n slot path (i, origin) st1 = Inr st'"
    by (auto simp: visit_refs_append visit_refs_single rbind_eq_Inr ref)
  have "grown st st1" and refs: "\<forall>ref \<in> set refs. ref_resolved rank t (snd st1) ref"
    using snoc.IH [OF st1] by simp_all
  moreover have grown: "grown st1 st'" and "ref_resolved rank t (snd st') ref"
    using initialize_resolved_type_grown [OF step] by (simp_all add: ref)
  moreover have "\<forall>ref \<in> set refs. ref_resolved rank t (snd st') ref"
    using refs grown by (auto simp: grown_def intro: ref_resolved_mono)
  ultimately show ?case
    by (auto intro: grown_trans)
qed

section \<open>Items that mention types\<close>

text \<open>
  What adding one item that mentions types does: its node is added with the edges \<open>P\<close>, the types it
  mentions are resolved, and the only other new nodes are placeholders.
\<close>

definition added ::
  "(StableGraph \<Rightarrow> node_index \<Rightarrow> bool) \<Rightarrow> iter_rank \<Rightarrow> Tables \<Rightarrow> SqlGraphEntity \<Rightarrow> type_ref list
    \<Rightarrow> node_index \<Rightarrow> StableGraph \<times> string hmap \<Rightarrow> StableGraph \<times> string hmap \<Rightarrow> bool" where
  "added P rank t e refs i st st' \<longleftrightarrow>
     extends (fst st) (fst st') \<and> (in_range (fst st) \<longrightarrow> in_range (fst st'))
     \<and> i < length (g_nodes (fst st')) \<and> g_nodes (fst st') ! i = e \<and> P (fst st') i
     \<and> set (g_nodes (fst st')) \<subseteq> insert e (set (g_nodes (fst st))) \<union> range BuiltinType
     \<and> (points BuiltinType (fst st) (snd st) \<longrightarrow> points BuiltinType (fst st') (snd st'))
     \<and> fst ` set (snd st) \<subseteq> fst ` set (snd st')
     \<and> (\<forall>ref \<in> set refs. ref_resolved rank t (snd st') ref)"

locale type_users =
  fixes into :: "'k \<Rightarrow> SqlGraphEntity"
    and refs :: "'k \<Rightarrow> type_ref list"
    and step :: "'k \<Rightarrow> (StableGraph \<times> string hmap) \<times> 'k hmap
      \<Rightarrow> build_error + (StableGraph \<times> string hmap) \<times> 'k hmap"
    and P :: "StableGraph \<Rightarrow> node_index \<Rightarrow> bool"
    and rank :: iter_rank and t :: Tables and n :: nat
  assumes step_added: "step item (st, m) = Inr (st', m') \<Longrightarrow> n \<le> length (g_nodes (fst st)) \<Longrightarrow>
      \<exists>i. m' = hm_insert item i m \<and> added P rank t (into item) (refs item) i st st'"
    and holds_extends: "P g i \<Longrightarrow> extends g h \<Longrightarrow> P h i"
begin

lemma loop_initialized:
  assumes "rfold step items (st, []) = Inr (st', m)" and len: "n \<le> length (g_nodes (fst st))"
    and pts: "points BuiltinType (fst st) (snd st)"
  shows "initialized into P items (fst st) (fst st') m \<and> points BuiltinType (fst st') (snd st')
    \<and> fst ` set (snd st) \<subseteq> fst ` set (snd st')
    \<and> (\<forall>item \<in> set items. \<forall>ref \<in> set (refs item). ref_resolved rank t (snd st') ref)"
  using assms(1)
proof (induction items arbitrary: st' m rule: rev_induct)
  case Nil
  then show ?case using pts by simp
next
  case (snoc x items)
  from snoc.prems obtain st1 m1 where run: "rfold step items (st, []) = Inr (st1, m1)"
    and step: "step x (st1, m1) = Inr (st', m)"
    by (auto simp: rfold_append rbind_eq_Inr)
  note IH = snoc.IH [OF run]
  then have "n \<le> length (g_nodes (fst st1))"
    using len extends_length [of "fst st" "fst st1"] by (simp add: initialized_def)
  with step obtain i where m: "m = hm_insert x i m1" and add: "added P rank t (into x) (refs x) i st1 st'"
    using step_added by blast
  note add' = add [unfolded added_def]
  have "initialized into P (items @ [x]) (fst st) (fst st') m"
    unfolding m using IH add' holds_extends by (intro initialized_step [of _ _ _ _ "fst st1"]) auto
  moreover have refs: "ref_resolved rank t (snd st') ref" if "item \<in> set (items @ [x])" "ref \<in> set (refs item)"
    for item ref
    using that IH add' ref_resolved_mono [of rank t "snd st1" ref "snd st'"] by auto
  moreover have "points BuiltinType (fst st') (snd st')"
    using IH add' by simp
  moreover have "fst ` set (snd st) \<subseteq> fst ` set (snd st')"
    using IH add' subset_trans [of "fst ` set (snd st)" "fst ` set (snd st1)"] by simp
  ultimately show ?case
    by simp
qed

end

lemma extern_step_added:
  assumes run: "initialize_extern rank t r b f item (st, m) = Inr (st', m')"
    and len: "max (Suc r) (anchor_bound b f) \<le> length (g_nodes (fst st))"
  shows "\<exists>i. m' = hm_insert item i m
    \<and> added (based r b f) rank t (Function item) (arg_refs item @ return_refs item) i st st'"
proof -
  obtain g bt where st: "st = (g, bt)" by (cases st)
  let ?i = "length (g_nodes g)" and ?g1 = "snd (add_node (Function item) g)"
  let ?g2 = "build_base_edges ?i r b f ?g1"
  from run have m': "m' = hm_insert item ?i m"
    and visit: "visit_refs (initialize_resolved_type rank t ''Function'' (pe_full_path item))
      (arg_refs item @ return_refs item) (?g2, bt) = Inr st'"
    by (auto simp: initialize_extern_def st split_def Let_def visits visit_refs_append rbind_eq_Inr)
  note grown = visit_refs_grown [OF visit]
  have ext: "extends ?g2 (fst st')"
    using grown by (simp add: grown_def)
  have "extends g ?g2"
    by (rule extends_trans [of _ ?g1]) auto
  moreover have "in_range ?g2" if "in_range g"
    using that len by (intro in_range_build_base_edges) (auto simp: st intro: opt_below_mono)
  moreover have "?i < length (g_nodes (fst st'))" "g_nodes (fst st') ! ?i = Function item"
    using extends_length [OF ext] extends_nth [OF ext, of ?i] by simp_all
  moreover have "based r b f (fst st') ?i"
    using based_build_base_edges ext by (rule based_extends)
  moreover have "points BuiltinType ?g2 bt" if "points BuiltinType g bt"
    using that \<open>extends g ?g2\<close> by (rule points_extends)
  ultimately have "added (based r b f) rank t (Function item) (arg_refs item @ return_refs item) ?i st st'"
    using grown ext by (auto simp: added_def grown_def st intro: extends_trans)
  with m' show ?thesis by blast
qed

interpretation extern_nodes: type_users
  Function "\<lambda>item. arg_refs item @ return_refs item" "initialize_extern rank t r b f"
  "based r b f" rank t "max (Suc r) (anchor_bound b f)"
  for rank t r b f
  by unfold_locales (auto intro: extern_step_added based_extends)

lemma aggregate_step_added:
  assumes run: "initialize_aggregate rank t r b f item (st, m) = Inr (st', m')"
    and len: "max (Suc r) (anchor_bound b f) \<le> length (g_nodes (fst st))"
  shows "\<exists>i. m' = hm_insert item i m
    \<and> added (based r b f) rank t (Aggregate item) (aggregate_refs item) i st st'"
proof -
  obtain g bt where st: "st = (g, bt)" by (cases st)
  let ?i = "length (g_nodes g)" and ?g1 = "snd (add_node (Aggregate item) g)"
  from run obtain g2 b2 where m': "m' = hm_insert item ?i m"
    and visit: "visit_refs (initialize_resolved_type rank t ''Aggregate'' (ag_full_path item))
      (aggregate_refs item) (?g1, bt) = Inr (g2, b2)"
    and st': "st' = (build_base_edges ?i r b f g2, b2)"
    by (auto simp: initialize_aggregate_def st split_def Let_def visits visit_refs_append rbind_eq_Inr
        aggregate_refs_def)
  note grown = visit_refs_grown [OF visit]
  have ext: "extends ?g1 g2"
    using grown by (simp add: grown_def)
  have g1: "extends g ?g1" and last: "extends g2 (fst st')"
    by (simp_all add: st')
  have len2: "?i < length (g_nodes g2)"
    using extends_length [OF ext] by simp
  have "in_range (fst st')" if "in_range g2"
    using that len len2 by (auto simp: st st' intro!: in_range_build_base_edges intro: opt_below_mono)
  moreover have "g_nodes (fst st') ! ?i = Aggregate item"
    using extends_nth [OF ext, of ?i] by (simp add: st')
  moreover have "based r b f (fst st') ?i"
    by (simp add: st' based_build_base_edges)
  moreover have "points BuiltinType (fst st') (snd st')" if "points BuiltinType g bt"
    using grown points_extends [OF that g1] points_extends [OF _ last, of BuiltinType b2]
    by (simp add: grown_def st')
  moreover have "extends g (fst st')"
    using g1 ext last by (blast intro: extends_trans)
  ultimately have "added (based r b f) rank t (Aggregate item) (aggregate_refs item) ?i st st'"
    using grown len2 by (auto simp: added_def grown_def st st')
  with m' show ?thesis by blast
qed

interpretation aggregate_nodes: type_users
  Aggregate aggregate_refs "initialize_aggregate rank t r b f"
  "based r b f" rank t "max (Suc r) (anchor_bound b f)"
  for rank t r b f
  by unfold_locales (auto intro: aggregate_step_added based_extends)

end
