(* ===== verification/Graph_Built.thy ===== *)
theory Graph_Built
  imports Graph_Init
begin

text \<open>
  The first phase of \<open>build\<close> as a whole: the run of \<open>build_nodes\<close> taken apart into its steps, and what
  holds of the graph and the tables at its end.
\<close>

section \<open>The steps of the first phase\<close>

definition root_graph :: "ControlFile \<Rightarrow> StableGraph" where
  "root_graph control = snd (add_node (ExtensionRoot control) new_graph)"

lemma root_graph_simps [simp]:
  "g_nodes (root_graph control) = [ExtensionRoot control]" "g_edges (root_graph control) = []"
  by (simp_all add: root_graph_def new_graph_def)

text \<open>The table contents after each step, as the record \<open>i\<close> holds them at the end.\<close>

lemma build_nodes_steps:
  assumes "build_nodes rank control se = Inr i"
  obtains s g1 g2 g3 t b4 g4 g5 g6 b7 g7 where
    "initialize_extension_sqls rank 0 (se_extension_sqls se) (root_graph control) = Inr s"
    "initialize_schemas (i_bootstrap i) (i_finalize i) (se_schemas se) (x_graph s)
       = (g1, m_schemas (i_tables i))"
    "initialize_enums 0 (i_bootstrap i) (i_finalize i) (se_enums se) g1 = (g2, m_enums (i_tables i))"
    "initialize_types 0 (i_bootstrap i) (i_finalize i) (se_types se) g2 = (g3, m_types (i_tables i))"
    "ensure_unique_type_targets rank t = Inr ()"
    "initialize_externs rank t 0 (i_bootstrap i) (i_finalize i) (se_externs se) g3
       = Inr ((g4, b4), m_externs (i_tables i))"
    "initialize_ords 0 (i_bootstrap i) (i_finalize i) (se_ords se) g4 = (g5, m_ords (i_tables i))"
    "initialize_hashes 0 (i_bootstrap i) (i_finalize i) (se_hashes se) g5 = (g6, m_hashes (i_tables i))"
    "initialize_aggregates rank t 0 (i_bootstrap i) (i_finalize i) (se_aggregates se) (g6, b4)
       = Inr ((g7, b7), m_aggregates (i_tables i))"
    "initialize_triggers 0 (i_bootstrap i) (i_finalize i) (se_triggers se) g7
       = (i_graph i, m_triggers (i_tables i))"
    "b7 = m_builtin_types (i_tables i)"
    "x_mapped s = m_extension_sqls (i_tables i)" "x_bootstrap s = i_bootstrap i"
    "x_finalize s = i_finalize i" "i_root i = 0"
    "m_types t = m_types (i_tables i)" "m_enums t = m_enums (i_tables i)"
    "m_extension_sqls t = m_extension_sqls (i_tables i)"
proof -
  have root: "add_node (ExtensionRoot control) new_graph = (0, root_graph control)"
    by (simp add: root_graph_def add_node_def new_graph_def)
  from assms show thesis
    unfolding build_nodes_def root
    by (auto simp: Let_def elim!: rbindE split: prod.split_asm) (rule that, simp_all, simp_all)
qed

section \<open>What the first phase establishes\<close>

text \<open>
  A table holds exactly the given items, each at its own node, where \<open>P\<close> holds. \<open>P\<close> speaks of edges
  and survives when the graph grows.
\<close>

definition holds_items ::
  "('k \<Rightarrow> SqlGraphEntity) \<Rightarrow> ('k \<Rightarrow> StableGraph \<Rightarrow> node_index \<Rightarrow> bool) \<Rightarrow> 'k list \<Rightarrow> StableGraph \<Rightarrow> 'k hmap
    \<Rightarrow> bool" where
  "holds_items into P items g m \<longleftrightarrow>
     points into g m \<and> fst ` set m = set items \<and> distinct (map fst m) \<and> (\<forall>(k, i) \<in> set m. P k g i)"

lemma holds_items_extends:
  assumes "holds_items into P items g m" and "extends g h" and "\<And>k i. P k g i \<Longrightarrow> P k h i"
  shows "holds_items into P items h m"
  using assms by (auto simp: holds_items_def intro: points_extends)

lemma initialized_holds:
  "initialized into P items g h m \<Longrightarrow> holds_items into (\<lambda>_. P) items h m"
  by (auto simp: initialized_def holds_items_def)

definition nodes_done :: "ControlFile \<Rightarrow> SplitEntities \<Rightarrow> Tables \<Rightarrow> node_index option
    \<Rightarrow> node_index option \<Rightarrow> StableGraph \<Rightarrow> bool" where
  "nodes_done control se t b f g \<longleftrightarrow>
     g_nodes g \<noteq> [] \<and> g_nodes g ! 0 = ExtensionRoot control \<and> in_range g
     \<and> position_ok es_bootstrap (se_extension_sqls se) g b
     \<and> position_ok es_finalize (se_extension_sqls se) g f
     \<and> holds_items CustomSql (\<lambda>k g i. sql_based 0 b f g k i) (se_extension_sqls se) g (m_extension_sqls t)
     \<and> holds_items SqlGraphEntity.Schema (\<lambda>_. anchored b f) (se_schemas se) g (m_schemas t)
     \<and> holds_items Enum (\<lambda>_. based 0 b f) (se_enums se) g (m_enums t)
     \<and> holds_items SqlGraphEntity.Type (\<lambda>_. based 0 b f) (se_types se) g (m_types t)
     \<and> holds_items Function (\<lambda>_. based 0 b f) (se_externs se) g (m_externs t)
     \<and> holds_items Ord (\<lambda>_. based 0 b f) (se_ords se) g (m_ords t)
     \<and> holds_items Hash (\<lambda>_. based 0 b f) (se_hashes se) g (m_hashes t)
     \<and> holds_items Aggregate (\<lambda>_. based 0 b f) (se_aggregates se) g (m_aggregates t)
     \<and> holds_items Trigger (\<lambda>_. based 0 b f) (se_triggers se) g (m_triggers t)
     \<and> points BuiltinType g (m_builtin_types t)"

lemma holds_based_extends:
  "holds_items into (\<lambda>_. based r b f) items g m \<Longrightarrow> extends g h
    \<Longrightarrow> holds_items into (\<lambda>_. based r b f) items h m"
  using holds_items_extends [of into "\<lambda>_. based r b f" items g m h] based_extends [of r b f g _ h] by blast

lemma holds_anchored_extends:
  "holds_items into (\<lambda>_. anchored b f) items g m \<Longrightarrow> extends g h
    \<Longrightarrow> holds_items into (\<lambda>_. anchored b f) items h m"
  using holds_items_extends [of into "\<lambda>_. anchored b f" items g m h] anchored_extends [of b f g _ h] by blast

lemma holds_sql_extends:
  "holds_items into (\<lambda>k g i. sql_based r b f g k i) items g m \<Longrightarrow> extends g h
    \<Longrightarrow> holds_items into (\<lambda>k g i. sql_based r b f g k i) items h m"
  using holds_items_extends [of into "\<lambda>k g i. sql_based r b f g k i" items g m h] sql_based_extends [of r b f g _ _ h] by blast

lemma nodes_done_extends:
  assumes "nodes_done control se t b f g" and ext: "extends g h" and "in_range h"
  shows "nodes_done control se t b f h"
proof -
  have "g_nodes h \<noteq> []" "g_nodes h ! 0 = ExtensionRoot control"
    using assms extends_nth [OF ext, of 0] by (auto simp: nodes_done_def extends_def)
  then show ?thesis
    using assms unfolding nodes_done_def
    by (auto intro: points_extends [OF _ ext] position_ok_extends [OF _ ext]
        holds_based_extends [OF _ ext] holds_anchored_extends [OF _ ext] holds_sql_extends [OF _ ext])
qed

text \<open>Which nodes there can be.\<close>

definition known_nodes :: "ControlFile \<Rightarrow> SplitEntities \<Rightarrow> SqlGraphEntity set" where
  "known_nodes control se =
     {ExtensionRoot control} \<union> CustomSql ` set (se_extension_sqls se)
     \<union> SqlGraphEntity.Schema ` set (se_schemas se) \<union> Enum ` set (se_enums se)
     \<union> SqlGraphEntity.Type ` set (se_types se) \<union> Function ` set (se_externs se)
     \<union> Ord ` set (se_ords se) \<union> Hash ` set (se_hashes se) \<union> Aggregate ` set (se_aggregates se)
     \<union> Trigger ` set (se_triggers se) \<union> range BuiltinType"

definition refs_resolved :: "iter_rank \<Rightarrow> SplitEntities \<Rightarrow> Tables \<Rightarrow> bool" where
  "refs_resolved rank se t \<longleftrightarrow>
     (\<forall>item \<in> set (se_externs se). \<forall>ref \<in> set (arg_refs item @ return_refs item).
        ref_resolved rank t (m_builtin_types t) ref)
     \<and> (\<forall>item \<in> set (se_aggregates se). \<forall>ref \<in> set (aggregate_refs item).
        ref_resolved rank t (m_builtin_types t) ref)"

lemma type_target_cong:
  assumes "m_types t = m_types u" "m_enums t = m_enums u" "m_extension_sqls t = m_extension_sqls u"
  shows "find_graph_type_target rank i t = find_graph_type_target rank i u"
  using assms by (simp add: find_graph_type_target_def find_type_or_enum_def find_declared_type_or_enum_def)

lemma unique_targets_cong:
  assumes "m_types t = m_types u" "m_enums t = m_enums u" "m_extension_sqls t = m_extension_sqls u"
  shows "ensure_unique_type_targets rank t = ensure_unique_type_targets rank u"
  using assms by (simp add: ensure_unique_type_targets_def type_locations_def)

lemma below_extends: "opt_below x (length (g_nodes g)) \<Longrightarrow> extends g h \<Longrightarrow> opt_below x (length (g_nodes h))"
  by (rule opt_below_mono) (auto intro: extends_length)

text \<open>A graph to which nodes can be added: the nodes that the base edges mention exist.\<close>

definition ready :: "node_index option \<Rightarrow> node_index option \<Rightarrow> StableGraph \<Rightarrow> bool" where
  "ready b f g \<longleftrightarrow> 0 < length (g_nodes g) \<and> opt_below b (length (g_nodes g)) \<and> opt_below f (length (g_nodes g))"

lemma ready_initialized: "ready b f g \<Longrightarrow> initialized into P items g h m \<Longrightarrow> ready b f h"
  using extends_length [of g h] by (auto simp: ready_def initialized_def intro: opt_below_mono)

lemma ready_bound: "ready b f g \<Longrightarrow> max (Suc 0) (anchor_bound b f) \<le> length (g_nodes g)"
  by (simp add: ready_def Suc_le_eq)

lemma ready_items:
  "initialize_items into 0 b f items g = (h, m) \<Longrightarrow> ready b f g \<Longrightarrow> initialized into (based 0 b f) items g h m"
  by (rule initialize_items_initialized) (auto simp: ready_def)

lemma ready_schemas:
  "initialize_schemas b f items g = (h, m) \<Longrightarrow> ready b f g
    \<Longrightarrow> initialized SqlGraphEntity.Schema (anchored b f) items g h m"
  by (rule initialize_schemas_initialized) (auto simp: ready_def)

lemma sqls_done_ready:
  assumes "sqls_done 0 items (root_graph control) s"
  shows "ready (x_bootstrap s) (x_finalize s) (x_graph s)"
  using assms extends_length [of "root_graph control" "x_graph s"]
  by (auto simp: sqls_done_def sqls_inv_def ready_def initialized_def intro: position_ok_below)

lemma ref_resolved_cong:
  assumes "m_types t = m_types u" "m_enums t = m_enums u" "m_extension_sqls t = m_extension_sqls u"
  shows "ref_resolved rank t bt ref = ref_resolved rank u bt ref"
  using type_target_cong [OF assms] by (simp add: ref_resolved_def)

text \<open>The graphs between the steps, each initialized from the one before.\<close>

lemma build_nodes_chain:
  assumes run: "build_nodes rank control se = Inr i"
  defines "b \<equiv> i_bootstrap i" and "f \<equiv> i_finalize i" and "T \<equiv> i_tables i"
  obtains s g1 g2 g3 g4 g5 g6 g7 b4 where
    "sqls_done 0 (se_extension_sqls se) (root_graph control) s"
    "x_mapped s = m_extension_sqls T" "x_bootstrap s = b" "x_finalize s = f"
    "initialized SqlGraphEntity.Schema (anchored b f) (se_schemas se) (x_graph s) g1 (m_schemas T)"
    "initialized Enum (based 0 b f) (se_enums se) g1 g2 (m_enums T)"
    "initialized SqlGraphEntity.Type (based 0 b f) (se_types se) g2 g3 (m_types T)"
    "initialized Function (based 0 b f) (se_externs se) g3 g4 (m_externs T)"
    "initialized Ord (based 0 b f) (se_ords se) g4 g5 (m_ords T)"
    "initialized Hash (based 0 b f) (se_hashes se) g5 g6 (m_hashes T)"
    "initialized Aggregate (based 0 b f) (se_aggregates se) g6 g7 (m_aggregates T)"
    "initialized Trigger (based 0 b f) (se_triggers se) g7 (i_graph i) (m_triggers T)"
    "points BuiltinType g7 (m_builtin_types T)" "fst ` set b4 \<subseteq> fst ` set (m_builtin_types T)"
    "\<forall>item \<in> set (se_externs se). \<forall>ref \<in> set (arg_refs item @ return_refs item).
       ref_resolved rank T b4 ref"
    "\<forall>item \<in> set (se_aggregates se). \<forall>ref \<in> set (aggregate_refs item).
       ref_resolved rank T (m_builtin_types T) ref"
    "ensure_unique_type_targets rank T = Inr ()" "i_root i = 0"
proof -
  let ?r = "root_graph control"
  from run obtain s g1 g2 g3 t b4 g4 g5 g6 b7 g7 where
    sqls: "initialize_extension_sqls rank 0 (se_extension_sqls se) ?r = Inr s"
    and schemas: "initialize_schemas b f (se_schemas se) (x_graph s) = (g1, m_schemas T)"
    and enums: "initialize_enums 0 b f (se_enums se) g1 = (g2, m_enums T)"
    and types: "initialize_types 0 b f (se_types se) g2 = (g3, m_types T)"
    and unique: "ensure_unique_type_targets rank t = Inr ()"
    and externs: "initialize_externs rank t 0 b f (se_externs se) g3 = Inr ((g4, b4), m_externs T)"
    and ords: "initialize_ords 0 b f (se_ords se) g4 = (g5, m_ords T)"
    and hashes: "initialize_hashes 0 b f (se_hashes se) g5 = (g6, m_hashes T)"
    and aggs: "initialize_aggregates rank t 0 b f (se_aggregates se) (g6, b4) = Inr ((g7, b7), m_aggregates T)"
    and triggers: "initialize_triggers 0 b f (se_triggers se) g7 = (i_graph i, m_triggers T)"
    and eqs: "b7 = m_builtin_types T" "x_mapped s = m_extension_sqls T" "x_bootstrap s = b"
      "x_finalize s = f" "i_root i = 0"
    and tabs: "m_types t = m_types T" "m_enums t = m_enums T" "m_extension_sqls t = m_extension_sqls T"
    unfolding b_def f_def T_def by (rule build_nodes_steps)
  note loops = enums [unfolded initialize_enums_def] types [unfolded initialize_types_def]
    ords [unfolded initialize_ords_def] hashes [unfolded initialize_hashes_def]
    triggers [unfolded initialize_triggers_def]
  have s: "sqls_done 0 (se_extension_sqls se) ?r s"
    using sqls by (rule initialize_extension_sqls_done) simp
  have r0: "ready b f (x_graph s)"
    using sqls_done_ready [OF s] by (simp add: eqs)
  note i1 = ready_schemas [OF schemas r0]
  note r1 = ready_initialized [OF r0 i1]
  note i2 = ready_items [OF loops(1) r1]
  note r2 = ready_initialized [OF r1 i2]
  note i3 = ready_items [OF loops(2) r2]
  note r3 = ready_initialized [OF r2 i3]
  have i4: "initialized Function (based 0 b f) (se_externs se) g3 g4 (m_externs T)"
    and p4: "points BuiltinType g4 b4"
    and refs4: "\<forall>item \<in> set (se_externs se). \<forall>ref \<in> set (arg_refs item @ return_refs item).
       ref_resolved rank t b4 ref"
    using extern_nodes.loop_initialized [OF externs [unfolded initialize_externs_def]] ready_bound [OF r3]
    by (simp_all add: points_def)
  note r4 = ready_initialized [OF r3 i4]
  note i5 = ready_items [OF loops(3) r4]
  note r5 = ready_initialized [OF r4 i5]
  note i6 = ready_items [OF loops(4) r5]
  note r6 = ready_initialized [OF r5 i6]
  have p6: "points BuiltinType g6 b4"
    using p4 i5 i6 by (auto simp: initialized_def intro: points_extends)
  have i7: "initialized Aggregate (based 0 b f) (se_aggregates se) g6 g7 (m_aggregates T)"
    and p7: "points BuiltinType g7 b7" "fst ` set b4 \<subseteq> fst ` set b7"
    and refs7: "\<forall>item \<in> set (se_aggregates se). \<forall>ref \<in> set (aggregate_refs item). ref_resolved rank t b7 ref"
    using aggregate_nodes.loop_initialized [OF aggs [unfolded initialize_aggregates_def]] p6
      ready_bound [OF r6]
    by simp_all
  note i8 = ready_items [OF loops(5) ready_initialized [OF r6 i7]]
  show thesis
    using that [OF s eqs(2-4) i1 i2 i3 i4 i5 i6 i7 i8 p7 [unfolded eqs(1)]
      refs4 [unfolded ref_resolved_cong [OF tabs]] refs7 [unfolded ref_resolved_cong [OF tabs] eqs(1)]
      unique [unfolded unique_targets_cong [OF tabs]] eqs(5)] .
qed

text \<open>The first phase ends in a graph where everything above holds.\<close>

lemma initialized_extends: "initialized into P items g h m \<Longrightarrow> extends g h"
  by (simp add: initialized_def)

lemma initialized_in_range: "initialized into P items g h m \<Longrightarrow> in_range g \<Longrightarrow> in_range h"
  by (simp add: initialized_def)

lemma initialized_within:
  "initialized into P items g h m \<Longrightarrow> set (g_nodes g) \<subseteq> K \<Longrightarrow> into ` set items \<subseteq> K \<Longrightarrow> range BuiltinType \<subseteq> K
    \<Longrightarrow> set (g_nodes h) \<subseteq> K"
  unfolding initialized_def by blast

lemma known_nodes_kinds:
  "CustomSql ` set (se_extension_sqls se) \<subseteq> known_nodes control se"
  "SqlGraphEntity.Schema ` set (se_schemas se) \<subseteq> known_nodes control se"
  "Enum ` set (se_enums se) \<subseteq> known_nodes control se"
  "SqlGraphEntity.Type ` set (se_types se) \<subseteq> known_nodes control se"
  "Function ` set (se_externs se) \<subseteq> known_nodes control se"
  "Ord ` set (se_ords se) \<subseteq> known_nodes control se"
  "Hash ` set (se_hashes se) \<subseteq> known_nodes control se"
  "Aggregate ` set (se_aggregates se) \<subseteq> known_nodes control se"
  "Trigger ` set (se_triggers se) \<subseteq> known_nodes control se"
  "range BuiltinType \<subseteq> known_nodes control se"
  "{ExtensionRoot control} \<subseteq> known_nodes control se"
  unfolding known_nodes_def by blast+

lemma sqls_done_facts:
  assumes "sqls_done 0 items (root_graph control) s"
  shows "in_range (x_graph s)" and "g_nodes (x_graph s) \<noteq> []"
    and "g_nodes (x_graph s) ! 0 = ExtensionRoot control"
    and "position_ok es_bootstrap items (x_graph s) (x_bootstrap s)"
    and "position_ok es_finalize items (x_graph s) (x_finalize s)"
    and "holds_items CustomSql (\<lambda>k g i. sql_based 0 (x_bootstrap s) (x_finalize s) g k i) items
      (x_graph s) (x_mapped s)"
    and "set (g_nodes (x_graph s)) \<subseteq> {ExtensionRoot control} \<union> CustomSql ` set items \<union> range BuiltinType"
proof -
  have ext: "extends (root_graph control) (x_graph s)"
    using assms by (simp add: sqls_done_def sqls_inv_def initialized_def)
  show "g_nodes (x_graph s) \<noteq> []"
    using ext by (auto simp: extends_def)
  show "g_nodes (x_graph s) ! 0 = ExtensionRoot control"
    using extends_nth [OF ext, of 0] by simp
  have "in_range (root_graph control)"
    by (simp add: in_range_def)
  then show "in_range (x_graph s)"
    using assms by (simp add: sqls_done_def sqls_inv_def initialized_def)
qed (use assms in \<open>auto simp: sqls_done_def sqls_inv_def initialized_def holds_items_def\<close>)

lemma build_nodes_done:
  assumes run: "build_nodes rank control se = Inr i"
  shows "nodes_done control se (i_tables i) (i_bootstrap i) (i_finalize i) (i_graph i)
    \<and> set (g_nodes (i_graph i)) \<subseteq> known_nodes control se"
  using run
proof (rule build_nodes_chain)
  let ?T = "i_tables i" and ?b = "i_bootstrap i" and ?f = "i_finalize i" and ?h = "i_graph i"
  fix s g1 g2 g3 g4 g5 g6 g7
  assume s: "sqls_done 0 (se_extension_sqls se) (root_graph control) s"
    and eqs: "x_mapped s = m_extension_sqls ?T" "x_bootstrap s = ?b" "x_finalize s = ?f"
    and i1: "initialized SqlGraphEntity.Schema (anchored ?b ?f) (se_schemas se) (x_graph s) g1 (m_schemas ?T)"
    and i2: "initialized Enum (based 0 ?b ?f) (se_enums se) g1 g2 (m_enums ?T)"
    and i3: "initialized SqlGraphEntity.Type (based 0 ?b ?f) (se_types se) g2 g3 (m_types ?T)"
    and i4: "initialized Function (based 0 ?b ?f) (se_externs se) g3 g4 (m_externs ?T)"
    and i5: "initialized Ord (based 0 ?b ?f) (se_ords se) g4 g5 (m_ords ?T)"
    and i6: "initialized Hash (based 0 ?b ?f) (se_hashes se) g5 g6 (m_hashes ?T)"
    and i7: "initialized Aggregate (based 0 ?b ?f) (se_aggregates se) g6 g7 (m_aggregates ?T)"
    and i8: "initialized Trigger (based 0 ?b ?f) (se_triggers se) g7 ?h (m_triggers ?T)"
    and pts: "points BuiltinType g7 (m_builtin_types ?T)"
  note s' = sqls_done_facts [OF s, unfolded eqs]
  note e8 = initialized_extends [OF i8]
  note e7 = extends_trans [OF initialized_extends [OF i7] e8]
  note e6 = extends_trans [OF initialized_extends [OF i6] e7]
  note e5 = extends_trans [OF initialized_extends [OF i5] e6]
  note e4 = extends_trans [OF initialized_extends [OF i4] e5]
  note e3 = extends_trans [OF initialized_extends [OF i3] e4]
  note e2 = extends_trans [OF initialized_extends [OF i2] e3]
  note e1 = extends_trans [OF initialized_extends [OF i1] e2]
  have "in_range ?h"
    using s'(1) i1 i2 i3 i4 i5 i6 i7 i8 by (blast intro: initialized_in_range)
  then have "nodes_done control se ?T ?b ?f ?h"
    unfolding nodes_done_def
  proof (intro conjI)
    show "g_nodes ?h \<noteq> []" "g_nodes ?h ! 0 = ExtensionRoot control"
      using s'(2,3) extends_nth [OF e1, of 0] e1 by (auto simp: extends_def)
  qed (assumption | rule position_ok_extends [OF s'(4) e1] position_ok_extends [OF s'(5) e1]
      holds_sql_extends [OF s'(6) e1] holds_anchored_extends [OF initialized_holds [OF i1] e2]
      holds_based_extends [OF initialized_holds [OF i2] e3]
      holds_based_extends [OF initialized_holds [OF i3] e4]
      holds_based_extends [OF initialized_holds [OF i4] e5]
      holds_based_extends [OF initialized_holds [OF i5] e6]
      holds_based_extends [OF initialized_holds [OF i6] e7]
      holds_based_extends [OF initialized_holds [OF i7] e8] initialized_holds [OF i8]
      points_extends [OF pts e8])+
  moreover have "set (g_nodes (x_graph s)) \<subseteq> known_nodes control se"
    using s'(7) known_nodes_kinds(1,10,11) [where se = se and control = control] by blast
  then have "set (g_nodes ?h) \<subseteq> known_nodes control se"
    by (rule initialized_within [OF i8 initialized_within [OF i7 initialized_within [OF i6
        initialized_within [OF i5 initialized_within [OF i4 initialized_within [OF i3
        initialized_within [OF i2 initialized_within [OF i1]]]]]]]]) (rule known_nodes_kinds)+
  ultimately show ?thesis ..
qed

lemma build_nodes_resolved:
  assumes "build_nodes rank control se = Inr i"
  shows "refs_resolved rank se (i_tables i) \<and> ensure_unique_type_targets rank (i_tables i) = Inr ()
    \<and> i_root i = 0"
  using assms
proof (rule build_nodes_chain)
  fix b4
  assume sub: "fst ` set b4 \<subseteq> fst ` set (m_builtin_types (i_tables i))"
    and refs: "\<forall>item \<in> set (se_externs se). \<forall>ref \<in> set (arg_refs item @ return_refs item).
      ref_resolved rank (i_tables i) b4 ref"
    and rest: "\<forall>item \<in> set (se_aggregates se). \<forall>ref \<in> set (aggregate_refs item).
      ref_resolved rank (i_tables i) (m_builtin_types (i_tables i)) ref"
      "ensure_unique_type_targets rank (i_tables i) = Inr ()" "i_root i = 0"
  have "\<forall>item \<in> set (se_externs se). \<forall>ref \<in> set (arg_refs item @ return_refs item).
      ref_resolved rank (i_tables i) (m_builtin_types (i_tables i)) ref"
    using refs by (intro ballI) (rule ref_resolved_mono [OF _ sub], simp)
  with rest show ?thesis
    by (simp add: refs_resolved_def)
qed

end
