(* ===== verification/Graph_Edges.thy ===== *)
theory Graph_Edges
  imports Graph_Built
begin

text \<open>
  The second phase of \<open>build\<close>: every \<open>connect_*\<close> function only adds edges, and only between nodes that
  the tables hold.
\<close>

named_theorems step_intros \<open>functions that only add edges between existing nodes\<close>

section \<open>Adding edges\<close>

definition adds :: "nat \<Rightarrow> StableGraph \<Rightarrow> StableGraph \<Rightarrow> bool" where
  "adds n g h \<longleftrightarrow>
     g_nodes h = g_nodes g
     \<and> (\<exists>es. g_edges h = g_edges g @ es \<and> (\<forall>(a, b, w) \<in> set es. a < n \<and> b < n))"

definition pure_step :: "nat \<Rightarrow> (StableGraph \<Rightarrow> StableGraph) \<Rightarrow> bool" where
  "pure_step n f \<longleftrightarrow> (\<forall>g. adds n g (f g))"

definition edge_step :: "nat \<Rightarrow> (StableGraph \<Rightarrow> build_error + StableGraph) \<Rightarrow> bool" where
  "edge_step n f \<longleftrightarrow> (\<forall>g h. f g = Inr h \<longrightarrow> adds n g h)"

lemma adds_refl [simp]: "adds n g g"
  by (simp add: adds_def)

lemma adds_trans: "adds n g h \<Longrightarrow> adds n h k \<Longrightarrow> adds n g k"
proof -
  assume "adds n g h" and "adds n h k"
  then obtain es fs where "g_nodes k = g_nodes g" "g_edges k = g_edges g @ (es @ fs)"
    "\<forall>(a, b, w) \<in> set es. a < n \<and> b < n" "\<forall>(a, b, w) \<in> set fs. a < n \<and> b < n"
    by (auto simp: adds_def)
  then show ?thesis
    unfolding adds_def by (intro conjI exI [of _ "es @ fs"]) auto
qed

lemma adds_extends: "adds n g h \<Longrightarrow> extends g h"
  by (auto simp: adds_def extends_def)

lemma adds_in_range: "adds (length (g_nodes g)) g h \<Longrightarrow> in_range g \<Longrightarrow> in_range h"
  by (auto simp: adds_def in_range_def)

lemma pure_stepD: "pure_step n f \<Longrightarrow> adds n g (f g)"
  by (simp add: pure_step_def)

lemma edge_stepD: "edge_step n f \<Longrightarrow> f g = Inr h \<Longrightarrow> adds n g h"
  by (simp add: edge_step_def)

lemma pure_add_edge [step_intros]: "a < n \<Longrightarrow> b < n \<Longrightarrow> pure_step n (add_edge a b w)"
  by (auto simp: pure_step_def adds_def)

lemma pure_opt_edge_from [step_intros]: "opt_below a n \<Longrightarrow> b < n \<Longrightarrow> pure_step n (opt_edge_from a b)"
  by (auto simp: pure_step_def adds_def opt_below_def split: option.splits)

lemma pure_id [step_intros]: "pure_step n (\<lambda>g. g)"
  by (simp add: pure_step_def)

lemma pure_comp: "pure_step n f \<Longrightarrow> pure_step n k \<Longrightarrow> pure_step n (\<lambda>g. k (f g))"
  unfolding pure_step_def using adds_trans [of n] by blast

lemma pure_fold: "(\<And>x. x \<in> set xs \<Longrightarrow> pure_step n (f x)) \<Longrightarrow> pure_step n (fold f xs)"
proof (induction xs)
  case Nil
  show ?case by (simp add: pure_step_def)
next
  case (Cons x xs)
  have eq: "fold f (x # xs) = (\<lambda>g. fold f xs (f x g))"
    by (simp add: fun_eq_iff)
  show ?case
    unfolding eq by (rule pure_comp) (simp_all add: Cons)
qed

lemma edge_pure: "pure_step n f \<Longrightarrow> edge_step n (\<lambda>g. Inr (f g))"
  by (auto simp: pure_step_def edge_step_def)

lemma edge_after_pure: "pure_step n f \<Longrightarrow> edge_step n k \<Longrightarrow> edge_step n (\<lambda>g. k (f g))"
  unfolding pure_step_def edge_step_def using adds_trans [of n] by blast

lemma edge_bind: "edge_step n f \<Longrightarrow> edge_step n k \<Longrightarrow> edge_step n (\<lambda>g. rbind (f g) k)"
  unfolding edge_step_def rbind_eq_Inr using adds_trans [of n] by blast

lemma edge_rfold: "(\<And>x. x \<in> set xs \<Longrightarrow> edge_step n (f x)) \<Longrightarrow> edge_step n (rfold f xs)"
proof (induction xs)
  case Nil
  show ?case by (simp add: edge_step_def)
next
  case (Cons x xs)
  have eq: "rfold f (x # xs) = (\<lambda>g. rbind (f x g) (rfold f xs))"
    by (simp add: fun_eq_iff)
  show ?case
    unfolding eq by (rule edge_bind) (simp_all add: Cons)
qed

lemma edge_Inr [step_intros]: "edge_step n Inr"
  by (simp add: edge_step_def)

lemma edge_Inl [step_intros]: "edge_step n (\<lambda>g. Inl e)"
  by (simp add: edge_step_def)

section \<open>Lookups stay in the tables\<close>

definition tables_below :: "nat \<Rightarrow> Tables \<Rightarrow> bool" where
  "tables_below n t \<longleftrightarrow>
     (\<forall>p \<in> set (m_schemas t). snd p < n) \<and> (\<forall>p \<in> set (m_extension_sqls t). snd p < n)
     \<and> (\<forall>p \<in> set (m_externs t). snd p < n) \<and> (\<forall>p \<in> set (m_types t). snd p < n)
     \<and> (\<forall>p \<in> set (m_builtin_types t). snd p < n) \<and> (\<forall>p \<in> set (m_enums t). snd p < n)
     \<and> (\<forall>p \<in> set (m_ords t). snd p < n) \<and> (\<forall>p \<in> set (m_hashes t). snd p < n)
     \<and> (\<forall>p \<in> set (m_aggregates t). snd p < n) \<and> (\<forall>p \<in> set (m_triggers t). snd p < n)"

lemma find_SomeD: "find P xs = Some x \<Longrightarrow> x \<in> set xs \<and> P x"
  by (induction xs) (auto split: if_splits)

lemma hm_find_Some:
  assumes "hm_find rank P m = Some i"
  obtains k where "(k, i) \<in> set m" and "P k"
proof -
  from assms obtain p where p: "find (\<lambda>p. P (fst p)) (hm_iter rank m) = Some p" and i: "i = snd p"
    by (auto simp: hm_find_def)
  from find_SomeD [OF p] show thesis
    using i that [of "fst p"] by simp
qed

lemma hm_find_None: "hm_find rank P m = None \<longleftrightarrow> (\<forall>(k, i) \<in> set m. \<not> P k)"
  by (auto simp: hm_find_def find_None_iff)

lemma hm_find_below: "\<forall>p \<in> set m. snd p < n \<Longrightarrow> opt_below (hm_find rank P m) n"
proof -
  assume below: "\<forall>p \<in> set m. snd p < n"
  have "i < n" if "hm_find rank P m = Some i" for i
    using that below by (auto elim!: hm_find_Some)
  then show ?thesis
    by (simp add: opt_below_def)
qed

lemma or_else_below: "opt_below x n \<Longrightarrow> opt_below y n \<Longrightarrow> opt_below (or_else x y) n"
  by (cases x) (simp_all add: or_else_def)

lemma lookups_below:
  assumes "tables_below n t"
  shows "opt_below (hm_find rank P1 (m_schemas t)) n"
    and "opt_below (hm_find rank P2 (m_externs t)) n"
    and "opt_below (find_type_or_enum rank i t) n"
    and "opt_below (find_graph_type_target rank i t) n"
    and "opt_below (hm_get (m_builtin_types t) i) n"
    and "opt_below (find_positioning_ref_target rank t ref) n"
proof -
  note below = assms [unfolded tables_below_def]
  show "opt_below (hm_find rank P1 (m_schemas t)) n" "opt_below (hm_find rank P2 (m_externs t)) n"
    using below by (simp_all add: hm_find_below)
  show ty: "opt_below (find_type_or_enum rank i t) n"
    unfolding find_type_or_enum_def using below by (intro or_else_below hm_find_below) simp_all
  show "opt_below (find_graph_type_target rank i t) n"
    unfolding find_graph_type_target_def find_declared_type_or_enum_def
    using ty below by (intro or_else_below hm_find_below) simp_all
  show "opt_below (hm_get (m_builtin_types t) i) n"
    using below by (auto simp: opt_below_def dest!: hm_get_Some)
  show "opt_below (find_positioning_ref_target rank t ref) n"
    using below
    by (cases ref) (auto simp: find_full_path_def Let_def intro!: or_else_below hm_find_below)
qed

section \<open>The connecting functions\<close>

lemma schema_step [step_intros]:
  "tables_below n t \<Longrightarrow> i < n \<Longrightarrow> pure_step n (make_schema_connection rank t i path)"
  unfolding make_schema_connection_def [abs_def] by (intro pure_opt_edge_from lookups_below)

lemma type_step [step_intros]:
  "tables_below n t \<Longrightarrow> i < n \<Longrightarrow> pure_step n (make_type_or_enum_connection rank t i ident)"
  unfolding make_type_or_enum_connection_def [abs_def] by (intro pure_opt_edge_from lookups_below)

lemma opt_belowD: "opt_below x n \<Longrightarrow> x = Some i \<Longrightarrow> i < n"
  by (simp add: opt_below_def)

lemma extern_step [step_intros]:
  assumes "tables_below n t" and "i < n"
  shows "edge_step n (make_extern_connection rank t i path)"
proof -
  have "opt_below (hm_find rank (\<lambda>e. path = pe_full_path e) (m_externs t)) n"
    using assms(1) by (rule lookups_below)
  then show ?thesis
    unfolding make_extern_connection_def [abs_def] using assms(2)
    by (cases "hm_find rank (\<lambda>e. path = pe_full_path e) (m_externs t)")
      (auto intro!: edge_Inl edge_pure pure_add_edge)
qed

lemma opt_extern_step [step_intros]:
  "tables_below n t \<Longrightarrow> i < n \<Longrightarrow> edge_step n (make_opt_extern_connection rank t i path)"
  unfolding make_opt_extern_connection_def [abs_def]
  by (cases path) (auto intro: edge_Inr extern_step)

lemma resolved_type_step [step_intros]:
  assumes "tables_below n t" and "i < n"
  shows "edge_step n (connect_resolved_type rank t i req k o' slot path r)"
proof -
  obtain ident origin where r: "r = (ident, origin)"
    by (cases r)
  have below: "opt_below (hm_get (m_builtin_types t) ident) n"
    "opt_below (find_graph_type_target rank ident t) n"
    using assms(1) by (rule lookups_below)+
  show ?thesis
  proof (cases "origin = External")
    case True
    then show ?thesis
      unfolding connect_resolved_type_def [abs_def] r using assms(2) below(1)
      by (cases "hm_get (m_builtin_types t) ident") (auto intro!: edge_Inl edge_pure pure_add_edge)
  next
    case False
    then show ?thesis
      unfolding connect_resolved_type_def [abs_def] r using assms(2) below(2)
      by (cases "find_graph_type_target rank ident t") (auto intro!: edge_Inl edge_pure pure_add_edge)
  qed
qed

lemma visit_refs_step:
  assumes "\<And>slot path r. edge_step n (f slot path r)"
  shows "edge_step n (visit_refs f refs)"
  unfolding visit_refs_def
proof (rule edge_rfold)
  fix x :: type_ref
  obtain slot path r where "x = (slot, path, r)"
    by (cases x) auto
  then show "edge_step n ((\<lambda>(slot, path, r). f slot path r) x)"
    using assms by simp
qed

lemma connect_schemas_step: "tables_below n t \<Longrightarrow> root < n \<Longrightarrow> pure_step n (connect_schemas rank t root)"
  unfolding connect_schemas_def [abs_def]
  by (intro pure_fold) (auto simp: tables_below_def intro!: pure_add_edge)

lemma found_edge_step:
  assumes "opt_below x n" and "i < n"
  shows "edge_step n (\<lambda>g. case x of Some a \<Rightarrow> Inr (add_edge a i w g) | None \<Rightarrow> Inl e)"
  using assms by (cases x) (auto intro!: edge_Inl edge_pure pure_add_edge)

lemma connect_extension_sql_step:
  assumes "tables_below n t" and "p \<in> set (m_extension_sqls t)"
  shows "edge_step n (connect_extension_sql rank t p)"
proof -
  obtain item i where p: "p = (item, i)"
    by (cases p)
  have i: "i < n"
    using assms by (auto simp: p tables_below_def)
  show ?thesis
    unfolding connect_extension_sql_def [abs_def] p Let_def prod.case
    by (rule edge_after_pure [OF schema_step [OF assms(1) i]], rule edge_rfold,
        rule found_edge_step [OF lookups_below(6) [OF assms(1)] i])
qed

lemma connect_enums_step: "tables_below n t \<Longrightarrow> pure_step n (connect_enums rank t)"
  unfolding connect_enums_def [abs_def]
  by (intro pure_fold) (auto simp: tables_below_def intro!: schema_step)

lemma connect_triggers_step: "tables_below n t \<Longrightarrow> pure_step n (connect_triggers rank t)"
  unfolding connect_triggers_def [abs_def]
  by (intro pure_fold) (auto simp: tables_below_def intro!: schema_step)

lemma connect_type_step:
  assumes "tables_below n t" and "p \<in> set (m_types t)"
  shows "edge_step n (connect_type rank t p)"
proof -
  obtain item i where p: "p = (item, i)"
    by (cases p)
  have i: "i < n"
    using assms by (auto simp: p tables_below_def)
  show ?thesis
    unfolding connect_type_def [abs_def] p Let_def prod.case
    by (intro edge_bind edge_after_pure [OF schema_step] extern_step opt_extern_step assms(1) i)
qed

lemma pure_ifI: "pure_step n f \<Longrightarrow> pure_step n (\<lambda>g. if c then f g else g)"
  by (simp add: pure_step_def)

lemma connect_ord_step:
  assumes "tables_below n t" and "p \<in> set (m_ords t)"
  shows "pure_step n (connect_ord uni rank t p)"
proof -
  obtain item i where p: "p = (item, i)"
    by (cases p)
  have i: "i < n"
    using assms by (auto simp: p tables_below_def)
  have ops: "pure_step n (fold (\<lambda>(extern_item, extern_index) g.
      if or_module_path item = pe_module_path extern_item \<and> pe_name extern_item \<in> set (ord_fn_names uni item)
      then add_edge extern_index i By g else g) (hm_iter rank (m_externs t)))"
    using assms(1) i
    by (intro pure_fold) (auto simp: tables_below_def split_def intro!: pure_ifI pure_add_edge)
  show ?thesis
    unfolding connect_ord_def [abs_def] p Let_def prod.case
    by (rule pure_comp [OF pure_comp [OF schema_step [OF assms(1) i] type_step [OF assms(1) i]] ops])
qed

lemma connect_hash_step:
  assumes "tables_below n t" and "p \<in> set (m_hashes t)"
  shows "pure_step n (connect_hash uni rank t p)"
proof -
  obtain item i where p: "p = (item, i)"
    by (cases p)
  have i: "i < n"
    using assms by (auto simp: p tables_below_def)
  show ?thesis
    unfolding connect_hash_def [abs_def] p Let_def prod.case
    by (rule pure_comp [OF pure_comp [OF schema_step [OF assms(1) i] type_step [OF assms(1) i]]
          pure_opt_edge_from [OF lookups_below(2) [OF assms(1)] i]])
qed

lemma connect_aggregate_refs:
  "connect_aggregate rank t (item, i) g =
     (let f = connect_resolved_type rank t i ByArg ''Aggregate'' (ag_full_path item)
      in rbind (visit_refs f (aggregate_arg_refs ''argument'' (ag_args item)
                  @ aggregate_arg_refs ''direct argument'' (ag_direct item)
                  @ mstype_refs item @ stype_refs item)
             (make_schema_connection rank t i (ag_module_path item) g))
           (rfold (\<lambda>fn. make_opt_extern_connection rank t i
                (map_option (\<lambda>value. ag_module_path item @ ''::'' @ value) fn)) (aggregate_fns item)))"
  by (simp add: connect_aggregate_def visits visit_refs_append Let_def rbind_def split: sum.split)

lemma connect_aggregate_step:
  assumes "tables_below n t" and "p \<in> set (m_aggregates t)"
  shows "edge_step n (connect_aggregate rank t p)"
proof -
  obtain item i where p: "p = (item, i)"
    by (cases p)
  have i: "i < n"
    using assms by (auto simp: p tables_below_def)
  show ?thesis
    unfolding p connect_aggregate_refs [abs_def] Let_def
    by (intro edge_bind edge_after_pure [OF schema_step] visit_refs_step edge_rfold opt_extern_step
        resolved_type_step assms(1) i)
qed

text \<open>The attributes of a function carry a flag beside the graph.\<close>

lemma declared_schema_adds:
  assumes "tables_below n t" and "i < n"
  shows "adds n (snd s) (snd (declared_schema_edges rank t i name s))"
proof -
  have "adds n (snd s) (snd (fold (\<lambda>(schema, schema_index) (found, g).
      if sc_name schema = name then (True, add_edge schema_index i By g) else (found, g)) xs s))"
    if "\<forall>p \<in> set xs. snd p < n" for xs :: "(SchemaEntity \<times> node_index) list" and s :: "bool \<times> StableGraph"
    using that
  proof (induction xs arbitrary: s)
    case (Cons x xs)
    obtain found g where s: "s = (found, g)" by (cases s)
    obtain schema j where x: "x = (schema, j)" by (cases x)
    have "adds n g (add_edge j i By g)"
      using Cons.prems assms(2) by (auto simp: x adds_def)
    then show ?case
      using Cons.IH [of "(True, add_edge j i By g)"] Cons.IH [of s] Cons.prems
      by (auto simp: s x intro: adds_trans)
  qed simp
  then show ?thesis
    unfolding declared_schema_edges_def using assms(1) by (simp add: tables_below_def)
qed

lemma connect_extern_attr_adds:
  assumes "tables_below n t" and "i < n" and "connect_extern_attr rank t i a s = Inr s'"
  shows "adds n (snd s) (snd s')"
proof -
  obtain found g where s: "s = (found, g)" by (cases s)
  note below = lookups_below(6) [OF assms(1)]
  show ?thesis
  proof (cases a)
    case (Requires refs)
    have "(\<lambda>(_, h). adds n g h) s'"
    proof (rule rfold_invariant [of _ refs s])
      show "rfold (\<lambda>requires (found, g). case find_positioning_ref_target rank t requires of
          Some target \<Rightarrow> Inr (found, add_edge target i By g)
        | None \<Rightarrow> Inl (ExternRequiresNotFound requires)) refs s = Inr s'"
        using assms(3) by (simp add: Requires)
      fix r u v
      assume "(\<lambda>(_, h). adds n g h) u" and "(case u of (found, g) \<Rightarrow>
          case find_positioning_ref_target rank t r of
            Some target \<Rightarrow> Inr (found, add_edge target i By g)
          | None \<Rightarrow> Inl (ExternRequiresNotFound r)) = Inr v"
      then show "(\<lambda>(_, h). adds n g h) v"
        using below [of rank r] assms(2) pure_stepD [OF pure_add_edge [of _ n i]]
        by (auto split: option.splits) (rule adds_trans, assumption, simp)
    qed (simp add: s)
    then show ?thesis by (simp add: s split_def)
  next
    case (Support f)
    then show ?thesis
      using assms(3) pure_stepD [OF pure_opt_edge_from [OF below assms(2)]] by (auto simp: s)
  next
    case (Schema name)
    then show ?thesis
      using assms(3) declared_schema_adds [OF assms(1,2), of s rank name]
      by (auto simp: Let_def split: if_splits)
  qed (use assms(3) in auto)
qed

definition hash_edges ::
  "case_table \<Rightarrow> iter_rank \<Rightarrow> Tables \<Rightarrow> PgExternEntity \<Rightarrow> node_index \<Rightarrow> StableGraph \<Rightarrow> StableGraph" where
  "hash_edges uni rank t item i =
     fold (\<lambda>(hash_item, hash_index) g.
         if pe_module_path item = ha_module_path hash_item
           \<and> pe_name item = to_lowercase uni (ha_name hash_item) @ ''_eq''
         then add_edge i hash_index By g else g)
       (hm_iter rank (m_hashes t))"

definition own_schema :: "iter_rank \<Rightarrow> Tables \<Rightarrow> PgExternEntity \<Rightarrow> node_index \<Rightarrow> bool \<Rightarrow> StableGraph \<Rightarrow> StableGraph"
  where
  "own_schema rank t item i found g =
     (if found then g else make_schema_connection rank t i (pe_module_path item) g)"

lemma connect_extern_refs:
  "connect_extern uni rank t (item, i) g =
     (let f = (\<lambda>req. connect_resolved_type rank t i req ''Function'' (pe_full_path item))
      in rbind (rfold (connect_extern_attr rank t i) (pe_extern_attrs item) (False, g))
           (\<lambda>(found, g).
             rbind (visit_refs (f ByArg) (arg_refs item) (hash_edges uni rank t item i
                     (own_schema rank t item i found g)))
               (visit_refs (f ByReturn) (return_refs item))))"
  by (simp add: connect_extern_def visits [abs_def] hash_edges_def own_schema_def Let_def)

lemma own_schema_step: "tables_below n t \<Longrightarrow> i < n \<Longrightarrow> pure_step n (own_schema rank t item i found)"
  by (cases found) (simp_all add: own_schema_def [abs_def] pure_id schema_step)

lemma hash_edges_step: "tables_below n t \<Longrightarrow> i < n \<Longrightarrow> pure_step n (hash_edges uni rank t item i)"
  unfolding hash_edges_def
  by (intro pure_fold) (auto simp: tables_below_def split_def intro!: pure_ifI pure_add_edge)

lemma connect_extern_step:
  assumes "tables_below n t" and "p \<in> set (m_externs t)"
  shows "edge_step n (connect_extern uni rank t p)"
proof -
  obtain item i where p: "p = (item, i)"
    by (cases p)
  have i: "i < n"
    using assms by (auto simp: p tables_below_def)
  let ?f = "\<lambda>req. connect_resolved_type rank t i req ''Function'' (pe_full_path item)"
  have rest: "edge_step n (\<lambda>g. rbind (visit_refs (?f ByArg) (arg_refs item) (hash_edges uni rank t item i
      (own_schema rank t item i found g))) (visit_refs (?f ByReturn) (return_refs item)))" for found
    by (intro edge_bind edge_after_pure [OF own_schema_step] edge_after_pure [OF hash_edges_step]
        visit_refs_step resolved_type_step assms(1) i)
  show ?thesis
    unfolding edge_step_def p connect_extern_refs Let_def
  proof (intro allI impI)
    fix g h
    assume "rbind (rfold (connect_extern_attr rank t i) (pe_extern_attrs item) (False, g))
      (\<lambda>(found, g). rbind (visit_refs (?f ByArg) (arg_refs item) (hash_edges uni rank t item i
         (own_schema rank t item i found g))) (visit_refs (?f ByReturn) (return_refs item))) = Inr h"
    then obtain found g1 where attrs:
      "rfold (connect_extern_attr rank t i) (pe_extern_attrs item) (False, g) = Inr (found, g1)"
      and "rbind (visit_refs (?f ByArg) (arg_refs item) (hash_edges uni rank t item i
         (own_schema rank t item i found g1))) (visit_refs (?f ByReturn) (return_refs item)) = Inr h"
      by (auto elim!: rbindE)
    then have "adds n g1 h"
      using rest [of found] by (blast intro: edge_stepD)
    moreover have "adds n g (snd (found, g1))"
      using attrs
      by (rule rfold_invariant) (auto intro: adds_trans connect_extern_attr_adds [OF assms(1) i])
    ultimately show "adds n g h"
      by (simp add: adds_trans)
  qed
qed

end
