(* ===== verification/Graph_Links.thy ===== *)
theory Graph_Links
  imports Graph_Edges
begin

text \<open>
  Which edges the second phase of \<open>build\<close> is sure to add: from the target of every type reference,
  every \<open>requires\<close>, every support function and every schema to the entity that mentions it. An edge once
  added stays, so each fact is proved at the step that adds the edge and carried to the end.
\<close>

named_theorems lasting_intros \<open>facts that survive when the graph grows\<close>

section \<open>Facts that a step gives\<close>

lemma rfold_Cons_fun: "rfold f (x # xs) = (\<lambda>s. rbind (f x s) (rfold f xs))"
  by (simp add: fun_eq_iff)

lemma rfold_Nil_fun: "rfold f [] = Inr"
  by (simp add: fun_eq_iff)

lemma rfold_map: "rfold f (map h xs) = rfold (\<lambda>x. f (h x)) xs"
  by (induction xs) (simp_all add: rfold_Nil_fun rfold_Cons_fun)

definition linked :: "node_index option \<Rightarrow> node_index \<Rightarrow> SqlGraphRequires \<Rightarrow> StableGraph \<Rightarrow> bool" where
  "linked x i w g \<longleftrightarrow> (\<exists>a. x = Some a \<and> (a, i, w) \<in> set (g_edges g))"

definition linked_if_found :: "node_index option \<Rightarrow> node_index \<Rightarrow> StableGraph \<Rightarrow> bool" where
  "linked_if_found x i g \<longleftrightarrow> (\<forall>a. x = Some a \<longrightarrow> (a, i, By) \<in> set (g_edges g))"

definition lasting :: "(StableGraph \<Rightarrow> bool) \<Rightarrow> bool" where
  "lasting Q \<longleftrightarrow> (\<forall>g h. Q g \<longrightarrow> extends g h \<longrightarrow> Q h)"

definition gives :: "(StableGraph \<Rightarrow> bool) \<Rightarrow> (StableGraph \<Rightarrow> build_error + StableGraph) \<Rightarrow> bool" where
  "gives Q f \<longleftrightarrow> (\<forall>g h. f g = Inr h \<longrightarrow> Q h)"

lemma lasting_linked [lasting_intros]: "lasting (linked x i w)"
  by (auto simp: lasting_def linked_def intro: extends_edges)

lemma lasting_linked_if_found [lasting_intros]: "lasting (linked_if_found x i)"
  by (auto simp: lasting_def linked_if_found_def intro: extends_edges)

lemma lastingD: "lasting Q \<Longrightarrow> Q g \<Longrightarrow> adds n g h \<Longrightarrow> Q h"
  unfolding lasting_def by (blast intro: adds_extends)

lemma givesD: "gives Q f \<Longrightarrow> f g = Inr h \<Longrightarrow> Q h"
  by (simp add: gives_def)

lemma gives_later: "gives Q k \<Longrightarrow> gives Q (\<lambda>g. rbind (f g) k)"
  by (auto simp: gives_def rbind_eq_Inr)

lemma gives_first: "lasting Q \<Longrightarrow> gives Q f \<Longrightarrow> edge_step n k \<Longrightarrow> gives Q (\<lambda>g. rbind (f g) k)"
  by (auto simp: gives_def rbind_eq_Inr intro: lastingD dest: edge_stepD)

lemma gives_after: "gives Q k \<Longrightarrow> gives Q (\<lambda>g. k (f g))"
  by (simp add: gives_def)

lemma gives_before: "lasting Q \<Longrightarrow> (\<And>g. Q (f g)) \<Longrightarrow> edge_step n k \<Longrightarrow> gives Q (\<lambda>g. k (f g))"
  by (auto simp: gives_def intro: lastingD dest: edge_stepD)

lemma gives_rfold:
  assumes "lasting Q" and "x \<in> set xs" and "gives Q (f x)" and "\<And>y. y \<in> set xs \<Longrightarrow> edge_step n (f y)"
  shows "gives Q (rfold f xs)"
  unfolding gives_def
proof (intro allI impI)
  fix g h
  assume "rfold f xs g = Inr h"
  then show "Q h"
    using assms(2)
  proof (rule rfold_establishes)
    show "Q v" if "y \<in> set xs" "Q u" "f y u = Inr v" for y u v
      using assms(1) that(2) edge_stepD [OF assms(4) [OF that(1)] that(3)] by (rule lastingD)
  qed (rule givesD [OF assms(3)])
qed

lemma fold_gives:
  assumes "lasting Q" and "x \<in> set xs" and "\<And>g. Q (f x g)" and "\<And>y. y \<in> set xs \<Longrightarrow> pure_step n (f y)"
  shows "Q (fold f xs g)"
proof -
  from split_list [OF assms(2)] obtain ys zs where xs: "xs = ys @ x # zs"
    by blast
  have "pure_step n (fold f zs)"
    by (rule pure_fold) (simp add: assms(4) xs)
  then show ?thesis
    using lastingD [OF assms(1,3) pure_stepD] by (simp add: xs)
qed

section \<open>The targets of links\<close>

abbreviation schema_at :: "iter_rank \<Rightarrow> Tables \<Rightarrow> string \<Rightarrow> node_index option" where
  "schema_at rank t module_path \<equiv> hm_find rank (\<lambda>s. module_path = sc_module_path s) (m_schemas t)"

abbreviation extern_at :: "iter_rank \<Rightarrow> Tables \<Rightarrow> string \<Rightarrow> node_index option" where
  "extern_at rank t full_path \<equiv> hm_find rank (\<lambda>e. full_path = pe_full_path e) (m_externs t)"

definition ref_target :: "iter_rank \<Rightarrow> Tables \<Rightarrow> type_ref \<Rightarrow> node_index option" where
  "ref_target rank t ref =
     (case ref of (slot, path, i, origin) \<Rightarrow>
        if origin = External then hm_get (m_builtin_types t) i else find_graph_type_target rank i t)"

definition type_fns :: "PostgresTypeEntity \<Rightarrow> string option list" where
  "type_fns item =
     map (map_option (resolve_function_path (ty_module_path item)))
       [Some (ty_in_fn_path item), Some (ty_out_fn_path item), ty_receive_fn_path item, ty_send_fn_path item]"

definition aggregate_fn_paths :: "PgAggregateEntity \<Rightarrow> string option list" where
  "aggregate_fn_paths item =
     map (map_option (\<lambda>value. ag_module_path item @ ''::'' @ value)) (aggregate_fns item)"

lemma schema_gives: "linked_if_found (schema_at rank t path) i (make_schema_connection rank t i path g)"
  by (auto simp: linked_if_found_def make_schema_connection_def)

lemma extern_gives: "gives (linked (extern_at rank t path) i By) (make_extern_connection rank t i path)"
  by (auto simp: gives_def linked_def make_extern_connection_def split: option.splits)

lemma opt_extern_gives:
  "p = Some path \<Longrightarrow> gives (linked (extern_at rank t path) i By) (make_opt_extern_connection rank t i p)"
  using extern_gives [of rank path t i] by (simp add: make_opt_extern_connection_def [abs_def])

lemma opt_externs_gives:
  assumes "tables_below n t" and "i < n" and "Some p \<in> set ps"
  shows "gives (linked (extern_at rank t p) i By) (rfold (make_opt_extern_connection rank t i) ps)"
  by (rule gives_rfold [OF lasting_linked assms(3) opt_extern_gives opt_extern_step [OF assms(1,2)]]) simp

lemma resolved_type_gives:
  "gives (linked (ref_target rank t (slot, path, r)) i req) (connect_resolved_type rank t i req k o' slot path r)"
  by (auto simp: gives_def linked_def ref_target_def connect_resolved_type_def
      split: option.splits if_splits prod.splits)

lemma visit_refs_gives:
  assumes "tables_below n t" and "i < n" and "ref \<in> set refs"
  shows "gives (linked (ref_target rank t ref) i req)
    (visit_refs (connect_resolved_type rank t i req k o') refs)"
  unfolding visit_refs_def
proof (rule gives_rfold [OF lasting_linked assms(3)])
  show "gives (linked (ref_target rank t ref) i req)
      (case ref of (slot, path, r) \<Rightarrow> connect_resolved_type rank t i req k o' slot path r)"
    by (cases ref) (simp add: resolved_type_gives)
  show "edge_step n (case y of (slot, path, r) \<Rightarrow> connect_resolved_type rank t i req k o' slot path r)"
    for y :: type_ref
    using assms(1,2) by (cases y) (simp add: resolved_type_step)
qed

section \<open>The links of one entity\<close>

lemma connect_extension_sql_gives:
  assumes "tables_below n t" and "(item, i) \<in> set (m_extension_sqls t)"
  shows "r \<in> set (es_requires item) \<Longrightarrow>
      gives (linked (find_positioning_ref_target rank t r) i By) (connect_extension_sql rank t (item, i))"
    and "gives (linked_if_found (schema_at rank t (es_module_path item)) i)
      (connect_extension_sql rank t (item, i))"
proof -
  have i: "i < n"
    using assms by (auto simp: tables_below_def)
  note step = found_edge_step [OF lookups_below(6) [OF assms(1)] i]
  show "gives (linked (find_positioning_ref_target rank t r) i By) (connect_extension_sql rank t (item, i))"
    if "r \<in> set (es_requires item)"
    unfolding connect_extension_sql_def [abs_def] Let_def prod.case
    by (rule gives_after, rule gives_rfold [OF lasting_linked that _ step])
      (auto simp: gives_def linked_def split: option.splits)
  show "gives (linked_if_found (schema_at rank t (es_module_path item)) i)
      (connect_extension_sql rank t (item, i))"
    unfolding connect_extension_sql_def [abs_def] Let_def prod.case
    by (rule gives_before [OF lasting_linked_if_found schema_gives edge_rfold [OF step]])
qed

lemma connect_type_fns:
  "connect_type rank t (item, i) =
     (\<lambda>g. rfold (make_opt_extern_connection rank t i) (type_fns item)
       (make_schema_connection rank t i (ty_module_path item) g))"
  by (simp add: connect_type_def [abs_def] type_fns_def rfold_Cons_fun rfold_Nil_fun
      make_opt_extern_connection_def [of rank t i "Some x" for x, abs_def] Let_def del: rfold.simps)

lemma connect_type_gives:
  assumes "tables_below n t" and "(item, i) \<in> set (m_types t)"
  shows "Some p \<in> set (type_fns item) \<Longrightarrow>
      gives (linked (extern_at rank t p) i By) (connect_type rank t (item, i))"
    and "gives (linked_if_found (schema_at rank t (ty_module_path item)) i) (connect_type rank t (item, i))"
proof -
  have i: "i < n"
    using assms by (auto simp: tables_below_def)
  show "Some p \<in> set (type_fns item) \<Longrightarrow>
      gives (linked (extern_at rank t p) i By) (connect_type rank t (item, i))"
    unfolding connect_type_fns by (rule gives_after [OF opt_externs_gives [OF assms(1) i]])
  show "gives (linked_if_found (schema_at rank t (ty_module_path item)) i) (connect_type rank t (item, i))"
    unfolding connect_type_fns
    by (rule gives_before [OF lasting_linked_if_found schema_gives edge_rfold [OF opt_extern_step [OF assms(1) i]]])
qed

lemma connect_aggregate_fns:
  "connect_aggregate rank t (item, i) =
     (\<lambda>g. rbind (visit_refs (connect_resolved_type rank t i ByArg ''Aggregate'' (ag_full_path item))
                (aggregate_arg_refs ''argument'' (ag_args item)
                  @ aggregate_arg_refs ''direct argument'' (ag_direct item)
                  @ mstype_refs item @ stype_refs item)
             (make_schema_connection rank t i (ag_module_path item) g))
           (rfold (make_opt_extern_connection rank t i) (aggregate_fn_paths item)))"
  by (simp add: fun_eq_iff connect_aggregate_refs aggregate_fn_paths_def rfold_map)

lemma connect_aggregate_gives:
  assumes "tables_below n t" and "(item, i) \<in> set (m_aggregates t)"
  shows "ref \<in> set (aggregate_refs item) \<Longrightarrow>
      gives (linked (ref_target rank t ref) i ByArg) (connect_aggregate rank t (item, i))"
    and "Some p \<in> set (aggregate_fn_paths item) \<Longrightarrow>
      gives (linked (extern_at rank t p) i By) (connect_aggregate rank t (item, i))"
    and "gives (linked_if_found (schema_at rank t (ag_module_path item)) i)
      (connect_aggregate rank t (item, i))"
proof -
  have i: "i < n"
    using assms by (auto simp: tables_below_def)
  note fns = edge_rfold [OF opt_extern_step [OF assms(1) i]]
  note refs = visit_refs_step [OF resolved_type_step [OF assms(1) i]]
  show "gives (linked (ref_target rank t ref) i ByArg) (connect_aggregate rank t (item, i))"
    if "ref \<in> set (aggregate_refs item)"
    unfolding connect_aggregate_fns using that
    by (intro gives_first [OF lasting_linked _ fns] gives_after [OF visit_refs_gives [OF assms(1) i]])
      (simp add: aggregate_refs_def, blast)
  show "gives (linked (extern_at rank t p) i By) (connect_aggregate rank t (item, i))"
    if "Some p \<in> set (aggregate_fn_paths item)"
    unfolding connect_aggregate_fns by (rule gives_later [OF opt_externs_gives [OF assms(1) i that]])
  show "gives (linked_if_found (schema_at rank t (ag_module_path item)) i)
      (connect_aggregate rank t (item, i))"
    unfolding connect_aggregate_fns
    by (rule gives_before [OF lasting_linked_if_found schema_gives edge_bind [OF refs fns]])
qed

lemma extern_attr_links:
  assumes "tables_below n t" and "i < n" and "r \<in> set refs"
    and run: "rfold (connect_extern_attr rank t i) attrs (found, g) = Inr (found', g')"
    and attr: "Requires refs \<in> set attrs"
  shows "linked (find_positioning_ref_target rank t r) i By g'"
proof -
  let ?L = "\<lambda>s :: bool \<times> StableGraph. linked (find_positioning_ref_target rank t r) i By (snd s)"
  have keep: "?L v" if "?L u" "adds n (snd u) (snd v)" for u v
    using lastingD [OF lasting_linked that] .
  have "?L (found', g')"
    using run attr
  proof (rule rfold_establishes)
    fix u v
    assume run1: "connect_extern_attr rank t i (Requires refs) u = Inr v"
    show "?L v"
    proof (rule rfold_establishes [OF run1 [unfolded connect_extern_attr.simps] assms(3)])
      fix y p q
      assume "?L p" and "(case p of (found, g) \<Rightarrow> case find_positioning_ref_target rank t y of
            None \<Rightarrow> Inl (ExternRequiresNotFound y)
          | Some target \<Rightarrow> Inr (found, add_edge target i By g)) = Inr q"
      then show "?L q"
        by (auto simp: linked_def split: option.splits prod.splits)
    qed (auto simp: linked_def split: option.splits prod.splits)
  qed (rule keep, assumption, rule connect_extern_attr_adds [OF assms(1,2)])
  then show ?thesis by simp
qed

lemma connect_extern_gives:
  assumes "tables_below n t" and "(item, i) \<in> set (m_externs t)"
  shows "ref \<in> set (arg_refs item) \<Longrightarrow>
      gives (linked (ref_target rank t ref) i ByArg) (connect_extern uni rank t (item, i))"
    and "ref \<in> set (return_refs item) \<Longrightarrow>
      gives (linked (ref_target rank t ref) i ByReturn) (connect_extern uni rank t (item, i))"
    and "Requires refs \<in> set (pe_extern_attrs item) \<Longrightarrow> r \<in> set refs \<Longrightarrow>
      gives (linked (find_positioning_ref_target rank t r) i By) (connect_extern uni rank t (item, i))"
proof -
  have i: "i < n"
    using assms by (auto simp: tables_below_def)
  let ?f = "\<lambda>req. connect_resolved_type rank t i req ''Function'' (pe_full_path item)"
  let ?args = "\<lambda>g. visit_refs (?f ByArg) (arg_refs item) g"
    and ?rets = "visit_refs (?f ByReturn) (return_refs item)"
    and ?own = "\<lambda>found g. hash_edges uni rank t item i (own_schema rank t item i found g)"
  note type_steps = visit_refs_step [OF resolved_type_step [OF assms(1) i]]
  have split: thesis if "connect_extern uni rank t (item, i) g = Inr h"
    and "\<And>found g1 g2. rfold (connect_extern_attr rank t i) (pe_extern_attrs item) (False, g) = Inr (found, g1)
      \<Longrightarrow> ?args (?own found g1) = Inr g2 \<Longrightarrow> ?rets g2 = Inr h \<Longrightarrow> thesis" for g h thesis
    using that(1) unfolding connect_extern_refs Let_def by (auto elim!: rbindE intro: that(2))
  show "gives (linked (ref_target rank t ref) i ByArg) (connect_extern uni rank t (item, i))"
    if "ref \<in> set (arg_refs item)"
    unfolding gives_def
  proof (intro allI impI, elim split)
    fix h found g1 g2
    assume args: "?args (?own found g1) = Inr g2" and rets: "?rets g2 = Inr h"
    show "linked (ref_target rank t ref) i ByArg h"
      by (rule lastingD [OF lasting_linked givesD [OF visit_refs_gives [OF assms(1) i that] args]
            edge_stepD [OF type_steps rets]])
  qed
  show "gives (linked (ref_target rank t ref) i ByReturn) (connect_extern uni rank t (item, i))"
    if "ref \<in> set (return_refs item)"
    using givesD [OF visit_refs_gives [OF assms(1) i that]] unfolding gives_def by (blast elim: split)
  show "gives (linked (find_positioning_ref_target rank t r) i By) (connect_extern uni rank t (item, i))"
    if attr: "Requires refs \<in> set (pe_extern_attrs item)" "r \<in> set refs"
    unfolding gives_def
  proof (intro allI impI, elim split)
    fix g h found g1 g2
    assume run: "rfold (connect_extern_attr rank t i) (pe_extern_attrs item) (False, g) = Inr (found, g1)"
      "?args (?own found g1) = Inr g2" "?rets g2 = Inr h"
    have "adds n g1 (?own found g1)"
      by (rule pure_stepD [OF pure_comp [OF own_schema_step hash_edges_step]]) (rule assms(1) i)+
    then have "adds n g1 h"
      using edge_stepD [OF type_steps run(2)] edge_stepD [OF type_steps run(3)] by (blast intro: adds_trans)
    then show "linked (find_positioning_ref_target rank t r) i By h"
      using extern_attr_links [OF assms(1) i attr(2) run(1) attr(1)] lastingD [OF lasting_linked] by blast
  qed
qed

section \<open>The second phase as a whole\<close>

text \<open>The links of every entity of the tables.\<close>

definition links_done :: "iter_rank \<Rightarrow> Tables \<Rightarrow> StableGraph \<Rightarrow> bool" where
  "links_done rank t g \<longleftrightarrow>
     (\<forall>(item, i) \<in> set (m_extension_sqls t). \<forall>r \<in> set (es_requires item).
        linked (find_positioning_ref_target rank t r) i By g)
     \<and> (\<forall>(item, i) \<in> set (m_types t). \<forall>p. Some p \<in> set (type_fns item) \<longrightarrow> linked (extern_at rank t p) i By g)
     \<and> (\<forall>(item, i) \<in> set (m_externs t).
          (\<forall>ref \<in> set (arg_refs item). linked (ref_target rank t ref) i ByArg g)
          \<and> (\<forall>ref \<in> set (return_refs item). linked (ref_target rank t ref) i ByReturn g)
          \<and> (\<forall>refs. Requires refs \<in> set (pe_extern_attrs item) \<longrightarrow>
               (\<forall>r \<in> set refs. linked (find_positioning_ref_target rank t r) i By g)))
     \<and> (\<forall>(item, i) \<in> set (m_aggregates t).
          (\<forall>ref \<in> set (aggregate_refs item). linked (ref_target rank t ref) i ByArg g)
          \<and> (\<forall>p. Some p \<in> set (aggregate_fn_paths item) \<longrightarrow> linked (extern_at rank t p) i By g))"

text \<open>The schema of the module of each entity.\<close>

definition schemas_done :: "iter_rank \<Rightarrow> Tables \<Rightarrow> node_index \<Rightarrow> StableGraph \<Rightarrow> bool" where
  "schemas_done rank t root g \<longleftrightarrow>
     (\<forall>(item, i) \<in> set (m_schemas t). (root, i, By) \<in> set (g_edges g))
     \<and> (\<forall>(item, i) \<in> set (m_extension_sqls t). linked_if_found (schema_at rank t (es_module_path item)) i g)
     \<and> (\<forall>(item, i) \<in> set (m_enums t). linked_if_found (schema_at rank t (en_module_path item)) i g)
     \<and> (\<forall>(item, i) \<in> set (m_types t). linked_if_found (schema_at rank t (ty_module_path item)) i g)
     \<and> (\<forall>(item, i) \<in> set (m_aggregates t). linked_if_found (schema_at rank t (ag_module_path item)) i g)
     \<and> (\<forall>(item, i) \<in> set (m_triggers t). linked_if_found (schema_at rank t (tr_module_path item)) i g)"

lemma build_edges_steps:
  assumes run: "build_edges uni rank t root g = Inr h" and below: "tables_below n t" and root: "root < n"
  obtains g1 g2 g3 g4 where
    "connect_extension_sqls rank t (connect_schemas rank t root g) = Inr g1"
    "connect_types rank t (connect_enums rank t g1) = Inr g2"
    "connect_externs uni rank t g2 = Inr g3"
    "connect_aggregates rank t (connect_hashes uni rank t (connect_ords uni rank t g3)) = Inr g4"
    "h = connect_triggers rank t g4"
    "adds n g (connect_schemas rank t root g)" "adds n (connect_schemas rank t root g) g1"
    "adds n g1 (connect_enums rank t g1)" "adds n (connect_enums rank t g1) h" "adds n g1 g2"
    "adds n g2 g3" "adds n g3 g4" "adds n g4 h"
proof -
  from run obtain g1 g2 g3 g4 where
    r1: "connect_extension_sqls rank t (connect_schemas rank t root g) = Inr g1"
    and r2: "connect_types rank t (connect_enums rank t g1) = Inr g2"
    and r3: "connect_externs uni rank t g2 = Inr g3"
    and r4: "connect_aggregates rank t (connect_hashes uni rank t (connect_ords uni rank t g3)) = Inr g4"
    and r5: "h = connect_triggers rank t g4"
    unfolding build_edges_def by (auto elim!: rbindE)
  have s0: "adds n g (connect_schemas rank t root g)"
    by (rule pure_stepD [OF connect_schemas_step [OF below root]])
  have s1: "adds n (connect_schemas rank t root g) g1"
    using r1 unfolding connect_extension_sqls_def
    by (rule edge_stepD [OF edge_rfold, rotated]) (simp add: connect_extension_sql_step [OF below])
  have s2: "adds n g1 (connect_enums rank t g1)"
    by (rule pure_stepD [OF connect_enums_step [OF below]])
  have s3: "adds n (connect_enums rank t g1) g2"
    using r2 unfolding connect_types_def
    by (rule edge_stepD [OF edge_rfold, rotated]) (simp add: connect_type_step [OF below])
  have s4: "adds n g2 g3"
    using r3 unfolding connect_externs_def
    by (rule edge_stepD [OF edge_rfold, rotated]) (simp add: connect_extern_step [OF below])
  have "adds n g3 (connect_ords uni rank t g3)"
    unfolding connect_ords_def by (rule pure_stepD [OF pure_fold]) (simp add: connect_ord_step [OF below])
  moreover have "adds n g' (connect_hashes uni rank t g')" for g'
    unfolding connect_hashes_def by (rule pure_stepD [OF pure_fold]) (simp add: connect_hash_step [OF below])
  moreover have "adds n (connect_hashes uni rank t (connect_ords uni rank t g3)) g4"
    using r4 unfolding connect_aggregates_def
    by (rule edge_stepD [OF edge_rfold, rotated]) (simp add: connect_aggregate_step [OF below])
  ultimately have s5: "adds n g3 g4"
    by (blast intro: adds_trans)
  have s6: "adds n g4 h"
    unfolding r5 by (rule pure_stepD [OF connect_triggers_step [OF below]])
  show thesis
    by (rule that [OF r1 r2 r3 r4 r5 s0 s1 s2 _ adds_trans [OF s2 s3] s4 s5 s6])
      (use s3 s4 s5 s6 in \<open>blast intro: adds_trans\<close>)
qed

lemma build_edges_adds:
  assumes "build_edges uni rank t root g = Inr h" and "tables_below n t" and "root < n"
  shows "adds n g h"
  using assms by (rule build_edges_steps) (blast intro: adds_trans)

text \<open>What a step over one table gives for an entry of the table.\<close>

lemma table_gives:
  assumes "rfold f (hm_iter rank m) g = Inr g'" and "p \<in> set m" and "lasting Q" and "gives Q (f p)"
    and "\<And>q. q \<in> set m \<Longrightarrow> edge_step n (f q)" and "adds n g' h"
  shows "Q h"
proof -
  have "gives Q (rfold f (hm_iter rank m))"
    by (rule gives_rfold [where x = p and n = n]) (simp_all add: assms)
  then show ?thesis
    using assms(1,3,6) by (blast dest: givesD intro: lastingD)
qed

lemma build_edges_links:
  assumes "build_edges uni rank t root g = Inr h" and below: "tables_below n t" and "root < n"
  shows "links_done rank t h"
  using assms
proof (rule build_edges_steps)
  fix g1 g2 g3 g4
  assume r: "connect_extension_sqls rank t (connect_schemas rank t root g) = Inr g1"
    "connect_types rank t (connect_enums rank t g1) = Inr g2"
    "connect_externs uni rank t g2 = Inr g3"
    "connect_aggregates rank t (connect_hashes uni rank t (connect_ords uni rank t g3)) = Inr g4"
    and s: "adds n g1 g2" "adds n g2 g3" "adds n g3 g4" "adds n g4 h"
  note s3 = adds_trans [OF s(3,4)]
  note s2 = adds_trans [OF s(2) s3]
  note s1 = adds_trans [OF s(1) s2]
  note sqls = table_gives [OF r(1) [unfolded connect_extension_sqls_def] _ lasting_linked _
      connect_extension_sql_step [OF below] s1]
  note types = table_gives [OF r(2) [unfolded connect_types_def] _ lasting_linked _
      connect_type_step [OF below] s2]
  note externs = table_gives [OF r(3) [unfolded connect_externs_def] _ lasting_linked _
      connect_extern_step [OF below] s3]
  note aggs = table_gives [OF r(4) [unfolded connect_aggregates_def] _ lasting_linked _
      connect_aggregate_step [OF below] s(4)]
  have p1: "linked (find_positioning_ref_target rank t r) i By h"
    if "(item, i) \<in> set (m_extension_sqls t)" "r \<in> set (es_requires item)" for item i r
    using that(1) connect_extension_sql_gives(1) [OF below that] by (rule sqls)
  have p2: "linked (extern_at rank t p) i By h"
    if "(item, i) \<in> set (m_types t)" "Some p \<in> set (type_fns item)" for item i p
    using that(1) connect_type_gives(1) [OF below that] by (rule types)
  have p3: "linked (ref_target rank t ref) i ByArg h"
    if "(item, i) \<in> set (m_externs t)" "ref \<in> set (arg_refs item)" for item i ref
    using that(1) connect_extern_gives(1) [OF below that] by (rule externs)
  have p4: "linked (ref_target rank t ref) i ByReturn h"
    if "(item, i) \<in> set (m_externs t)" "ref \<in> set (return_refs item)" for item i ref
    using that(1) connect_extern_gives(2) [OF below that] by (rule externs)
  have p5: "linked (find_positioning_ref_target rank t r) i By h"
    if "(item, i) \<in> set (m_externs t)" "Requires refs \<in> set (pe_extern_attrs item)" "r \<in> set refs"
    for item i refs r
    using that(1) connect_extern_gives(3) [OF below that] by (rule externs)
  have p6: "linked (ref_target rank t ref) i ByArg h"
    if "(item, i) \<in> set (m_aggregates t)" "ref \<in> set (aggregate_refs item)" for item i ref
    using that(1) connect_aggregate_gives(1) [OF below that] by (rule aggs)
  have p7: "linked (extern_at rank t p) i By h"
    if "(item, i) \<in> set (m_aggregates t)" "Some p \<in> set (aggregate_fn_paths item)" for item i p
    using that(1) connect_aggregate_gives(2) [OF below that] by (rule aggs)
  show ?thesis
    unfolding links_done_def by (auto intro: p1 p2 p3 p4 p5 p6 p7)
qed

lemma build_edges_schemas:
  assumes "build_edges uni rank t root g = Inr h" and below: "tables_below n t" and "root < n"
  shows "schemas_done rank t root h"
  using assms
proof (rule build_edges_steps)
  fix g1 g2 g3 g4
  assume r: "connect_extension_sqls rank t (connect_schemas rank t root g) = Inr g1"
    "connect_types rank t (connect_enums rank t g1) = Inr g2"
    "connect_aggregates rank t (connect_hashes uni rank t (connect_ords uni rank t g3)) = Inr g4"
    and h: "h = connect_triggers rank t g4"
    and s: "adds n (connect_schemas rank t root g) g1" "adds n g1 g2" "adds n g2 g3" "adds n g3 g4"
      "adds n g4 h" and senum: "adds n (connect_enums rank t g1) h"
  note s2 = adds_trans [OF adds_trans [OF s(3,4)] s(5)]
  note s1 = adds_trans [OF s(2) s2]
  have schema: "pure_step n (make_schema_connection rank t i path)" if "i < n" for i path
    using schema_step [OF below that] .
  have p1: "(root, i, By) \<in> set (g_edges h)" if "(item, i) \<in> set (m_schemas t)" for item i
  proof -
    have "linked (Some root) i By (connect_schemas rank t root g)"
      unfolding connect_schemas_def
    proof (rule fold_gives [OF lasting_linked, of "(item, i)" _ _ _ _ _ n])
      show "linked (Some root) i By ((case (item, i) of (_, i) \<Rightarrow> add_edge root i By) g)" for g
        by (simp add: linked_def)
      show "pure_step n (case p of (_, i) \<Rightarrow> add_edge root i By)" if "p \<in> set (hm_iter rank (m_schemas t))" for p
        using that below assms(3) by (auto simp: tables_below_def split_def intro!: pure_add_edge)
    qed (simp add: that)
    then show ?thesis
      using lastingD [OF lasting_linked _ adds_trans [OF s(1) s1]] by (fastforce simp: linked_def)
  qed
  have p2: "linked_if_found (schema_at rank t (es_module_path item)) i h"
    if "(item, i) \<in> set (m_extension_sqls t)" for item i
    by (rule table_gives [OF r(1) [unfolded connect_extension_sqls_def] that lasting_linked_if_found
          connect_extension_sql_gives(2) [OF below that] connect_extension_sql_step [OF below] s1])
  have p3: "linked_if_found (schema_at rank t (en_module_path item)) i h"
    if "(item, i) \<in> set (m_enums t)" for item i
  proof -
    have "linked_if_found (schema_at rank t (en_module_path item)) i (connect_enums rank t g1)"
      unfolding connect_enums_def
      by (rule fold_gives [of _ "(item, i)" _ _ n])
        (use that below in \<open>auto simp: schema_gives tables_below_def intro!: lasting_linked_if_found schema\<close>)
    then show ?thesis
      using lastingD [OF lasting_linked_if_found _ senum] by blast
  qed
  have p4: "linked_if_found (schema_at rank t (ty_module_path item)) i h"
    if "(item, i) \<in> set (m_types t)" for item i
    by (rule table_gives [OF r(2) [unfolded connect_types_def] that lasting_linked_if_found
          connect_type_gives(2) [OF below that] connect_type_step [OF below] s2])
  have p5: "linked_if_found (schema_at rank t (ag_module_path item)) i h"
    if "(item, i) \<in> set (m_aggregates t)" for item i
    by (rule table_gives [OF r(3) [unfolded connect_aggregates_def] that lasting_linked_if_found
          connect_aggregate_gives(3) [OF below that] connect_aggregate_step [OF below] s(5)])
  have p6: "linked_if_found (schema_at rank t (tr_module_path item)) i h"
    if "(item, i) \<in> set (m_triggers t)" for item i
    unfolding h connect_triggers_def
    by (rule fold_gives [of _ "(item, i)" _ _ n])
      (use that below in \<open>auto simp: schema_gives tables_below_def intro!: lasting_linked_if_found schema\<close>)
  show ?thesis
    unfolding schemas_done_def by (auto intro: p1 p2 p3 p4 p5 p6)
qed

end
