(* ===== verification/Build_Facts.thy ===== *)
theory Build_Facts
  imports Graph_Links
begin

text \<open>
  \<open>PgrxSql::build\<close> as a whole: the two phases put together, and what a lookup of the second phase
  found, said of the node it found.
\<close>

section \<open>Splitting the entities by kind\<close>

lemma fold_split_sets:
  "set (se_schemas (fold split_entity es s)) = set (se_schemas s) \<union> {e. SqlGraphEntity.Schema e \<in> set es}"
  "set (se_extension_sqls (fold split_entity es s)) = set (se_extension_sqls s) \<union> {e. CustomSql e \<in> set es}"
  "set (se_externs (fold split_entity es s)) = set (se_externs s) \<union> {e. Function e \<in> set es}"
  "set (se_types (fold split_entity es s)) = set (se_types s) \<union> {e. SqlGraphEntity.Type e \<in> set es}"
  "set (se_enums (fold split_entity es s)) = set (se_enums s) \<union> {e. Enum e \<in> set es}"
  "set (se_ords (fold split_entity es s)) = set (se_ords s) \<union> {e. Ord e \<in> set es}"
  "set (se_hashes (fold split_entity es s)) = set (se_hashes s) \<union> {e. Hash e \<in> set es}"
  "set (se_aggregates (fold split_entity es s)) = set (se_aggregates s) \<union> {e. Aggregate e \<in> set es}"
  "set (se_triggers (fold split_entity es s)) = set (se_triggers s) \<union> {e. Trigger e \<in> set es}"
proof (induction es arbitrary: s)
  case (Cons x es)
  {
    case 1 then show ?case by (cases x) (auto simp: Cons.IH)
  next
    case 2 then show ?case by (cases x) (auto simp: Cons.IH)
  next
    case 3 then show ?case by (cases x) (auto simp: Cons.IH)
  next
    case 4 then show ?case by (cases x) (auto simp: Cons.IH)
  next
    case 5 then show ?case by (cases x) (auto simp: Cons.IH)
  next
    case 6 then show ?case by (cases x) (auto simp: Cons.IH)
  next
    case 7 then show ?case by (cases x) (auto simp: Cons.IH)
  next
    case 8 then show ?case by (cases x) (auto simp: Cons.IH)
  next
    case 9 then show ?case by (cases x) (auto simp: Cons.IH)
  }
qed simp_all

lemma split_sets [simp]:
  "set (se_schemas (split_entities es)) = {e. SqlGraphEntity.Schema e \<in> set es}"
  "set (se_extension_sqls (split_entities es)) = {e. CustomSql e \<in> set es}"
  "set (se_externs (split_entities es)) = {e. Function e \<in> set es}"
  "set (se_types (split_entities es)) = {e. SqlGraphEntity.Type e \<in> set es}"
  "set (se_enums (split_entities es)) = {e. Enum e \<in> set es}"
  "set (se_ords (split_entities es)) = {e. Ord e \<in> set es}"
  "set (se_hashes (split_entities es)) = {e. Hash e \<in> set es}"
  "set (se_aggregates (split_entities es)) = {e. Aggregate e \<in> set es}"
  "set (se_triggers (split_entities es)) = {e. Trigger e \<in> set es}"
  unfolding split_entities_def fold_split_sets by (simp_all add: no_entities_def)

lemma fold_split_control:
  "se_control (fold split_entity es s) = Some c \<Longrightarrow> se_control s = Some c \<or> ExtensionRoot c \<in> set es"
proof (induction es arbitrary: s)
  case (Cons x es)
  have "se_control (fold split_entity es (split_entity x s)) = Some c"
    using Cons.prems by simp
  from Cons.IH [OF this] show ?case
    by (cases x) auto
qed simp

lemma split_control: "se_control (split_entities es) = Some c \<Longrightarrow> ExtensionRoot c \<in> set es"
  using fold_split_control [of "sort_entities es" no_entities c]
  by (simp add: split_entities_def no_entities_def)

lemma fold_split_no_control:
  "se_control (fold split_entity es s) = None \<longleftrightarrow> se_control s = None \<and> (\<forall>c. ExtensionRoot c \<notin> set es)"
proof (induction es arbitrary: s)
  case (Cons x es)
  show ?case by (cases x) (auto simp: Cons.IH)
qed simp

lemma split_no_control:
  "se_control (split_entities es) = None \<longleftrightarrow> (\<forall>c. ExtensionRoot c \<notin> set es)"
  unfolding split_entities_def fold_split_no_control by (simp add: no_entities_def)

lemma known_entities:
  assumes "se_control (split_entities es) = Some c"
  shows "known_nodes c (split_entities es) \<subseteq> set es \<union> range BuiltinType"
  using split_control [OF assms] by (auto simp: known_nodes_def)

section \<open>Both phases\<close>

abbreviation nodes_of :: "PgrxSql \<Rightarrow> SqlGraphEntity list" where
  "nodes_of p \<equiv> g_nodes (ps_graph p)"

abbreviation edges_of :: "PgrxSql \<Rightarrow> (node_index \<times> node_index \<times> SqlGraphRequires) list" where
  "edges_of p \<equiv> g_edges (ps_graph p)"

lemma points_below: "points into g m \<Longrightarrow> \<forall>p \<in> set m. snd p < length (g_nodes g)"
  by (auto simp: points_def)

lemma nodes_done_below:
  assumes "nodes_done c se t b f g"
  shows "tables_below (length (g_nodes g)) t"
  using assms unfolding nodes_done_def holds_items_def tables_below_def
  by (elim conjE, intro conjI) (erule points_below)+

definition built :: "iter_rank \<Rightarrow> SqlGraphEntity list \<Rightarrow> PgrxSql \<Rightarrow> bool" where
  "built rank es p \<longleftrightarrow>
     (let se = split_entities es; t = ps_tables p; g = ps_graph p
      in se_control se = Some (ps_control p) \<and> ps_graph_root p = 0
         \<and> nodes_done (ps_control p) se t (ps_graph_bootstrap p) (ps_graph_finalize p) g
         \<and> set (g_nodes g) \<subseteq> known_nodes (ps_control p) se
         \<and> refs_resolved rank se t \<and> ensure_unique_type_targets rank t = Inr ()
         \<and> links_done rank t g \<and> schemas_done rank t 0 g)"

lemma build_built:
  assumes "build uni rank es name so = Inr p"
  shows "built rank es p"
proof -
  let ?se = "split_entities es"
  from assms obtain c i g where c: "se_control ?se = Some c"
    and nodes: "build_nodes rank c ?se = Inr i"
    and edges: "build_edges uni rank (i_tables i) (i_root i) (i_graph i) = Inr g"
    and p: "ps_control p = c" "ps_graph p = g" "ps_graph_root p = i_root i"
      "ps_graph_bootstrap p = i_bootstrap i" "ps_graph_finalize p = i_finalize i" "ps_tables p = i_tables i"
    by (auto simp: build_def Let_def elim!: rbindE split: option.splits)
  have init: "nodes_done c ?se (i_tables i) (i_bootstrap i) (i_finalize i) (i_graph i)"
    and known: "set (g_nodes (i_graph i)) \<subseteq> known_nodes c ?se"
    using build_nodes_done [OF nodes] by simp_all
  have resolved: "refs_resolved rank ?se (i_tables i)" "ensure_unique_type_targets rank (i_tables i) = Inr ()"
    and root: "i_root i = 0"
    using build_nodes_resolved [OF nodes] by simp_all
  have below: "tables_below (length (g_nodes (i_graph i))) (i_tables i)" "i_root i < length (g_nodes (i_graph i))"
    using nodes_done_below [OF init] init by (simp_all add: root nodes_done_def)
  have adds: "adds (length (g_nodes (i_graph i))) (i_graph i) g"
    by (rule build_edges_adds [OF edges below])
  have "nodes_done c ?se (i_tables i) (i_bootstrap i) (i_finalize i) g"
    by (rule nodes_done_extends [OF init adds_extends [OF adds] adds_in_range [OF adds]])
      (use init in \<open>simp add: nodes_done_def\<close>)
  moreover have "set (g_nodes g) \<subseteq> known_nodes c ?se"
    using known adds by (simp add: adds_def)
  ultimately show ?thesis
    using build_edges_links [OF edges below] build_edges_schemas [OF edges below] c resolved root
    by (simp add: built_def Let_def p)
qed

lemma builtD:
  assumes "built rank es p"
  shows "se_control (split_entities es) = Some (ps_control p)" "ps_graph_root p = 0"
    "nodes_done (ps_control p) (split_entities es) (ps_tables p) (ps_graph_bootstrap p)
       (ps_graph_finalize p) (ps_graph p)"
    "set (nodes_of p) \<subseteq> known_nodes (ps_control p) (split_entities es)"
    "refs_resolved rank (split_entities es) (ps_tables p)"
    "ensure_unique_type_targets rank (ps_tables p) = Inr ()"
    "links_done rank (ps_tables p) (ps_graph p)" "schemas_done rank (ps_tables p) 0 (ps_graph p)"
  using assms by (simp_all add: built_def Let_def)

section \<open>Tables of a built graph\<close>

text \<open>The table of a kind has the entities of that kind, each at its node.\<close>

lemma built_tables:
  assumes "built rank es p"
  shows "holds_items CustomSql (\<lambda>k g i. sql_based 0 (ps_graph_bootstrap p) (ps_graph_finalize p) g k i)
      (se_extension_sqls (split_entities es)) (ps_graph p) (m_extension_sqls (ps_tables p))"
    and "holds_items SqlGraphEntity.Schema (\<lambda>_. anchored (ps_graph_bootstrap p) (ps_graph_finalize p))
      (se_schemas (split_entities es)) (ps_graph p) (m_schemas (ps_tables p))"
    and "holds_items Enum (\<lambda>_. based 0 (ps_graph_bootstrap p) (ps_graph_finalize p))
      (se_enums (split_entities es)) (ps_graph p) (m_enums (ps_tables p))"
    and "holds_items SqlGraphEntity.Type (\<lambda>_. based 0 (ps_graph_bootstrap p) (ps_graph_finalize p))
      (se_types (split_entities es)) (ps_graph p) (m_types (ps_tables p))"
    and "holds_items Function (\<lambda>_. based 0 (ps_graph_bootstrap p) (ps_graph_finalize p))
      (se_externs (split_entities es)) (ps_graph p) (m_externs (ps_tables p))"
    and "holds_items Ord (\<lambda>_. based 0 (ps_graph_bootstrap p) (ps_graph_finalize p))
      (se_ords (split_entities es)) (ps_graph p) (m_ords (ps_tables p))"
    and "holds_items Hash (\<lambda>_. based 0 (ps_graph_bootstrap p) (ps_graph_finalize p))
      (se_hashes (split_entities es)) (ps_graph p) (m_hashes (ps_tables p))"
    and "holds_items Aggregate (\<lambda>_. based 0 (ps_graph_bootstrap p) (ps_graph_finalize p))
      (se_aggregates (split_entities es)) (ps_graph p) (m_aggregates (ps_tables p))"
    and "holds_items Trigger (\<lambda>_. based 0 (ps_graph_bootstrap p) (ps_graph_finalize p))
      (se_triggers (split_entities es)) (ps_graph p) (m_triggers (ps_tables p))"
    and "points BuiltinType (ps_graph p) (m_builtin_types (ps_tables p))"
  using builtD(3) [OF assms] by (simp_all add: nodes_done_def)

lemma holds_node:
  assumes "holds_items into P items g m" and "(k, i) \<in> set m"
  shows "i < length (g_nodes g)" and "g_nodes g ! i = into k" and "P k g i"
  using assms by (auto simp: holds_items_def points_def)

lemma holds_entry:
  assumes "holds_items into P items g m" and "k \<in> set items"
  obtains i where "(k, i) \<in> set m" and "i < length (g_nodes g)" and "g_nodes g ! i = into k" and "P k g i"
proof -
  have "k \<in> fst ` set m"
    using assms by (simp add: holds_items_def)
  then obtain i where i: "(k, i) \<in> set m"
    by auto
  from that [OF i holds_node [OF assms(1) i]] show thesis .
qed

end
