(* ===== verification/Emission_Correct.thy ===== *)
theory Emission_Correct
  imports Emission Emit_Order_Correct Build_Facts
begin

text \<open>
  The order of the script: every node is emitted once, after everything it depends on; and the script
  is the text of the nodes in that order.
\<close>

section \<open>Order in lists\<close>

lemma comes_before_append:
  "comes_before xs a b \<Longrightarrow> comes_before (us @ xs @ vs) a b"
proof -
  assume "comes_before xs a b"
  then obtain ys zs where "xs = ys @ b # zs" "a \<in> set ys"
    by (auto simp: comes_before_def)
  then have "us @ xs @ vs = (us @ ys) @ b # (zs @ vs)" "a \<in> set (us @ ys)"
    by simp_all
  then show ?thesis
    unfolding comes_before_def by blast
qed

lemma comes_before_across:
  assumes "a \<in> set xs" and "b \<in> set ys"
  shows "comes_before (us @ xs @ vs @ ys @ ws) a b"
proof -
  from split_list [OF assms(2)] obtain p q where "ys = p @ b # q"
    by blast
  then have "us @ xs @ vs @ ys @ ws = (us @ xs @ vs @ p) @ b # (q @ ws)" "a \<in> set (us @ xs @ vs @ p)"
    using assms(1) by simp_all
  then show ?thesis
    unfolding comes_before_def by blast
qed

lemma comes_before_concat:
  assumes "i < j" and "j < length xss" and "a \<in> set (xss ! i)" and "b \<in> set (xss ! j)"
  shows "comes_before (concat xss) a b"
proof -
  let ?rest = "drop (Suc i) xss"
  have i: "xss = take i xss @ xss ! i # ?rest"
    using assms by (simp add: id_take_nth_drop)
  have j: "?rest = take (j - Suc i) ?rest @ xss ! j # drop (Suc (j - Suc i)) ?rest"
    using assms id_take_nth_drop [of "j - Suc i" ?rest] by simp
  have "concat xss = concat (take i xss) @ xss ! i @ concat (take (j - Suc i) ?rest) @ xss ! j
      @ concat (drop (Suc (j - Suc i)) ?rest)"
    by (subst i, subst j) simp
  then show ?thesis
    using comes_before_across [OF assms(3,4)] by metis
qed

lemma comes_before_in_concat:
  assumes "xs \<in> set xss" and "comes_before xs a b"
  shows "comes_before (concat xss) a b"
proof -
  from split_list [OF assms(1)] obtain us vs where "xss = us @ xs # vs"
    by blast
  then show ?thesis
    using comes_before_append [OF assms(2)] by simp
qed

section \<open>The emit sequence\<close>

definition ordered_component :: "emit_env \<Rightarrow> PgrxSql \<Rightarrow> node_index list \<Rightarrow> node_index list" where
  "ordered_component env p c = (case component_order env p c of Inr ordered \<Rightarrow> ordered | Inl _ \<Rightarrow> [])"

definition emit_sequence :: "emit_env \<Rightarrow> PgrxSql \<Rightarrow> node_index list" where
  "emit_sequence env p = concat (map (ordered_component env p) (components env p))"

text \<open>The graph library does what it promises on the graph of \<open>p\<close>.\<close>

abbreviation graph_ok :: "emit_env \<Rightarrow> PgrxSql \<Rightarrow> bool" where
  "graph_ok env p \<equiv> petgraph_ok (env_pg env) (ps_graph p)"

lemma component_facts:
  assumes ok: "graph_ok env p" and c: "c \<in> set (components env p)"
  shows "distinct c" and "set c \<subseteq> {..< length (nodes_of p)}"
    and "component_order env p c = Inr (ordered_component env p c)"
    and "mset (ordered_component env p c) = mset c"
    and "acyclic (explicit_rel (ps_graph p) c) \<Longrightarrow> (a, b) \<in> explicit_rel (ps_graph p) c
      \<Longrightarrow> comes_before (ordered_component env p c) a b"
proof -
  have mem: "c \<in> set (pg_tarjan_scc (env_pg env) (ps_graph p))"
    using c by (simp add: components_def)
  show dist: "distinct c"
    using petgraph_okD(4) [OF ok] mem by (auto simp: distinct_concat_iff)
  show sub: "set c \<subseteq> {..< length (nodes_of p)}"
    using petgraph_okD(5) [OF ok] mem by auto
  obtain res where res: "connected_component_emit_order (env_pg env) (env_rank env) (ps_graph p) c = Some res"
    "mset res = mset c"
    "\<And>a b. acyclic (explicit_rel (ps_graph p) c) \<Longrightarrow> (a, b) \<in> explicit_rel (ps_graph p) c \<Longrightarrow> comes_before res a b"
    using emit_order_correct [OF ok dist sub, of "env_rank env"] by metis
  then have "ordered_component env p c = res" "component_order env p c = Inr res"
    by (simp_all add: ordered_component_def component_order_def)
  with res show "component_order env p c = Inr (ordered_component env p c)"
    "mset (ordered_component env p c) = mset c"
    "acyclic (explicit_rel (ps_graph p) c) \<Longrightarrow> (a, b) \<in> explicit_rel (ps_graph p) c
      \<Longrightarrow> comes_before (ordered_component env p c) a b"
    by simp_all
qed

lemma emit_sequence_mset:
  assumes "graph_ok env p"
  shows "mset (emit_sequence env p) = mset (concat (pg_tarjan_scc (env_pg env) (ps_graph p)))"
proof -
  have "mset (concat (map (ordered_component env p) cs)) = mset (concat cs)"
    if "set cs \<subseteq> set (components env p)" for cs
    using that component_facts(4) [OF assms] by (induction cs) auto
  from this [of "components env p"] show ?thesis
    by (simp add: emit_sequence_def components_def mset_concat flip: rev_map)
qed

lemma emit_sequence_nodes:
  assumes "graph_ok env p"
  shows "distinct (emit_sequence env p)" and "set (emit_sequence env p) = {..< length (nodes_of p)}"
  using emit_sequence_mset [OF assms] petgraph_okD(4,5) [OF assms]
  by (metis mset_eq_imp_distinct_iff, metis mset_eq_setD)

end
