(* ===== verification/Script_Order.thy ===== *)
theory Script_Order
  imports Emission_Correct
begin

text \<open>
  Dependencies come first: an edge of the graph is respected by the emit sequence unless it lies on a
  cycle, and an explicit edge even then, when the explicit edges alone have no cycle. The script has
  the text of the nodes in the order of the sequence.
\<close>

section \<open>Edges\<close>

definition explicit_edge_rel :: "StableGraph \<Rightarrow> (node_index \<times> node_index) set" where
  "explicit_edge_rel g = {(a, b). (a, b, By) \<in> set (g_edges g)}"

lemma sequence_respects:
  assumes ok: "graph_ok env p" and range: "in_range (ps_graph p)" and edge: "(a, b, w) \<in> set (edges_of p)"
    and cycle: "(b, a) \<notin> (edge_rel (ps_graph p))\<^sup>* \<or> w = By \<and> acyclic (explicit_edge_rel (ps_graph p))"
  shows "comes_before (emit_sequence env p) a b"
proof -
  let ?scc = "pg_tarjan_scc (env_pg env) (ps_graph p)" and ?cs = "components env p"
  let ?oc = "ordered_component env p"
  have ab: "a < length (nodes_of p)" "b < length (nodes_of p)"
    using range edge by (auto simp: in_range_def)
  have rel: "(a, b) \<in> edge_rel (ps_graph p)"
    using edge by (auto simp: edge_rel_def)
  have all: "set (concat ?scc) = {..< length (nodes_of p)}"
    by (rule petgraph_okD(5) [OF ok])
  have "\<exists>i < length ?scc. x \<in> set (?scc ! i)" if "x < length (nodes_of p)" for x
    using that all by (metis (no_types, lifting) UN_iff in_set_conv_nth lessThan_iff set_concat)
  then obtain i j where i: "i < length ?scc" "a \<in> set (?scc ! i)" and j: "j < length ?scc" "b \<in> set (?scc ! j)"
    using ab by blast
  have "j \<le> i"
    by (rule petgraph_ok_order [OF ok i(1) j(1) i(2) j(2) rel])
  have in_oc: "x \<in> set (?oc c)" if "x \<in> set c" "c \<in> set ?cs" for x c
    using mset_eq_setD [OF component_facts(4) [OF ok that(2)]] that(1) by simp
  show ?thesis
  proof (cases "i = j")
    case False
    let ?n = "length ?scc"
    have cs: "?cs ! (?n - 1 - i) = ?scc ! i" "?cs ! (?n - 1 - j) = ?scc ! j"
      using i(1) j(1) by (simp_all add: components_def rev_nth)
    have len: "length (map ?oc ?cs) = ?n"
      by (simp add: components_def)
    have "?scc ! i \<in> set ?cs" "?scc ! j \<in> set ?cs"
      using i(1) j(1) by (simp_all add: components_def)
    then have "a \<in> set (?oc (?scc ! i))" "b \<in> set (?oc (?scc ! j))"
      using i(2) j(2) in_oc by blast+
    then have "a \<in> set (map ?oc ?cs ! (?n - 1 - i))" "b \<in> set (map ?oc ?cs ! (?n - 1 - j))"
      using i(1) j(1) len cs by simp_all
    moreover have "?n - 1 - i < ?n - 1 - j" "?n - 1 - j < length (map ?oc ?cs)"
      using False \<open>j \<le> i\<close> i(1) len by linarith+
    ultimately show ?thesis
      unfolding emit_sequence_def by (intro comes_before_concat)
  next
    case True
    let ?c = "?scc ! i"
    have c: "?c \<in> set ?cs" "a \<in> set ?c" "b \<in> set ?c"
      using i j True by (simp_all add: components_def)
    then have "(b, a) \<in> (edge_rel (ps_graph p))\<^sup>*"
      using i(1) by (intro petgraph_ok_connected [OF ok, of ?c]) simp_all
    then have w: "w = By" and ac: "acyclic (explicit_edge_rel (ps_graph p))"
      using cycle by simp_all
    have "explicit_rel (ps_graph p) ?c \<subseteq> explicit_edge_rel (ps_graph p)"
      by (auto simp: explicit_rel_def explicit_edge_rel_def)
    with ac have "acyclic (explicit_rel (ps_graph p) ?c)"
      by (rule acyclic_subset)
    moreover have "(a, b) \<in> explicit_rel (ps_graph p) ?c"
      using c edge w by (simp add: explicit_rel_def)
    ultimately have "comes_before (?oc ?c) a b"
      by (rule component_facts(5) [OF ok c(1)])
    then show ?thesis
      unfolding emit_sequence_def using c(1) by (intro comes_before_in_concat [of "?oc ?c"]) auto
  qed
qed

section \<open>The text\<close>

text \<open>One text inside another, and one after another inside a third.\<close>

definition has_part :: "string \<Rightarrow> string \<Rightarrow> bool" where
  "has_part s x \<longleftrightarrow> (\<exists>u v. s = u @ x @ v)"

definition has_parts :: "string \<Rightarrow> string \<Rightarrow> string \<Rightarrow> bool" where
  "has_parts s x y \<longleftrightarrow> (\<exists>u v w. s = u @ x @ v @ y @ w)"

lemma has_part_append: "has_part s x \<Longrightarrow> has_part (u @ s @ v) x"
  unfolding has_part_def by (metis append.assoc)

lemma has_parts_append: "has_parts s x y \<Longrightarrow> has_parts (u @ s @ v) x y"
  unfolding has_parts_def by (metis append.assoc)

lemma has_parts_across: "has_part s x \<Longrightarrow> has_part t y \<Longrightarrow> has_parts (u @ s @ v @ t @ w) x y"
  unfolding has_part_def has_parts_def by (metis append.assoc)

lemma join_str_part: "x \<in> set xs \<Longrightarrow> has_part (join_str sep xs) x"
proof (induction sep xs rule: join_str.induct)
  case (2 sep y)
  then show ?case by (auto simp: has_part_def intro: exI [of _ "[]"])
next
  case (3 sep y z zs)
  show ?case
  proof (cases "x = y")
    case True
    then show ?thesis
      unfolding has_part_def by (intro exI [of _ "[]"] exI [of _ "sep @ join_str sep (z # zs)"]) simp
  next
    case False
    then have "has_part (join_str sep (z # zs)) x"
      using 3 by simp
    from has_part_append [OF this, of "y @ sep" "[]"] show ?thesis
      by simp
  qed
qed simp

lemma join_str_split: "ys \<noteq> [] \<Longrightarrow> xs \<noteq> [] \<Longrightarrow> join_str sep (xs @ ys) = join_str sep xs @ sep @ join_str sep ys"
proof (induction sep xs rule: join_str.induct)
  case (2 sep x)
  then show ?case by (cases ys) auto
qed simp_all

lemma join_str_parts:
  assumes "xs = us @ x # vs @ y # ws"
  shows "has_parts (join_str sep xs) x y"
proof -
  have "join_str sep xs = join_str sep (us @ [x]) @ sep @ join_str sep (vs @ y # ws)"
    unfolding assms using join_str_split [of "vs @ y # ws" "us @ [x]" sep] by simp
  moreover have "has_part (join_str sep (us @ [x])) x" "has_part (join_str sep (vs @ y # ws)) y"
    by (simp_all add: join_str_part)
  ultimately show ?thesis
    using has_parts_across [of _ x _ y "[]" sep "[]"] by simp
qed

lemma rmap_eq_Inr: "rmap f xs = Inr ys \<longleftrightarrow> list_all2 (\<lambda>x y. f x = Inr y) xs ys"
proof (induction xs arbitrary: ys)
  case (Cons x xs)
  then show ?case
    by (cases ys) (auto simp: rbind_eq_Inr)
qed auto

lemma rmap_mem: "rmap f xs = Inr ys \<Longrightarrow> x \<in> set xs \<Longrightarrow> \<exists>y \<in> set ys. f x = Inr y"
  by (auto simp: rmap_eq_Inr list_all2_conv_all_nth in_set_conv_nth)

lemma rmap_append:
  "rmap f (xs @ zs) = Inr ys \<Longrightarrow> \<exists>us vs. ys = us @ vs \<and> rmap f xs = Inr us \<and> rmap f zs = Inr vs"
  by (auto simp: rmap_eq_Inr list_all2_append1)

lemma rmap_Cons:
  "rmap f (x # xs) = Inr ys \<Longrightarrow> \<exists>v vs. ys = v # vs \<and> f x = Inr v \<and> rmap f xs = Inr vs"
  unfolding rmap_eq_Inr by (auto simp: list_all2_Cons1)

lemma component_text_part:
  assumes run: "component_sql env p c = Inr t" and a: "a \<in> set (ordered_component env p c)"
    and x: "node_sql env p a = Inr (Some x)"
  shows "has_part t x"
proof -
  from run obtain inner where inner: "rmap (node_sql env p) (ordered_component env p c) = Inr inner"
    and t: "t = block_text (nl @ nl) (List.map_filter (\<lambda>x. x) inner)"
    by (auto simp: component_sql_def ordered_component_def elim!: rbindE)
  from rmap_mem [OF inner a] x have "Some x \<in> set inner"
    by auto
  then have "x \<in> set (List.map_filter (\<lambda>x. x) inner)"
    by (force simp: map_filter_def)
  then show ?thesis
    unfolding t block_text_def by (auto intro!: has_part_append join_str_part)
qed

lemma component_text_parts:
  assumes run: "component_sql env p c = Inr t" and ab: "comes_before (ordered_component env p c) a b"
    and x: "node_sql env p a = Inr (Some x)" and y: "node_sql env p b = Inr (Some y)"
  shows "has_parts t x y"
proof -
  from run obtain inner where inner: "rmap (node_sql env p) (ordered_component env p c) = Inr inner"
    and t: "t = block_text (nl @ nl) (List.map_filter (\<lambda>x. x) inner)"
    by (auto simp: component_sql_def ordered_component_def elim!: rbindE)
  from ab obtain us vs where o: "ordered_component env p c = us @ b # vs" and "a \<in> set us"
    by (auto simp: comes_before_def)
  then obtain u1 u2 where us: "us = u1 @ a # u2"
    by (blast dest: split_list)
  from inner obtain i1 i2 i3 where "inner = i1 @ Some x # i2 @ Some y # i3"
    unfolding o us using x y by (fastforce dest!: rmap_append rmap_Cons)
  then have eq: "List.map_filter (\<lambda>x. x) inner = List.map_filter (\<lambda>x. x) i1 @ x # List.map_filter (\<lambda>x. x) i2
      @ y # List.map_filter (\<lambda>x. x) i3"
    by (simp add: map_filter_def)
  show ?thesis
    using has_parts_append [OF join_str_parts [OF eq]] by (simp add: t block_text_def eq)
qed

lemma comes_before_cases:
  assumes "comes_before (xs @ ys) a b"
  shows "comes_before xs a b \<or> a \<in> set xs \<and> b \<in> set ys \<or> comes_before ys a b"
proof -
  from assms obtain us vs where "xs @ ys = us @ b # vs" and a: "a \<in> set us"
    by (auto simp: comes_before_def)
  then consider zs where "xs = us @ b # zs" | zs where "us = xs @ zs" "ys = zs @ b # vs"
    by (auto simp: append_eq_append_conv2 append_eq_Cons_conv Cons_eq_append_conv)
  then show ?thesis
    using a by cases (auto simp: comes_before_def)
qed

text \<open>The script has the text of every node, and of two nodes in the order of the sequence.\<close>

lemma script_text:
  assumes "rmap (component_sql env p) cs = Inr ts" and "comes_before (concat (map (ordered_component env p) cs)) a b"
    and x: "node_sql env p a = Inr (Some x)" and y: "node_sql env p b = Inr (Some y)"
  shows "has_parts (concat ts) x y"
  using assms(1,2)
proof (induction cs arbitrary: ts)
  case (Cons c cs)
  from Cons.prems(1) obtain t ts' where ts: "ts = t # ts'" and t: "component_sql env p c = Inr t"
    and ts': "rmap (component_sql env p) cs = Inr ts'"
    using rmap_Cons by metis
  let ?oc = "ordered_component env p"
  have later: "has_part (concat ts') z" if "n \<in> set (concat (map ?oc cs))" "node_sql env p n = Inr (Some z)" for n z
  proof -
    from that(1) obtain d where d: "d \<in> set cs" "n \<in> set (?oc d)"
      by auto
    from rmap_mem [OF ts' d(1)] obtain u where u: "u \<in> set ts'" "component_sql env p d = Inr u"
      by blast
    from split_list [OF u(1)] obtain t1 t2 where "ts' = t1 @ u # t2"
      by blast
    then show ?thesis
      using has_part_append [OF component_text_part [OF u(2) d(2) that(2)]] by simp
  qed
  from Cons.prems(2) consider "comes_before (?oc c) a b"
    | "a \<in> set (?oc c)" "b \<in> set (concat (map ?oc cs))" | "comes_before (concat (map ?oc cs)) a b"
    using comes_before_cases [of "?oc c" "concat (map ?oc cs)"] by auto
  then show ?case
  proof cases
    case 1
    from has_parts_append [OF component_text_parts [OF t this x y], of "[]"] show ?thesis
      by (simp add: ts)
  next
    case 2
    from has_parts_across [OF component_text_part [OF t 2(1) x] later [OF 2(2) y], of "[]" "[]" "[]"] show ?thesis
      by (simp add: ts)
  next
    case 3
    from has_parts_append [OF Cons.IH [OF ts' 3], of t "[]"] show ?thesis
      by (simp add: ts)
  qed
qed (simp add: comes_before_def)

lemma to_sql_text:
  assumes "to_sql env p = Inr s" and "comes_before (emit_sequence env p) a b"
    and "node_sql env p a = Inr (Some x)" and "node_sql env p b = Inr (Some y)"
  shows "has_parts s x y"
proof -
  from assms(1) obtain ts where "rmap (component_sql env p) (components env p) = Inr ts" and "s = concat ts"
    by (auto simp: to_sql_def map_res_def split: sum.splits)
  then show ?thesis
    using script_text assms(2-4) unfolding emit_sequence_def by blast
qed

end
