(* ===== verification/Example_Extension.thy ===== *)
theory Example_Extension
  imports Build_Facts
begin

text \<open>
  A small extension, built by evaluation: the input of the witnesses of the properties of \<open>build\<close> and
  of the emission.
\<close>

section \<open>The entities\<close>

text \<open>
  A schema with an enum and a function on it, a type with its input and output functions, a bootstrap
  block and a block that requires the function.
\<close>

definition bx_type :: "string \<Rightarrow> TypeOrigin \<Rightarrow> string \<Rightarrow> UsedTypeEntity" where
  "bx_type ident origin sql =
     \<lparr>ut_ty_source = ident, ut_full_path = ident, ut_composite_type = None, ut_variadic = False,
      ut_default = None, ut_optional = False,
      ut_metadata = resolved ident origin (Inr (SqlMapping.As sql)) (Inr (Returns.One (SqlMapping.As sql)))\<rparr>"

definition bx_config :: ToSqlConfigEntity where
  "bx_config = \<lparr>tsc_enabled = True, tsc_content = None\<rparr>"

definition bx_extern :: "string \<Rightarrow> string \<Rightarrow> UsedTypeEntity \<Rightarrow> UsedTypeEntity \<Rightarrow> PgExternEntity" where
  "bx_extern name module arg ret =
     \<lparr>pe_name = name, pe_unaliased_name = name, pe_module_path = module,
      pe_full_path = module @ ''::'' @ name, pe_fn_args = [\<lparr>pa_pattern = ''x'', pa_used_ty = arg\<rparr>],
      pe_fn_return = RetType ret, pe_schema = None, pe_file = ''lib.rs'', pe_line = 4,
      pe_extern_attrs = [], pe_search_path = None, pe_operator = None, pe_cast = None,
      pe_to_sql_config = bx_config\<rparr>"

definition bx_block :: "string \<Rightarrow> bool \<Rightarrow> PositioningRef list \<Rightarrow> ExtensionSqlEntity" where
  "bx_block name bootstrap req =
     \<lparr>es_module_path = ''x'', es_full_path = ''x'', es_sql = name, es_file = ''lib.rs'', es_line = 3,
      es_name = name, es_bootstrap = bootstrap, es_finalize = False, es_requires = req, es_creates = []\<rparr>"

definition bx_control :: ControlFile where
  "bx_control = \<lparr>cf_comment = ''c'', cf_default_version = ''1'', cf_module_pathname = None,
     cf_relocatable = False, cf_superuser = False, cf_schema = None, cf_trusted = False\<rparr>"

definition bx_schema :: SchemaEntity where
  "bx_schema = \<lparr>sc_module_path = ''x::s'', sc_name = ''s'', sc_file = ''lib.rs'', sc_line = 1\<rparr>"

definition bx_enum :: PostgresEnumEntity where
  "bx_enum = \<lparr>en_name = ''Mood'', en_file = ''lib.rs'', en_line = 2, en_full_path = ''x::s::Mood'',
     en_module_path = ''x::s'', en_type_ident = ''x::Mood'', en_variants = [''Good''],
     en_to_sql_config = bx_config\<rparr>"

definition bx_ty :: PostgresTypeEntity where
  "bx_ty = \<lparr>ty_name = ''T'', ty_file = ''lib.rs'', ty_line = 5, ty_full_path = ''x::T'', ty_module_path = ''x'',
     ty_type_ident = ''x::T'', ty_in_fn_path = ''t_in'', ty_out_fn_path = ''t_out'',
     ty_receive_fn_path = None, ty_send_fn_path = None, ty_to_sql_config = bx_config, ty_alignment = None\<rparr>"

definition bx_boot :: ExtensionSqlEntity where
  "bx_boot = bx_block ''boot'' True []"

definition bx_last :: ExtensionSqlEntity where
  "bx_last = bx_block ''last'' False [FullPath ''s::rank'']"

definition bx_rank_fn :: PgExternEntity where
  "bx_rank_fn = bx_extern ''rank'' ''x::s'' (bx_type ''x::Mood'' ThisExtension ''Mood'') (bx_type ''i32'' External ''INT'')"

definition bx_in :: PgExternEntity where
  "bx_in = bx_extern ''t_in'' ''x'' (bx_type ''cstr'' External ''cstring'') (bx_type ''x::T'' ThisExtension ''T'')"

definition bx_out :: PgExternEntity where
  "bx_out = bx_extern ''t_out'' ''x'' (bx_type ''x::T'' ThisExtension ''T'') (bx_type ''cstr'' External ''cstring'')"

definition bx_entities :: "SqlGraphEntity list" where
  "bx_entities =
     [SqlGraphEntity.Type bx_ty, Function bx_out, Function bx_rank_fn, Enum bx_enum, CustomSql bx_last, Function bx_in,
      SqlGraphEntity.Schema bx_schema, CustomSql bx_boot, ExtensionRoot bx_control]"

definition bx_tables :: Tables where
  "bx_tables = empty_tables\<lparr>m_extension_sqls := [(bx_boot, 1), (bx_last, 2)], m_schemas := [(bx_schema, 3)],
     m_enums := [(bx_enum, 4)], m_types := [(bx_ty, 5)],
     m_externs := [(bx_rank_fn, 6), (bx_in, 8), (bx_out, 10)], m_builtin_types := [(''i32'', 7), (''cstr'', 9)]\<rparr>"

definition bx_graph :: StableGraph where
  "bx_graph =
     \<lparr>g_nodes = [ExtensionRoot bx_control, CustomSql bx_boot, CustomSql bx_last, SqlGraphEntity.Schema bx_schema,
        Enum bx_enum, SqlGraphEntity.Type bx_ty, Function bx_rank_fn, BuiltinType ''i32'', Function bx_in,
        BuiltinType ''cstr'', Function bx_out],
      g_edges = [(0, 1, By), (0, 2, By), (1, 2, By), (1, 3, By), (0, 4, By), (1, 4, By), (0, 5, By), (1, 5, By),
        (0, 6, By), (1, 6, By), (0, 8, By), (1, 8, By), (0, 10, By), (1, 10, By)]\<rparr>"

section \<open>Evaluation\<close>

lemma bx_neq [simp]:
  "bx_boot \<noteq> bx_last" "bx_last \<noteq> bx_boot" "bx_rank_fn \<noteq> bx_in" "bx_in \<noteq> bx_rank_fn" "bx_rank_fn \<noteq> bx_out"
  "bx_out \<noteq> bx_rank_fn" "bx_in \<noteq> bx_out" "bx_out \<noteq> bx_in"
  by (simp_all add: bx_boot_def bx_last_def bx_block_def bx_rank_fn_def bx_in_def bx_out_def bx_extern_def)

lemma bx_order [simp]:
  "k_ExtensionSqlEntity bx_boot \<le> k_ExtensionSqlEntity bx_last"
  "\<not> k_ExtensionSqlEntity bx_last \<le> k_ExtensionSqlEntity bx_boot"
  "k_PgExternEntity bx_rank_fn \<le> k_PgExternEntity bx_in" "\<not> k_PgExternEntity bx_in \<le> k_PgExternEntity bx_rank_fn"
  "k_PgExternEntity bx_rank_fn \<le> k_PgExternEntity bx_out" "\<not> k_PgExternEntity bx_out \<le> k_PgExternEntity bx_rank_fn"
  "k_PgExternEntity bx_in \<le> k_PgExternEntity bx_out" "\<not> k_PgExternEntity bx_out \<le> k_PgExternEntity bx_in"
  by (simp_all add: k_ExtensionSqlEntity_def k_PgExternEntity_def bx_boot_def bx_last_def bx_block_def
      bx_rank_fn_def bx_in_def bx_out_def bx_extern_def k_str_def k_char_def)

lemma bx_sql_fields [simp]:
  "es_bootstrap bx_boot" "\<not> es_finalize bx_boot" "\<not> es_bootstrap bx_last" "\<not> es_finalize bx_last"
  "es_creates bx_boot = []" "es_creates bx_last = []" "es_requires bx_boot = []"
  "es_requires bx_last = [FullPath ''s::rank'']" "es_module_path bx_boot = ''x''" "es_module_path bx_last = ''x''"
  by (simp_all add: bx_boot_def bx_last_def bx_block_def)

lemma bx_type_fields [simp]:
  "sc_module_path bx_schema = ''x::s''" "en_type_ident bx_enum = ''x::Mood''" "en_module_path bx_enum = ''x::s''"
  "en_name bx_enum = ''Mood''" "ty_name bx_ty = ''T''" "ty_type_ident bx_ty = ''x::T''" "ty_module_path bx_ty = ''x''"
  "ty_in_fn_path bx_ty = ''t_in''" "ty_out_fn_path bx_ty = ''t_out''" "ty_receive_fn_path bx_ty = None"
  "ty_send_fn_path bx_ty = None"
  by (simp_all add: bx_schema_def bx_enum_def bx_ty_def)

lemma bx_extern_refs:
  "arg_refs (bx_extern name module (bx_type a ao as) ret) = [(''argument `x`'', a, a, ao)]"
  "return_refs (bx_extern name module arg (bx_type r ro rs)) = [(''return type'', r, r, ro)]"
  by (simp_all add: bx_extern_def bx_type_def arg_refs_def return_refs_def used_ref_def
      ut_emits_argument_sql_def ut_resolution_def resolved_def arg_slot_def)

lemma bx_fn_refs [simp]:
  "arg_refs bx_rank_fn = [(''argument `x`'', ''x::Mood'', ''x::Mood'', ThisExtension)]"
  "arg_refs bx_in = [(''argument `x`'', ''cstr'', ''cstr'', External)]"
  "arg_refs bx_out = [(''argument `x`'', ''x::T'', ''x::T'', ThisExtension)]"
  "return_refs bx_rank_fn = [(''return type'', ''i32'', ''i32'', External)]"
  "return_refs bx_in = [(''return type'', ''x::T'', ''x::T'', ThisExtension)]"
  "return_refs bx_out = [(''return type'', ''cstr'', ''cstr'', External)]"
  by (simp_all add: bx_rank_fn_def bx_in_def bx_out_def bx_extern_refs)

lemma bx_fn_fields [simp]:
  "pe_name bx_rank_fn = ''rank''" "pe_name bx_in = ''t_in''" "pe_name bx_out = ''t_out''"
  "pe_unaliased_name bx_rank_fn = ''rank''" "pe_unaliased_name bx_in = ''t_in''" "pe_unaliased_name bx_out = ''t_out''"
  "pe_module_path bx_rank_fn = ''x::s''" "pe_module_path bx_in = ''x''" "pe_module_path bx_out = ''x''"
  "pe_full_path bx_rank_fn = ''x::s::rank''" "pe_full_path bx_in = ''x::t_in''" "pe_full_path bx_out = ''x::t_out''"
  "pe_extern_attrs bx_rank_fn = []" "pe_extern_attrs bx_in = []" "pe_extern_attrs bx_out = []"
  by (simp_all add: bx_rank_fn_def bx_in_def bx_out_def bx_extern_def)

lemma bx_sorted:
  "sort_entities bx_entities =
     [ExtensionRoot bx_control, SqlGraphEntity.Schema bx_schema, CustomSql bx_boot, CustomSql bx_last,
      Function bx_rank_fn, Function bx_in, Function bx_out, SqlGraphEntity.Type bx_ty, Enum bx_enum]"
  by (simp add: sort_entities_def bx_entities_def)

lemma bx_split:
  "split_entities bx_entities =
     no_entities\<lparr>se_control := Some bx_control, se_schemas := [bx_schema], se_extension_sqls := [bx_boot, bx_last],
       se_externs := [bx_rank_fn, bx_in, bx_out], se_types := [bx_ty], se_enums := [bx_enum]\<rparr>"
  by (simp add: split_entities_def bx_sorted no_entities_def)

lemma rbind_weak_cong: "r = r' \<Longrightarrow> rbind r f = rbind r' f"
  by simp

lemma bx_nodes:
  "build_nodes (\<lambda>_. 0) bx_control (split_entities bx_entities) =
     Inr \<lparr>i_graph = bx_graph, i_tables = bx_tables, i_root = 0, i_bootstrap = Some 1, i_finalize = None\<rparr>"
  unfolding bx_split
  by (simp add: build_nodes_def no_entities_def add_node_def new_graph_def Let_def initialize_extension_sqls_def
      initialize_extension_sql_def set_bootstrap_def set_finalize_def hm_insert_def extension_sql_edges_def
      hm_iter_def opt_edge_from_def opt_edge_to_def add_edge_def initialize_schemas_def initialize_loop_def
      initialize_items_def initialize_enums_def initialize_types_def initialize_ords_def initialize_hashes_def
      initialize_triggers_def build_base_edges_def ensure_unique_type_targets_def type_locations_def
      declared_locations_def seen_locations_def k_str_def k_char_def empty_tables_def initialize_externs_def
      initialize_extern_def visits visit_refs_def initialize_resolved_type_def hm_get_def
      find_graph_type_target_def find_type_or_enum_def hm_find_def or_else_def find_declared_type_or_enum_def
      initialize_aggregates_def bx_graph_def bx_tables_def cong: rbind_weak_cong let_weak_cong)

lemma bx_fn_path: "find_full_path (\<lambda>_. 0) bx_tables ''s::rank'' = Some 6"
  by code_simp

definition bx_edges :: "(node_index \<times> node_index \<times> SqlGraphRequires) list" where
  "bx_edges = [(0, 3, By), (6, 2, By), (3, 4, By), (8, 5, By), (10, 5, By), (3, 6, By), (4, 6, ByArg),
     (7, 6, ByReturn), (9, 8, ByArg), (5, 8, ByReturn), (5, 10, ByArg), (9, 10, ByReturn)]"

lemma bx_links:
  "build_edges (\<lambda>s. s) (\<lambda>_. 0) bx_tables 0 bx_graph = Inr (bx_graph\<lparr>g_edges := g_edges bx_graph @ bx_edges\<rparr>)"
  by (simp add: build_edges_def connect_schemas_def bx_tables_def empty_tables_def hm_iter_def add_edge_def
      bx_graph_def connect_extension_sqls_def connect_extension_sql_def make_schema_connection_def hm_find_def
      opt_edge_from_def bx_fn_path [unfolded bx_tables_def empty_tables_def, simplified] connect_enums_def
      connect_types_def connect_type_def Let_def make_extern_connection_def resolve_function_path_def
      make_opt_extern_connection_def connect_externs_def connect_extern_refs own_schema_def hash_edges_def
      visit_refs_def connect_resolved_type_def hm_get_def find_graph_type_target_def find_type_or_enum_def
      or_else_def find_declared_type_or_enum_def connect_aggregates_def connect_ords_def connect_hashes_def
      connect_triggers_def bx_edges_def cong: rbind_weak_cong let_weak_cong)

definition bx_sql :: PgrxSql where
  "bx_sql =
     \<lparr>ps_control = bx_control, ps_graph = bx_graph\<lparr>g_edges := g_edges bx_graph @ bx_edges\<rparr>, ps_graph_root = 0,
      ps_graph_bootstrap = Some 1, ps_graph_finalize = None, ps_tables = bx_tables, ps_extension_name = ''x'',
      ps_versioned_so = False, ps_qualify_default_schema = False\<rparr>"

lemma bx_nodes_of:
  "nodes_of bx_sql =
     [ExtensionRoot bx_control, CustomSql bx_boot, CustomSql bx_last, SqlGraphEntity.Schema bx_schema,
      Enum bx_enum, SqlGraphEntity.Type bx_ty, Function bx_rank_fn, BuiltinType ''i32'', Function bx_in,
      BuiltinType ''cstr'', Function bx_out]"
  by (simp add: bx_sql_def bx_graph_def)

lemma bx_entities_in:
  "SqlGraphEntity.Type bx_ty \<in> set bx_entities" "Function bx_out \<in> set bx_entities" "Function bx_in \<in> set bx_entities"
  "Function bx_rank_fn \<in> set bx_entities" "Enum bx_enum \<in> set bx_entities" "CustomSql bx_last \<in> set bx_entities"
  "CustomSql bx_boot \<in> set bx_entities" "SqlGraphEntity.Schema bx_schema \<in> set bx_entities"
  by (simp_all add: bx_entities_def)

lemma bx_build: "build (\<lambda>s. s) (\<lambda>_. 0) bx_entities ''x'' False = Inr bx_sql"
proof -
  have "se_control (split_entities bx_entities) = Some bx_control"
    by (simp add: bx_split no_entities_def)
  then show ?thesis
    by (simp add: build_def Let_def bx_nodes bx_links bx_sql_def)
qed

end
