(* ===== verification/Build_Properties.thy ===== *)
theory Build_Properties
  imports Example_Extension
begin

text \<open>
  The properties of \<open>PgrxSql::build\<close>: the graph has every entity as a node and every dependency as an
  edge, and a mistake in the entities is an error of the build.
\<close>

section \<open>Dependencies of an entity\<close>

text \<open>A node provides a type: a placeholder an external one, a declaration one of this extension.\<close>

definition provides_type :: "SqlGraphEntity \<Rightarrow> string \<Rightarrow> TypeOrigin \<Rightarrow> bool" where
  "provides_type node ident origin \<longleftrightarrow>
     type_ident_matches node ident \<and> (origin = External \<longleftrightarrow> node = BuiltinType ident)"

fun entity_type_refs :: "SqlGraphEntity \<Rightarrow> (SqlGraphRequires \<times> type_ref) list" where
  "entity_type_refs (Function e) = map (Pair ByArg) (arg_refs e) @ map (Pair ByReturn) (return_refs e)"
| "entity_type_refs (Aggregate e) = map (Pair ByArg) (aggregate_refs e)"
| "entity_type_refs _ = []"

fun entity_requires :: "SqlGraphEntity \<Rightarrow> PositioningRef list" where
  "entity_requires (CustomSql e) = es_requires e"
| "entity_requires (Function e) =
     concat (map (\<lambda>a. case a of Requires refs \<Rightarrow> refs | _ \<Rightarrow> []) (pe_extern_attrs e))"
| "entity_requires _ = []"

fun support_fn_paths :: "SqlGraphEntity \<Rightarrow> string list" where
  "support_fn_paths (SqlGraphEntity.Type e) = map the (filter (\<lambda>x. x \<noteq> None) (type_fns e))"
| "support_fn_paths (Aggregate e) = map the (filter (\<lambda>x. x \<noteq> None) (aggregate_fn_paths e))"
| "support_fn_paths _ = []"

text \<open>The module whose schema an entity goes to when it names no schema itself.\<close>

fun entity_module :: "SqlGraphEntity \<Rightarrow> string option" where
  "entity_module (CustomSql e) = Some (es_module_path e)"
| "entity_module (SqlGraphEntity.Type e) = Some (ty_module_path e)"
| "entity_module (Enum e) = Some (en_module_path e)"
| "entity_module (Aggregate e) = Some (ag_module_path e)"
| "entity_module (Trigger e) = Some (tr_module_path e)"
| "entity_module _ = None"

text \<open>Which entities a position \<open>before\<close> or \<open>requires\<close> can mean.\<close>

fun ref_names :: "PositioningRef \<Rightarrow> SqlGraphEntity \<Rightarrow> bool" where
  "ref_names (PositioningRef.Name name) (CustomSql e) = (es_name e = name)"
| "ref_names (FullPath path) (SqlGraphEntity.Schema e) = ends_with (sc_module_path e) path"
| "ref_names (FullPath path) (SqlGraphEntity.Type e) =
     (last (split_str ''::'' path) = ty_name e
      \<and> ends_with (ty_module_path e) (join_str ''::'' (butlast (split_str ''::'' path))))"
| "ref_names (FullPath path) (Enum e) =
     (last (split_str ''::'' path) = en_name e
      \<and> ends_with (en_module_path e) (join_str ''::'' (butlast (split_str ''::'' path))))"
| "ref_names (FullPath path) (Function e) =
     (last (split_str ''::'' path) = pe_unaliased_name e
      \<and> ends_with (pe_module_path e) (join_str ''::'' (butlast (split_str ''::'' path))))"
| "ref_names (FullPath path) (Trigger e) =
     (last (split_str ''::'' path) = tr_function_name e
      \<and> ends_with (tr_module_path e) (join_str ''::'' (butlast (split_str ''::'' path))))"
| "ref_names _ _ = False"

section \<open>What the lookups find\<close>

lemma or_else_Some: "or_else x y = Some a \<longleftrightarrow> x = Some a \<or> (x = None \<and> y = Some a)"
  by (cases x) (simp_all add: or_else_def)

lemma find_holds:
  assumes "hm_find rank P m = Some a" and "holds_items into Q items g m"
  obtains k where "a < length (g_nodes g)" and "g_nodes g ! a = into k" and "P k"
proof -
  from assms(1) obtain k where k: "(k, a) \<in> set m" and P: "P k"
    by (rule hm_find_Some)
  from that [OF holds_node(1,2) [OF assms(2) k] P] show thesis .
qed

lemma ref_target_provides:
  assumes "built rank es p" and target: "ref_target rank (ps_tables p) (slot, path, ident, origin) = Some a"
  shows "a < length (nodes_of p) \<and> provides_type (nodes_of p ! a) ident origin"
proof (cases "origin = External")
  case True
  then have "(ident, a) \<in> set (m_builtin_types (ps_tables p))"
    using target by (simp add: ref_target_def hm_get_Some)
  then show ?thesis
    using built_tables(10) [OF assms(1)] True by (auto simp: points_def provides_type_def)
next
  case False
  note tables = built_tables [OF assms(1)]
  from False target consider
      "hm_find rank (\<lambda>ty. ty_type_ident ty = ident) (m_types (ps_tables p)) = Some a"
    | "hm_find rank (\<lambda>en. en_type_ident en = ident) (m_enums (ps_tables p)) = Some a"
    | "hm_find rank (\<lambda>item. list_ex (\<lambda>d. decl_matches_type_ident d ident) (es_creates item))
         (m_extension_sqls (ps_tables p)) = Some a"
    by (auto simp: ref_target_def find_graph_type_target_def find_type_or_enum_def
        find_declared_type_or_enum_def or_else_Some)
  then show ?thesis
  proof cases
    case 1
    then show ?thesis using tables(4) by (rule find_holds) (simp add: provides_type_def False)
  next
    case 2
    then show ?thesis using tables(3) by (rule find_holds) (simp add: provides_type_def False)
  next
    case 3
    then show ?thesis using tables(1) by (rule find_holds) (simp add: provides_type_def False)
  qed
qed

lemma position_target_named:
  assumes "built rank es p" and target: "find_positioning_ref_target rank (ps_tables p) r = Some a"
  shows "a < length (nodes_of p) \<and> ref_names r (nodes_of p ! a)"
proof (cases r)
  case (Name name)
  with target have "hm_find rank (\<lambda>o'. es_name o' = name) (m_extension_sqls (ps_tables p)) = Some a"
    by simp
  then show ?thesis
    using built_tables(1) [OF assms(1)] by (rule find_holds) (simp add: Name)
next
  case (FullPath path)
  note tables = built_tables [OF assms(1)]
  let ?l = "last (split_str ''::'' path)" and ?m = "join_str ''::'' (butlast (split_str ''::'' path))"
  from target consider
      "hm_find rank (\<lambda>o'. ?l = ty_name o' \<and> ends_with (ty_module_path o') ?m) (m_types (ps_tables p)) = Some a"
    | "hm_find rank (\<lambda>o'. ?l = en_name o' \<and> ends_with (en_module_path o') ?m) (m_enums (ps_tables p)) = Some a"
    | "hm_find rank (\<lambda>o'. ?l = pe_unaliased_name o' \<and> ends_with (pe_module_path o') ?m)
         (m_externs (ps_tables p)) = Some a"
    | "hm_find rank (\<lambda>o'. ends_with (sc_module_path o') path) (m_schemas (ps_tables p)) = Some a"
    | "hm_find rank (\<lambda>o'. ?l = tr_function_name o' \<and> ends_with (tr_module_path o') ?m)
         (m_triggers (ps_tables p)) = Some a"
    by (auto simp: FullPath find_full_path_def Let_def or_else_Some)
  then show ?thesis
  proof cases
    case 1
    then show ?thesis using tables(4) by (rule find_holds) (simp add: FullPath)
  next
    case 2
    then show ?thesis using tables(3) by (rule find_holds) (simp add: FullPath)
  next
    case 3
    then show ?thesis using tables(5) by (rule find_holds) (simp add: FullPath)
  next
    case 4
    then show ?thesis using tables(2) by (rule find_holds) (simp add: FullPath)
  next
    case 5
    then show ?thesis using tables(9) by (rule find_holds) (simp add: FullPath)
  qed
qed

lemma linkedE:
  assumes "linked x i w g"
  obtains a where "x = Some a" and "(a, i, w) \<in> set (g_edges g)"
  using assms by (auto simp: linked_def)

lemma in_the_filter: "x \<in> set (map the (filter (\<lambda>y. y \<noteq> None) xs)) \<longleftrightarrow> Some x \<in> set xs"
  by force

lemma entity_links:
  assumes "built rank es p" and "e \<in> set es"
  shows "(req, ref) \<in> set (entity_type_refs e) \<Longrightarrow>
      \<exists>i < length (nodes_of p). nodes_of p ! i = e \<and> linked (ref_target rank (ps_tables p) ref) i req (ps_graph p)"
    and "r \<in> set (entity_requires e) \<Longrightarrow>
      \<exists>i < length (nodes_of p). nodes_of p ! i = e
        \<and> linked (find_positioning_ref_target rank (ps_tables p) r) i By (ps_graph p)"
    and "path \<in> set (support_fn_paths e) \<Longrightarrow>
      \<exists>i < length (nodes_of p). nodes_of p ! i = e \<and> linked (extern_at rank (ps_tables p) path) i By (ps_graph p)"
proof -
  note tables = built_tables [OF assms(1)]
  note links = builtD(7) [OF assms(1), unfolded links_done_def]
  show "\<exists>i < length (nodes_of p). nodes_of p ! i = e \<and> linked (ref_target rank (ps_tables p) ref) i req (ps_graph p)"
    if "(req, ref) \<in> set (entity_type_refs e)"
    using that
  proof (cases e)
    case (Function f)
    then have "f \<in> set (se_externs (split_entities es))"
      using assms(2) by simp
    with tables(5) show ?thesis
      by (rule holds_entry) (use that links Function in fastforce)
  next
    case (Aggregate f)
    then have "f \<in> set (se_aggregates (split_entities es))"
      using assms(2) by simp
    with tables(8) show ?thesis
      by (rule holds_entry) (use that links Aggregate in fastforce)
  qed simp_all
  show "\<exists>i < length (nodes_of p). nodes_of p ! i = e
      \<and> linked (find_positioning_ref_target rank (ps_tables p) r) i By (ps_graph p)"
    if req: "r \<in> set (entity_requires e)"
    using req
  proof (cases e)
    case (CustomSql f)
    then have "f \<in> set (se_extension_sqls (split_entities es))"
      using assms(2) by simp
    with tables(1) show ?thesis
      by (rule holds_entry) (use req links CustomSql in fastforce)
  next
    case (Function f)
    then obtain refs where refs: "Requires refs \<in> set (pe_extern_attrs f)" "r \<in> set refs"
      using req by (auto split: ExternArgs.splits)
    have "f \<in> set (se_externs (split_entities es))"
      using assms(2) Function by simp
    with tables(5) show ?thesis
      by (rule holds_entry) (use refs links Function in fastforce)
  qed simp_all
  show "\<exists>i < length (nodes_of p). nodes_of p ! i = e \<and> linked (extern_at rank (ps_tables p) path) i By (ps_graph p)"
    if "path \<in> set (support_fn_paths e)"
    using that
  proof (cases e)
    case (Type f)
    then have f: "f \<in> set (se_types (split_entities es))" and path: "Some path \<in> set (type_fns f)"
      using assms(2) that by (simp_all only: support_fn_paths.simps in_the_filter split_sets) simp
    from tables(4) f show ?thesis
      by (rule holds_entry) (use path links Type in fastforce)
  next
    case (Aggregate f)
    then have f: "f \<in> set (se_aggregates (split_entities es))" and path: "Some path \<in> set (aggregate_fn_paths f)"
      using assms(2) that by (simp_all only: support_fn_paths.simps in_the_filter split_sets) simp
    from tables(8) f show ?thesis
      by (rule holds_entry) (use path links Aggregate in fastforce)
  qed simp_all
qed

text \<open>Every entity with its node, and the edges its node was given in the first phase.\<close>

fun bootstraps :: "SqlGraphEntity \<Rightarrow> bool" where
  "bootstraps (CustomSql e) = es_bootstrap e"
| "bootstraps _ = False"

fun finalizes :: "SqlGraphEntity \<Rightarrow> bool" where
  "finalizes (CustomSql e) = es_finalize e"
| "finalizes _ = False"

lemma entity_is_node:
  assumes "built rank es p" and "e \<in> set es"
  shows "(\<exists>c. e = ExtensionRoot c) \<or> (\<exists>t. e = BuiltinType t)
    \<or> (\<exists>i < length (nodes_of p). nodes_of p ! i = e
        \<and> (0, i, By) \<in> set (edges_of p)
        \<and> (\<forall>b. ps_graph_bootstrap p = Some b \<longrightarrow> bootstraps e \<or> (b, i, By) \<in> set (edges_of p))
        \<and> (\<forall>f. ps_graph_finalize p = Some f \<longrightarrow> finalizes e \<or> (i, f, By) \<in> set (edges_of p)))"
proof -
  note tables = built_tables [OF assms(1), unfolded sql_based_def based_def anchored_def]
  note schemas = builtD(8) [OF assms(1), unfolded schemas_done_def]
  show ?thesis
  proof (cases e)
    case (Schema x)
    then have "x \<in> set (se_schemas (split_entities es))" using assms(2) by simp
    with tables(2) show ?thesis by (rule holds_entry) (use Schema schemas in auto)
  next
    case (CustomSql x)
    then have "x \<in> set (se_extension_sqls (split_entities es))" using assms(2) by simp
    with tables(1) show ?thesis by (rule holds_entry) (use CustomSql in \<open>auto split: if_splits\<close>)
  next
    case (Function x)
    then have "x \<in> set (se_externs (split_entities es))" using assms(2) by simp
    with tables(5) show ?thesis by (rule holds_entry) (use Function in auto)
  next
    case (Type x)
    then have "x \<in> set (se_types (split_entities es))" using assms(2) by simp
    with tables(4) show ?thesis by (rule holds_entry) (use Type in auto)
  next
    case (Enum x)
    then have "x \<in> set (se_enums (split_entities es))" using assms(2) by simp
    with tables(3) show ?thesis by (rule holds_entry) (use Enum in auto)
  next
    case (Ord x)
    then have "x \<in> set (se_ords (split_entities es))" using assms(2) by simp
    with tables(6) show ?thesis by (rule holds_entry) (use Ord in auto)
  next
    case (Hash x)
    then have "x \<in> set (se_hashes (split_entities es))" using assms(2) by simp
    with tables(7) show ?thesis by (rule holds_entry) (use Hash in auto)
  next
    case (Aggregate x)
    then have "x \<in> set (se_aggregates (split_entities es))" using assms(2) by simp
    with tables(8) show ?thesis by (rule holds_entry) (use Aggregate in auto)
  next
    case (Trigger x)
    then have "x \<in> set (se_triggers (split_entities es))" using assms(2) by simp
    with tables(9) show ?thesis by (rule holds_entry) (use Trigger in auto)
  qed simp_all
qed

text \<open>One entity at most satisfies \<open>Q\<close>, and \<open>x\<close> is its node.\<close>

definition at_most_one ::
  "(SqlGraphEntity \<Rightarrow> bool) \<Rightarrow> SqlGraphEntity list \<Rightarrow> SqlGraphEntity list \<Rightarrow> node_index option \<Rightarrow> bool" where
  "at_most_one Q es nodes x \<longleftrightarrow>
     (case x of
        None \<Rightarrow> \<forall>e \<in> set es. \<not> Q e
      | Some i \<Rightarrow> i < length nodes \<and> (\<forall>e. e \<in> set es \<and> Q e \<longleftrightarrow> e = nodes ! i))"

lemma bootstraps_iff: "bootstraps e \<longleftrightarrow> (\<exists>y. e = CustomSql y \<and> es_bootstrap y)"
  by (cases e) simp_all

lemma finalizes_iff: "finalizes e \<longleftrightarrow> (\<exists>y. e = CustomSql y \<and> es_finalize y)"
  by (cases e) simp_all

lemma position_spec:
  assumes ok: "position_ok sel (se_extension_sqls (split_entities es)) g x"
    and Q: "\<And>e. Q e \<longleftrightarrow> (\<exists>y. e = CustomSql y \<and> sel y)"
  shows "at_most_one Q es (g_nodes g) x"
proof (cases x)
  case None
  with ok have "filter sel (se_extension_sqls (split_entities es)) = []"
    by (simp add: position_ok_def)
  then have "set (filter sel (se_extension_sqls (split_entities es))) = {}"
    by simp
  then show ?thesis
    by (auto simp: None at_most_one_def Q)
next
  case (Some i)
  with ok obtain y where i: "i < length (g_nodes g)" "g_nodes g ! i = CustomSql y"
    and "filter sel (se_extension_sqls (split_entities es)) = [y]"
    by (auto simp: position_ok_def)
  then have "set (filter sel (se_extension_sqls (split_entities es))) = {y}"
    by simp
  then have "CustomSql z \<in> set es \<and> sel z \<longleftrightarrow> z = y" for z
    by auto
  then show ?thesis
    using i by (auto simp: Some at_most_one_def Q)
qed

section \<open>Unique type identifiers\<close>

lemma unique_targets_iff:
  "ensure_unique_type_targets rank t = Inr () \<longleftrightarrow> distinct (map fst (type_locations rank t))"
proof -
  have count: "length (seen_locations seen i) = count_list (map fst seen) i" for seen i
    by (induction seen) (auto simp: seen_locations_def)
  have "distinct xs \<longleftrightarrow> (\<forall>x \<in> set xs. \<not> 1 < count_list xs x)" for xs :: "string list"
    by (induction xs) (auto simp: count_list_0_iff)
  then show ?thesis
    by (auto simp: ensure_unique_type_targets_def Let_def count find_None_iff split: option.splits
        dest!: find_SomeD)
qed

lemma hm_find_unique:
  assumes "\<And>p q. p \<in> set m \<Longrightarrow> q \<in> set m \<Longrightarrow> P (fst p) \<Longrightarrow> P (fst q) \<Longrightarrow> p = q"
  shows "hm_find rank P m = hm_find rank' P m"
proof (cases "hm_find rank P m")
  case None
  then have "hm_find rank' P m = None"
    by (simp add: hm_find_None)
  with None show ?thesis by simp
next
  case (Some i)
  then obtain k where k: "(k, i) \<in> set m" "P k"
    by (rule hm_find_Some)
  then have "hm_find rank' P m \<noteq> None"
    by (auto simp: hm_find_None)
  then obtain j where j: "hm_find rank' P m = Some j"
    by blast
  then obtain l where "(l, j) \<in> set m" "P l"
    by (rule hm_find_Some)
  with k assms [of "(k, i)" "(l, j)"] Some j show ?thesis
    by simp
qed

lemma distinct_concat_unique:
  assumes "distinct (map fst (concat (map D xs)))" and "x \<in> set xs" and "y \<in> set xs"
    and "i \<in> fst ` set (D x)" and "i \<in> fst ` set (D y)"
  shows "x = y"
  using assms by (induction xs) force+

lemma declares_iff:
  "list_ex (\<lambda>d. decl_matches_type_ident d i) (es_creates item) \<longleftrightarrow> i \<in> fst ` set (declared_locations item)"
  by (force simp: list_ex_iff decl_matches_type_ident_def declared_locations_def split: option.splits)

lemma type_targets_any_order:
  assumes "distinct (map fst (type_locations rank t))"
  shows "find_graph_type_target rank' i t = find_graph_type_target rank i t"
proof -
  let ?types = "map (\<lambda>(ty, _). (ty_type_ident ty, ''type `'' @ ty_full_path ty @ ''`'')) (hm_iter rank (m_types t))"
  let ?enums = "map (\<lambda>(en, _). (en_type_ident en, ''enum `'' @ en_full_path en @ ''`'')) (hm_iter rank (m_enums t))"
  let ?sqls = "concat (map (\<lambda>(item, _). declared_locations item) (hm_iter rank (m_extension_sqls t)))"
  have d: "distinct (map fst ?types)" "distinct (map fst ?enums)" "distinct (map fst ?sqls)"
    using assms unfolding type_locations_def map_append distinct_append by blast+
  have "p = q" if "p \<in> set (m_types t)" "q \<in> set (m_types t)" "ty_type_ident (fst p) = ty_type_ident (fst q)" for p q
    using d(1) that by (auto simp: distinct_map comp_def split_def dest: inj_onD)
  then have types: "hm_find rank' (\<lambda>ty. ty_type_ident ty = i) (m_types t) =
      hm_find rank (\<lambda>ty. ty_type_ident ty = i) (m_types t)"
    by (intro hm_find_unique) simp
  have "p = q" if "p \<in> set (m_enums t)" "q \<in> set (m_enums t)" "en_type_ident (fst p) = en_type_ident (fst q)" for p q
    using d(2) that by (auto simp: distinct_map comp_def split_def dest: inj_onD)
  then have enums: "hm_find rank' (\<lambda>en. en_type_ident en = i) (m_enums t) =
      hm_find rank (\<lambda>en. en_type_ident en = i) (m_enums t)"
    by (intro hm_find_unique) simp
  have "hm_find rank' (\<lambda>item. i \<in> fst ` set (declared_locations item)) (m_extension_sqls t) =
      hm_find rank (\<lambda>item. i \<in> fst ` set (declared_locations item)) (m_extension_sqls t)"
    by (rule hm_find_unique, rule distinct_concat_unique [OF d(3), where i = i]) (simp_all add: split_def)
  with types enums show ?thesis
    by (simp add: find_graph_type_target_def find_type_or_enum_def find_declared_type_or_enum_def declares_iff)
qed

section \<open>Panics\<close>

definition calm :: "build_error + 'a \<Rightarrow> bool" where
  "calm r \<longleftrightarrow> (\<forall>msg. r \<noteq> Inl (Panicked msg))"

lemma calm_Inr [simp]: "calm (Inr x)"
  by (simp add: calm_def)

lemma calm_rbind: "calm r \<Longrightarrow> (\<And>x. calm (f x)) \<Longrightarrow> calm (rbind r f)"
  by (cases r) (simp_all add: calm_def)

lemma calm_rfold: "(\<And>x s. calm (f x s)) \<Longrightarrow> calm (rfold f xs s)"
proof (induction xs arbitrary: s)
  case (Cons x xs)
  then show ?case by (simp add: calm_rbind)
qed simp

lemma calm_visit_refs: "(\<And>slot path r s. calm (f slot path r s)) \<Longrightarrow> calm (visit_refs f refs s)"
  unfolding visit_refs_def by (rule calm_rfold) (simp add: split_def)

lemma initialize_resolved_type_calm: "calm (initialize_resolved_type rank t k o' slot path r st)"
  by (simp add: initialize_resolved_type_def Let_def calm_def split: option.split prod.split)

lemma connect_resolved_type_calm: "calm (connect_resolved_type rank t i req k o' slot path r g)"
  by (simp add: connect_resolved_type_def Let_def calm_def split: option.split prod.split)

lemma opt_extern_calm: "calm (make_opt_extern_connection rank t i p g)"
  by (simp add: make_opt_extern_connection_def make_extern_connection_def calm_def split: option.split)

lemma extension_sqls_calm: "calm (initialize_extension_sqls rank root items g)"
proof -
  have "calm (initialize_extension_sql item s)" for item s
    by (simp add: initialize_extension_sql_def set_bootstrap_def set_finalize_def Let_def rbind_def calm_def
        split: option.split sum.split prod.split)
  then show ?thesis
    unfolding initialize_extension_sqls_def by (intro calm_rbind calm_rfold calm_Inr)
qed

lemma externs_calm: "calm (initialize_externs rank t root b f items g)"
  unfolding initialize_externs_def initialize_extern_def visits
  by (rule calm_rfold) (auto simp: Let_def split_def
      intro!: calm_rbind calm_visit_refs initialize_resolved_type_calm)

lemma aggregates_calm: "calm (initialize_aggregates rank t root b f items st)"
  unfolding initialize_aggregates_def initialize_aggregate_def visits
  by (rule calm_rfold) (auto simp: Let_def split_def
      intro!: calm_rbind calm_visit_refs initialize_resolved_type_calm)

lemma unique_calm: "calm (ensure_unique_type_targets rank t)"
  by (simp add: ensure_unique_type_targets_def Let_def calm_def split: option.split)

lemma build_nodes_calm: "calm (build_nodes rank control se)"
  unfolding build_nodes_def Let_def split_def
  by (intro calm_rbind extension_sqls_calm unique_calm externs_calm aggregates_calm calm_Inr)

lemma connect_extern_attr_calm: "calm (connect_extern_attr rank t i a s)"
proof (cases a)
  case (Requires refs)
  show ?thesis
    unfolding Requires connect_extern_attr.simps
    by (rule calm_rfold) (simp add: calm_def split: option.split prod.split)
qed (cases s; simp add: calm_def Let_def)+

lemma build_edges_calm: "calm (build_edges uni rank t root g)"
proof -
  have "calm (connect_extension_sql rank t q h)" for q h
    unfolding connect_extension_sql_def Let_def split_def
    by (rule calm_rfold) (simp add: calm_def split: option.split)
  moreover have "calm (connect_type rank t q h)" for q h
    by (cases q) (simp only: connect_type_fns calm_rfold opt_extern_calm)
  moreover have "calm (connect_extern uni rank t q h)" for q h
    by (cases q) (auto simp: connect_extern_refs Let_def split_def
        intro!: calm_rbind calm_rfold connect_extern_attr_calm calm_visit_refs connect_resolved_type_calm)
  moreover have "calm (connect_aggregate rank t q h)" for q h
    by (cases q) (auto simp: connect_aggregate_fns
        intro!: calm_rbind calm_rfold opt_extern_calm calm_visit_refs connect_resolved_type_calm)
  ultimately show ?thesis
    unfolding build_edges_def connect_extension_sqls_def connect_types_def connect_externs_def connect_aggregates_def
    by (intro calm_rbind calm_rfold calm_Inr)
qed

section \<open>Properties\<close>

text \<open>
  C7. The graph that \<open>build\<close> returns is complete and closed: its root is the control file, every entity
  of the extension is a node, every other node is a placeholder for an external type, and every edge
  joins two nodes of the graph.
\<close>

theorem build_graph_complete:
  assumes "build uni rank es name so = Inr p"
  shows "nodes_of p ! 0 = ExtensionRoot (ps_control p) \<and> ExtensionRoot (ps_control p) \<in> set es
    \<and> (\<forall>e \<in> set es. (\<exists>c. e = ExtensionRoot c) \<or> (\<exists>t. e = BuiltinType t) \<or> e \<in> set (nodes_of p))
    \<and> set (nodes_of p) \<subseteq> set es \<union> range BuiltinType
    \<and> (\<forall>(a, b, w) \<in> set (edges_of p). a < length (nodes_of p) \<and> b < length (nodes_of p))"
proof (intro conjI ballI)
  note built = build_built [OF assms]
  show "nodes_of p ! 0 = ExtensionRoot (ps_control p)"
    using builtD(3) [OF built] by (simp add: nodes_done_def)
  show "ExtensionRoot (ps_control p) \<in> set es"
    by (rule split_control [OF builtD(1) [OF built]])
  show "set (nodes_of p) \<subseteq> set es \<union> range BuiltinType"
    using builtD(4) [OF built] known_entities [OF builtD(1) [OF built]] by blast
  show "case x of (a, b, w) \<Rightarrow> a < length (nodes_of p) \<and> b < length (nodes_of p)"
    if "x \<in> set (edges_of p)" for x
    using builtD(3) [OF built] that by (simp add: nodes_done_def in_range_def)
  show "(\<exists>c. e = ExtensionRoot c) \<or> (\<exists>t. e = BuiltinType t) \<or> e \<in> set (nodes_of p)"
    if "e \<in> set es" for e
    using entity_is_node [OF built that] by (auto simp: in_set_conv_nth)
qed

theorem build_graph_complete_witness:
  "build (\<lambda>s. s) (\<lambda>_. 0) bx_entities ''x'' False = Inr bx_sql
   \<and> CustomSql bx_last \<in> set (nodes_of bx_sql) \<and> length (nodes_of bx_sql) = 11"
  using build_graph_complete [OF bx_build] bx_entities_in(6) by (simp add: bx_build bx_nodes_of)

text \<open>
  C8. Every type that a function or an aggregate mentions is a dependency: there is an edge to it from
  a node that provides the type, the declaration of a type of this extension or the placeholder of an
  external one. So \<open>build\<close> succeeds only when every type of this extension is declared.
\<close>

theorem type_references_are_edges:
  assumes "build uni rank es name so = Inr p" and "e \<in> set es"
    and "(req, slot, path, ident, origin) \<in> set (entity_type_refs e)"
  shows "\<exists>i a. i < length (nodes_of p) \<and> nodes_of p ! i = e \<and> a < length (nodes_of p)
    \<and> provides_type (nodes_of p ! a) ident origin \<and> (a, i, req) \<in> set (edges_of p)"
proof -
  note built = build_built [OF assms(1)]
  from entity_links(1) [OF built assms(2,3)] obtain i where
    i: "i < length (nodes_of p)" "nodes_of p ! i = e"
    and link: "linked (ref_target rank (ps_tables p) (slot, path, ident, origin)) i req (ps_graph p)"
    by blast
  from link obtain a where a: "ref_target rank (ps_tables p) (slot, path, ident, origin) = Some a"
    "(a, i, req) \<in> set (edges_of p)" by (rule linkedE)
  with ref_target_provides [OF built a(1)] i show ?thesis
    by blast
qed

theorem type_references_are_edges_witness:
  "build (\<lambda>s. s) (\<lambda>_. 0) bx_entities ''x'' False = Inr bx_sql
   \<and> (\<exists>i a. i < length (nodes_of bx_sql) \<and> nodes_of bx_sql ! i = Function bx_rank_fn
       \<and> a < length (nodes_of bx_sql) \<and> provides_type (nodes_of bx_sql ! a) ''x::Mood'' ThisExtension
       \<and> (a, i, ByArg) \<in> set (edges_of bx_sql))"
  by (intro conjI bx_build type_references_are_edges [OF bx_build bx_entities_in(4)]) simp

text \<open>
  Every \<open>requires\<close> of a function or an \<open>extension_sql!\<close> block is honoured: there is an edge to it
  from an entity that the reference names.
\<close>

lemma requires_are_edges:
  assumes "build uni rank es name so = Inr p" and "e \<in> set es" and "r \<in> set (entity_requires e)"
  shows "\<exists>i a. i < length (nodes_of p) \<and> nodes_of p ! i = e \<and> a < length (nodes_of p)
    \<and> ref_names r (nodes_of p ! a) \<and> (a, i, By) \<in> set (edges_of p)"
proof -
  note built = build_built [OF assms(1)]
  from entity_links(2) [OF built assms(2,3)] obtain i where
    i: "i < length (nodes_of p)" "nodes_of p ! i = e"
    and link: "linked (find_positioning_ref_target rank (ps_tables p) r) i By (ps_graph p)"
    by blast
  from link obtain a where a: "find_positioning_ref_target rank (ps_tables p) r = Some a"
    "(a, i, By) \<in> set (edges_of p)" by (rule linkedE)
  with position_target_named [OF built a(1)] i show ?thesis
    by blast
qed

text \<open>
  C9. Every support function of a type (input, output, receive, send) and of an aggregate is a
  function of the extension and comes with an edge to the type or aggregate.
\<close>

theorem support_functions_are_edges:
  assumes "build uni rank es name so = Inr p" and "e \<in> set es" and "path \<in> set (support_fn_paths e)"
  shows "\<exists>i a f. i < length (nodes_of p) \<and> nodes_of p ! i = e \<and> a < length (nodes_of p)
    \<and> nodes_of p ! a = Function f \<and> pe_full_path f = path \<and> (a, i, By) \<in> set (edges_of p)"
proof -
  note built = build_built [OF assms(1)]
  from entity_links(3) [OF built assms(2,3)] obtain i where
    i: "i < length (nodes_of p)" "nodes_of p ! i = e"
    and link: "linked (extern_at rank (ps_tables p) path) i By (ps_graph p)"
    by blast
  from link obtain a where a: "extern_at rank (ps_tables p) path = Some a"
    "(a, i, By) \<in> set (edges_of p)" by (rule linkedE)
  from a(1) built_tables(5) [OF built] show ?thesis
    by (rule find_holds) (use i a(2) in blast)
qed

theorem support_functions_are_edges_witness:
  "build (\<lambda>s. s) (\<lambda>_. 0) bx_entities ''x'' False = Inr bx_sql
   \<and> (\<exists>i a f. i < length (nodes_of bx_sql) \<and> nodes_of bx_sql ! i = SqlGraphEntity.Type bx_ty
       \<and> a < length (nodes_of bx_sql) \<and> nodes_of bx_sql ! a = Function f \<and> pe_full_path f = ''x::t_out''
       \<and> (a, i, By) \<in> set (edges_of bx_sql))"
  by (intro conjI bx_build support_functions_are_edges [OF bx_build bx_entities_in(1)])
    (simp add: type_fns_def resolve_function_path_def)

text \<open>
  The bootstrap block comes before everything and the finalize block after everything: every
  entity has an edge from the root, an edge from the bootstrap block unless it is one itself, and an
  edge to the finalize block unless it is one itself.
\<close>

lemma base_edges_of_every_entity:
  assumes "build uni rank es name so = Inr p" and "e \<in> set es"
    and "\<forall>c. e \<noteq> ExtensionRoot c" and "\<forall>t. e \<noteq> BuiltinType t"
  shows "\<exists>i < length (nodes_of p). nodes_of p ! i = e \<and> (ps_graph_root p, i, By) \<in> set (edges_of p)
    \<and> (\<forall>b. ps_graph_bootstrap p = Some b \<longrightarrow> bootstraps e \<or> (b, i, By) \<in> set (edges_of p))
    \<and> (\<forall>f. ps_graph_finalize p = Some f \<longrightarrow> finalizes e \<or> (i, f, By) \<in> set (edges_of p))"
  using entity_is_node [OF build_built [OF assms(1)] assms(2)] assms(3,4)
    builtD(2) [OF build_built [OF assms(1)]] by simp

text \<open>
  There is at most one bootstrap block and at most one finalize block: with two of either \<open>build\<close>
  fails, and otherwise it records the node of the one there is.
\<close>

lemma one_bootstrap_one_finalize:
  assumes "build uni rank es name so = Inr p"
  shows "at_most_one bootstraps es (nodes_of p) (ps_graph_bootstrap p)
    \<and> at_most_one finalizes es (nodes_of p) (ps_graph_finalize p)"
  using position_spec [OF _ bootstraps_iff] position_spec [OF _ finalizes_iff]
    builtD(3) [OF build_built [OF assms]] by (simp add: nodes_done_def)

text \<open>
  Type identifiers are unique in a built graph, whatever the place that declares them, so the
  target of a reference does not depend on the iteration order of the hash maps.
\<close>

lemma type_targets_unique:
  assumes "build uni rank es name so = Inr p"
  shows "distinct (map fst (type_locations rank (ps_tables p)))
    \<and> find_graph_type_target rank' ident (ps_tables p) = find_graph_type_target rank ident (ps_tables p)"
proof -
  have d: "distinct (map fst (type_locations rank (ps_tables p)))"
    using builtD(6) [OF build_built [OF assms]] by (simp only: unique_targets_iff)
  from d type_targets_any_order [OF d] show ?thesis
    by (rule conjI)
qed

text \<open>
  The build does not depend on the order in which the linker placed the entities in the section.
\<close>

lemma build_ignores_link_order:
  assumes "mset es = mset fs"
  shows "build uni rank es name so = build uni rank fs name so"
  using sort_entities_cong [OF assms] by (simp add: build_def split_entities_def)

text \<open>
  The only panic of \<open>build\<close> is the missing control file: the other \<open>expect\<close>s never fail, whatever
  the entities are.
\<close>

lemma build_panics_only_without_control:
  "(\<exists>msg. build uni rank es name so = Inl (Panicked msg)) \<longleftrightarrow> (\<forall>c. ExtensionRoot c \<notin> set es)"
proof (cases "se_control (split_entities es)")
  case None
  from iffD1 [OF split_no_control this] None show ?thesis
    by (auto simp: build_def Let_def)
next
  case (Some c)
  have "calm (rbind (build_nodes rank c (split_entities es)) (\<lambda>i.
      rbind (build_edges uni rank (i_tables i) (i_root i) (i_graph i)) (\<lambda>g. Inr (f i g))))" for f
    by (intro calm_rbind build_nodes_calm build_edges_calm calm_Inr)
  then have "calm (build uni rank es name so)"
    by (simp add: build_def Let_def Some)
  then show ?thesis
    using Some split_control [OF Some] by (auto simp: calm_def)
qed

end
