(* ===== verification/Emission_Total.thy ===== *)
theory Emission_Total
  imports Script_Order Build_Properties
begin

text \<open>
  The SQL of a built graph never fails for want of a node: every lookup of the emission finds what
  \<open>build\<close> has put there. What remains are the errors of the type mappings themselves.
\<close>

section \<open>Failed lookups\<close>

text \<open>The errors and panics of a lookup in the graph or its tables, and of an ordering that stops.\<close>

fun lost :: "sql_error \<Rightarrow> bool" where
  "lost (TypeNotInGraph _ _) = True"
| "lost (FnNotFound _) = True"
| "lost (FnNotNeighbor _) = True"
| "lost (NotAType _) = True"
| "lost Diverges = True"
| "lost (SqlPanicked msg) =
     (msg = ''no entry found for key'' \<or> msg = ''component members should be initialized'')"
| "lost _ = False"

definition found :: "sql_error + 'a \<Rightarrow> bool" where
  "found r \<longleftrightarrow> (\<forall>e. r = Inl e \<longrightarrow> \<not> lost e)"

named_theorems found_intros

lemma found_Inr [simp, found_intros]: "found (Inr x)"
  by (simp add: found_def)

lemma found_Inl [simp]: "found (Inl e) \<longleftrightarrow> \<not> lost e"
  by (simp add: found_def)

lemma found_rbind:
  assumes "found r" and "\<And>x. r = Inr x \<Longrightarrow> found (f x)"
  shows "found (rbind r f)"
  using assms by (cases r) simp_all

lemma found_rbind_all [found_intros]: "found r \<Longrightarrow> (\<And>x. found (f x)) \<Longrightarrow> found (rbind r f)"
  by (rule found_rbind)

lemma found_map_res [found_intros]: "found r \<Longrightarrow> found (map_res f r)"
  by (cases r) simp_all

lemma found_rmap: "(\<And>x. x \<in> set xs \<Longrightarrow> found (f x)) \<Longrightarrow> found (rmap f xs)"
  by (induction xs) (auto intro!: found_intros)

lemma with_commas_set: "(b, x) \<in> set (with_commas xs) \<Longrightarrow> x \<in> set xs"
  by (induction xs rule: with_commas.induct) auto

lemma found_rmap_commas:
  assumes "\<And>b x. x \<in> set xs \<Longrightarrow> found (f b x)"
  shows "found (rmap (\<lambda>(b, x). f b x) (with_commas xs))"
  by (rule found_rmap) (use assms with_commas_set in fastforce)

lemma node_ofI:
  assumes "holds_items into P items g m" and "k \<in> set items"
  obtains i where "node_of m k = Inr i" and "(k, i) \<in> set m" and "i < length (g_nodes g)"
proof -
  obtain i where i: "(k, i) \<in> set m" "i < length (g_nodes g)"
    using holds_entry [OF assms] by metis
  moreover have "distinct (map fst m)"
    using assms(1) by (simp add: holds_items_def)
  ultimately have "node_of m k = Inr i"
    by (simp add: node_of_def hm_get_def)
  from that [OF this i] show thesis .
qed

lemma found_node_of:
  assumes "holds_items into P items g m" and "k \<in> set items"
    and "\<And>i. (k, i) \<in> set m \<Longrightarrow> found (f i)"
  shows "found (rbind (node_of m k) f)"
  by (rule node_ofI [OF assms(1,2)]) (simp add: assms(3))

section \<open>Type mappings\<close>

lemma found_composite [found_intros]: "found (composite_sql_type c)"
  by (simp add: composite_sql_type_def split: option.split)

lemma found_array_type [found_intros]: "found (array_sql_type m c)"
  by (cases m) (auto intro!: found_intros)

lemma found_sql_type [found_intros]: "found (sql_type m c)"
  by (cases "(m, c)" rule: sql_type.cases) (auto intro!: found_intros)

lemma found_argument_type [found_intros]: "found (argument_type_sql u)"
  by (simp add: argument_type_sql_def found_sql_type split: sum.split)

lemma found_scalar_return [found_intros]: "found (scalar_return_sql r c)"
  by (cases "(r, c)" rule: scalar_return_sql.cases) (auto intro!: found_intros)

lemma found_map_ty [found_intros]: "found (map_ty u)"
proof -
  have "found (aggregate_sql_type m c)" for m c
    by (cases "(m, c)" rule: aggregate_sql_type.cases) (auto intro!: found_intros)
  then show ?thesis
    by (simp add: map_ty_def split: sum.split)
qed

section \<open>Schema prefixes\<close>

text \<open>The node \<open>i\<close> can name the type \<open>u\<close>: its own types come with an edge from their declaration.\<close>

definition nameable :: "emit_env \<Rightarrow> PgrxSql \<Rightarrow> node_index \<Rightarrow> UsedTypeEntity \<Rightarrow> bool" where
  "nameable env p i u \<longleftrightarrow> (\<forall>slot. found (schema_prefix_for_used_type env p i slot u))"

lemma nameable_linked:
  assumes "built rank es p" and ok: "graph_ok env p" and i: "i < length (nodes_of p)"
    and link: "\<And>ref. ref \<in> set (used_ref slot u) \<Longrightarrow> linked (ref_target rank (ps_tables p) ref) i w (ps_graph p)"
  shows "nameable env p i u"
proof (cases "ut_resolution u")
  case None
  then show ?thesis
    by (simp only: nameable_def schema_prefix_for_used_type_def option.case found_Inr simp_thms)
next
  case (Some r)
  then obtain ident origin where r: "ut_resolution u = Some (ident, origin)"
    by (cases r) simp
  have "linked (ref_target rank (ps_tables p) (slot, ut_full_path u, ident, origin)) i w (ps_graph p)"
    by (rule link) (simp add: used_ref_def r)
  then obtain a where a: "ref_target rank (ps_tables p) (slot, ut_full_path u, ident, origin) = Some a"
    and edge: "(a, i, w) \<in> set (edges_of p)"
    by (rule linkedE)
  have "a \<in> set (neighbors env p i)"
    using petgraph_okD(2) [OF ok i] edge by (auto simp: edge_rel_def)
  moreover have "type_ident_matches (node_at p a) ident"
    using ref_target_provides [OF assms(1) a] by (simp add: provides_type_def)
  ultimately have "find_type_dependency env p i ident \<noteq> None"
    by (auto simp: find_type_dependency_def find_None_iff)
  then show ?thesis
    by (auto simp: nameable_def schema_prefix_for_used_type_def r)
qed

lemma nameable_prefix: "nameable env p i u \<Longrightarrow> found (schema_prefix_for_used_type env p i slot u)"
  by (simp add: nameable_def)

section \<open>Functions\<close>

text \<open>An argument that has no SQL type refers to no type of the extension.\<close>

definition hidden_args_plain :: "PgExternEntity \<Rightarrow> bool" where
  "hidden_args_plain f \<longleftrightarrow>
     list_all (\<lambda>arg. ut_emits_argument_sql (pa_used_ty arg) \<or> \<not> ut_needs_type_resolution (pa_used_ty arg))
       (pe_fn_args f)"

definition nameable_fn :: "emit_env \<Rightarrow> PgrxSql \<Rightarrow> node_index \<Rightarrow> PgExternEntity \<Rightarrow> bool" where
  "nameable_fn env p i f \<longleftrightarrow>
     (\<forall>arg \<in> set (pe_fn_args f). nameable env p i (pa_used_ty arg))
     \<and> (\<forall>(slot, u) \<in> set (return_slots (pe_fn_return f)). nameable env p i u)"

lemma nameable_unresolved: "\<not> ut_needs_type_resolution u \<Longrightarrow> nameable env p i u"
  by (simp add: nameable_def schema_prefix_for_used_type_def flip: ut_resolution_eq_None)

lemma function_nameable:
  assumes built: "built rank es p" and ok: "graph_ok env p" and f: "(f, i) \<in> set (m_externs (ps_tables p))"
    and hidden: "hidden_args_plain f"
  shows "nameable_fn env p i f"
proof -
  have i: "i < length (nodes_of p)"
    by (rule holds_node(1) [OF built_tables(5) [OF built] f])
  have links: "\<forall>ref \<in> set (arg_refs f). linked (ref_target rank (ps_tables p) ref) i ByArg (ps_graph p)"
    "\<forall>ref \<in> set (return_refs f). linked (ref_target rank (ps_tables p) ref) i ByReturn (ps_graph p)"
    using builtD(7) [OF built] f by (auto simp: links_done_def)
  have "nameable env p i (pa_used_ty arg)" if arg: "arg \<in> set (pe_fn_args f)" for arg
  proof (cases "ut_emits_argument_sql (pa_used_ty arg)")
    case True
    show ?thesis
    proof (rule nameable_linked [OF built ok i])
      fix ref assume "ref \<in> set (used_ref (arg_slot arg) (pa_used_ty arg))"
      then have "ref \<in> set (arg_refs f)"
        using arg True by (auto simp: arg_refs_def)
      then show "linked (ref_target rank (ps_tables p) ref) i ByArg (ps_graph p)"
        using links(1) by blast
    qed
  next
    case False
    then show ?thesis
      using hidden arg by (intro nameable_unresolved) (auto simp: hidden_args_plain_def list_all_iff)
  qed
  moreover have "nameable env p i u" if u: "(slot, u) \<in> set (return_slots (pe_fn_return f))" for slot u
  proof (rule nameable_linked [OF built ok i])
    fix ref assume "ref \<in> set (used_ref slot u)"
    then have "ref \<in> set (return_refs f)"
      using u by (auto simp: return_refs_def)
    then show "linked (ref_target rank (ps_tables p) ref) i ByReturn (ps_graph p)"
      using links(2) by blast
  qed
  ultimately show ?thesis
    by (auto simp: nameable_fn_def)
qed

lemma found_used_type: "nameable env p i u \<Longrightarrow> found (render_used_type_sql env p i slot u)"
  unfolding render_used_type_sql_def by (intro found_intros nameable_prefix)

lemma found_return_slot: "nameable env p i u \<Longrightarrow> found (return_slot_sql env p i slot u m)"
  unfolding return_slot_sql_def by (intro found_intros nameable_prefix)

lemma found_argument_piece: "nameable env p i (pa_used_ty arg) \<Longrightarrow> found (argument_sql_piece env p i b arg)"
  unfolding argument_sql_piece_def Let_def
  by (intro found_rbind_all nameable_prefix) (auto intro!: found_intros split: sum.split SqlMapping.split)

lemma found_type_return: "nameable env p i u \<Longrightarrow> found (type_return_sql env p i u)"
  unfolding type_return_sql_def
  by (auto intro: found_return_slot split: sum.split Returns.split SqlMapping.split)

lemma found_setof_return: "nameable env p i u \<Longrightarrow> found (setof_return_slot_sql env p i u)"
  unfolding setof_return_slot_sql_def
  by (auto intro: found_return_slot split: sum.split Returns.split SqlMapping.split)

lemma found_table_column: "nameable env p i (ri_ty item) \<Longrightarrow> found (table_column_sql env p i b item)"
  unfolding table_column_sql_def Let_def
  by (rule found_rbind_all) (auto intro: found_return_slot split: sum.split Returns.split SqlMapping.split option.split)

lemma found_arguments: "nameable_fn env p i f \<Longrightarrow> found (arguments_sql env p i f)"
  unfolding arguments_sql_def
  by (auto simp: nameable_fn_def sql_args_def intro!: found_intros found_rmap_commas found_argument_piece)

lemma found_returns: "nameable_fn env p i f \<Longrightarrow> found (returns_sql env p i (pe_fn_return f))"
  unfolding returns_sql_def nameable_fn_def
  by (cases "pe_fn_return f")
    (auto intro!: found_intros found_rmap_commas found_type_return found_setof_return found_table_column)

lemma found_sql_name:
  assumes "built rank es p" and "(f, j) \<in> set (m_externs (ps_tables p))"
  shows "found (sql_name env p f)"
proof -
  have "f \<in> set (se_externs (split_entities es))"
    using built_tables(5) [OF assms(1)] assms(2) by (force simp: holds_items_def)
  with built_tables(5) [OF assms(1)] show ?thesis
    unfolding sql_name_def by (rule found_node_of) simp
qed

lemma found_attrs:
  assumes "built rank es p"
  shows "found (attrs_sql env p f)"
proof -
  have "found (attr_sql env p f attr)" for attr
  proof (cases "find_matching_fn env p (extern_args_display attr)")
    case None
    then show ?thesis by (cases attr) (simp_all add: attr_sql_def)
  next
    case (Some g)
    then obtain j where "(g, j) \<in> set (m_externs (ps_tables p))"
      by (auto simp: find_matching_fn_def dest!: find_SomeD)
    from found_sql_name [OF assms this] Some show ?thesis
      by (cases attr) (auto simp: attr_sql_def intro!: found_intros)
  qed
  then show ?thesis
    by (auto simp: attrs_sql_def intro!: found_intros found_rmap)
qed

lemma found_create_function:
  assumes "built rank es p" and "nameable_fn env p i f"
  shows "found (create_function_sql env p i f)"
  unfolding create_function_sql_def
  by (intro found_intros found_arguments found_returns found_attrs [OF assms(1)] assms(2))

lemma found_operator: "nameable_fn env p i f \<Longrightarrow> found (operator_sql env p i f op)"
  unfolding operator_sql_def Let_def nameable_fn_def
  by (auto intro!: found_intros found_used_type split: list.split option.split)

lemma found_return_type: "nameable_fn env p i f \<Longrightarrow> found (render_function_return_type env p i f)"
  unfolding render_function_return_type_def nameable_fn_def
  by (cases "pe_fn_return f") (auto intro!: found_intros nameable_prefix)

lemma found_cast:
  assumes "nameable_fn env p i f" and "found (sql_name env p f)"
  shows "found (cast_sql env p i f cast)"
  unfolding cast_sql_def
  using assms found_return_type [OF assms(1)]
  by (auto simp: nameable_fn_def intro!: found_intros found_used_type split: PgExternReturnEntity.split list.split)

text \<open>The SQL of a function of the extension.\<close>

lemma found_extern:
  assumes built: "built rank es p" and ok: "graph_ok env p" and f: "f \<in> set (se_externs (split_entities es))"
    and hidden: "hidden_args_plain f"
  shows "found (extern_to_sql env p f)"
  unfolding extern_to_sql_def
proof (rule found_node_of [OF built_tables(5) [OF built] f])
  fix i assume i: "(f, i) \<in> set (m_externs (ps_tables p))"
  note named = function_nameable [OF built ok i hidden]
  have "found (case pe_operator f of None \<Rightarrow> Inr [] | Some op \<Rightarrow> operator_sql env p i f op)"
    by (simp add: found_operator [OF named] split: option.split)
  moreover have "found (case pe_cast f of None \<Rightarrow> Inr [] | Some cast \<Rightarrow> cast_sql env p i f cast)"
    by (simp add: found_cast [OF named found_sql_name [OF built i]] split: option.split)
  ultimately show "found (rbind (create_function_sql env p i f) (\<lambda>fn_sql.
      rbind (case pe_operator f of None \<Rightarrow> Inr [] | Some op \<Rightarrow> operator_sql env p i f op) (\<lambda>operator_sql.
      rbind (case pe_cast f of None \<Rightarrow> Inr [] | Some cast \<Rightarrow> cast_sql env p i f cast) (\<lambda>cast_sql.
        Inr (extern_comment f @ requires_comment f @ fn_sql @ operator_sql @ cast_sql)))))"
    by (intro found_intros found_create_function [OF built named])
qed

section \<open>Types and aggregates\<close>

lemma function_node:
  assumes "built rank es p" and "n < length (nodes_of p)" and "node_at p n = Function f"
  shows "f \<in> set (se_externs (split_entities es))"
proof -
  have "Function f \<in> set (nodes_of p)"
    using assms(2,3) nth_mem by metis
  then show ?thesis
    using builtD(4) [OF assms(1)] by (auto simp: known_nodes_def)
qed

lemma found_support_fn:
  assumes built: "built rank es p" and ok: "graph_ok env p"
    and plain: "\<And>f. Function f \<in> set es \<Longrightarrow> hidden_args_plain f"
    and i: "i < length (nodes_of p)" and link: "linked (extern_at rank (ps_tables p) path) i By (ps_graph p)"
  shows "found (support_fn_sql env p i path)"
proof -
  note externs = built_tables(5) [OF built]
  from link obtain a where a: "extern_at rank (ps_tables p) path = Some a" and edge: "(a, i, By) \<in> set (edges_of p)"
    by (rule linkedE)
  from a obtain f where f: "(f, a) \<in> set (m_externs (ps_tables p))" "path = pe_full_path f"
    by (rule hm_find_Some)
  let ?keys = "hm_iter (env_rank env) (m_externs (ps_tables p))"
  obtain e where e: "find (\<lambda>(k, _). pe_full_path k = path) ?keys = Some e"
  proof (cases "find (\<lambda>(k, _). pe_full_path k = path) ?keys")
    case None
    then show thesis using f by (auto simp: find_None_iff)
  qed
  have "a \<in> set (neighbors env p i)"
    using petgraph_okD(2) [OF ok i] edge by (auto simp: edge_rel_def)
  moreover have "is_fn_at path (node_at p a)"
    using holds_node(2) [OF externs f(1)] f(2) by simp
  ultimately obtain n where n: "find (\<lambda>n. is_fn_at path (node_at p n)) (neighbors env p i) = Some n"
    by (cases "find (\<lambda>n. is_fn_at path (node_at p n)) (neighbors env p i)") (auto simp: find_None_iff)
  have "n \<in> set (neighbors env p i)" "is_fn_at path (node_at p n)"
    using find_SomeD [OF n] by simp_all
  then obtain g where g: "node_at p n = Function g" and "n < length (nodes_of p)"
    using petgraph_okD(2) [OF ok i] builtD(3) [OF built]
    by (cases "node_at p n") (auto simp: nodes_done_def in_range_def edge_rel_def)
  then have mem: "g \<in> set (se_externs (split_entities es))"
    using function_node [OF built] by blast
  then have "found (extern_to_sql env p g)"
    by (intro found_extern [OF built ok] plain) simp_all
  then show ?thesis
    by (auto simp: support_fn_sql_def e n g intro!: found_intros)
qed

lemma found_alignment [found_intros]: "found (alignment_sql item)"
  by (simp add: alignment_sql_def split: option.split)

lemma found_type:
  assumes built: "built rank es p" and ok: "graph_ok env p"
    and plain: "\<And>f. Function f \<in> set es \<Longrightarrow> hidden_args_plain f"
    and item: "item \<in> set (se_types (split_entities es))"
  shows "found (type_to_sql env p item)"
  unfolding type_to_sql_def
proof (rule found_node_of [OF built_tables(4) [OF built] item], goal_cases)
  case (1 i)
  note node = holds_node(1,2) [OF built_tables(4) [OF built] 1]
  have links: "linked (extern_at rank (ps_tables p) path) i By (ps_graph p)" if "Some path \<in> set (type_fns item)" for path
    using builtD(7) [OF built] 1 that by (auto simp: links_done_def)
  let ?resolve = "resolve_function_path (ty_module_path item)"
  have fn: "found (support_fn_sql env p i path)" if "Some path \<in> set (type_fns item)" for path
    by (rule found_support_fn [OF built ok plain node(1) links [OF that]])
  have opt: "found (opt_support_fn_sql env p i path)" if "path \<in> set (type_fns item)" for path
  proof (cases path)
    case (Some q)
    then have "found (support_fn_sql env p i q)"
      using that fn by simp
    then show ?thesis
      by (simp add: Some opt_support_fn_sql_def found_map_res)
  qed (simp add: opt_support_fn_sql_def)
  have paths: "Some (?resolve (ty_in_fn_path item)) \<in> set (type_fns item)"
    "Some (?resolve (ty_out_fn_path item)) \<in> set (type_fns item)"
    "map_option ?resolve (ty_receive_fn_path item) \<in> set (type_fns item)"
    "map_option ?resolve (ty_send_fn_path item) \<in> set (type_fns item)"
    by (simp_all add: type_fns_def)
  show ?case
    unfolding node(2) SqlGraphEntity.case Let_def split_def
    by (intro found_intros fn opt paths)
qed

lemma found_aggregate:
  assumes built: "built rank es p" and ok: "graph_ok env p"
    and item: "item \<in> set (se_aggregates (split_entities es))"
  shows "found (aggregate_to_sql env p item)"
  unfolding aggregate_to_sql_def
proof (rule found_node_of [OF built_tables(8) [OF built] item], goal_cases)
  case (1 i)
  have i: "i < length (nodes_of p)"
    by (rule holds_node(1) [OF built_tables(8) [OF built] 1])
  have links: "\<forall>ref \<in> set (aggregate_refs item). linked (ref_target rank (ps_tables p) ref) i ByArg (ps_graph p)"
    using builtD(7) [OF built] 1 by (auto simp: links_done_def)
  have "nameable env p i u" if "set (used_ref slot u) \<subseteq> set (aggregate_refs item)" for slot u
  proof (rule nameable_linked [OF built ok i])
    fix ref assume "ref \<in> set (used_ref slot u)"
    then show "linked (ref_target rank (ps_tables p) ref) i ByArg (ps_graph p)"
      using links that by blast
  qed
  note named = this
  have stype: "nameable env p i (at_used_ty (ag_stype item))"
    by (rule named [of "''STYPE''"]) (auto simp: aggregate_refs_def stype_refs_def)
  have mstype: "nameable env p i u" if "ag_mstype item = Some u" for u
    by (rule named [of "''MSTYPE''"]) (auto simp: aggregate_refs_def mstype_refs_def that)
  have args: "nameable env p i (at_used_ty arg)" if "arg \<in> set (ag_args item)" for arg
    by (rule named [of "aggregate_slot (at_name arg) ''argument''"])
      (use that in \<open>auto simp: aggregate_refs_def aggregate_arg_refs_def\<close>)
  have direct: "nameable env p i (at_used_ty arg)" if "ag_direct_args item = Some as" "arg \<in> set as" for as arg
    by (rule named [of "aggregate_slot (at_name arg) ''direct argument''"])
      (use that in \<open>auto simp: aggregate_refs_def aggregate_arg_refs_def ag_direct_def\<close>)
  have "found (mstype_attribute env p i item)"
    using mstype by (auto simp: mstype_attribute_def sql_type_for_slot_def
        intro!: found_intros nameable_prefix split: option.split)
  moreover have "found (sql_type_for_slot env p i slot (at_used_ty (ag_stype item)))" for slot
    unfolding sql_type_for_slot_def by (intro found_intros nameable_prefix stype)
  moreover have "found (rmap (\<lambda>(b, arg). aggregate_arg_sql env p i b arg) (with_commas (ag_args item)))"
    by (rule found_rmap_commas) (auto simp: aggregate_arg_sql_def intro!: found_intros nameable_prefix args)
  moreover have "found (case ag_direct_args item of None \<Rightarrow> Inr []
      | Some direct_args \<Rightarrow>
          rbind (rmap (\<lambda>(b, arg). aggregate_direct_arg_sql env p i b arg) (with_commas direct_args))
            (\<lambda>args. Inr (nl @ join_str nl args @ nl)))"
  proof (cases "ag_direct_args item")
    case (Some as)
    have "found (rmap (\<lambda>(b, arg). aggregate_direct_arg_sql env p i b arg) (with_commas as))"
      by (rule found_rmap_commas)
        (auto simp: aggregate_direct_arg_sql_def intro!: found_intros nameable_prefix direct [OF Some])
    then show ?thesis
      unfolding Some option.case by (intro found_rbind_all found_Inr)
  qed simp
  ultimately show ?case
    unfolding Let_def by (intro found_rbind_all found_Inr)
qed

section \<open>The script\<close>

lemma found_configured: "found sql \<Longrightarrow> found (configured config entity p sql)"
  by (simp add: configured_def split: option.split)

lemma found_entity:
  assumes built: "built rank es p" and ok: "graph_ok env p"
    and plain: "\<And>f. Function f \<in> set es \<Longrightarrow> hidden_args_plain f"
    and i: "i < length (nodes_of p)"
  shows "found (entity_to_sql env p (node_at p i))"
proof -
  note tables = built_tables [OF built]
  have known: "node_at p i \<in> known_nodes (ps_control p) (split_entities es)"
    using builtD(4) [OF built] nth_mem [OF i] by blast
  show ?thesis
  proof (cases "node_at p i")
    case (Function f)
    then have f: "f \<in> set (se_externs (split_entities es))"
      using known by (auto simp: known_nodes_def)
    have "found (extern_to_sql env p f)"
      by (rule found_extern [OF built ok f plain]) (use f in simp)
    then have "found (function_sql env p f)"
      unfolding function_sql_def by (intro found_node_of [OF tables(5) f]) simp
    with Function show ?thesis by (simp add: found_configured)
  next
    case (Type t)
    then have "t \<in> set (se_types (split_entities es))"
      using known by (auto simp: known_nodes_def)
    with Type show ?thesis by (simp add: found_configured found_type [OF built ok plain])
  next
    case (Aggregate a)
    then have "a \<in> set (se_aggregates (split_entities es))"
      using known by (auto simp: known_nodes_def)
    with Aggregate show ?thesis by (simp add: found_configured found_aggregate [OF built ok])
  next
    case (Enum e)
    then have "e \<in> set (se_enums (split_entities es))"
      using known by (auto simp: known_nodes_def)
    with Enum show ?thesis
      by (simp add: enum_to_sql_def found_configured found_node_of [OF tables(3)])
  next
    case (Ord e)
    then have "e \<in> set (se_ords (split_entities es))"
      using known by (auto simp: known_nodes_def)
    with Ord show ?thesis
      by (simp add: ord_to_sql_def Let_def found_configured found_node_of [OF tables(6)])
  next
    case (Hash e)
    then have "e \<in> set (se_hashes (split_entities es))"
      using known by (auto simp: known_nodes_def)
    with Hash show ?thesis
      by (simp add: hash_to_sql_def Let_def found_configured found_node_of [OF tables(7)])
  next
    case (Trigger e)
    then have "e \<in> set (se_triggers (split_entities es))"
      using known by (auto simp: known_nodes_def)
    with Trigger show ?thesis
      by (simp add: trigger_to_sql_def found_configured found_node_of [OF tables(9)])
  qed simp_all
qed

lemma found_to_sql:
  assumes built: "built rank es p" and ok: "graph_ok env p"
    and plain: "\<And>f. Function f \<in> set es \<Longrightarrow> hidden_args_plain f"
  shows "found (to_sql env p)"
  unfolding to_sql_def
proof (intro found_map_res found_rmap)
  fix c assume c: "c \<in> set (components env p)"
  note facts = component_facts [OF ok c]
  have "found (node_sql env p i)" if "i \<in> set (ordered_component env p c)" for i
  proof -
    have "i \<in> set c"
      using mset_eq_setD [OF facts(4)] that by simp
    then have "i < length (nodes_of p)"
      using facts(2) by auto
    then show ?thesis
      unfolding node_sql_def Let_def by (intro found_intros found_entity [OF built ok plain])
  qed
  then have "found (rmap (node_sql env p) (ordered_component env p c))"
    by (rule found_rmap)
  then show "found (component_sql env p c)"
    by (simp add: component_sql_def facts(3) found_rbind_all)
qed

end
