(* ===== verification/Dependencies.thy ===== *)
theory Dependencies
  imports Script_Order
begin

text \<open>
  \<open>collect_transitive_deps\<close>: the search ends, and it finds exactly the nodes from which a target can be
  reached. The same search gives a model of the graph library, so its promises can be kept.
\<close>

section \<open>The search\<close>

lemma enqueue_simps:
  "n \<in> set visited \<Longrightarrow> enqueue n (visited, queue) = (visited, queue)"
  "n \<notin> set visited \<Longrightarrow> enqueue n (visited, queue) = (n # visited, queue @ [n])"
  by (simp_all add: enqueue_def)

lemma fold_enqueue:
  obtains visited' new where "fold enqueue ns (visited, queue) = (visited', queue @ new)"
    and "set visited' = set visited \<union> set ns" and "distinct new" and "set new = set ns - set visited"
proof (induction ns arbitrary: visited queue thesis)
  case Nil
  show ?case by (rule Nil [of visited "[]"]) simp_all
next
  case (Cons n ns)
  show ?case
  proof (cases "n \<in> set visited")
    case True
    obtain visited' new where "fold enqueue ns (visited, queue) = (visited', queue @ new)"
      "set visited' = set visited \<union> set ns" "distinct new" "set new = set ns - set visited"
      by (rule Cons.IH)
    then show ?thesis
      using True by (intro Cons.prems [of visited' new]) (auto simp: enqueue_simps)
  next
    case False
    obtain visited' new where "fold enqueue ns (n # visited, queue @ [n]) = (visited', (queue @ [n]) @ new)"
      "set visited' = set (n # visited) \<union> set ns" "distinct new" "set new = set ns - set (n # visited)"
      by (rule Cons.IH)
    then show ?thesis
      using False by (intro Cons.prems [of visited' "n # new"]) (auto simp: enqueue_simps)
  qed
qed

definition search_inv ::
  "(node_index \<Rightarrow> node_index list) \<Rightarrow> node_index set \<Rightarrow> node_index list \<Rightarrow> node_index list \<Rightarrow> bool" where
  "search_inv preds R visited queue \<longleftrightarrow>
     set queue \<subseteq> set visited \<and> set visited \<subseteq> R
     \<and> (\<forall>v \<in> set visited - set queue. set (preds v) \<subseteq> set visited)"

lemma search_correct:
  assumes "search_inv preds R visited queue" and "finite R" and closed: "\<And>v. v \<in> R \<Longrightarrow> set (preds v) \<subseteq> R"
  obtains res where "collect_loop preds (visited, queue) = Some res" and "set visited \<subseteq> set res"
    and "search_inv preds R res []"
  using assms(1)
proof (induction "card (R - set visited) + length queue" arbitrary: visited queue thesis rule: less_induct)
  case less
  show ?case
  proof (cases queue)
    case Nil
    with less.prems show ?thesis
      by (simp add: collect_loop.simps)
  next
    case (Cons n rest)
    obtain visited' new where run: "fold enqueue (preds n) (visited, rest) = (visited', rest @ new)"
      and visited': "set visited' = set visited \<union> set (preds n)"
      and new: "distinct new" "set new = set (preds n) - set visited"
      by (rule fold_enqueue)
    note inv = less.prems(2) [unfolded search_inv_def]
    have n: "n \<in> R"
      using inv Cons by auto
    have new_sub: "set new \<subseteq> R - set visited"
      using new closed [OF n] by auto
    have "R - set visited' = (R - set visited) - set new"
      using visited' new by auto
    then have "card (R - set visited') + length new = card (R - set visited)"
      using card_Diff_subset [OF _ new_sub] card_mono [OF _ new_sub] assms(2) distinct_card [OF new(1)] by simp
    then have smaller: "card (R - set visited') + length (rest @ new) < card (R - set visited) + length queue"
      by (simp add: Cons)
    have inv': "search_inv preds R visited' (rest @ new)"
      using inv visited' new closed [OF n] Cons by (auto simp: search_inv_def)
    obtain res where "collect_loop preds (visited', rest @ new) = Some res" "set visited' \<subseteq> set res"
      "search_inv preds R res []"
      using less.hyps [OF smaller _ inv'] by blast
    moreover have "collect_loop preds (visited, queue) = collect_loop preds (visited', rest @ new)"
      by (subst collect_loop.simps) (simp add: Cons run)
    ultimately show ?thesis
      using less.prems(1) visited' by simp
  qed
qed

text \<open>The nodes with a path to one of the targets.\<close>

definition reaching :: "(node_index \<times> node_index) set \<Rightarrow> node_index set \<Rightarrow> node_index set" where
  "reaching E T = {a. \<exists>t \<in> T. (a, t) \<in> E\<^sup>*}"

lemma collect_reaching:
  assumes preds: "\<And>v. v < n \<Longrightarrow> set (preds v) = {a. (a, v) \<in> E}" and E: "E \<subseteq> {..<n} \<times> {..<n}"
    and T: "set targets \<subseteq> {..<n}"
  obtains res where "collect_loop preds (fold enqueue targets ([], [])) = Some res"
    and "set res = reaching E (set targets)"
proof -
  let ?R = "reaching E (set targets)"
  have "a < n" if "(a, t) \<in> E\<^sup>*" "t < n" for a t
    using that E by (induction rule: converse_rtrancl_induct) auto
  then have R: "?R \<subseteq> {..<n}"
    using T by (auto simp: reaching_def)
  have closed: "set (preds v) \<subseteq> ?R" if "v \<in> ?R" for v
  proof -
    have "v < n"
      using R that by auto
    with that show ?thesis
      by (auto simp: preds reaching_def intro: converse_rtrancl_into_rtrancl)
  qed
  obtain visited new where start: "fold enqueue targets ([], []) = (visited, [] @ new)"
    "set visited = set [] \<union> set targets" "distinct new" "set new = set targets - set []"
    by (rule fold_enqueue)
  then have "search_inv preds ?R visited new"
    by (auto simp: search_inv_def reaching_def)
  then obtain res where res: "collect_loop preds (visited, new) = Some res" "set visited \<subseteq> set res"
    "search_inv preds ?R res []"
    by (rule search_correct [OF _ finite_subset [OF R] closed]) simp_all
  have "a \<in> set res" if "(a, t) \<in> E\<^sup>*" "t \<in> set targets" for a t
    using that(1)
  proof (induction rule: converse_rtrancl_induct)
    case base
    show ?case using res(2) start(2) that(2) by auto
  next
    case (step a b)
    then have "b < n" "set (preds b) \<subseteq> set res"
      using res(3) R E by (auto simp: search_inv_def)
    then show ?case
      using step(1) by (auto simp: preds)
  qed
  then have "set res = ?R"
    using res(3) by (auto simp: search_inv_def reaching_def)
  with res(1) start(1) show thesis
    by (intro that [of res]) simp_all
qed

lemma collect_transitive_deps_reaching:
  assumes ok: "graph_ok env p" and range: "in_range (ps_graph p)" and "set targets \<subseteq> {..< length (nodes_of p)}"
  obtains keep where "collect_transitive_deps env p targets = Some keep"
    and "set keep = reaching (edge_rel (ps_graph p)) (set targets)"
proof -
  have "edge_rel (ps_graph p) \<subseteq> {..< length (nodes_of p)} \<times> {..< length (nodes_of p)}"
    using range by (auto simp: edge_rel_def in_range_def)
  then show thesis
    using collect_reaching [OF petgraph_okD(3) [OF ok] _ assms(3)] that
    unfolding collect_transitive_deps_def by metis
qed

end
