(* ===== verification/Petgraph_Reference.thy ===== *)
theory Petgraph_Reference
  imports Dependencies
begin

text \<open>
  An implementation of the graph queries, simple rather than fast, that keeps the promises of
  \<open>petgraph_ok\<close> on every graph: the components are grouped by mutual reachability and sorted by the
  number of nodes that can be reached from them.
\<close>

definition ref_edges :: "StableGraph \<Rightarrow> node_index \<Rightarrow> (node_index \<times> SqlGraphRequires) list" where
  "ref_edges g i = map snd (filter (\<lambda>(a, _). a = i) (g_edges g))"

definition ref_undirected :: "StableGraph \<Rightarrow> node_index \<Rightarrow> node_index list" where
  "ref_undirected g i =
     map (\<lambda>(a, b, w). if a = i then b else a) (filter (\<lambda>(a, b, w). a = i \<or> b = i) (g_edges g))"

definition ref_incoming :: "StableGraph \<Rightarrow> node_index \<Rightarrow> node_index list" where
  "ref_incoming g i = map fst (filter (\<lambda>(a, b, w). b = i) (g_edges g))"

definition ref_reach :: "StableGraph \<Rightarrow> node_index \<Rightarrow> node_index list" where
  "ref_reach g v =
     (case collect_loop (\<lambda>i. map fst (ref_edges g i)) (fold enqueue [v] ([], [])) of
        Some xs \<Rightarrow> remdups xs | None \<Rightarrow> [])"

definition ref_component :: "StableGraph \<Rightarrow> node_index \<Rightarrow> node_index list" where
  "ref_component g v =
     filter (\<lambda>u. u \<in> set (ref_reach g v) \<and> v \<in> set (ref_reach g u)) [0..<length (g_nodes g)]"

definition ref_leaders :: "StableGraph \<Rightarrow> node_index list" where
  "ref_leaders g = filter (\<lambda>v. \<forall>u \<in> set (ref_component g v). v \<le> u) [0..<length (g_nodes g)]"

definition ref_tarjan_scc :: "StableGraph \<Rightarrow> node_index list list" where
  "ref_tarjan_scc g = map (ref_component g) (sort_key (\<lambda>v. length (ref_reach g v)) (ref_leaders g))"

definition ref_petgraph :: petgraph where
  "ref_petgraph = \<lparr>pg_tarjan_scc = ref_tarjan_scc, pg_edges = ref_edges,
     pg_neighbors_undirected = ref_undirected, pg_neighbors_incoming = ref_incoming\<rparr>"

section \<open>Reachability\<close>

lemma ref_reach_set:
  assumes "in_range g" and "v < length (g_nodes g)"
  shows "set (ref_reach g v) = {x. (v, x) \<in> (edge_rel g)\<^sup>*}"
proof -
  have preds: "set (map fst (ref_edges g i)) = {a. (a, i) \<in> (edge_rel g)\<inverse>}" for i
    by (force simp: ref_edges_def edge_rel_def)
  have E: "(edge_rel g)\<inverse> \<subseteq> {..< length (g_nodes g)} \<times> {..< length (g_nodes g)}"
    using assms(1) by (auto simp: edge_rel_def in_range_def)
  have v: "set [v] \<subseteq> {..< length (g_nodes g)}"
    using assms(2) by simp
  obtain res where "collect_loop (\<lambda>i. map fst (ref_edges g i)) (fold enqueue [v] ([], [])) = Some res"
    and "set res = reaching ((edge_rel g)\<inverse>) (set [v])"
    using collect_reaching [OF preds E v] by metis
  then show ?thesis
    by (auto simp: ref_reach_def reaching_def rtrancl_converse)
qed

lemma ref_component_set:
  assumes "in_range g" and "v < length (g_nodes g)"
  shows "set (ref_component g v) =
    {u. u < length (g_nodes g) \<and> (v, u) \<in> (edge_rel g)\<^sup>* \<and> (u, v) \<in> (edge_rel g)\<^sup>*}"
  using assms by (auto simp: ref_component_def ref_reach_set)

lemma ref_component_eq:
  assumes "in_range g" and "v < length (g_nodes g)" and "u \<in> set (ref_component g v)"
  shows "set (ref_component g u) = set (ref_component g v)"
  using assms by (auto simp: ref_component_set intro: rtrancl_trans)

lemma ref_leader_of:
  assumes "in_range g" and v: "v < length (g_nodes g)"
  obtains l where "l \<in> set (ref_leaders g)" and "v \<in> set (ref_component g l)"
proof -
  let ?C = "set (ref_component g v)"
  have vC: "v \<in> ?C" using assms by (simp add: ref_component_set)
  define l where "l = Min ?C"
  have l: "l \<in> ?C" using vC unfolding l_def by (intro Min_in) auto
  then have n: "l < length (g_nodes g)" using assms by (simp add: ref_component_set)
  have eq: "set (ref_component g l) = ?C" by (rule ref_component_eq [OF assms l])
  then have "l \<in> set (ref_leaders g)"
    using n vC by (auto simp: ref_leaders_def l_def)
  with vC eq that show thesis by simp
qed

lemma ref_leaders_unique:
  assumes "in_range g" and "l \<in> set (ref_leaders g)" and "k \<in> set (ref_leaders g)"
    and "v \<in> set (ref_component g l)" and "v \<in> set (ref_component g k)"
  shows "l = k"
proof -
  have n: "l < length (g_nodes g)" "k < length (g_nodes g)"
    using assms(2,3) by (auto simp: ref_leaders_def)
  have "set (ref_component g l) = set (ref_component g k)"
    using ref_component_eq [OF assms(1) n(1) assms(4)] ref_component_eq [OF assms(1) n(2) assms(5)] by simp
  moreover have "l \<in> set (ref_component g l)" "k \<in> set (ref_component g k)"
    using n assms(1) by (simp_all add: ref_component_set)
  ultimately show ?thesis
    using assms(2,3) by (auto simp: ref_leaders_def intro: le_antisym)
qed

lemma ref_reach_card: "card (set (ref_reach g v)) = length (ref_reach g v)"
  by (simp add: ref_reach_def length_remdups_card_conv split: option.split)

lemma ref_order:
  assumes range: "in_range g" and l: "l \<in> set (ref_leaders g)" and k: "k \<in> set (ref_leaders g)"
    and a: "a \<in> set (ref_component g l)" and b: "b \<in> set (ref_component g k)" and edge: "(a, b) \<in> edge_rel g"
    and le: "length (ref_reach g l) \<le> length (ref_reach g k)"
  shows "l = k"
proof -
  let ?E = "edge_rel g"
  have n: "l < length (g_nodes g)" "k < length (g_nodes g)"
    using l k by (auto simp: ref_leaders_def)
  have la: "(l, a) \<in> ?E\<^sup>*" "(a, l) \<in> ?E\<^sup>*" and kb: "(k, b) \<in> ?E\<^sup>*" "(b, k) \<in> ?E\<^sup>*" "b < length (g_nodes g)"
    using a b n range by (auto simp: ref_component_set)
  have lk: "(l, k) \<in> ?E\<^sup>*"
    using la(1) edge kb(2) by (meson r_into_rtrancl rtrancl_trans)
  then have "set (ref_reach g k) \<subseteq> set (ref_reach g l)"
    using n range by (auto simp: ref_reach_set intro: rtrancl_trans)
  then have "set (ref_reach g k) = set (ref_reach g l)"
    using le by (intro card_seteq) (simp_all add: ref_reach_card)
  then have "(k, l) \<in> ?E\<^sup>*"
    using n range by (auto simp: ref_reach_set)
  with lk have "k \<in> set (ref_component g l)" "k \<in> set (ref_component g k)"
    using n range by (simp_all add: ref_component_set)
  then show ?thesis
    by (rule ref_leaders_unique [OF range l k])
qed

section \<open>The promises\<close>

lemma ref_scc_ok:
  assumes range: "in_range g"
  shows "distinct (concat (ref_tarjan_scc g))"
    and "set (concat (ref_tarjan_scc g)) = {..< length (g_nodes g)}"
    and "\<And>c a b. c \<in> set (ref_tarjan_scc g) \<Longrightarrow> a \<in> set c \<Longrightarrow> b \<in> set c \<Longrightarrow> (a, b) \<in> (edge_rel g)\<^sup>*"
    and "\<And>i j a b. i < length (ref_tarjan_scc g) \<Longrightarrow> j < length (ref_tarjan_scc g) \<Longrightarrow> a \<in> set (ref_tarjan_scc g ! i)
      \<Longrightarrow> b \<in> set (ref_tarjan_scc g ! j) \<Longrightarrow> (a, b) \<in> edge_rel g \<Longrightarrow> j \<le> i"
proof -
  let ?ls = "sort_key (\<lambda>v. length (ref_reach g v)) (ref_leaders g)"
  have leaders: "l < length (g_nodes g)" if "l \<in> set (ref_leaders g)" for l
    using that by (simp add: ref_leaders_def)
  have dist: "distinct ?ls"
    by (simp add: ref_leaders_def)
  have "distinct (concat (map (ref_component g) ls))" if "set ls \<subseteq> set (ref_leaders g)" "distinct ls" for ls
    using that
  proof (induction ls)
    case (Cons l ls)
    have "distinct (ref_component g l)"
      by (simp add: ref_component_def)
    moreover have "set (ref_component g l) \<inter> set (concat (map (ref_component g) ls)) = {}"
      using Cons.prems ref_leaders_unique [OF range, of l] by auto
    ultimately show ?case
      using Cons by simp
  qed simp
  from this [of ?ls] show "distinct (concat (ref_tarjan_scc g))"
    using dist by (simp add: ref_tarjan_scc_def)
  show "set (concat (ref_tarjan_scc g)) = {..< length (g_nodes g)}"
    using leaders ref_leader_of [OF range]
    by (auto simp: ref_tarjan_scc_def ref_component_set [OF range]) metis
  show "(a, b) \<in> (edge_rel g)\<^sup>*" if "c \<in> set (ref_tarjan_scc g)" "a \<in> set c" "b \<in> set c" for a b c
    using that leaders by (auto simp: ref_tarjan_scc_def ref_component_set [OF range] intro: rtrancl_trans)
  show "j \<le> i" if i: "i < length (ref_tarjan_scc g)" and j: "j < length (ref_tarjan_scc g)"
    and a: "a \<in> set (ref_tarjan_scc g ! i)" and b: "b \<in> set (ref_tarjan_scc g ! j)" and edge: "(a, b) \<in> edge_rel g"
    for i j a b
  proof (rule ccontr)
    assume "\<not> j \<le> i"
    then have "i < j" by simp
    have ij: "i < length ?ls" "j < length ?ls"
      using i j by (simp_all add: ref_tarjan_scc_def)
    then have mem: "?ls ! i \<in> set (ref_leaders g)" "?ls ! j \<in> set (ref_leaders g)"
      using nth_mem [of i ?ls] nth_mem [of j ?ls] by simp_all
    have "sorted (map (\<lambda>v. length (ref_reach g v)) ?ls)"
      by simp
    then have "length (ref_reach g (?ls ! i)) \<le> length (ref_reach g (?ls ! j))"
      using sorted_nth_mono [of "map (\<lambda>v. length (ref_reach g v)) ?ls" i j] \<open>i < j\<close> ij by simp
    moreover have "a \<in> set (ref_component g (?ls ! i))" "b \<in> set (ref_component g (?ls ! j))"
      using a b ij by (simp_all add: ref_tarjan_scc_def)
    ultimately have "?ls ! i = ?ls ! j"
      using ref_order [OF range mem _ _ edge] by blast
    then show False
      using dist ij \<open>i < j\<close> by (simp add: nth_eq_iff_index_eq)
  qed
qed

lemma ref_petgraph_ok: "in_range g \<Longrightarrow> petgraph_ok ref_petgraph g"
proof -
  assume range: "in_range g"
  have "set (ref_edges g i) = {(b, w). (i, b, w) \<in> set (g_edges g)}" for i
    by (force simp: ref_edges_def)
  moreover have "set (ref_undirected g i) = {a. (a, i) \<in> edge_rel g \<or> (i, a) \<in> edge_rel g}" for i
    by (force simp: ref_undirected_def edge_rel_def)
  moreover have "set (ref_incoming g i) = {a. (a, i) \<in> edge_rel g}" for i
    by (force simp: ref_incoming_def edge_rel_def)
  ultimately show ?thesis
    using ref_scc_ok [OF range] by (simp add: petgraph_ok_def ref_petgraph_def)
qed

end
