(* ===== verification/Example_Script.thy ===== *)
theory Example_Script
  imports Emission_Total Petgraph_Reference
begin

text \<open>
  The script of the small extension of \<open>Example_Extension\<close>, with the reference implementation of the
  graph queries: the input of the witnesses of the properties of the emission.
\<close>

lemma built_range: "built rank es p \<Longrightarrow> in_range (ps_graph p)"
  using builtD(3) [of rank es p] by (simp add: nodes_done_def)

section \<open>The environment\<close>

definition bx_env :: emit_env where
  "bx_env = \<lparr>env_pg = ref_petgraph, env_rank = (\<lambda>_. 0), env_lower = (\<lambda>s. s), env_upper = (\<lambda>s. s)\<rparr>"

lemma bx_built: "built (\<lambda>_. 0) bx_entities bx_sql"
  by (rule build_built [OF bx_build])

lemma bx_ok: "graph_ok bx_env bx_sql"
  using ref_petgraph_ok [OF built_range [OF bx_built]] by (simp add: bx_env_def)

lemma bx_edges_of: "edges_of bx_sql = g_edges bx_graph @ bx_edges"
  by (simp add: bx_sql_def)

lemma bx_acyclic: "acyclic (explicit_edge_rel (ps_graph bx_sql))"
proof -
  let ?rank = "\<lambda>i. [0, 1, 9, 2, 3, 9, 4, 0, 4, 0, 4] ! i :: nat"
  have "explicit_edge_rel (ps_graph bx_sql) \<subseteq> measure ?rank"
    by (auto simp: explicit_edge_rel_def bx_edges_of bx_graph_def bx_edges_def)
  then show ?thesis
    by (meson acyclic_subset wf_acyclic wf_measure)
qed

lemma bx_plain: "Function f \<in> set bx_entities \<Longrightarrow> hidden_args_plain f"
  by (auto simp: bx_entities_def hidden_args_plain_def bx_out_def bx_in_def bx_rank_fn_def bx_extern_def
      bx_type_def ut_emits_argument_sql_def resolved_def)

section \<open>The script\<close>

lemma bx_neighbors:
  "neighbors bx_env bx_sql 4 = [0, 1, 3, 6]" "neighbors bx_env bx_sql 5 = [0, 1, 8, 10, 8, 10]"
  "neighbors bx_env bx_sql 6 = [0, 1, 2, 3, 4, 7]" "neighbors bx_env bx_sql 8 = [0, 1, 5, 9, 5]"
  "neighbors bx_env bx_sql 10 = [0, 1, 5, 5, 9]" "neighbors bx_env bx_sql 3 = [1, 0, 4, 6]"
  by (simp_all add: bx_env_def ref_petgraph_def ref_undirected_def bx_edges_of bx_graph_def bx_edges_def)

lemma bx_node_of:
  "node_of (m_externs (ps_tables bx_sql)) bx_rank_fn = Inr 6" "node_of (m_externs (ps_tables bx_sql)) bx_in = Inr 8"
  "node_of (m_externs (ps_tables bx_sql)) bx_out = Inr 10" "node_of (m_types (ps_tables bx_sql)) bx_ty = Inr 5"
  "node_of (m_enums (ps_tables bx_sql)) bx_enum = Inr 4"
  by (simp_all add: node_of_def hm_get_def bx_sql_def bx_tables_def empty_tables_def)

lemma bx_fn_values [simp]:
  "pe_fn_args bx_rank_fn = [\<lparr>pa_pattern = ''x'', pa_used_ty = bx_type ''x::Mood'' ThisExtension ''Mood''\<rparr>]"
  "pe_fn_args bx_in = [\<lparr>pa_pattern = ''x'', pa_used_ty = bx_type ''cstr'' External ''cstring''\<rparr>]"
  "pe_fn_args bx_out = [\<lparr>pa_pattern = ''x'', pa_used_ty = bx_type ''x::T'' ThisExtension ''T''\<rparr>]"
  "pe_fn_return bx_rank_fn = RetType (bx_type ''i32'' External ''INT'')"
  "pe_fn_return bx_in = RetType (bx_type ''x::T'' ThisExtension ''T'')"
  "pe_fn_return bx_out = RetType (bx_type ''cstr'' External ''cstring'')"
  "pe_operator bx_rank_fn = None" "pe_operator bx_in = None" "pe_operator bx_out = None"
  "pe_cast bx_rank_fn = None" "pe_cast bx_in = None" "pe_cast bx_out = None"
  "pe_to_sql_config bx_rank_fn = bx_config" "pe_to_sql_config bx_in = bx_config" "pe_to_sql_config bx_out = bx_config"
  "ty_to_sql_config bx_ty = bx_config" "en_to_sql_config bx_enum = bx_config" "ty_alignment bx_ty = None"
  by (simp_all add: bx_rank_fn_def bx_in_def bx_out_def bx_extern_def bx_ty_def bx_enum_def)

lemma bx_type_emits [simp]:
  "ut_emits_argument_sql (bx_type i o' s)" "md_argument_sql (ut_metadata (bx_type i o' s)) = Inr (SqlMapping.As s)"
  "md_return_sql (ut_metadata (bx_type i o' s)) = Inr (Returns.One (SqlMapping.As s))"
  "ut_resolution (bx_type i o' s) = Some (i, o')"
  by (simp_all add: bx_type_def ut_emits_argument_sql_def resolved_def ut_resolution_def)

lemma bx_attrs:
  assumes "pe_extern_attrs f = []"
  shows "\<exists>t. attrs_sql env p f = Inr t"
  using assms by (auto simp: attrs_sql_def emitted_attrs_def attr_sql_def)

lemma bx_dependency:
  "find_type_dependency bx_env bx_sql 6 ''x::Mood'' = Some 4"
  "find_type_dependency bx_env bx_sql 8 ''x::T'' = Some 5" "find_type_dependency bx_env bx_sql 10 ''x::T'' = Some 5"
  by (simp_all add: find_type_dependency_def bx_neighbors bx_nodes_of)

lemma bx_extern_sql:
  "\<exists>t. extern_to_sql bx_env bx_sql bx_rank_fn = Inr t" "\<exists>t. extern_to_sql bx_env bx_sql bx_in = Inr t"
  "\<exists>t. extern_to_sql bx_env bx_sql bx_out = Inr t"
  using bx_attrs [of bx_rank_fn bx_env bx_sql] bx_attrs [of bx_in bx_env bx_sql] bx_attrs [of bx_out bx_env bx_sql]
  by (auto simp: extern_to_sql_def bx_node_of create_function_sql_def arguments_sql_def sql_args_def
      argument_sql_piece_def schema_prefix_for_used_type_def bx_dependency returns_sql_def type_return_sql_def
      return_slot_sql_def Let_def)

lemma bx_configured: "configured bx_config e p r = r"
  by (simp add: configured_def config_to_sql_def bx_config_def)

lemma bx_support_fns:
  "\<exists>r. support_fn_sql bx_env bx_sql 5 ''x::t_in'' = Inr r" "\<exists>r. support_fn_sql bx_env bx_sql 5 ''x::t_out'' = Inr r"
  using bx_extern_sql(2,3)
  by (auto simp: support_fn_sql_def bx_sql_def bx_tables_def empty_tables_def hm_iter_def bx_env_def
      bx_neighbors [unfolded bx_sql_def bx_env_def bx_tables_def empty_tables_def, simplified]
      bx_nodes_of [unfolded bx_sql_def, simplified])

lemma bx_type_sql: "\<exists>t. type_to_sql bx_env bx_sql bx_ty = Inr t"
  using bx_support_fns
  by (auto simp: type_to_sql_def bx_node_of bx_nodes_of Let_def resolve_function_path_def opt_support_fn_sql_def
      alignment_sql_def split_def)

lemma bx_entity_sql: "e \<in> set (nodes_of bx_sql) \<Longrightarrow> \<exists>t. entity_to_sql bx_env bx_sql e = Inr t"
  using bx_extern_sql bx_type_sql
  by (auto simp: bx_nodes_of bx_configured function_sql_def bx_node_of enum_to_sql_def)

lemma rmap_total: "(\<And>x. x \<in> set xs \<Longrightarrow> \<exists>y. f x = Inr y) \<Longrightarrow> \<exists>ys. rmap f xs = Inr ys"
proof (induction xs)
  case (Cons x xs)
  then show ?case by fastforce
qed simp

lemma bx_script: "\<exists>s. to_sql bx_env bx_sql = Inr s"
proof -
  have node: "\<exists>t. node_sql bx_env bx_sql i = Inr t" if "i < length (nodes_of bx_sql)" for i
    using bx_entity_sql [OF nth_mem [OF that]] by (auto simp: node_sql_def Let_def)
  have "\<exists>t. component_sql bx_env bx_sql c = Inr t" if c: "c \<in> set (components bx_env bx_sql)" for c
  proof -
    note facts = component_facts [OF bx_ok c]
    have "\<exists>ts. rmap (node_sql bx_env bx_sql) (ordered_component bx_env bx_sql c) = Inr ts"
      using mset_eq_setD [OF facts(4)] facts(2) node by (intro rmap_total) auto
    then show ?thesis
      by (auto simp: component_sql_def facts(3))
  qed
  then have "\<exists>ts. rmap (component_sql bx_env bx_sql) (components bx_env bx_sql) = Inr ts"
    by (rule rmap_total)
  then show ?thesis
    by (auto simp: to_sql_def)
qed

end
