(* ===== verification/Item_Lookup.thy ===== *)
theory Item_Lookup
  imports Emission Build_Facts
begin

text \<open>
  \<open>resolve_item\<close> against what it promises: the node that answers to a name, when there is exactly one.
\<close>

text \<open>Which entities answer to a name: by full path when the name has \<open>::\<close>, by a short name otherwise.\<close>

fun answers :: "string \<Rightarrow> SqlGraphEntity \<Rightarrow> bool" where
  "answers name (Function f) =
     (if contains name ''::'' then pe_full_path f = name
      else pe_name f = name \<or> pe_unaliased_name f = name
        \<or> (case pe_operator f of None \<Rightarrow> False | Some op \<Rightarrow> op_opname op = Some name))"
| "answers name (SqlGraphEntity.Type t) = ((if contains name ''::'' then ty_full_path t else ty_name t) = name)"
| "answers name (Enum e) = ((if contains name ''::'' then en_full_path e else en_name e) = name)"
| "answers name (Aggregate a) = ((if contains name ''::'' then ag_full_path a else ag_name a) = name)"
| "answers name (Trigger t) = ((if contains name ''::'' then tr_full_path t else tr_function_name t) = name)"
| "answers name (CustomSql c) =
     (\<not> contains name ''::'' \<and> es_name c = name \<or> (\<exists>d \<in> set (es_creates c). declared_name d = name))"
| "answers name (SqlGraphEntity.Schema s) = (\<not> contains name ''::'' \<and> sc_name s = name)"
| "answers name _ = False"

section \<open>The matches as one list\<close>

text \<open>A pass over a table appends a match for each entity that answers.\<close>

definition appends :: "('k \<Rightarrow> bool) \<Rightarrow> ('k \<times> node_index \<Rightarrow> item_match list \<Rightarrow> item_match list) \<Rightarrow> bool" where
  "appends hit f \<longleftrightarrow>
     (\<forall>k idx ms. idx \<notin> fst ` set ms \<longrightarrow> (\<exists>desc. f (k, idx) ms = ms @ (if hit k then [(idx, desc)] else [])))"

lemma appendsD:
  assumes "appends hit f" and "idx \<notin> fst ` set ms"
  obtains desc where "f (k, idx) ms = ms @ (if hit k then [(idx, desc)] else [])"
  using assms unfolding appends_def by blast

lemma fold_appends:
  assumes f: "appends hit f" and "distinct (map snd m)" and "snd ` set m \<inter> fst ` set ms = {}"
  shows "\<exists>descs. fold f m ms = ms @ descs \<and> map fst descs = map snd (filter (\<lambda>p. hit (fst p)) m)"
  using assms(2,3)
proof (induction m arbitrary: ms)
  case (Cons p m)
  obtain k idx where p: "p = (k, idx)"
    by (cases p)
  obtain desc where desc: "f (k, idx) ms = ms @ (if hit k then [(idx, desc)] else [])"
    by (rule appendsD [OF f, of idx ms k]) (use Cons.prems p in auto)
  let ?ms = "f p ms"
  have "distinct (map snd m)" "snd ` set m \<inter> fst ` set ?ms = {}"
    using Cons.prems by (force simp: p desc)+
  from Cons.IH [OF this] show ?case
    by (auto simp: p desc)
qed simp

lemma appends_extern:
  "appends (\<lambda>f. answers name (Function f)) (match_extern (contains name ''::'') name)"
  unfolding appends_def match_extern_def Let_def by auto

lemma appends_named:
  "appends (\<lambda>k. (if by_path then full_path k else short k) = name) (match_named kind full_path short by_path name)"
  unfolding appends_def match_named_def Let_def by auto

lemma appends_extension_sql:
  "appends (\<lambda>c. answers name (CustomSql c)) (match_extension_sql (contains name ''::'') name)"
proof -
  have "(\<exists>d \<in> set ds. declared_name d = name) \<longleftrightarrow> find (\<lambda>d. declared_name d = name) ds \<noteq> None" for ds
    by (auto simp: find_None_iff)
  then show ?thesis
    unfolding appends_def match_extension_sql_def Let_def by (auto split: option.split)
qed

lemma appends_schema:
  "appends (\<lambda>s. answers name (SqlGraphEntity.Schema s)) (match_schema (contains name ''::'') name)"
  unfolding appends_def match_schema_def Let_def by auto

text \<open>The matches so far are those of the entities \<open>K\<close>, one each.\<close>

definition matched :: "StableGraph \<Rightarrow> string \<Rightarrow> SqlGraphEntity set \<Rightarrow> item_match list \<Rightarrow> bool" where
  "matched g name K ms \<longleftrightarrow>
     distinct (map (\<lambda>p. g_nodes g ! fst p) ms) \<and> (\<forall>p \<in> set ms. fst p < length (g_nodes g))
     \<and> (\<lambda>p. g_nodes g ! fst p) ` set ms = {e \<in> K. answers name e}"

lemma matched_start: "matched g name {} []"
  by (simp add: matched_def)

lemma matched_pass:
  assumes f: "appends (\<lambda>k. answers name (into k)) f" and m: "holds_items into P items g m" and inj: "inj into"
    and ms: "matched g name K ms" and K: "K \<inter> range into = {}"
  shows "matched g name (K \<union> into ` set items) (fold f (hm_iter rank m) ms)"
proof -
  let ?node = "\<lambda>i. g_nodes g ! i"
  have entry: "snd p < length (g_nodes g)" "?node (snd p) = into (fst p)" if "p \<in> set m" for p
    using m that by (auto simp: holds_items_def points_def)
  have keys: "distinct (map fst m)" "fst ` set m = set items"
    using m by (simp_all add: holds_items_def)
  have ents: "distinct (map (\<lambda>p. into (fst p)) (hm_iter rank m))"
    using keys(1) inj by (simp add: hm_iter_def distinct_map comp_inj_on inj_on_def inj_def)
  moreover have "map ?node (map snd (hm_iter rank m)) = map (\<lambda>p. into (fst p)) (hm_iter rank m)"
    using entry(2) by simp
  ultimately have "distinct (map ?node (map snd (hm_iter rank m)))"
    by (simp only:)
  then have "distinct (map snd (hm_iter rank m))"
    by (rule distinct_map [THEN iffD1, THEN conjunct1])
  moreover have "snd ` set (hm_iter rank m) \<inter> fst ` set ms = {}"
    using ms K entry(2) by (fastforce simp: matched_def)
  ultimately obtain descs where fold: "fold f (hm_iter rank m) ms = ms @ descs"
    and descs: "map fst descs = map snd (filter (\<lambda>p. answers name (into (fst p))) (hm_iter rank m))"
    using fold_appends [OF f] by blast
  let ?hits = "filter (\<lambda>p. answers name (into (fst p))) (hm_iter rank m)"
  have "map (\<lambda>p. ?node (fst p)) descs = map ?node (map fst descs)"
    by simp
  also have "\<dots> = map (\<lambda>p. into (fst p)) ?hits"
    using entry by (simp add: descs)
  finally have nodes: "map (\<lambda>p. ?node (fst p)) descs = map (\<lambda>p. into (fst p)) ?hits" .
  have below: "\<forall>p \<in> set descs. fst p < length (g_nodes g)"
  proof
    fix p assume "p \<in> set descs"
    then have "fst p \<in> set (map fst descs)" by simp
    then show "fst p < length (g_nodes g)" using entry(1) by (auto simp: descs)
  qed
  have "(\<lambda>p. ?node (fst p)) ` set descs = (\<lambda>p. into (fst p)) ` set ?hits"
    using arg_cong [OF nodes, of set] by simp
  also have "\<dots> = {e \<in> into ` fst ` set m. answers name e}"
    by (auto simp: image_image)
  finally have image: "(\<lambda>p. ?node (fst p)) ` set descs = {e \<in> into ` set items. answers name e}"
    unfolding keys(2) .
  have "distinct (map (\<lambda>p. ?node (fst p)) descs)"
    unfolding nodes using ents by (simp add: distinct_map filter_set inj_on_def)
  then show ?thesis
    using ms K below image unfolding fold matched_def
    by (auto simp: image_Un)
qed

section \<open>All passes\<close>

definition named_entities :: "SqlGraphEntity list \<Rightarrow> SqlGraphEntity set" where
  "named_entities es =
     {e \<in> set es. case e of ExtensionRoot _ \<Rightarrow> False | BuiltinType _ \<Rightarrow> False | Ord _ \<Rightarrow> False | Hash _ \<Rightarrow> False | _ \<Rightarrow> True}"

lemma item_matches_matched:
  assumes "built rank es p"
  shows "matched (ps_graph p) name (named_entities es) (item_matches env p name)"
proof -
  note tables = built_tables [OF assms]
  let ?g = "ps_graph p" and ?se = "split_entities es"
  let ?F = "Function ` set (se_externs ?se)" and ?T = "SqlGraphEntity.Type ` set (se_types ?se)"
    and ?E = "Enum ` set (se_enums ?se)" and ?A = "Aggregate ` set (se_aggregates ?se)"
    and ?R = "Trigger ` set (se_triggers ?se)" and ?C = "CustomSql ` set (se_extension_sqls ?se)"
    and ?S = "SqlGraphEntity.Schema ` set (se_schemas ?se)"
  have named: "appends (\<lambda>k. answers name (SqlGraphEntity.Type k))
      (match_named kind ty_full_path ty_name (contains name ''::'') name)"
    "appends (\<lambda>k. answers name (Enum k)) (match_named kind en_full_path en_name (contains name ''::'') name)"
    "appends (\<lambda>k. answers name (Aggregate k)) (match_named kind ag_full_path ag_name (contains name ''::'') name)"
    "appends (\<lambda>k. answers name (Trigger k))
      (match_named kind tr_full_path tr_function_name (contains name ''::'') name)" for kind
    unfolding answers.simps by (rule appends_named)+
  note pass = matched_pass [where rank = "env_rank env"]
  have "matched ?g name (((((({} \<union> ?F) \<union> ?T) \<union> ?E) \<union> ?A) \<union> ?R) \<union> ?C \<union> ?S) (item_matches env p name)"
    unfolding item_matches_def Let_def
    by (rule pass [OF appends_schema tables(2) _ pass [OF appends_extension_sql tables(1) _
          pass [OF named(4) tables(9) _ pass [OF named(3) tables(8) _ pass [OF named(2) tables(3) _
          pass [OF named(1) tables(4) _ pass [OF appends_extern tables(5) _ matched_start]]]]]]])
      (auto simp: inj_def)
  moreover have "((((({} \<union> ?F) \<union> ?T) \<union> ?E) \<union> ?A) \<union> ?R) \<union> ?C \<union> ?S = named_entities es"
  proof (rule set_eqI)
    fix e show "e \<in> ((((({} \<union> ?F) \<union> ?T) \<union> ?E) \<union> ?A) \<union> ?R) \<union> ?C \<union> ?S \<longleftrightarrow> e \<in> named_entities es"
      by (cases e) (simp_all add: named_entities_def image_iff)
  qed
  ultimately show ?thesis
    by (simp only:)
qed

lemma answering_named: "{e \<in> named_entities es. answers name e} = {e \<in> set es. answers name e}"
proof -
  have "e \<in> named_entities es" if "e \<in> set es" "answers name e" for e
    using that by (cases e rule: SqlGraphEntity.exhaust) (simp_all add: named_entities_def)
  then show ?thesis
    by (auto simp: named_entities_def)
qed

text \<open>The three results, by the number of entities that answer.\<close>

lemma resolve_item_cases:
  assumes "built rank es p"
  shows "case resolve_item env p name of
      Inr i \<Rightarrow> i < length (nodes_of p) \<and> {e \<in> set es. answers name e} = {nodes_of p ! i}
    | Inl err \<Rightarrow>
        err = NoMatch name \<and> {e \<in> set es. answers name e} = {}
        \<or> (\<exists>descs. err = Ambiguous name descs \<and> length descs = card {e \<in> set es. answers name e} \<and> 1 < length descs)"
proof -
  let ?ms = "item_matches env p name" and ?node = "\<lambda>m. nodes_of p ! fst m"
  have m: "distinct (map ?node ?ms)" "\<forall>m \<in> set ?ms. fst m < length (nodes_of p)"
    "?node ` set ?ms = {e \<in> set es. answers name e}"
    using item_matches_matched [OF assms] answering_named by (simp_all add: matched_def)
  have "card {e \<in> set es. answers name e} = length ?ms"
    using distinct_card [OF m(1)] m(3) by simp
  then show ?thesis
    using m(2,3) by (cases ?ms; cases "tl ?ms") (auto simp: resolve_item_def)
qed

end
