(* ===== verification/Emission_Properties.thy ===== *)
theory Emission_Properties
  imports Example_Script Item_Lookup
begin

text \<open>
  The properties of the emission: the script has the SQL of every entity, after the SQL of what it
  depends on, and a slice has what its items need and nothing else.
\<close>

section \<open>Pieces of the script\<close>

lemma to_sql_part:
  assumes ok: "graph_ok env p" and run: "to_sql env p = Inr s" and i: "i < length (nodes_of p)"
    and x: "node_sql env p i = Inr (Some x)"
  shows "has_part s x"
proof -
  have "i \<in> set (emit_sequence env p)"
    using emit_sequence_nodes(2) [OF ok] i by simp
  then obtain c where c: "c \<in> set (components env p)" "i \<in> set (ordered_component env p c)"
    by (auto simp: emit_sequence_def)
  from run obtain ts where ts: "rmap (component_sql env p) (components env p) = Inr ts" and s: "s = concat ts"
    by (auto simp: to_sql_def map_res_def split: sum.splits)
  from rmap_mem [OF ts c(1)] obtain t where "t \<in> set ts" and t: "component_sql env p c = Inr t"
    by blast
  then obtain us vs where "ts = us @ t # vs"
    by (meson split_list)
  then have "s = concat us @ t @ concat vs"
    using s by simp
  then show ?thesis
    using has_part_append [OF component_text_part [OF t c(2) x]] by simp
qed

text \<open>
  What it means for the node \<open>a\<close> to be done before the node \<open>b\<close>: it comes first in the order of the
  emission, and its SQL comes first in the script.
\<close>

definition emitted_before :: "emit_env \<Rightarrow> PgrxSql \<Rightarrow> node_index \<Rightarrow> node_index \<Rightarrow> bool" where
  "emitted_before env p a b \<longleftrightarrow>
     comes_before (emit_sequence env p) a b
     \<and> (\<forall>s x y. to_sql env p = Inr s \<longrightarrow> node_sql env p a = Inr (Some x) \<longrightarrow> node_sql env p b = Inr (Some y)
          \<longrightarrow> has_parts s x y)"

lemma edge_emitted:
  assumes "graph_ok env p" and "in_range (ps_graph p)" and "(a, b, w) \<in> set (edges_of p)"
    and "(b, a) \<notin> (edge_rel (ps_graph p))\<^sup>* \<or> w = By \<and> acyclic (explicit_edge_rel (ps_graph p))"
  shows "emitted_before env p a b"
  using sequence_respects [OF assms] to_sql_text by (auto simp: emitted_before_def)

section \<open>Support functions\<close>







section \<open>Properties\<close>

text \<open>
  C10. The script is complete: the ordering of the components never fails, every node of the graph has
  exactly one place in the sequence, and the script contains the SQL of each of them.
\<close>

theorem every_node_emitted_once:
  assumes "petgraph_ok (env_pg env) (ps_graph p)"
  shows "(\<forall>c \<in> set (components env p). \<exists>ordered. component_order env p c = Inr ordered)
    \<and> distinct (emit_sequence env p) \<and> set (emit_sequence env p) = {..< length (nodes_of p)}
    \<and> (\<forall>s i x. to_sql env p = Inr s \<longrightarrow> i < length (nodes_of p) \<longrightarrow> node_sql env p i = Inr (Some x)
         \<longrightarrow> has_part s x)"
  using component_facts(3) [OF assms] emit_sequence_nodes [OF assms] to_sql_part [OF assms] by blast

theorem every_node_emitted_once_witness:
  "petgraph_ok (env_pg bx_env) (ps_graph bx_sql) \<and> length (emit_sequence bx_env bx_sql) = 11
   \<and> (\<exists>s. to_sql bx_env bx_sql = Inr s)"
  using every_node_emitted_once [OF bx_ok] distinct_card [of "emit_sequence bx_env bx_sql"] bx_ok bx_script
  by (simp add: bx_nodes_of)

text \<open>
  C11. Dependencies come first: for an edge from \<open>a\<close> to \<open>b\<close> that lies on no cycle, the SQL of \<open>a\<close>
  comes before the SQL of \<open>b\<close> in the script; and for an explicit edge also on a cycle, as long as the
  explicit edges alone have no cycle.
\<close>

theorem dependencies_emitted_first:
  assumes "build uni rank es name so = Inr p" and "petgraph_ok (env_pg env) (ps_graph p)"
    and "(a, b, w) \<in> set (edges_of p)"
    and "(b, a) \<notin> (edge_rel (ps_graph p))\<^sup>* \<or> w = By \<and> acyclic (explicit_edge_rel (ps_graph p))"
  shows "emitted_before env p a b"
  by (rule edge_emitted [OF assms(2) built_range [OF build_built [OF assms(1)]] assms(3,4)])

theorem dependencies_emitted_first_witness:
  "emitted_before bx_env bx_sql 6 2 \<and> emitted_before bx_env bx_sql 8 5
   \<and> nodes_of bx_sql ! 8 = Function bx_in \<and> nodes_of bx_sql ! 5 = SqlGraphEntity.Type bx_ty"
  using dependencies_emitted_first [OF bx_build bx_ok, of 6 2 By]
    dependencies_emitted_first [OF bx_build bx_ok, of 8 5 By] bx_acyclic
  by (simp add: bx_nodes_of bx_edges_of bx_graph_def bx_edges_def)

text \<open>
  C12. What an entity \<open>requires\<close> is created before it: when the explicit edges have no cycle, the SQL of
  an entity that the reference names comes before the SQL of the entity that requires it.
\<close>

theorem requirements_emitted_first:
  assumes "build uni rank es name so = Inr p" and "petgraph_ok (env_pg env) (ps_graph p)"
    and "acyclic (explicit_edge_rel (ps_graph p))" and "e \<in> set es" and "r \<in> set (entity_requires e)"
  shows "\<exists>i a. i < length (nodes_of p) \<and> nodes_of p ! i = e \<and> a < length (nodes_of p)
    \<and> ref_names r (nodes_of p ! a) \<and> emitted_before env p a i"
proof -
  note built = build_built [OF assms(1)]
  from entity_links(2) [OF built assms(4,5)] obtain i where
    i: "i < length (nodes_of p)" "nodes_of p ! i = e"
    and link: "linked (find_positioning_ref_target rank (ps_tables p) r) i By (ps_graph p)"
    by blast
  from link obtain a where a: "find_positioning_ref_target rank (ps_tables p) r = Some a"
    "(a, i, By) \<in> set (edges_of p)" by (rule linkedE)
  have "emitted_before env p a i"
    using edge_emitted [OF assms(2) built_range [OF built] a(2)] assms(3) by simp
  with position_target_named [OF built a(1)] i show ?thesis
    by blast
qed

theorem requirements_emitted_first_witness:
  "acyclic (explicit_edge_rel (ps_graph bx_sql))
   \<and> (\<exists>i a. i < length (nodes_of bx_sql) \<and> nodes_of bx_sql ! i = CustomSql bx_last \<and> a < length (nodes_of bx_sql)
       \<and> ref_names (FullPath ''s::rank'') (nodes_of bx_sql ! a) \<and> emitted_before bx_env bx_sql a i)"
  by (intro conjI bx_acyclic requirements_emitted_first [OF bx_build bx_ok bx_acyclic bx_entities_in(6)]) simp

text \<open>
  C13. A type of the extension is created before the functions and aggregates that mention it, unless
  it depends on them in turn, as a type depends on its input and output functions.
\<close>

theorem types_emitted_before_users:
  assumes "build uni rank es name so = Inr p" and "petgraph_ok (env_pg env) (ps_graph p)" and "e \<in> set es"
    and "(req, slot, path, ident, origin) \<in> set (entity_type_refs e)"
  shows "\<exists>i a. i < length (nodes_of p) \<and> nodes_of p ! i = e \<and> a < length (nodes_of p)
    \<and> provides_type (nodes_of p ! a) ident origin
    \<and> ((i, a) \<in> (edge_rel (ps_graph p))\<^sup>* \<or> emitted_before env p a i)"
proof -
  note built = build_built [OF assms(1)]
  from entity_links(1) [OF built assms(3,4)] obtain i where
    i: "i < length (nodes_of p)" "nodes_of p ! i = e"
    and link: "linked (ref_target rank (ps_tables p) (slot, path, ident, origin)) i req (ps_graph p)"
    by blast
  from link obtain a where a: "ref_target rank (ps_tables p) (slot, path, ident, origin) = Some a"
    "(a, i, req) \<in> set (edges_of p)" by (rule linkedE)
  have "(i, a) \<in> (edge_rel (ps_graph p))\<^sup>* \<or> emitted_before env p a i"
    using edge_emitted [OF assms(2) built_range [OF built] a(2)] by blast
  with ref_target_provides [OF built a(1)] i show ?thesis
    by blast
qed

theorem types_emitted_before_users_witness:
  "\<exists>i a. i < length (nodes_of bx_sql) \<and> nodes_of bx_sql ! i = Function bx_rank_fn \<and> a < length (nodes_of bx_sql)
    \<and> provides_type (nodes_of bx_sql ! a) ''x::Mood'' ThisExtension
    \<and> ((i, a) \<in> (edge_rel (ps_graph bx_sql))\<^sup>* \<or> emitted_before bx_env bx_sql a i)"
  by (intro types_emitted_before_users [OF bx_build bx_ok bx_entities_in(4)]) simp

text \<open>
  C14. The script starts with the root and the bootstrap block and ends with the finalize block: when
  the explicit edges have no cycle, every entity comes after the root, after the bootstrap block and
  before the finalize block.
\<close>

theorem bootstrap_first_finalize_last:
  assumes "build uni rank es name so = Inr p" and "petgraph_ok (env_pg env) (ps_graph p)"
    and "acyclic (explicit_edge_rel (ps_graph p))" and "e \<in> set es"
    and "\<forall>c. e \<noteq> ExtensionRoot c" and "\<forall>t. e \<noteq> BuiltinType t"
  shows "\<exists>i < length (nodes_of p). nodes_of p ! i = e \<and> emitted_before env p (ps_graph_root p) i
    \<and> (\<forall>b. ps_graph_bootstrap p = Some b \<longrightarrow> bootstraps e \<or> emitted_before env p b i)
    \<and> (\<forall>f. ps_graph_finalize p = Some f \<longrightarrow> finalizes e \<or> emitted_before env p i f)"
proof -
  note built = build_built [OF assms(1)]
  have edge: "emitted_before env p a b" if "(a, b, By) \<in> set (edges_of p)" for a b
    using edge_emitted [OF assms(2) built_range [OF built] that] assms(3) by simp
  from entity_is_node [OF built assms(4)] assms(5,6) obtain i where
    "i < length (nodes_of p)" "nodes_of p ! i = e" "(ps_graph_root p, i, By) \<in> set (edges_of p)"
    "\<forall>b. ps_graph_bootstrap p = Some b \<longrightarrow> bootstraps e \<or> (b, i, By) \<in> set (edges_of p)"
    "\<forall>f. ps_graph_finalize p = Some f \<longrightarrow> finalizes e \<or> (i, f, By) \<in> set (edges_of p)"
    using builtD(2) [OF built] by auto
  then show ?thesis
    using edge by blast
qed

theorem bootstrap_first_finalize_last_witness:
  "ps_graph_bootstrap bx_sql = Some 1 \<and> nodes_of bx_sql ! 1 = CustomSql bx_boot
   \<and> (\<exists>i < length (nodes_of bx_sql). nodes_of bx_sql ! i = Enum bx_enum \<and> emitted_before bx_env bx_sql 1 i)"
  using bootstrap_first_finalize_last [OF bx_build bx_ok bx_acyclic bx_entities_in(5)]
  by (simp add: bx_nodes_of) (auto simp: bx_sql_def)






text \<open>
  C18. The dependencies of a slice: the search through the incoming edges ends, and it returns the least
  set of nodes that has the targets and everything that a member depends on.
\<close>

theorem slice_is_least_closed_set:
  assumes "petgraph_ok (env_pg env) (ps_graph p)" and "in_range (ps_graph p)"
    and "set targets \<subseteq> {..< length (nodes_of p)}"
  shows "\<exists>keep. collect_transitive_deps env p targets = Some keep \<and> set targets \<subseteq> set keep
    \<and> (\<forall>(a, b, w) \<in> set (edges_of p). b \<in> set keep \<longrightarrow> a \<in> set keep)
    \<and> (\<forall>K. set targets \<subseteq> K \<and> (\<forall>(a, b, w) \<in> set (edges_of p). b \<in> K \<longrightarrow> a \<in> K) \<longrightarrow> set keep \<subseteq> K)"
proof -
  obtain keep where keep: "collect_transitive_deps env p targets = Some keep"
    "set keep = reaching (edge_rel (ps_graph p)) (set targets)"
    by (rule collect_transitive_deps_reaching [OF assms])
  have "a \<in> K" if K: "set targets \<subseteq> K" "\<forall>(a, b, w) \<in> set (edges_of p). b \<in> K \<longrightarrow> a \<in> K"
    and a: "(a, t) \<in> (edge_rel (ps_graph p))\<^sup>*" "t \<in> set targets" for a t K
    using a
  proof (induction rule: converse_rtrancl_induct)
    case base
    then show ?case using K(1) by blast
  next
    case (step a b)
    then show ?case using K(2) unfolding edge_rel_def by blast
  qed
  then have least: "set keep \<subseteq> K"
    if "set targets \<subseteq> K \<and> (\<forall>(a, b, w) \<in> set (edges_of p). b \<in> K \<longrightarrow> a \<in> K)" for K
    using that unfolding keep(2) reaching_def by blast
  have closed: "a \<in> set keep" if "(a, b, w) \<in> set (edges_of p)" "b \<in> set keep" for a b w
    using that unfolding keep(2) reaching_def edge_rel_def by (blast intro: converse_rtrancl_into_rtrancl)
  have "set targets \<subseteq> set keep"
    unfolding keep(2) reaching_def by blast
  then show ?thesis
    using keep(1) closed least by blast
qed

theorem slice_is_least_closed_set_witness:
  "\<exists>keep. collect_transitive_deps bx_env bx_sql [2] = Some keep \<and> {0, 1, 3, 4, 6} \<subseteq> set keep \<and> 5 \<notin> set keep"
proof -
  let ?E = "edges_of bx_sql"
  have *: "\<forall>K. {2} \<subseteq> K \<and> (\<forall>(a, b, w) \<in> set ?E. b \<in> K \<longrightarrow> a \<in> K) \<longrightarrow> {0, 1, 3, 4, 6} \<subseteq> K"
    "{2} \<subseteq> {0, 1, 2, 3, 4, 6, 7 :: nat}
      \<and> (\<forall>(a, b, w) \<in> set ?E. b \<in> {0, 1, 2, 3, 4, 6, 7} \<longrightarrow> a \<in> {0, 1, 2, 3, 4, 6, 7 :: nat})"
    by (auto simp: bx_edges_of bx_graph_def bx_edges_def)
  from slice_is_least_closed_set [OF bx_ok built_range [OF bx_built], of "[2]"] obtain keep where
    keep: "collect_transitive_deps bx_env bx_sql [2] = Some keep" "{2} \<subseteq> set keep"
    "\<forall>(a, b, w) \<in> set ?E. b \<in> set keep \<longrightarrow> a \<in> set keep"
    "\<forall>K. {2} \<subseteq> K \<and> (\<forall>(a, b, w) \<in> set ?E. b \<in> K \<longrightarrow> a \<in> K) \<longrightarrow> set keep \<subseteq> K"
    by (auto simp: bx_nodes_of)
  have "set keep \<subseteq> {0, 1, 2, 3, 4, 6, 7}"
    using keep(4) *(2) by blast
  then have "5 \<notin> set keep"
    by auto
  moreover have "{0, 1, 3, 4, 6} \<subseteq> set keep"
    using *(1) keep(2,3) by blast
  ultimately show ?thesis
    using keep(1) by (intro exI [of _ keep] conjI)
qed





end
