(* ===== verification/Control_File.thy ===== *)
theory Control_File
  imports Entities
begin

text \<open>
  The parser of \<open>.control\<close> files (\<open>pgrx-sql-entity-graph/src/control_file.rs\<close>), which gives the build
  its extension root. The environment of the process is a parameter, a map from the names of variables
  to their values, and so is the file system that \<open>from_path_with_cargo_version\<close> reads.
\<close>

section \<open>The parser\<close>

datatype 'io ControlFileError =
    IOError 'io
  | MissingField string
  | RedundantField string
  | MissingEnvvar string

definition CARGO_VERSION :: string where
  "CARGO_VERSION = ''@CARGO_VERSION@''"

definition do_var_replacements ::
    "(string \<Rightarrow> string option) \<Rightarrow> string option \<Rightarrow> string \<Rightarrow> 'io ControlFileError + string" where
  "do_var_replacements env cargo_version inp =
     (if contains inp CARGO_VERSION then
        (case cargo_version of
           Some v \<Rightarrow> Inr (replace_str CARGO_VERSION v inp)
         | None \<Rightarrow>
             (case env ''CARGO_PKG_VERSION'' of
                Some v \<Rightarrow> Inr (replace_str CARGO_VERSION v inp)
              | None \<Rightarrow> Inl (MissingEnvvar ''CARGO_PKG_VERSION'')))
      else Inr inp)"

text \<open>\<open>str::lines\<close>: a line ends with a line feed or a carriage return and a line feed.\<close>

definition strip_cr :: "string \<Rightarrow> string" where
  "strip_cr line = (if line \<noteq> [] \<and> List.last line = CHR 0x0D then butlast line else line)"

fun lines_aux :: "string \<Rightarrow> string \<Rightarrow> string list" where
  "lines_aux acc [] = (if acc = [] then [] else [rev acc])"
| "lines_aux acc (c # s) =
     (if c = CHR 0x0A then strip_cr (rev acc) # lines_aux [] s else lines_aux (c # acc) s)"

definition str_lines :: "string \<Rightarrow> string list" where
  "str_lines s = lines_aux [] s"

definition trim_start_matches :: "char \<Rightarrow> string \<Rightarrow> string" where
  "trim_start_matches c s = dropWhile (\<lambda>d. d = c) s"

definition trim_end_matches :: "char \<Rightarrow> string \<Rightarrow> string" where
  "trim_end_matches c s = rev (dropWhile (\<lambda>d. d = c) (rev s))"

text \<open>The body of the loop over the lines.\<close>

definition control_line ::
    "(string \<Rightarrow> string option) \<Rightarrow> string option \<Rightarrow> string \<Rightarrow> (string \<rightharpoonup> string)
      \<Rightarrow> 'io ControlFileError + (string \<rightharpoonup> string)" where
  "control_line env cargo_version line temp =
     (let parts = split_str ''='' line in
      if length parts \<noteq> 2 then Inr temp
      else
        let k = trim (parts ! 0);
            v = trim (parts ! 1);
            v = trim_start_matches (CHR 0x27) v;
            v = trim_end_matches (CHR 0x27) v
        in rbind (do_var_replacements env cargo_version v) (\<lambda>v. Inr (temp(k \<mapsto> v))))"

definition required_field :: "(string \<rightharpoonup> string) \<Rightarrow> string \<Rightarrow> 'io ControlFileError + string" where
  "required_field temp field = (case temp field of Some v \<Rightarrow> Inr v | None \<Rightarrow> Inl (MissingField field))"

definition from_str_with_version ::
    "(string \<Rightarrow> string option) \<Rightarrow> string \<Rightarrow> string option \<Rightarrow> 'io ControlFileError + ControlFile" where
  "from_str_with_version env inp cargo_version =
     rbind (rfold (control_line env cargo_version) (str_lines inp) Map.empty) (\<lambda>temp.
     rbind (required_field temp ''comment'') (\<lambda>comment.
     rbind (required_field temp ''default_version'') (\<lambda>default_version.
     rbind (required_field temp ''relocatable'') (\<lambda>relocatable.
     rbind (required_field temp ''superuser'') (\<lambda>superuser.
     let control_file =
       \<lparr>cf_comment = comment,
        cf_default_version = default_version,
        cf_module_pathname = temp ''module_pathname'',
        cf_relocatable = (relocatable = ''true''),
        cf_superuser = (superuser = ''true''),
        cf_schema = temp ''schema'',
        cf_trusted = (case temp ''trusted'' of Some v \<Rightarrow> v = ''true'' | None \<Rightarrow> False)\<rparr>
     in
     if \<not> cf_superuser control_file \<and> cf_trusted control_file
     then Inl (RedundantField ''trusted'')
     else Inr control_file)))))"

definition from_str :: "(string \<Rightarrow> string option) \<Rightarrow> string \<Rightarrow> 'io ControlFileError + ControlFile" where
  "from_str env inp = from_str_with_version env inp None"

definition from_str_with_cargo_version ::
    "(string \<Rightarrow> string option) \<Rightarrow> string \<Rightarrow> string \<Rightarrow> 'io ControlFileError + ControlFile" where
  "from_str_with_cargo_version env inp cargo_version = from_str_with_version env inp (Some cargo_version)"

definition from_path_with_cargo_version ::
    "(string \<Rightarrow> 'io + string) \<Rightarrow> (string \<Rightarrow> string option) \<Rightarrow> string \<Rightarrow> string
      \<Rightarrow> 'io ControlFileError + ControlFile" where
  "from_path_with_cargo_version read_to_string env path cargo_version =
     (case read_to_string path of
        Inl e \<Rightarrow> Inl (IOError e)
      | Inr contents \<Rightarrow> from_str_with_cargo_version env contents cargo_version)"

section \<open>What a text assigns\<close>

text \<open>
  The specification: a text is a sequence of assignments, one for each line with exactly one equals
  sign, and the last assignment of a key counts.
\<close>

definition assignment :: "string \<Rightarrow> (string \<times> string) option" where
  "assignment line =
     (case split_str ''='' line of
        [k, v] \<Rightarrow> Some (trim k, trim_end_matches (CHR 0x27) (trim_start_matches (CHR 0x27) (trim v)))
      | _ \<Rightarrow> None)"

definition assigned :: "string \<Rightarrow> string \<rightharpoonup> string" where
  "assigned inp = map_of (rev (List.map_filter assignment (str_lines inp)))"

text \<open>The text of a control file, a line for each field, with the strings in quotes.\<close>

definition quoted_line :: "string \<Rightarrow> string \<Rightarrow> string" where
  "quoted_line k v = k @ '' = '' @ [CHR 0x27] @ v @ [CHR 0x27]"

definition bool_line :: "string \<Rightarrow> bool \<Rightarrow> string" where
  "bool_line k b = k @ '' = '' @ (if b then ''true'' else ''false'')"

definition render_lines :: "ControlFile \<Rightarrow> string list" where
  "render_lines cf =
     [quoted_line ''comment'' (cf_comment cf), quoted_line ''default_version'' (cf_default_version cf)]
     @ (case cf_module_pathname cf of Some p \<Rightarrow> [quoted_line ''module_pathname'' p] | None \<Rightarrow> [])
     @ [bool_line ''relocatable'' (cf_relocatable cf), bool_line ''superuser'' (cf_superuser cf)]
     @ (case cf_schema cf of Some p \<Rightarrow> [quoted_line ''schema'' p] | None \<Rightarrow> [])
     @ [bool_line ''trusted'' (cf_trusted cf)]"

definition render_control :: "ControlFile \<Rightarrow> string" where
  "render_control cf = concat (map (\<lambda>line. line @ [CHR 0x0A]) (render_lines cf))"

text \<open>
  The strings that the format can hold: without line feeds and equals signs, without a quote at either
  end, and without the variable that is replaced.
\<close>

definition plain_value :: "string \<Rightarrow> bool" where
  "plain_value v \<longleftrightarrow>
     CHR 0x0A \<notin> set v \<and> CHR ''='' \<notin> set v \<and> \<not> contains v CARGO_VERSION
     \<and> (v \<noteq> [] \<longrightarrow> hd v \<noteq> CHR 0x27 \<and> List.last v \<noteq> CHR 0x27)"

definition control_ok :: "ControlFile \<Rightarrow> bool" where
  "control_ok cf \<longleftrightarrow>
     plain_value (cf_comment cf) \<and> plain_value (cf_default_version cf)
     \<and> (case cf_module_pathname cf of Some p \<Rightarrow> plain_value p | None \<Rightarrow> True)
     \<and> (case cf_schema cf of Some p \<Rightarrow> plain_value p | None \<Rightarrow> True)
     \<and> (cf_superuser cf \<or> \<not> cf_trusted cf)"

section \<open>Lines, values and quotes\<close>

lemma lines_aux_line:
  "CHR 0x0A \<notin> set line \<Longrightarrow> lines_aux acc (line @ CHR 0x0A # rest) = strip_cr (rev acc @ line) # lines_aux [] rest"
  by (induction line arbitrary: acc) auto

lemma str_lines_concat:
  assumes "\<And>l. l \<in> set ls \<Longrightarrow> CHR 0x0A \<notin> set l \<and> strip_cr l = l"
  shows "str_lines (concat (map (\<lambda>l. l @ [CHR 0x0A]) ls)) = ls"
  using assms by (induction ls) (auto simp: str_lines_def lines_aux_line)

lemma split_aux_char:
  "CHR ''='' \<notin> set s \<Longrightarrow> split_aux 0 ''='' acc s = [rev acc @ s]"
  by (induction s arbitrary: acc) auto

lemma split_assignment:
  assumes "CHR ''='' \<notin> set k" "CHR ''='' \<notin> set v"
  shows "split_str ''='' (k @ CHR ''='' # v) = [k, v]"
proof -
  have "split_aux 0 ''='' acc (k @ CHR ''='' # v) = [rev acc @ k, v]" for acc
    using assms by (induction k arbitrary: acc) (auto simp: split_aux_char)
  from this [of "[]"] show ?thesis by (simp add: split_str_def)
qed

lemma trim_quoted: "trim (CHR '' '' # CHR 0x27 # v @ [CHR 0x27]) = CHR 0x27 # v @ [CHR 0x27]"
proof -
  have "trim_start (CHR '' '' # CHR 0x27 # s) = CHR 0x27 # s" for s
    by (simp add: ws1_def ws2_def ws3_def split: list.split)
  moreover have "trim_start_rev (CHR 0x27 # s) = CHR 0x27 # s" for s
    by (simp add: ws1_def ws2_def ws3_def split: list.split)
  ultimately show ?thesis
    by (simp add: trim_def trim_end_def del: trim_start.simps trim_start_rev.simps)
qed

lemma unquote:
  assumes "v \<noteq> [] \<longrightarrow> hd v \<noteq> CHR 0x27 \<and> List.last v \<noteq> CHR 0x27"
  shows "trim_end_matches (CHR 0x27) (trim_start_matches (CHR 0x27) (CHR 0x27 # v @ [CHR 0x27])) = v"
proof (cases v rule: rev_cases)
  case Nil
  then show ?thesis by (simp add: trim_start_matches_def trim_end_matches_def)
next
  case (snoc us u)
  obtain w ws where v: "v = w # ws"
    using snoc by (metis append_is_Nil_conv list.distinct(1) list.exhaust)
  have "trim_start_matches (CHR 0x27) (CHR 0x27 # v @ [CHR 0x27]) = v @ [CHR 0x27]"
    using assms by (simp add: trim_start_matches_def v)
  moreover have "u \<noteq> CHR 0x27"
    using assms snoc by simp
  ultimately show ?thesis
    by (simp add: trim_end_matches_def snoc)
qed

lemma assignment_quoted:
  assumes "plain_value v" "CHR ''='' \<notin> set k" "trim (k @ '' '') = k"
  shows "assignment (quoted_line k v) = Some (k, v)"
  using split_assignment [of "k @ '' ''" "CHR '' '' # CHR 0x27 # v @ [CHR 0x27]"] assms
  by (simp add: assignment_def quoted_line_def trim_quoted unquote plain_value_def)

lemma assignment_bool:
  assumes "CHR ''='' \<notin> set k" "trim (k @ '' '') = k"
  shows "assignment (bool_line k b) = Some (k, if b then ''true'' else ''false'')"
  using split_assignment [of "k @ '' ''" "CHR '' '' # (if b then ''true'' else ''false'')"] assms
  by (cases b) (simp_all add: assignment_def bool_line_def trim_def trim_end_def ws1_def ws2_def ws3_def
    trim_start_matches_def trim_end_matches_def)

section \<open>The loop refines the specification\<close>

lemma control_line_assignment:
  "control_line env cv line temp =
     (case assignment line of
        None \<Rightarrow> Inr temp
      | Some (k, v) \<Rightarrow> rbind (do_var_replacements env cv v) (\<lambda>v. Inr (temp(k \<mapsto> v))))"
  by (simp add: control_line_def assignment_def Let_def length_Suc_conv numeral_2_eq_2 split: list.split)

lemma control_lines_run:
  assumes "\<And>k v. (k, v) \<in> set (List.map_filter assignment ls) \<Longrightarrow> do_var_replacements env cv v = (Inr (f v) :: 'io ControlFileError + string)"
  shows "rfold (control_line env cv) ls temp =
    (Inr (temp ++ (map_option f \<circ> map_of (rev (List.map_filter assignment ls)))) :: 'io ControlFileError + _)"
  using assms
proof (induction ls arbitrary: temp)
  case Nil
  then show ?case by (simp add: comp_def map_add_def)
next
  case (Cons l ls)
  show ?case
  proof (cases "assignment l")
    case None
    then show ?thesis
      using Cons by (simp add: control_line_assignment)
  next
    case (Some kv)
    obtain k v where kv: "kv = (k, v)" by (cases kv)
    have "temp(k \<mapsto> f v) ++ (map_option f \<circ> map_of (rev (List.map_filter assignment ls)))
        = temp ++ (map_option f \<circ> map_of (rev (List.map_filter assignment ls) @ [(k, v)]))"
      by (rule ext) (auto simp: map_add_def split: option.split)
    moreover have "control_line env cv l temp = (Inr (temp(k \<mapsto> f v)) :: 'io ControlFileError + _)"
      using Cons.prems [of k v] Some by (simp add: control_line_assignment kv)
    moreover have "rfold (control_line env cv) ls (temp(k \<mapsto> f v))
        = (Inr (temp(k \<mapsto> f v) ++ (map_option f \<circ> map_of (rev (List.map_filter assignment ls))))
          :: 'io ControlFileError + _)"
      using Some by (intro Cons.IH) (auto simp: kv intro!: Cons.prems)
    ultimately show ?thesis
      by (simp only: rfold.simps rbind_simps map_filter_simps Some kv rev.simps option.case)
  qed
qed

text \<open>When a version is at hand, every value has its variable replaced.\<close>

definition version_at_hand :: "(string \<Rightarrow> string option) \<Rightarrow> string option \<Rightarrow> string option" where
  "version_at_hand env cv = (case cv of Some v \<Rightarrow> Some v | None \<Rightarrow> env ''CARGO_PKG_VERSION'')"

lemma do_var_replacements_version:
  assumes "version_at_hand env cv = Some w"
  shows "do_var_replacements env cv v = Inr (replace_str CARGO_VERSION w v)"
  using assms by (auto simp: version_at_hand_def do_var_replacements_def split: option.splits)

lemma control_run_version:
  assumes "version_at_hand env cv = Some w"
  shows "rfold (control_line env cv) (str_lines inp) Map.empty
    = Inr (map_option (replace_str CARGO_VERSION w) \<circ> assigned inp)"
  by (simp add: control_lines_run [OF do_var_replacements_version [OF assms]] assigned_def)

section \<open>Rendering\<close>

lemma field_names:
  "trim ''comment '' = ''comment''" "trim ''default_version '' = ''default_version''"
  "trim ''module_pathname '' = ''module_pathname''" "trim ''relocatable '' = ''relocatable''"
  "trim ''superuser '' = ''superuser''" "trim ''schema '' = ''schema''" "trim ''trusted '' = ''trusted''"
  by (simp_all add: trim_def trim_end_def ws1_def ws2_def ws3_def)

lemma strip_cr_lines:
  "strip_cr (quoted_line k v) = quoted_line k v" "strip_cr (bool_line k b) = bool_line k b"
  by (simp_all add: strip_cr_def quoted_line_def bool_line_def)

lemma one_line:
  "plain_value v \<Longrightarrow> CHR 0x0A \<notin> set k \<Longrightarrow> CHR 0x0A \<notin> set (quoted_line k v)"
  "CHR 0x0A \<notin> set k \<Longrightarrow> CHR 0x0A \<notin> set (bool_line k b)"
  by (simp_all add: plain_value_def quoted_line_def bool_line_def)

lemma str_lines_render:
  assumes "control_ok cf"
  shows "str_lines (render_control cf) = render_lines cf"
  unfolding render_control_def
proof (rule str_lines_concat)
  fix l
  assume "l \<in> set (render_lines cf)"
  then show "CHR 0x0A \<notin> set l \<and> strip_cr l = l"
    using assms by (auto simp: render_lines_def strip_cr_lines control_ok_def one_line split: option.splits)
qed

lemma assigned_render:
  assumes "control_ok cf"
  shows "List.map_filter assignment (render_lines cf) =
     [(''comment'', cf_comment cf), (''default_version'', cf_default_version cf)]
     @ (case cf_module_pathname cf of Some p \<Rightarrow> [(''module_pathname'', p)] | None \<Rightarrow> [])
     @ [(''relocatable'', if cf_relocatable cf then ''true'' else ''false''),
        (''superuser'', if cf_superuser cf then ''true'' else ''false'')]
     @ (case cf_schema cf of Some p \<Rightarrow> [(''schema'', p)] | None \<Rightarrow> [])
     @ [(''trusted'', if cf_trusted cf then ''true'' else ''false'')]"
  using assms by (cases "cf_module_pathname cf"; cases "cf_schema cf")
    (simp_all add: render_lines_def control_ok_def assignment_quoted assignment_bool field_names)

lemma plain_value_unchanged: "plain_value v \<Longrightarrow> do_var_replacements env cv v = Inr v"
  by (simp add: plain_value_def do_var_replacements_def)

lemma plain_bools: "plain_value ''true''" "plain_value ''false''"
  by (simp_all add: plain_value_def CARGO_VERSION_def)

lemma control_run_render:
  assumes "control_ok cf"
  shows "rfold (control_line env cv) (str_lines (render_control cf)) Map.empty
    = Inr (map_of (rev (List.map_filter assignment (render_lines cf))))"
proof -
  have "do_var_replacements env cv v = Inr (id v)" if "(k, v) \<in> set (List.map_filter assignment (render_lines cf))" for k v
    using that assms plain_bools unfolding assigned_render [OF assms] id_def
    by (intro plain_value_unchanged) (auto simp: control_ok_def split: option.splits if_splits)
  note run = control_lines_run [of "render_lines cf" env cv id, OF this]
  show ?thesis
    by (simp add: str_lines_render [OF assms] run option.map_id0 map_add_def)
qed

text \<open>
  A value with an equals sign in its quotes is dropped with its line, so the file below, which assigns
  every required field, is refused for want of a comment.
\<close>

definition equals_control :: string where
  "equals_control = concat (map (\<lambda>line. line @ [CHR 0x0A])
     [quoted_line ''comment'' ''x = y'', quoted_line ''default_version'' ''1.0'',
      bool_line ''relocatable'' False, bool_line ''superuser'' False])"

lemma equals_in_value_loses_line: "from_str env equals_control = Inl (MissingField ''comment'')"
proof -
  have ls: "str_lines equals_control =
     [quoted_line ''comment'' ''x = y'', quoted_line ''default_version'' ''1.0'',
      bool_line ''relocatable'' False, bool_line ''superuser'' False]"
    unfolding equals_control_def
    by (rule str_lines_concat) (auto simp: strip_cr_def quoted_line_def bool_line_def)
  have "assignment (quoted_line ''comment'' ''x = y'') = None"
    by (simp add: assignment_def quoted_line_def split_str_def)
  moreover have "plain_value ''1.0''"
    by (simp add: plain_value_def CARGO_VERSION_def)
  ultimately show ?thesis
    by (simp add: plain_value_unchanged plain_bools from_str_def from_str_with_version_def ls control_line_assignment assignment_quoted
      assignment_bool field_names required_field_def)
qed

section \<open>Properties\<close>

text \<open>
  C40. The parser of control files is exact. When the version is at hand, the result is read off the
  assignments of the text, where the last assignment of a key counts: a file that is accepted has each
  field as the text assigns it, with the version put in; a missing field is reported only when the text
  does not assign it, and \<open>trusted\<close> only when the text asks for it without \<open>superuser\<close>. And the text of
  any control file that the format can hold is parsed back to that control file.
\<close>

theorem control_file_exact:
  fixes env cv inp w
  assumes "version_at_hand env cv = Some w" and "control_ok cf"
  defines "field \<equiv> \<lambda>k. map_option (replace_str CARGO_VERSION w) (assigned inp k)"
  shows "(case from_str_with_version env inp cv of
       Inr c \<Rightarrow>
         field ''comment'' = Some (cf_comment c) \<and> field ''default_version'' = Some (cf_default_version c)
         \<and> cf_module_pathname c = field ''module_pathname'' \<and> cf_schema c = field ''schema''
         \<and> field ''relocatable'' \<noteq> None \<and> cf_relocatable c = (field ''relocatable'' = Some ''true'')
         \<and> field ''superuser'' \<noteq> None \<and> cf_superuser c = (field ''superuser'' = Some ''true'')
         \<and> cf_trusted c = (field ''trusted'' = Some ''true'') \<and> (cf_superuser c \<or> \<not> cf_trusted c)
     | Inl (MissingField f) \<Rightarrow>
         f \<in> {''comment'', ''default_version'', ''relocatable'', ''superuser''} \<and> assigned inp f = None
     | Inl (RedundantField f) \<Rightarrow>
         f = ''trusted'' \<and> field ''trusted'' = Some ''true'' \<and> field ''superuser'' \<noteq> Some ''true''
     | Inl e \<Rightarrow> False)
    \<and> from_str_with_version env (render_control cf) cv = Inr cf"
proof
  show "from_str_with_version env (render_control cf) cv = Inr cf"
    using assms(2) unfolding from_str_with_version_def control_run_render [OF assms(2)] assigned_render [OF assms(2)]
    by (auto simp: required_field_def control_ok_def Let_def split: option.split)
qed (auto simp: from_str_with_version_def control_run_version [OF assms(1)] required_field_def Let_def field_def
    split: option.splits sum.splits)

theorem control_file_exact_witness:
  "control_ok \<lparr>cf_comment = ''a test'', cf_default_version = ''1.0'', cf_module_pathname = None,
      cf_relocatable = False, cf_superuser = True, cf_schema = Some ''s'', cf_trusted = True\<rparr>
   \<and> from_str_with_version (\<lambda>_. None) (render_control \<lparr>cf_comment = ''a test'', cf_default_version = ''1.0'',
      cf_module_pathname = None, cf_relocatable = False, cf_superuser = True, cf_schema = Some ''s'',
      cf_trusted = True\<rparr>) (Some ''0.0.0'')
     = Inr \<lparr>cf_comment = ''a test'', cf_default_version = ''1.0'', cf_module_pathname = None,
      cf_relocatable = False, cf_superuser = True, cf_schema = Some ''s'', cf_trusted = True\<rparr>"
proof -
  let ?cf = "\<lparr>cf_comment = ''a test'', cf_default_version = ''1.0'', cf_module_pathname = None,
      cf_relocatable = False, cf_superuser = True, cf_schema = Some ''s'', cf_trusted = True\<rparr>"
  have "control_ok ?cf"
    by (simp add: control_ok_def plain_value_def CARGO_VERSION_def)
  moreover have "version_at_hand (\<lambda>_. None) (Some ''0.0.0'') = Some ''0.0.0''"
    by (simp add: version_at_hand_def)
  ultimately show ?thesis
    using control_file_exact [of "\<lambda>_. None" "Some ''0.0.0''" "''0.0.0''" ?cf "[]"] by blast
qed

end
