(* ===== verification/Error_Codes.thy ===== *)
theory Error_Codes
  imports Prelude
begin

text \<open>
  The error vocabulary that Rust code and the server share: the log levels of
  \<open>pgrx-pg-sys/src/submodules/elog.rs\<close> with their numbers in the bindings of PostgreSQL 14 and
  later, and the SQLSTATE codes of \<open>pgrx-pg-sys/src/submodules/errcodes.rs\<close>. A value of the enum
  \<open>PgSqlErrorCode\<close> is its discriminant, the number \<open>MAKE_SQLSTATE\<close> packs from the five characters
  of the code.
\<close>

section \<open>Log levels\<close>

datatype PgLogLevel =
  DEBUG5 | DEBUG4 | DEBUG3 | DEBUG2 | DEBUG1 | LOG | LOG_SERVER_ONLY
  | INFO | NOTICE | WARNING | ERROR | FATAL | PANIC

text \<open>The discriminants (\<open>level as isize\<close>).\<close>

primrec level_isize :: "PgLogLevel \<Rightarrow> int" where
  "level_isize DEBUG5 = 10"
| "level_isize DEBUG4 = 11"
| "level_isize DEBUG3 = 12"
| "level_isize DEBUG2 = 13"
| "level_isize DEBUG1 = 14"
| "level_isize LOG = 15"
| "level_isize LOG_SERVER_ONLY = 16"
| "level_isize INFO = 17"
| "level_isize NOTICE = 18"
| "level_isize WARNING = 19"
| "level_isize ERROR = 21"
| "level_isize FATAL = 22"
| "level_isize PANIC = 23"

text \<open>
  \<open>PgLogLevel::from(isize)\<close>: the chain of comparisons in the order of the source, with its default.
\<close>

definition PgLogLevel_from :: "int \<Rightarrow> PgLogLevel" where
  "PgLogLevel_from i =
     (if i = level_isize DEBUG5 then DEBUG5
      else if i = level_isize DEBUG4 then DEBUG4
      else if i = level_isize DEBUG3 then DEBUG3
      else if i = level_isize DEBUG2 then DEBUG2
      else if i = level_isize DEBUG1 then DEBUG1
      else if i = level_isize INFO then INFO
      else if i = level_isize NOTICE then NOTICE
      else if i = level_isize WARNING then WARNING
      else if i = level_isize ERROR then ERROR
      else if i = level_isize FATAL then FATAL
      else if i = level_isize PANIC then PANIC
      else ERROR)"

text \<open>The derived order on the levels compares discriminants.\<close>

definition level_ge :: "PgLogLevel \<Rightarrow> PgLogLevel \<Rightarrow> bool" where
  "level_ge l m = (level_isize m \<le> level_isize l)"

text \<open>
  Every level survives the trip through its number, except \<open>LOG\<close> and \<open>LOG_SERVER_ONLY\<close>: the chain
  of comparisons leaves both out, so their numbers come back as \<open>ERROR\<close>.
\<close>

lemma PgLogLevel_from_isize:
  "PgLogLevel_from (level_isize l) = (if l = LOG \<or> l = LOG_SERVER_ONLY then ERROR else l)"
  by (cases l) (simp_all add: PgLogLevel_from_def)

section \<open>SQLSTATE codes\<close>

type_synonym PgSqlErrorCode = int

definition PGSIXBIT :: "int \<Rightarrow> int" where
  "PGSIXBIT ch = (ch - 48) mod 64"

definition MAKE_SQLSTATE :: "char \<Rightarrow> char \<Rightarrow> char \<Rightarrow> char \<Rightarrow> char \<Rightarrow> int" where
  "MAKE_SQLSTATE ch1 ch2 ch3 ch4 ch5 =
     PGSIXBIT (of_char ch1) + PGSIXBIT (of_char ch2) * 64 + PGSIXBIT (of_char ch3) * 4096
       + PGSIXBIT (of_char ch4) * 262144 + PGSIXBIT (of_char ch5) * 16777216"

definition sqlstate :: "string \<Rightarrow> PgSqlErrorCode" where
  "sqlstate s = MAKE_SQLSTATE (s ! 0) (s ! 1) (s ! 2) (s ! 3) (s ! 4)"

text \<open>The variants of the enum, in the order it declares them.\<close>

definition sqlstates_00_to_22 :: "string list" where
  "sqlstates_00_to_22 =
     [''00000'', ''01000'', ''0100C'', ''01008'', ''01003'', ''01007'', ''01006'', ''01004'', ''01P01'',
      ''02000'', ''02001'', ''03000'', ''08000'', ''08003'', ''08006'', ''08001'', ''08004'', ''08007'',
      ''08P01'', ''09000'', ''0A000'', ''0B000'', ''0F000'', ''0F001'', ''0L000'', ''0LP01'', ''0P000'',
      ''0Z000'', ''0Z002'', ''20000'', ''21000'', ''22000'', ''2202E'', ''22021'', ''22008'', ''22012'',
      ''22005'', ''2200B'', ''22022'', ''22015'', ''2201E'', ''22014'', ''22016'', ''2201F'', ''2201G'',
      ''22018'', ''22007'', ''22019'', ''2200D'', ''22025'', ''22P06'', ''22010'', ''22023'', ''22013'',
      ''2201B'', ''2201W'', ''2201X'', ''2202H'', ''2202G'', ''22009'', ''2200C'', ''2200G'', ''22004'',
      ''22002'', ''22003'', ''2200H'', ''22026'', ''22001'', ''22011'', ''22027'', ''22024'', ''2200F'',
      ''22P01'', ''22P02'', ''22P03'', ''22P04'', ''22P05'', ''2200L'', ''2200M'', ''2200N'', ''2200S'',
      ''2200T'', ''22030'', ''22032'', ''22033'', ''22034'', ''22035'', ''22036'', ''22037'', ''22038'',
      ''22039'', ''2203A'', ''2203B'', ''2203C'', ''2203D'', ''2203E'', ''2203F'']"

definition sqlstates_23_to_42 :: "string list" where
  "sqlstates_23_to_42 =
     [''23000'', ''23001'', ''23502'', ''23503'', ''23505'', ''23514'', ''23P01'', ''24000'', ''25000'',
      ''25001'', ''25002'', ''25008'', ''25003'', ''25004'', ''25005'', ''25006'', ''25007'', ''25P01'',
      ''25P02'', ''25P03'', ''26000'', ''27000'', ''28000'', ''28P01'', ''2B000'', ''2BP01'', ''2D000'',
      ''2F000'', ''2F005'', ''2F002'', ''2F003'', ''2F004'', ''34000'', ''38000'', ''38001'', ''38002'',
      ''38003'', ''38004'', ''39000'', ''39001'', ''39004'', ''39P01'', ''39P02'', ''39P03'', ''3B000'',
      ''3B001'', ''3D000'', ''3F000'', ''40000'', ''40002'', ''40001'', ''40003'', ''40P01'', ''42000'',
      ''42601'', ''42501'', ''42846'', ''42803'', ''42P20'', ''42P19'', ''42830'', ''42602'', ''42622'',
      ''42939'', ''42804'', ''42P18'', ''42P21'', ''42P22'', ''42809'', ''428C9'', ''42703'', ''42883'',
      ''42P01'', ''42P02'', ''42704'', ''42701'', ''42P03'', ''42P04'', ''42723'', ''42P05'', ''42P06'',
      ''42P07'', ''42712'', ''42710'', ''42702'', ''42725'', ''42P08'', ''42P09'', ''42P10'', ''42611'',
      ''42P11'', ''42P12'', ''42P13'', ''42P14'', ''42P15'', ''42P16'', ''42P17'']"

definition sqlstates_44_to_XX :: "string list" where
  "sqlstates_44_to_XX =
     [''44000'', ''53000'', ''53100'', ''53200'', ''53300'', ''53400'', ''54000'', ''54001'', ''54011'',
      ''54023'', ''55000'', ''55006'', ''55P02'', ''55P03'', ''55P04'', ''57000'', ''57014'', ''57P01'',
      ''57P02'', ''57P03'', ''57P04'', ''58000'', ''58030'', ''58P01'', ''58P02'', ''72000'', ''F0000'',
      ''F0001'', ''HV000'', ''HV005'', ''HV002'', ''HV010'', ''HV021'', ''HV024'', ''HV007'', ''HV008'',
      ''HV004'', ''HV006'', ''HV091'', ''HV00B'', ''HV00C'', ''HV00D'', ''HV090'', ''HV00A'', ''HV009'',
      ''HV014'', ''HV001'', ''HV00P'', ''HV00J'', ''HV00K'', ''HV00Q'', ''HV00R'', ''HV00L'', ''HV00M'',
      ''HV00N'', ''P0000'', ''P0001'', ''P0002'', ''P0003'', ''P0004'', ''XX000'', ''XX001'', ''XX002'']"

definition sql_error_codes :: "PgSqlErrorCode list" where
  "sql_error_codes = map sqlstate (sqlstates_00_to_22 @ sqlstates_23_to_42 @ sqlstates_44_to_XX)"

definition ERRCODE_INTERNAL_ERROR :: PgSqlErrorCode where
  "ERRCODE_INTERNAL_ERROR = MAKE_SQLSTATE CHR ''X'' CHR ''X'' CHR ''0'' CHR ''0'' CHR ''0''"

definition ERRCODE_DATA_EXCEPTION :: PgSqlErrorCode where
  "ERRCODE_DATA_EXCEPTION = MAKE_SQLSTATE CHR ''2'' CHR ''2'' CHR ''0'' CHR ''0'' CHR ''0''"

text \<open>
  \<open>PgSqlErrorCode::from(isize)\<close>: one arm of the match for each variant, and the internal error for a
  number that is the code of none of them.
\<close>

definition PgSqlErrorCode_from :: "int \<Rightarrow> PgSqlErrorCode" where
  "PgSqlErrorCode_from error_code =
     (case find (\<lambda>x. error_code = x) sql_error_codes of
        Some code \<Rightarrow> code
      | None \<Rightarrow> ERRCODE_INTERNAL_ERROR)"

lemma PgSqlErrorCode_from_known:
  assumes "code \<in> set sql_error_codes"
  shows "PgSqlErrorCode_from code = code"
proof (cases "find (\<lambda>x. code = x) sql_error_codes")
  case None
  then show ?thesis
    using assms by (simp add: find_None_iff)
next
  case (Some c)
  then have "code = c"
    by (auto simp: find_Some_iff)
  then show ?thesis
    using Some by (simp add: PgSqlErrorCode_from_def)
qed

lemma PgSqlErrorCode_from_unknown:
  "code \<notin> set sql_error_codes \<Longrightarrow> PgSqlErrorCode_from code = ERRCODE_INTERNAL_ERROR"
  by (auto simp: PgSqlErrorCode_from_def find_Some_iff split: option.split)

lemma PgSqlErrorCode_from_idem [simp]:
  "PgSqlErrorCode_from (PgSqlErrorCode_from code) = PgSqlErrorCode_from code"
proof (cases "code \<in> set sql_error_codes")
  case True
  then show ?thesis by (simp add: PgSqlErrorCode_from_known)
next
  case False
  have "''XX000'' \<in> set sqlstates_44_to_XX"
    by (simp add: sqlstates_44_to_XX_def)
  then have "sqlstate ''XX000'' \<in> set sql_error_codes"
    unfolding sql_error_codes_def set_map set_append by blast
  then have "ERRCODE_INTERNAL_ERROR \<in> set sql_error_codes"
    by (simp add: ERRCODE_INTERNAL_ERROR_def sqlstate_def)
  then show ?thesis
    using False by (simp add: PgSqlErrorCode_from_known PgSqlErrorCode_from_unknown)
qed

end
