(* ===== verification/Error_Handling.thy ===== *)
theory Error_Handling
  imports Error_Codes
begin

text \<open>
  Errors at the border between Rust and PostgreSQL
  (\<open>pgrx-pg-sys/src/submodules/panic.rs\<close>, \<open>pg_try.rs\<close>, \<open>ffi.rs\<close> and \<open>thread_check.rs\<close>).

  The server raises an error by a \<open>siglongjmp\<close> to the buffer in \<open>PG_exception_stack\<close>, Rust by
  unwinding with a panic payload. \<open>pg_guard_ffi_boundary\<close> turns the first into the second around
  every call into the server, \<open>pgrx_extern_c_guard\<close> turns the second back into the first around
  every Rust function the server calls, and \<open>PgTryBuilder\<close> lets Rust code catch what unwinds
  between the two. A piece of code is a function from the state of the backend to how it ended and
  the state it left.

  The error subsystem of the server (\<open>elog.c\<close>) is not part of the repository: its state is a type
  parameter and its entry points are the fields of a record that the definitions take.
\<close>

section \<open>Reports and panic payloads\<close>

record Backtrace =
  bt_captured :: bool
  bt_text :: string

record ErrorReportLocation =
  loc_file :: string
  loc_funcname :: "string option"
  loc_line :: u32
  loc_col :: u32
  loc_backtrace :: "Backtrace option"

definition ErrorReportLocation_default :: ErrorReportLocation where
  "ErrorReportLocation_default =
     \<lparr>loc_file = ''<unknown>'', loc_funcname = None, loc_line = 0, loc_col = 0,
      loc_backtrace = None\<rparr>"

record ErrorReport =
  rep_sqlerrcode :: PgSqlErrorCode
  rep_message :: string
  rep_hint :: "string option"
  rep_detail :: "string option"
  rep_domain :: "string option"
  rep_location :: ErrorReportLocation

record ErrorReportWithLevel =
  rep_level :: PgLogLevel
  rep_inner :: ErrorReport

definition with_location :: "PgSqlErrorCode \<Rightarrow> string \<Rightarrow> ErrorReportLocation \<Rightarrow> ErrorReport" where
  "with_location code message loc =
     \<lparr>rep_sqlerrcode = code, rep_message = message, rep_hint = None, rep_detail = None,
      rep_domain = None, rep_location = loc\<rparr>"

text \<open>\<open>ErrorReport::new\<close>, with the location of its caller.\<close>

definition ErrorReport_new ::
    "ErrorReportLocation \<Rightarrow> PgSqlErrorCode \<Rightarrow> string \<Rightarrow> string \<Rightarrow> ErrorReport" where
  "ErrorReport_new caller code message funcname =
     with_location code message (caller\<lparr>loc_funcname := Some funcname, loc_backtrace := None\<rparr>)"

text \<open>
  A panic payload, a \<open>Box<dyn Any + Send>\<close>: the types that \<open>downcast_panic_payload\<close> recognises, and
  any other. A caught Rust panic keeps its payload.
\<close>

datatype payload =
  AnyCaught CaughtError
  | AnyReportWithLevel ErrorReportWithLevel
  | AnyReport ErrorReport
  | AnyStr string
  | AnyString string
  | AnyOther nat
and CaughtError =
  PostgresError ErrorReportWithLevel
  | CaughtReport ErrorReportWithLevel
  | RustPanic ErrorReportWithLevel payload

primrec caught_report :: "CaughtError \<Rightarrow> ErrorReportWithLevel" where
  "caught_report (PostgresError r) = r"
| "caught_report (CaughtReport r) = r"
| "caught_report (RustPanic r p) = r"

text \<open>\<open>ErrorReportWithLevel::detail_with_backtrace\<close>.\<close>

definition detail_with_backtrace :: "ErrorReportWithLevel \<Rightarrow> string option" where
  "detail_with_backtrace r =
     (case (rep_detail (rep_inner r), loc_backtrace (rep_location (rep_inner r))) of
        (Some d, Some bt) \<Rightarrow>
          if bt_captured bt then Some (d @ [CHR 0x0A] @ bt_text bt) else Some d
      | (Some d, None) \<Rightarrow> Some d
      | (None, Some bt) \<Rightarrow> if bt_captured bt then Some ([CHR 0x0A] @ bt_text bt) else None
      | (None, None) \<Rightarrow> None)"

section \<open>The state of the backend\<close>

text \<open>
  The globals that the code reads and writes, the thread that runs, the error subsystem of the server
  and the variables of the extension.
\<close>

record ('e, 'u) backend =
  CurrentMemoryContext :: nat
  ErrorContext :: nat
  PG_exception_stack :: nat
  error_context_stack :: nat
  InterruptHoldoffCount :: u32
  ACTIVE_THREAD :: nat
  current_thread :: nat
  is_os_main_thread :: "bool option"
  PANIC_LOCATION :: "ErrorReportLocation option"
  pg_error_state :: 'e
  user_state :: 'u

text \<open>
  How a piece of code ends: it returns, it unwinds with a payload, it jumps to the buffer in
  \<open>PG_exception_stack\<close>, or the process exits.
\<close>

datatype 'r outcome = Returned 'r | Unwinding payload | Longjmp | Exited

type_synonym ('e, 'u, 'r) code = "('e, 'u) backend \<Rightarrow> 'r outcome \<times> ('e, 'u) backend"

text \<open>The copy of the error that \<open>CopyErrorData\<close> returns: the fields that are read of it.\<close>

record ErrorData =
  ed_elevel :: int
  ed_sqlerrcode :: int
  ed_message :: "string option"
  ed_domain :: "string option"
  ed_detail :: "string option"
  ed_hint :: "string option"
  ed_funcname :: "string option"
  ed_filename :: "string option"
  ed_lineno :: int

text \<open>What \<open>do_ereport\<close> hands to \<open>errcode\<close>, \<open>errmsg\<close>, \<open>errdetail\<close>, \<open>errhint\<close> and \<open>errfinish\<close>.\<close>

record reported =
  r_sqlerrcode :: int
  r_message :: string
  r_detail :: "string option"
  r_hint :: "string option"
  r_filename :: string
  r_lineno :: u32
  r_funcname :: "string option"

text \<open>
  The entry points of the server, and the backtrace the runtime would capture: \<open>errfinish\<close> returns
  the state in which it logs the report or jumps.
\<close>

record 'e elog =
  CopyErrorData :: "'e \<Rightarrow> ErrorData"
  FlushErrorState :: "'e \<Rightarrow> 'e"
  pg_re_throw :: "'e \<Rightarrow> 'e"
  errstart :: "'e \<Rightarrow> int \<Rightarrow> string option \<Rightarrow> bool \<times> 'e"
  errfinish :: "'e \<Rightarrow> reported \<Rightarrow> 'e"
  Backtrace_capture :: Backtrace

section \<open>Panics\<close>

text \<open>
  \<open>panic_any\<close> runs the hook of \<open>register_pg_guard_panic_hook\<close>, which stores the location with a
  backtrace, and then unwinds. \<open>resume_unwind\<close> does not run the hook.
\<close>

definition panic_hook :: "'e elog \<Rightarrow> ErrorReportLocation \<Rightarrow> ('e, 'u) backend \<Rightarrow> ('e, 'u) backend" where
  "panic_hook pg loc s =
     s\<lparr>PANIC_LOCATION := Some (loc\<lparr>loc_funcname := None,
         loc_backtrace := Some (Backtrace_capture pg)\<rparr>)\<rparr>"

definition panic_any :: "'e elog \<Rightarrow> ErrorReportLocation \<Rightarrow> payload \<Rightarrow> ('e, 'u, 'r) code" where
  "panic_any pg loc p s = (Unwinding p, panic_hook pg loc s)"

definition resume_unwind :: "payload \<Rightarrow> ('e, 'u, 'r) code" where
  "resume_unwind p s = (Unwinding p, s)"

definition rethrow :: "CaughtError \<Rightarrow> ('e, 'u, 'r) code" where
  "rethrow caught = resume_unwind (AnyCaught caught)"

definition take_panic_location ::
    "('e, 'u) backend \<Rightarrow> ErrorReportLocation \<times> ('e, 'u) backend" where
  "take_panic_location s =
     (case PANIC_LOCATION s of Some l \<Rightarrow> l | None \<Rightarrow> ErrorReportLocation_default,
      s\<lparr>PANIC_LOCATION := None\<rparr>)"

text \<open>A panic whose payload is a message becomes an internal error at the level \<open>ERROR\<close>.\<close>

definition rust_panic ::
    "string \<Rightarrow> payload \<Rightarrow> ('e, 'u) backend \<Rightarrow> CaughtError \<times> ('e, 'u) backend" where
  "rust_panic message p s =
     (let (loc, s') = take_panic_location s in
      (RustPanic \<lparr>rep_level = ERROR,
         rep_inner = with_location ERRCODE_INTERNAL_ERROR message loc\<rparr> p, s'))"

fun downcast_panic_payload ::
    "payload \<Rightarrow> ('e, 'u) backend \<Rightarrow> CaughtError \<times> ('e, 'u) backend" where
  "downcast_panic_payload (AnyCaught (PostgresError r)) s =
     (if loc_backtrace (rep_location (rep_inner r)) = None
      then
        let (loc, s') = take_panic_location s in
        (PostgresError (r\<lparr>rep_inner := (rep_inner r)\<lparr>rep_location :=
           (rep_location (rep_inner r))\<lparr>loc_backtrace := loc_backtrace loc\<rparr>\<rparr>\<rparr>), s')
      else (PostgresError r, s))"
| "downcast_panic_payload (AnyCaught caught) s = (caught, s)"
| "downcast_panic_payload (AnyReportWithLevel r) s = (CaughtReport r, s)"
| "downcast_panic_payload (AnyReport r) s = (CaughtReport \<lparr>rep_level = ERROR, rep_inner = r\<rparr>, s)"
| "downcast_panic_payload (AnyStr message) s = rust_panic message (AnyStr message) s"
| "downcast_panic_payload (AnyString message) s = rust_panic message (AnyString message) s"
| "downcast_panic_payload (AnyOther n) s = rust_panic ''Box<Any>'' (AnyOther n) s"

section \<open>The thread check\<close>

text \<open>
  \<open>check_active_thread\<close>: the first thread to call into the server claims it, and any other thread
  panics. \<open>thread_id_check_failed\<close> first asserts that the thread is not the main thread.
\<close>

definition thread_id_check_failed :: "'e elog \<Rightarrow> ErrorReportLocation \<Rightarrow> ('e, 'u, 'r) code" where
  "thread_id_check_failed pg loc s =
     (if is_os_main_thread s = Some True
      then panic_any pg loc (AnyString (''assertion `left != right` failed: ''
        @ ''`pgrx` active thread is not the main thread!?'' @ [CHR 0x0A] @ ''  left: Some(true)''
        @ [CHR 0x0A] @ '' right: Some(true)'')) s
      else panic_any pg loc (AnyString (loc_file loc @ '':'' @ show_u32 (loc_line loc) @ '':''
        @ show_u32 (loc_col loc) @ '':  postgres FFI may not be called from multiple threads.'')) s)"

definition check_active_thread :: "'e elog \<Rightarrow> ErrorReportLocation \<Rightarrow> ('e, 'u, unit) code" where
  "check_active_thread pg loc s =
     (if ACTIVE_THREAD s = 0 then (Returned (), s\<lparr>ACTIVE_THREAD := current_thread s\<rparr>)
      else if current_thread s \<noteq> ACTIVE_THREAD s then thread_id_check_failed pg loc s
      else (Returned (), s))"

definition active_thread_clear :: "('e, 'u) backend \<Rightarrow> ('e, 'u) backend" where
  "active_thread_clear s = s\<lparr>ACTIVE_THREAD := 0\<rparr>"

section \<open>Reporting\<close>

text \<open>What C reads of the string that \<open>as_pg_cstr\<close> copies: the bytes before the first NUL.\<close>

definition as_pg_cstr :: "string \<Rightarrow> string" where
  "as_pg_cstr str = takeWhile (\<lambda>c. c \<noteq> CHR 0x00) str"

definition reported_of :: "ErrorReportWithLevel \<Rightarrow> reported" where
  "reported_of r =
     \<lparr>r_sqlerrcode = rep_sqlerrcode (rep_inner r),
      r_message = as_pg_cstr (rep_message (rep_inner r)),
      r_detail = map_option as_pg_cstr (detail_with_backtrace r),
      r_hint = map_option as_pg_cstr (rep_hint (rep_inner r)),
      r_filename = as_pg_cstr (loc_file (rep_location (rep_inner r))),
      r_lineno = loc_line (rep_location (rep_inner r)),
      r_funcname = map_option as_pg_cstr (loc_funcname (rep_location (rep_inner r)))\<rparr>"

text \<open>
  \<open>do_ereport\<close>: the memory context it switches to around the copies is switched back at once. From
  the level \<open>ERROR\<close> on \<open>errfinish\<close> does not return: it jumps for an \<open>ERROR\<close> and ends the process
  above it.
\<close>

definition do_ereport ::
    "'e elog \<Rightarrow> ErrorReportLocation \<Rightarrow> ErrorReportWithLevel \<Rightarrow> ('e, 'u, unit) code" where
  "do_ereport pg loc r s =
     (case check_active_thread pg loc s of
        (Returned _, s1) \<Rightarrow>
          if (case rep_domain (rep_inner r) of None \<Rightarrow> False | Some d \<Rightarrow> CHR 0x00 \<in> set d)
          then panic_any pg loc (AnyString ''domain must not contain interior NUL bytes'') s1
          else
            let (started, e1) =
                  errstart pg (pg_error_state s1) (level_isize (rep_level r)) (rep_domain (rep_inner r));
                s2 = s1\<lparr>pg_error_state := e1\<rparr>
            in
            if \<not> started then (Returned (), s2)
            else
              let s3 = (if level_ge (rep_level r) ERROR then active_thread_clear s2 else s2);
                  s4 = s3\<lparr>pg_error_state := errfinish pg (pg_error_state s3) (reported_of r)\<rparr>
              in (if level_ge (rep_level r) ERROR
                  then (if rep_level r = ERROR then Longjmp else Exited) else Returned (), s4)
      | other \<Rightarrow> other)"

text \<open>\<open>ErrorReportWithLevel::report\<close>.\<close>

definition report :: "'e elog \<Rightarrow> ErrorReportLocation \<Rightarrow> ErrorReportWithLevel \<Rightarrow> ('e, 'u, unit) code" where
  "report pg loc r s =
     (case rep_level r of
        ERROR \<Rightarrow> panic_any pg loc (AnyReportWithLevel r) s
      | level \<Rightarrow>
          (case do_ereport pg loc r
                 (s\<lparr>InterruptHoldoffCount := InterruptHoldoffCount s + 1\<rparr>) of
             (Returned _, s1) \<Rightarrow>
               if level = FATAL \<or> level = PANIC
               then panic_any pg loc (AnyStr ''internal error: entered unreachable code'') s1
               else if InterruptHoldoffCount s1 > 0
               then (Returned (), s1\<lparr>InterruptHoldoffCount := InterruptHoldoffCount s1 - 1\<rparr>)
               else panic_any pg loc
                      (AnyStr ''assertion failed: crate::InterruptHoldoffCount > 0'') s1
           | other \<Rightarrow> other))"

text \<open>
  \<open>Result::unwrap_or_report\<close>: an \<open>ErrorReport\<close> is raised as it is, any other error as a data
  exception with its \<open>Display\<close> text.
\<close>

datatype reportable_error = IsErrorReport ErrorReport | IsDisplay string

definition unwrap_or_report ::
    "'e elog \<Rightarrow> ErrorReportLocation \<Rightarrow> string \<Rightarrow> reportable_error + 'r \<Rightarrow> ('e, 'u, 'r) code" where
  "unwrap_or_report pg loc funcname res s =
     (case res of
        Inr r \<Rightarrow> (Returned r, s)
      | Inl err \<Rightarrow>
          (case report pg loc \<lparr>rep_level = ERROR, rep_inner =
                   (case err of IsErrorReport r \<Rightarrow> r
                    | IsDisplay text \<Rightarrow> ErrorReport_new loc ERRCODE_DATA_EXCEPTION text funcname)\<rparr> s of
             (Returned _, s1) \<Rightarrow>
               panic_any pg loc (AnyStr ''internal error: entered unreachable code'') s1
           | (Unwinding p, s1) \<Rightarrow> (Unwinding p, s1)
           | (Longjmp, s1) \<Rightarrow> (Longjmp, s1)
           | (Exited, s1) \<Rightarrow> (Exited, s1)))"

section \<open>The guard around Rust functions\<close>

datatype 'r GuardAction = GuardReturn 'r | GuardReThrow | GuardReport ErrorReportWithLevel

definition run_guarded :: "('e, 'u, 'r) code \<Rightarrow> ('e, 'u, 'r GuardAction) code" where
  "run_guarded f s =
     (case f s of
        (Returned v, s1) \<Rightarrow> (Returned (GuardReturn v), s1)
      | (Unwinding p, s1) \<Rightarrow>
          (case downcast_panic_payload p s1 of
             (PostgresError _, s2) \<Rightarrow> (Returned GuardReThrow, s2)
           | (CaughtReport r, s2) \<Rightarrow> (Returned (GuardReport r), s2)
           | (RustPanic r _, s2) \<Rightarrow> (Returned (GuardReport r), s2))
      | (Longjmp, s1) \<Rightarrow> (Longjmp, s1)
      | (Exited, s1) \<Rightarrow> (Exited, s1))"

definition pgrx_extern_c_guard ::
    "'e elog \<Rightarrow> ErrorReportLocation \<Rightarrow> ('e, 'u, 'r) code \<Rightarrow> ('e, 'u, 'r) code" where
  "pgrx_extern_c_guard pg loc f s =
     (case run_guarded f s of
        (Returned (GuardReturn r), s1) \<Rightarrow> (Returned r, s1)
      | (Returned GuardReThrow, s1) \<Rightarrow>
          (Longjmp, s1\<lparr>CurrentMemoryContext := ErrorContext s1,
             pg_error_state := pg_re_throw pg (pg_error_state s1)\<rparr>)
      | (Returned (GuardReport r), s1) \<Rightarrow>
          (case do_ereport pg loc r s1 of
             (Returned _, s2) \<Rightarrow> panic_any pg loc (AnyString
               (''internal error: entered unreachable code: pgrx reported a CaughtError ''
                @ ''that wasn't raised at ERROR or above'')) s2
           | (Unwinding p, s2) \<Rightarrow> (Unwinding p, s2)
           | (Longjmp, s2) \<Rightarrow> (Longjmp, s2)
           | (Exited, s2) \<Rightarrow> (Exited, s2))
      | (Unwinding p, s1) \<Rightarrow> (Unwinding p, s1)
      | (Longjmp, s1) \<Rightarrow> (Longjmp, s1)
      | (Exited, s1) \<Rightarrow> (Exited, s1))"

section \<open>The guard around calls into the server\<close>

text \<open>
  The report that is built from the copied error data. A null string pointer is \<^term>\<open>None\<close>; the
  server's strings are UTF-8, so \<open>to_string_lossy\<close> keeps them.
\<close>

definition report_of_error_data :: "ErrorData \<Rightarrow> ErrorReportWithLevel" where
  "report_of_error_data d =
     \<lparr>rep_level = PgLogLevel_from (ed_elevel d),
      rep_inner =
        \<lparr>rep_sqlerrcode = PgSqlErrorCode_from (ed_sqlerrcode d),
         rep_message = (case ed_message d of None \<Rightarrow> ''<null error message>'' | Some m \<Rightarrow> m),
         rep_hint = ed_hint d, rep_detail = ed_detail d, rep_domain = ed_domain d,
         rep_location =
           \<lparr>loc_file = (case ed_filename d of None \<Rightarrow> ''<null filename>'' | Some f \<Rightarrow> f),
            loc_funcname = ed_funcname d, loc_line = word_of_int (ed_lineno d), loc_col = 0,
            loc_backtrace = None\<rparr>\<rparr>\<rparr>"

text \<open>
  \<open>pg_guard_ffi_boundary\<close>: the closure runs with \<open>PG_exception_stack\<close> pointing to the jump buffer of
  this frame. A panic of the closure is undefined behaviour in the source; the model lets it pass.
\<close>

definition pg_guard_ffi_boundary ::
    "'e elog \<Rightarrow> ErrorReportLocation \<Rightarrow> nat \<Rightarrow> ('e, 'u, 'r) code \<Rightarrow> ('e, 'u, 'r) code" where
  "pg_guard_ffi_boundary pg loc jump_buffer f s =
     (case check_active_thread pg loc s of
        (Returned _, s0) \<Rightarrow>
          (case f (s0\<lparr>PG_exception_stack := jump_buffer\<rparr>) of
             (Returned r, s1) \<Rightarrow>
               (Returned r, s1\<lparr>PG_exception_stack := PG_exception_stack s0,
                  error_context_stack := error_context_stack s0\<rparr>)
           | (Longjmp, s1) \<Rightarrow>
               panic_any pg loc
                 (AnyCaught (PostgresError (report_of_error_data (CopyErrorData pg (pg_error_state s1)))))
                 (s1\<lparr>CurrentMemoryContext := CurrentMemoryContext s0,
                    PG_exception_stack := PG_exception_stack s0,
                    error_context_stack := error_context_stack s0\<rparr>)
           | (Unwinding p, s1) \<Rightarrow> (Unwinding p, s1)
           | (Exited, s1) \<Rightarrow> (Exited, s1))
      | (Unwinding p, s0) \<Rightarrow> (Unwinding p, s0)
      | (Longjmp, s0) \<Rightarrow> (Longjmp, s0)
      | (Exited, s0) \<Rightarrow> (Exited, s0))"

section \<open>PgTryBuilder\<close>

record ('e, 'u, 'r) PgTryBuilder =
  try_func :: "('e, 'u, 'r) code"
  try_when :: "PgSqlErrorCode \<rightharpoonup> (CaughtError \<Rightarrow> ('e, 'u, 'r) code)"
  try_others :: "(CaughtError \<Rightarrow> ('e, 'u, 'r) code) option"
  try_rust :: "(CaughtError \<Rightarrow> ('e, 'u, 'r) code) option"
  try_finally :: "('e, 'u, unit) code option"

definition PgTryBuilder_new :: "('e, 'u, 'r) code \<Rightarrow> ('e, 'u, 'r) PgTryBuilder" where
  "PgTryBuilder_new f =
     \<lparr>try_func = f, try_when = Map.empty, try_others = None, try_rust = None, try_finally = None\<rparr>"

definition catch_when ::
    "PgSqlErrorCode \<Rightarrow> (CaughtError \<Rightarrow> ('e, 'u, 'r) code) \<Rightarrow> ('e, 'u, 'r) PgTryBuilder
      \<Rightarrow> ('e, 'u, 'r) PgTryBuilder" where
  "catch_when err f b = b\<lparr>try_when := (try_when b)(err \<mapsto> f)\<rparr>"

definition catch_others ::
    "(CaughtError \<Rightarrow> ('e, 'u, 'r) code) \<Rightarrow> ('e, 'u, 'r) PgTryBuilder \<Rightarrow> ('e, 'u, 'r) PgTryBuilder" where
  "catch_others f b = b\<lparr>try_others := Some f\<rparr>"

definition catch_rust_panic ::
    "(CaughtError \<Rightarrow> ('e, 'u, 'r) code) \<Rightarrow> ('e, 'u, 'r) PgTryBuilder \<Rightarrow> ('e, 'u, 'r) PgTryBuilder" where
  "catch_rust_panic f b = b\<lparr>try_rust := Some f\<rparr>"

definition finally_block ::
    "('e, 'u, unit) code \<Rightarrow> ('e, 'u, 'r) PgTryBuilder \<Rightarrow> ('e, 'u, 'r) PgTryBuilder" where
  "finally_block f b = b\<lparr>try_finally := Some f\<rparr>"

text \<open>The handler that \<open>execute\<close> picks, called on the cause, and the rethrow when there is none.\<close>

definition run_handler ::
    "('e, 'u, 'r) PgTryBuilder \<Rightarrow> PgSqlErrorCode \<Rightarrow> CaughtError \<Rightarrow> ('e, 'u, 'r) code" where
  "run_handler b sqlerrcode root_cause =
     (case try_when b sqlerrcode of
        Some handler \<Rightarrow> handler root_cause
      | None \<Rightarrow>
          (case try_others b of
             Some handler \<Rightarrow> handler root_cause
           | None \<Rightarrow>
               (case (try_rust b, root_cause) of
                  (Some handler, RustPanic r p) \<Rightarrow> handler (RustPanic r p)
                | _ \<Rightarrow> rethrow root_cause)))"

text \<open>The finally block, and then the way \<open>execute\<close> ends unless the block itself does not return.\<close>

definition run_finally :: "('e, 'u, unit) code option \<Rightarrow> 'r outcome \<Rightarrow> ('e, 'u, 'r) code" where
  "run_finally f ending s =
     (case f of
        None \<Rightarrow> (ending, s)
      | Some block \<Rightarrow>
          (case block s of
             (Returned _, s1) \<Rightarrow> (ending, s1)
           | (Unwinding p, s1) \<Rightarrow> (Unwinding p, s1)
           | (Longjmp, s1) \<Rightarrow> (Longjmp, s1)
           | (Exited, s1) \<Rightarrow> (Exited, s1)))"

definition execute :: "'e elog \<Rightarrow> ('e, 'u, 'r) PgTryBuilder \<Rightarrow> ('e, 'u, 'r) code" where
  "execute pg b s =
     (case try_func b s of
        (Returned r, s1) \<Rightarrow> run_finally (try_finally b) (Returned r) s1
      | (Unwinding err, s1) \<Rightarrow>
          let (root_cause, s2) = downcast_panic_payload err s1;
              sqlerrcode = rep_sqlerrcode (rep_inner (caught_report root_cause))
          in
          (case run_handler b sqlerrcode root_cause s2 of
             (Returned r, s3) \<Rightarrow>
               run_finally (try_finally b) (Returned r)
                 (s3\<lparr>pg_error_state := FlushErrorState pg (pg_error_state s3)\<rparr>)
           | (Unwinding caught, s3) \<Rightarrow>
               let (catch_handler_error, s4) = downcast_panic_payload caught s3 in
               run_finally (try_finally b) (Unwinding (AnyCaught catch_handler_error)) s4
           | (Longjmp, s3) \<Rightarrow> (Longjmp, s3)
           | (Exited, s3) \<Rightarrow> (Exited, s3))
      | (Longjmp, s1) \<Rightarrow> (Longjmp, s1)
      | (Exited, s1) \<Rightarrow> (Exited, s1))"

end
