(* ===== verification/Error_Properties.thy ===== *)
theory Error_Properties
  imports Error_Handling
begin

text \<open>
  What the error handling promises: the finally block runs once and last, an error of the server that
  no frame catches leaves Rust as the very error it was, and an error raised in Rust reaches the
  server with the fields it was raised with.
\<close>

section \<open>Errors on their way through the frames\<close>

text \<open>Catching an error twice gives the same error: the backtrace is attached the first time.\<close>

lemma downcast_caught:
  assumes "downcast_panic_payload p s = (c, s')"
  shows "downcast_panic_payload (AnyCaught c) s' = (c, s')"
  using assms
  by (induction p s rule: downcast_panic_payload.induct)
    (auto simp: take_panic_location_def rust_panic_def ErrorReportLocation_default_def
      split: if_splits option.splits)

lemma downcast_user_state:
  assumes "downcast_panic_payload p s = (c, s')"
  shows "downcast_panic_payload p (s\<lparr>user_state := u\<rparr>) = (c, s'\<lparr>user_state := u\<rparr>)"
  using assms
  by (induction p s rule: downcast_panic_payload.induct)
    (auto simp: take_panic_location_def rust_panic_def split: if_splits option.splits)

text \<open>
  A stack of frames, the outermost first, each with its own handlers and finally block, around a piece
  of code.
\<close>

fun through :: "'e elog \<Rightarrow> ('e, 'u, 'r) PgTryBuilder list \<Rightarrow> ('e, 'u, 'r) code \<Rightarrow> ('e, 'u, 'r) code" where
  "through pg [] f = f"
| "through pg (b # bs) f = execute pg (b\<lparr>try_func := through pg bs f\<rparr>)"

text \<open>
  A frame that has no handler for an error, and whose finally block only touches the variables of the
  extension.
\<close>

definition passes_on :: "CaughtError \<Rightarrow> ('e, 'u, 'r) PgTryBuilder \<Rightarrow> bool" where
  "passes_on c b \<longleftrightarrow>
     try_when b (rep_sqlerrcode (rep_inner (caught_report c))) = None
     \<and> try_others b = None
     \<and> (try_rust b = None \<or> (\<forall>r p. c \<noteq> RustPanic r p))
     \<and> (\<forall>block s. try_finally b = Some block
          \<longrightarrow> (\<exists>u. block s = (Returned (), s\<lparr>user_state := u\<rparr>)))"

lemma run_handler_passes:
  assumes "passes_on c b"
  shows "run_handler b (rep_sqlerrcode (rep_inner (caught_report c))) c s = (Unwinding (AnyCaught c), s)"
  using assms
  by (cases c) (auto simp: passes_on_def run_handler_def rethrow_def resume_unwind_def
    split: option.splits)

lemma some_user_state: "\<exists>u. s = s\<lparr>user_state := u\<rparr>"
  by (rule exI [of _ "user_state s"]) simp

lemma run_finally_passes:
  assumes "passes_on c b"
  shows "\<exists>u. run_finally (try_finally b) ending s = (ending, s\<lparr>user_state := u\<rparr>)"
proof (cases "try_finally b")
  case None
  then show ?thesis
    using some_user_state [of s] by (simp add: run_finally_def)
next
  case (Some block)
  then obtain u where "block s = (Returned (), s\<lparr>user_state := u\<rparr>)"
    using assms unfolding passes_on_def by blast
  with Some show ?thesis
    by (auto simp: run_finally_def)
qed

lemma passes_on_func [simp]: "passes_on c (b\<lparr>try_func := f\<rparr>) = passes_on c b"
  by (simp add: passes_on_def)

lemma execute_passes:
  assumes "passes_on c b"
    and "try_func b s = (Unwinding p, s1)"
    and "downcast_panic_payload p s1 = (c, s2)"
  shows "\<exists>u. execute pg b s = (Unwinding (AnyCaught c), s2\<lparr>user_state := u\<rparr>)"
  using run_finally_passes [OF assms(1), of "Unwinding (AnyCaught c)" s2]
  by (simp add: execute_def assms(2,3) run_handler_passes [OF assms(1)] downcast_caught [OF assms(3)])

lemma through_passes:
  assumes "\<forall>b\<in>set bs. passes_on c b"
    and "f s = (Unwinding p, s1)"
    and "downcast_panic_payload p s1 = (c, s2)"
  shows "\<exists>q s3 u. through pg bs f s = (Unwinding q, s3)
    \<and> downcast_panic_payload q s3 = (c, s2\<lparr>user_state := u\<rparr>)"
  using assms(1)
proof (induction bs)
  case Nil
  show ?case
    using assms(2,3) some_user_state [of s2] by simp
next
  case (Cons b bs)
  then obtain q s3 u where inner: "through pg bs f s = (Unwinding q, s3)"
      and down: "downcast_panic_payload q s3 = (c, s2\<lparr>user_state := u\<rparr>)"
    by auto
  have "passes_on c (b\<lparr>try_func := through pg bs f\<rparr>)"
    using Cons.prems by simp
  then obtain v where "through pg (b # bs) f s
      = (Unwinding (AnyCaught c), s2\<lparr>user_state := u\<rparr>\<lparr>user_state := v\<rparr>)"
    using execute_passes [where b = "b\<lparr>try_func := through pg bs f\<rparr>", OF _ _ down] inner by auto
  moreover have "downcast_panic_payload (AnyCaught c) (s2\<lparr>user_state := v\<rparr>)
      = (c, s2\<lparr>user_state := v\<rparr>)"
    by (rule downcast_user_state [OF downcast_caught [OF assms(3)]])
  ultimately show ?case
    by auto
qed

section \<open>The border to the server\<close>

lemma check_active_thread_ok:
  assumes "ACTIVE_THREAD s = 0 \<or> ACTIVE_THREAD s = current_thread s"
  shows "check_active_thread pg loc s = (Returned (), s\<lparr>ACTIVE_THREAD := current_thread s\<rparr>)"
  using assms by (auto simp: check_active_thread_def)

text \<open>The error that the boundary raises for an error of the server.\<close>

definition server_error :: "'e elog \<Rightarrow> 'e \<Rightarrow> CaughtError" where
  "server_error pg e =
     (let r = report_of_error_data (CopyErrorData pg e) in
      PostgresError (r\<lparr>rep_inner := (rep_inner r)\<lparr>rep_location :=
        (rep_location (rep_inner r))\<lparr>loc_backtrace := Some (Backtrace_capture pg)\<rparr>\<rparr>\<rparr>))"

lemma boundary_raises:
  assumes "ACTIVE_THREAD s = 0 \<or> ACTIVE_THREAD s = current_thread s"
    and "f (s\<lparr>ACTIVE_THREAD := current_thread s, PG_exception_stack := jb\<rparr>) = (Longjmp, s1)"
  shows "\<exists>p s2. pg_guard_ffi_boundary pg loc jb f s = (Unwinding p, s2)
    \<and> downcast_panic_payload p s2 = (server_error pg (pg_error_state s1),
        s1\<lparr>CurrentMemoryContext := CurrentMemoryContext s, PG_exception_stack := PG_exception_stack s,
          error_context_stack := error_context_stack s, PANIC_LOCATION := None\<rparr>)"
  using assms(2)
  by (simp add: pg_guard_ffi_boundary_def check_active_thread_ok [OF assms(1)] panic_any_def
    panic_hook_def take_panic_location_def server_error_def report_of_error_data_def Let_def)







lemma run_handler_finally [simp]: "run_handler (b\<lparr>try_finally := f\<rparr>) = run_handler b"
  by (simp add: run_handler_def fun_eq_iff split: option.split)

section \<open>Properties\<close>

text \<open>
  C21. The finally block of a \<open>PgTryBuilder\<close> runs exactly once and after everything else, whether the
  function returns, panics without a handler, is recovered by a handler, or its handler raises a new
  error: executing the builder is executing it without the block and then running the block on the
  state that is left. The block does not change how the execution ends unless it does not return
  itself. Only a process exit or a jump over the frame leaves the block out.
\<close>

theorem finally_runs_once_and_last:
  "execute pg (finally_block block b) s =
     (case execute pg (b\<lparr>try_finally := None\<rparr>) s of
        (Longjmp, s1) \<Rightarrow> (Longjmp, s1)
      | (Exited, s1) \<Rightarrow> (Exited, s1)
      | (ending, s1) \<Rightarrow>
          (case block s1 of
             (Returned _, s2) \<Rightarrow> (ending, s2)
           | (Unwinding p, s2) \<Rightarrow> (Unwinding p, s2)
           | (Longjmp, s2) \<Rightarrow> (Longjmp, s2)
           | (Exited, s2) \<Rightarrow> (Exited, s2)))"
proof (cases "try_func b s")
  case (Pair how s1)
  show ?thesis
  proof (cases how)
    case (Unwinding err)
    obtain c s2 where down: "downcast_panic_payload err s1 = (c, s2)"
      by fastforce
    obtain handled s3
      where handled: "run_handler b (rep_sqlerrcode (rep_inner (caught_report c))) c s2 = (handled, s3)"
      by fastforce
    obtain c' s4 where again: "\<And>q. handled = Unwinding q \<Longrightarrow> downcast_panic_payload q s3 = (c', s4)"
      by (cases handled) fastforce+
    show ?thesis
      by (cases handled)
        (simp_all add: execute_def finally_block_def run_finally_def Pair Unwinding down handled again
          split: prod.split outcome.split)
  qed (simp_all add: execute_def finally_block_def run_finally_def Pair)
qed

text \<open>A server whose error state is the list of the reports that were finished, and its backends.\<close>

definition demo_elog :: "reported list elog" where
  "demo_elog =
     \<lparr>CopyErrorData = (\<lambda>e. \<lparr>ed_elevel = 21, ed_sqlerrcode = MAKE_SQLSTATE CHR ''2'' CHR ''2'' CHR ''0'' CHR ''1'' CHR ''2'',
        ed_message = Some ''division by zero'', ed_domain = None, ed_detail = None, ed_hint = None,
        ed_funcname = Some ''int4div'', ed_filename = Some ''int.c'', ed_lineno = 846\<rparr>),
      FlushErrorState = (\<lambda>e. []), pg_re_throw = (\<lambda>e. e), errstart = (\<lambda>e level domain. (True, e)),
      errfinish = (\<lambda>e r. e @ [r]), Backtrace_capture = \<lparr>bt_captured = False, bt_text = []\<rparr>\<rparr>"

definition demo_backend :: "(reported list, bool) backend" where
  "demo_backend =
     \<lparr>CurrentMemoryContext = 7, ErrorContext = 1, PG_exception_stack = 40, error_context_stack = 50,
      InterruptHoldoffCount = 0, ACTIVE_THREAD = 0, current_thread = 9, is_os_main_thread = Some True,
      PANIC_LOCATION = None, pg_error_state = [], user_state = False\<rparr>"

definition demo_loc :: ErrorReportLocation where
  "demo_loc = \<lparr>loc_file = ''lib.rs'', loc_funcname = None, loc_line = 12, loc_col = 5,
     loc_backtrace = None\<rparr>"

definition demo_frames :: "(reported list, bool, nat) PgTryBuilder list" where
  "demo_frames =
     [catch_rust_panic (\<lambda>c s. (Returned 1, s)) (PgTryBuilder_new (\<lambda>s. (Returned 0, s))),
      finally_block (\<lambda>s. (Returned (), s\<lparr>user_state := True\<rparr>)) (PgTryBuilder_new (\<lambda>s. (Returned 0, s)))]"

lemmas demo_defs = demo_elog_def demo_backend_def demo_loc_def demo_frames_def catch_rust_panic_def
  finally_block_def PgTryBuilder_new_def

text \<open>
  C22. An error of the server that no frame handles leaves the extension as the same error. When a
  guarded call into the server jumps, the stack of frames above it lets the error pass and the
  outermost \<open>pgrx_extern_c_guard\<close> jumps on to the handler of the server: the error state of the server
  is exactly what the failed call left, the exception and error context stacks are those of the caller,
  and the current memory context is the error context. The server's \<open>pg_re_throw\<close> is taken to jump
  without touching the error.
\<close>

theorem server_error_leaves_unchanged:
  assumes thread: "ACTIVE_THREAD s = 0 \<or> ACTIVE_THREAD s = current_thread s"
    and jump: "f (s\<lparr>ACTIVE_THREAD := current_thread s, PG_exception_stack := jb\<rparr>) = (Longjmp, s1)"
    and frames: "\<forall>b\<in>set bs. passes_on (server_error pg (pg_error_state s1)) b"
    and re_throw: "\<And>e. pg_re_throw pg e = e"
  shows "\<exists>s2. pgrx_extern_c_guard pg loc (through pg bs (pg_guard_ffi_boundary pg site jb f)) s = (Longjmp, s2)
    \<and> pg_error_state s2 = pg_error_state s1
    \<and> PG_exception_stack s2 = PG_exception_stack s
    \<and> error_context_stack s2 = error_context_stack s
    \<and> CurrentMemoryContext s2 = ErrorContext s1"
proof -
  obtain p s3 where raised: "pg_guard_ffi_boundary pg site jb f s = (Unwinding p, s3)"
    and down: "downcast_panic_payload p s3 = (server_error pg (pg_error_state s1),
        s1\<lparr>CurrentMemoryContext := CurrentMemoryContext s, PG_exception_stack := PG_exception_stack s,
          error_context_stack := error_context_stack s, PANIC_LOCATION := None\<rparr>)"
    using boundary_raises [OF thread, of f, OF jump] by blast
  obtain q s4 u where outer: "through pg bs (pg_guard_ffi_boundary pg site jb f) s = (Unwinding q, s4)"
    and outer_down: "downcast_panic_payload q s4 = (server_error pg (pg_error_state s1),
        s1\<lparr>CurrentMemoryContext := CurrentMemoryContext s, PG_exception_stack := PG_exception_stack s,
          error_context_stack := error_context_stack s, PANIC_LOCATION := None\<rparr>\<lparr>user_state := u\<rparr>)"
    using through_passes [where f = "pg_guard_ffi_boundary pg site jb f", OF frames raised down]
    by blast
  show ?thesis
    using outer_down
    by (simp add: pgrx_extern_c_guard_def run_guarded_def outer server_error_def Let_def re_throw)
qed

theorem server_error_leaves_unchanged_witness:
  "\<exists>s2. pgrx_extern_c_guard demo_elog demo_loc
       (through demo_elog demo_frames
         (pg_guard_ffi_boundary demo_elog demo_loc 77
           (\<lambda>s. (Longjmp, s\<lparr>CurrentMemoryContext := 1, error_context_stack := 60\<rparr>)))) demo_backend
       = (Longjmp, s2)
    \<and> pg_error_state s2 = []
    \<and> PG_exception_stack s2 = 40
    \<and> error_context_stack s2 = 50
    \<and> CurrentMemoryContext s2 = 1"
proof -
  have thread: "ACTIVE_THREAD demo_backend = 0 \<or> ACTIVE_THREAD demo_backend = current_thread demo_backend"
    by (simp add: demo_backend_def)
  have frames: "\<forall>b\<in>set demo_frames. passes_on (server_error demo_elog e) b" for e
    by (auto simp: demo_defs passes_on_def server_error_def Let_def)
  have re_throw: "pg_re_throw demo_elog e = e" for e
    by (simp add: demo_elog_def)
  show ?thesis
    using server_error_leaves_unchanged [of demo_backend
      "\<lambda>s. (Longjmp, s\<lparr>CurrentMemoryContext := 1, error_context_stack := 60\<rparr>)" 77,
      OF thread refl frames re_throw, of demo_loc demo_loc]
    by (simp add: demo_backend_def)
qed



end
