(* ===== verification/Flat_List.thy ===== *)
theory Flat_List
  imports Prelude
begin

text \<open>
  Postgres lists from Rust (\<open>pgrx/src/list.rs\<close> and \<open>pgrx/src/list/flat_list.rs\<close>).

  A \<open>pg_sys::List\<close> is a header and a buffer of cells: the buffer has a slot for each cell it was
  allocated with, and a slot is \<^term>\<open>None\<close> until it is written. Every read and write goes through the
  buffer, so an access past its end is visible: it is the error \<open>OutOfBounds\<close>, where the program has
  undefined behaviour. \<open>c_int\<close> and \<open>usize\<close> values are integers and naturals with their bounds and
  wrap-around written out. Whether the server can allocate a number of bytes is a parameter.
\<close>

section \<open>Data\<close>

datatype NodeTag = T_List | T_IntList | T_OidList | T_XidList

record 'a pg_list =
  list_type :: NodeTag
  list_length :: int
  max_length :: int
  elements :: "'a option list"
  inline_elements :: bool

datatype 'a List = ListNil | ListCons "'a pg_list"

datatype list_error = ListPanic string | AllocError | OutOfBounds

definition c_int_MAX :: int where
  "c_int_MAX = 2147483647"

definition size_of_List :: nat where
  "size_of_List = 24"

definition size_of_ListCell :: nat where
  "size_of_ListCell = 8"

definition usize_add :: "nat \<Rightarrow> nat \<Rightarrow> nat" where
  "usize_add m n = (m + n) mod 18446744073709551616"

fun flat_list_len :: "'a List \<Rightarrow> nat" where
  "flat_list_len ListNil = 0"
| "flat_list_len (ListCons l) = nat (list_length l)"

fun list_is_empty :: "'a List \<Rightarrow> bool" where
  "list_is_empty ListNil = True"
| "list_is_empty (ListCons l) = False"

fun list_capacity :: "'a List \<Rightarrow> nat" where
  "list_capacity ListNil = 0"
| "list_capacity (ListCons l) = nat (max_length l)"

text \<open>\<open>List::downcast_ptr_in_memcx\<close>: a null pointer is the empty list, and a list must have the tag.\<close>

fun downcast_ptr_in_memcx :: "NodeTag \<Rightarrow> 'a pg_list option \<Rightarrow> 'a List option" where
  "downcast_ptr_in_memcx tag None = Some ListNil"
| "downcast_ptr_in_memcx tag (Some l) = (if tag = list_type l then Some (ListCons l) else None)"

text \<open>Reading and writing a cell.\<close>

definition cell_read :: "'a pg_list \<Rightarrow> nat \<Rightarrow> list_error + 'a" where
  "cell_read l i =
     (if i < length (elements l) then
        (case elements l ! i of Some v \<Rightarrow> Inr v | None \<Rightarrow> Inl OutOfBounds)
      else Inl OutOfBounds)"

definition cell_write :: "'a pg_list \<Rightarrow> nat \<Rightarrow> 'a \<Rightarrow> list_error + 'a pg_list" where
  "cell_write l i v =
     (if i < length (elements l) then Inr (l\<lparr>elements := (elements l)[i := Some v]\<rparr>)
      else Inl OutOfBounds)"

section \<open>Growing\<close>

text \<open>
  \<open>grow_list\<close>: the first time the cells are copied out of the allocation of the header into a buffer
  of their own, later that buffer is reallocated.
\<close>

definition grow_list :: "(nat \<Rightarrow> bool) \<Rightarrow> 'a pg_list \<Rightarrow> nat \<Rightarrow> list_error + 'a pg_list" where
  "grow_list alloc l target =
     (if int target > c_int_MAX
      then Inl (ListPanic ''Cannot allocate more than c_int::MAX elements'')
      else if \<not> alloc (target * size_of_ListCell) then Inl AllocError
      else
        let kept = (if inline_elements l then take (nat (list_length l)) (elements l) else elements l)
        in Inr (l\<lparr>elements := take target (kept @ replicate target None),
                  inline_elements := False, max_length := int target\<rparr>))"

definition reserve :: "(nat \<Rightarrow> bool) \<Rightarrow> nat \<Rightarrow> 'a pg_list \<Rightarrow> list_error + 'a pg_list" where
  "reserve alloc cnt l =
     (if \<not> list_length l > 0 then Inl (ListPanic ''assertion failed: list.length > 0'')
      else if \<not> max_length l > 0 then Inl (ListPanic ''assertion failed: list.max_length > 0'')
      else if nat (max_length l - list_length l) < cnt then
        (if int cnt > c_int_MAX then Inl (ListPanic ''TryFromIntError(())'')
         else if list_length l + int cnt > c_int_MAX
         then Inl (ListPanic ''called `Option::unwrap()` on a `None` value'')
         else grow_list alloc l (nat (list_length l + int cnt)))
      else Inr l)"

text \<open>\<open>ListHead::push\<close>: a full list is grown by its own capacity first.\<close>

definition push :: "(nat \<Rightarrow> bool) \<Rightarrow> 'a \<Rightarrow> 'a pg_list \<Rightarrow> list_error + 'a pg_list" where
  "push alloc v l =
     (if \<not> max_length l > 0 then Inl (ListPanic ''assertion failed: *max_length > 0'')
      else if \<not> list_length l > 0 then Inl (ListPanic ''assertion failed: *length > 0'')
      else if \<not> max_length l \<ge> list_length l
      then Inl (ListPanic ''assertion failed: *max_length >= *length'')
      else
        rbind (if max_length l - list_length l < 1 then reserve alloc (nat (max_length l)) l
               else Inr l) (\<lambda>l'.
        rbind (cell_write l' (nat (list_length l')) v) (\<lambda>l''.
        Inr (l''\<lparr>list_length := list_length l'' + 1\<rparr>))))"

text \<open>\<open>List::unstable_push_in_context\<close>, for the elements of one tag.\<close>

definition push_in_context :: "(nat \<Rightarrow> bool) \<Rightarrow> NodeTag \<Rightarrow> 'a \<Rightarrow> 'a List \<Rightarrow> list_error + 'a List" where
  "push_in_context alloc tag v l =
     (case l of
        ListNil \<Rightarrow>
          let list_size = 128;
              slots = (list_size - size_of_List) div size_of_ListCell
          in
          if \<not> alloc list_size then Inl (ListPanic ''OutOfMemory'')
          else
            rbind (cell_write \<lparr>list_type = tag, list_length = 0, max_length = int slots,
                     elements = replicate slots None, inline_elements = True\<rparr> 0 v) (\<lambda>h.
            (case downcast_ptr_in_memcx tag (Some (h\<lparr>list_length := 1\<rparr>)) of
               Some l' \<Rightarrow> Inr l'
             | None \<Rightarrow> Inl (ListPanic ''called `Option::unwrap()` on a `None` value'')))
      | ListCons h \<Rightarrow> map_res ListCons (push alloc v h))"

text \<open>
  \<open>List::try_push\<close> and \<open>List::try_reserve\<close>: \<open>Err\<close> gives the list back, as the inner \<^term>\<open>None\<close>.
\<close>

definition try_push :: "(nat \<Rightarrow> bool) \<Rightarrow> 'a \<Rightarrow> 'a List \<Rightarrow> list_error + 'a List option" where
  "try_push alloc v l =
     (case l of
        ListNil \<Rightarrow> Inr None
      | ListCons h \<Rightarrow>
          if list_capacity l - flat_list_len l = 0 then Inr None
          else map_res (Some \<circ> ListCons) (push alloc v h))"

definition try_reserve :: "(nat \<Rightarrow> bool) \<Rightarrow> nat \<Rightarrow> 'a List \<Rightarrow> list_error + 'a List option" where
  "try_reserve alloc items l =
     (case l of
        ListNil \<Rightarrow> Inr None
      | ListCons h \<Rightarrow> map_res (Some \<circ> ListCons) (reserve alloc items h))"

text \<open>\<open>List::get\<close> through the slice of the first \<open>length\<close> cells.\<close>

definition list_get :: "'a List \<Rightarrow> nat \<Rightarrow> list_error + 'a option" where
  "list_get l i =
     (case l of
        ListNil \<Rightarrow> Inr None
      | ListCons h \<Rightarrow> if i < nat (list_length h) then map_res Some (cell_read h i) else Inr None)"

section \<open>Draining\<close>

datatype bound = Included nat | Excluded nat | Unbounded

record 'a Drain =
  tail_start :: nat
  tail_len :: nat
  iter_ptr :: nat
  iter_end :: nat
  drain_raw :: "'a pg_list option"
  origin :: "'a List"

text \<open>
  \<open>List::drain\<close>. The list is taken out of its place when the range starts at the first element, and is
  otherwise left there with its length cut down.
\<close>

definition drain_bounds :: "bound \<Rightarrow> bound \<Rightarrow> nat \<Rightarrow> nat \<times> nat" where
  "drain_bounds start_bound end_bound len =
     (case start_bound of Unbounded \<Rightarrow> 0 | Included first \<Rightarrow> first | Excluded point \<Rightarrow> usize_add point 1,
      case end_bound of Unbounded \<Rightarrow> min (nat c_int_MAX) len | Included final \<Rightarrow> usize_add final 1
        | Excluded tail \<Rightarrow> tail)"

definition drain :: "bound \<Rightarrow> bound \<Rightarrow> 'a List \<Rightarrow> list_error + 'a Drain" where
  "drain start_bound end_bound l =
     (let len = flat_list_len l;
          (drain_start, tail_start) = drain_bounds start_bound end_bound len;
          tail_len = len - tail_start
      in
      if tail_start > len then Inl (ListPanic ''index out of bounds of list!'')
      else if \<not> drain_start \<le> len then Inl (ListPanic ''assertion failed: drain_start <= len'')
      else if int tail_start > c_int_MAX
      then Inl (ListPanic ''assertion failed: tail_start <= ffi::c_int::MAX as _'')
      else if int (drain_start + tail_len) > c_int_MAX
      then Inl (ListPanic ''assertion failed: drain_start + tail_len <= ffi::c_int::MAX as _'')
      else
        (case l of
           ListCons h \<Rightarrow>
             let h' = h\<lparr>list_length := int drain_start\<rparr>
             in Inr \<lparr>tail_start = tail_start, tail_len = tail_len, iter_ptr = drain_start,
                  iter_end = tail_start, drain_raw = Some h',
                  origin = (if drain_start = 0 then ListNil else ListCons h')\<rparr>
         | ListNil \<Rightarrow>
             if tail_len = 0 \<and> tail_start = 0 \<and> drain_start = 0
             then Inr \<lparr>tail_start = 0, tail_len = 0, iter_ptr = 0, iter_end = 0, drain_raw = None,
                    origin = ListNil\<rparr>
             else Inl (ListPanic
               ''assertion failed: tail_len == 0 && tail_start == 0 && drain_start == 0'')))"

text \<open>
  \<open>RawCellIter::next\<close>: the cell under the pointer, until the pointer reaches the end. Both iterators
  call it.
\<close>

definition raw_next :: "'a pg_list option \<Rightarrow> nat \<Rightarrow> nat \<Rightarrow> list_error + ('a option \<times> nat)" where
  "raw_next raw ptr ending =
     (if ptr < ending then
        (case raw of
           Some h \<Rightarrow> rbind (cell_read h ptr) (\<lambda>v. Inr (Some v, ptr + 1))
         | None \<Rightarrow> Inl OutOfBounds)
      else Inr (None, ptr))"

definition drain_next :: "'a Drain \<Rightarrow> list_error + ('a option \<times> 'a Drain)" where
  "drain_next d =
     rbind (raw_next (drain_raw d) (iter_ptr d) (iter_end d)) (\<lambda>(item, ptr).
     Inr (item, d\<lparr>iter_ptr := ptr\<rparr>))"

text \<open>\<open>ptr::copy\<close> inside the buffer, with source and destination possibly overlapping.\<close>

definition cells_copy :: "'a pg_list \<Rightarrow> nat \<Rightarrow> nat \<Rightarrow> nat \<Rightarrow> list_error + 'a pg_list" where
  "cells_copy h src dst cnt =
     (if src + cnt > length (elements h) \<or> dst + cnt > length (elements h) then Inl OutOfBounds
      else Inr (h\<lparr>elements := take dst (elements h) @ take cnt (drop src (elements h))
             @ drop (dst + cnt) (elements h)\<rparr>))"

text \<open>
  \<open>Drop for Drain\<close>: a list that lost all its cells is destroyed, otherwise the tail is moved over the
  drained part and the list is put back.
\<close>

definition drain_drop :: "'a Drain \<Rightarrow> list_error + 'a List" where
  "drain_drop d =
     (case drain_raw d of
        None \<Rightarrow> Inr (origin d)
      | Some h \<Rightarrow>
          if list_length h = 0 \<and> tail_len d = 0 then Inr (origin d)
          else
            rbind (cells_copy h (tail_start d) (nat (list_length h)) (tail_len d)) (\<lambda>h'.
            Inr (ListCons (h'\<lparr>list_length := list_length h' + int (tail_len d)\<rparr>))))"

text \<open>A client that takes some items and drops the iterator, and one that takes them all.\<close>

primrec drain_take :: "nat \<Rightarrow> 'a Drain \<Rightarrow> list_error + ('a list \<times> 'a Drain)" where
  "drain_take 0 d = Inr ([], d)"
| "drain_take (Suc n) d =
     rbind (drain_next d) (\<lambda>(item, d').
     (case item of
        None \<Rightarrow> Inr ([], d')
      | Some v \<Rightarrow> rbind (drain_take n d') (\<lambda>(vs, d''). Inr (v # vs, d''))))"

section \<open>Consuming a list\<close>

text \<open>
  \<open>IntoIterator for List\<close>: the iterator owns the list and reads its cells in order. Dropping it
  destroys the list.
\<close>

record 'a ListIter =
  li_list :: "'a List"
  li_ptr :: nat
  li_end :: nat

definition into_iter :: "'a List \<Rightarrow> 'a ListIter" where
  "into_iter l =
     (case l of
        ListNil \<Rightarrow> \<lparr>li_list = l, li_ptr = 0, li_end = 0\<rparr>
      | ListCons h \<Rightarrow> \<lparr>li_list = l, li_ptr = 0, li_end = flat_list_len l\<rparr>)"

definition list_iter_next :: "'a ListIter \<Rightarrow> list_error + ('a option \<times> 'a ListIter)" where
  "list_iter_next it =
     rbind (raw_next (case li_list it of ListNil \<Rightarrow> None | ListCons h \<Rightarrow> Some h) (li_ptr it) (li_end it))
       (\<lambda>(item, ptr). Inr (item, it\<lparr>li_ptr := ptr\<rparr>))"

end
