(* ===== verification/Flat_List_Properties.thy ===== *)
theory Flat_List_Properties
  imports Flat_List
begin

text \<open>
  Postgres lists refine sequences: the representation invariant, the sequence a list stands for, what
  every operation does to that sequence, and the range that \<open>drain\<close> accepts although it should not.
\<close>

section \<open>Representation\<close>

definition head_ok :: "'a pg_list \<Rightarrow> bool" where
  "head_ok h \<longleftrightarrow>
     0 < list_length h \<and> list_length h \<le> max_length h \<and> max_length h \<le> c_int_MAX
     \<and> int (length (elements h)) = max_length h
     \<and> (\<forall>i < nat (list_length h). elements h ! i \<noteq> None)"

definition head_items :: "'a pg_list \<Rightarrow> 'a list" where
  "head_items h = map the (take (nat (list_length h)) (elements h))"

fun list_ok_flat :: "'a List \<Rightarrow> bool" where
  "list_ok_flat ListNil = True"
| "list_ok_flat (ListCons h) = head_ok h"

fun items :: "'a List \<Rightarrow> 'a list" where
  "items ListNil = []"
| "items (ListCons h) = head_items h"

lemma head_ok_bounds:
  assumes "head_ok h"
  shows "nat (list_length h) \<le> length (elements h)" and "length (head_items h) = nat (list_length h)"
    and "0 < nat (list_length h)"
  using assms by (auto simp: head_ok_def head_items_def)

lemma length_items: "list_ok_flat l \<Longrightarrow> length (items l) = flat_list_len l"
  by (cases l) (simp_all add: head_ok_bounds)

lemma cell_read_ok:
  assumes "head_ok h" and "i < nat (list_length h)"
  shows "cell_read h i = Inr (head_items h ! i)"
  using assms head_ok_bounds(1) [OF assms(1)]
  by (auto simp: cell_read_def head_items_def head_ok_def split: option.split)

lemma cell_read_length [simp]: "cell_read (h\<lparr>list_length := k\<rparr>) = cell_read h"
  by (simp add: cell_read_def fun_eq_iff)

text \<open>Reading by index and reading in order.\<close>

lemma list_get_ok:
  assumes "list_ok_flat l"
  shows "list_get l i = Inr (if i < length (items l) then Some (items l ! i) else None)"
  using assms by (cases l) (auto simp: list_get_def cell_read_ok head_ok_bounds map_res_def)

lemma list_iter_next_ok:
  assumes "list_ok_flat l"
  shows "list_iter_next ((into_iter l)\<lparr>li_ptr := i\<rparr>) =
    (if i < length (items l)
     then Inr (Some (items l ! i), (into_iter l)\<lparr>li_ptr := i + 1\<rparr>)
     else Inr (None, (into_iter l)\<lparr>li_ptr := i\<rparr>))"
  using assms
  by (cases l) (auto simp: list_iter_next_def into_iter_def raw_next_def cell_read_ok head_ok_bounds)

section \<open>Growing\<close>

text \<open>
  The server refuses an allocation above \<open>MaxAllocSize\<close> and, memory permitting, serves every other.
\<close>

definition alloc_limit :: nat where
  "alloc_limit = 1073741823"

definition push_limit :: nat where
  "push_limit = 67108864"

lemma grow_list_ok:
  assumes "head_ok h" and "alloc (target * size_of_ListCell)" and "max_length h \<le> int target"
    and "int target \<le> c_int_MAX"
  shows "\<exists>h'. grow_list alloc h target = Inr h' \<and> head_ok h' \<and> head_items h' = head_items h
    \<and> max_length h' = int target \<and> list_length h' = list_length h"
proof -
  let ?n = "nat (list_length h)"
  have n: "?n \<le> length (elements h)" "?n \<le> target" "length (elements h) \<le> target"
    using assms by (auto simp: head_ok_def)
  let ?kept = "if inline_elements h then take ?n (elements h) else elements h"
  let ?h' = "h\<lparr>elements := take target (?kept @ replicate target None), inline_elements := False,
    max_length := int target\<rparr>"
  have res: "grow_list alloc h target = Inr ?h'"
    using assms(2,4) by (simp add: grow_list_def Let_def)
  have same: "elements ?h' ! i = elements h ! i" if "i < ?n" for i
    using that n by (simp add: nth_append)
  have items: "take ?n (elements ?h') = take ?n (elements h)"
    using n same by (intro nth_equalityI) simp_all
  have "head_ok ?h'"
    using assms(1,3,4) n same by (auto simp: head_ok_def)
  then show ?thesis
    using res items by (simp add: head_items_def)
qed

lemma reserve_ok:
  assumes "head_ok h" and "\<forall>n \<le> alloc_limit. alloc n"
    and "(nat (list_length h) + cnt) * size_of_ListCell \<le> alloc_limit"
  shows "\<exists>h'. reserve alloc cnt h = Inr h' \<and> head_ok h' \<and> head_items h' = head_items h
    \<and> list_length h' = list_length h \<and> max_length h' \<ge> list_length h + int cnt"
proof (cases "nat (max_length h - list_length h) < cnt")
  case True
  let ?t = "nat (list_length h + int cnt)"
  have pos: "0 < list_length h" "list_length h \<le> max_length h"
    using assms(1) by (simp_all add: head_ok_def)
  then have t: "?t = nat (list_length h) + cnt" and grows: "max_length h \<le> int ?t"
    using True by simp_all
  have "alloc (?t * size_of_ListCell)"
    unfolding t using assms(2,3) by blast
  moreover have small: "list_length h + int cnt \<le> c_int_MAX" "int cnt \<le> c_int_MAX"
    using assms(3) pos by (simp_all add: size_of_ListCell_def alloc_limit_def c_int_MAX_def)
  moreover have "int ?t \<le> c_int_MAX"
    using small pos by simp
  ultimately show ?thesis
    using grow_list_ok [where alloc = alloc, OF assms(1) _ grows] True pos
    by (auto simp: reserve_def)
next
  case False
  then show ?thesis
    using assms(1) by (auto simp: reserve_def head_ok_def)
qed

lemma write_next:
  assumes "head_ok h" and "list_length h < max_length h"
  shows "\<exists>h'. cell_write h (nat (list_length h)) v = Inr h'
    \<and> head_ok (h'\<lparr>list_length := list_length h' + 1\<rparr>)
    \<and> head_items (h'\<lparr>list_length := list_length h' + 1\<rparr>) = head_items h @ [v]"
proof -
  let ?n = "nat (list_length h)"
  have n: "?n < length (elements h)" "nat (list_length h + 1) = Suc ?n" "0 < list_length h"
    using assms by (auto simp: head_ok_def)
  have "head_ok (h\<lparr>elements := (elements h)[?n := Some v], list_length := list_length h + 1\<rparr>)"
    using assms n by (auto simp: head_ok_def nth_list_update less_Suc_eq)
  moreover have "take (Suc ?n) ((elements h)[?n := Some v]) = take ?n (elements h) @ [Some v]"
    using n by (simp add: take_Suc_conv_app_nth)
  ultimately show ?thesis
    using n by (simp add: cell_write_def head_items_def)
qed

lemma push_ok:
  assumes "head_ok h" and "\<forall>n \<le> alloc_limit. alloc n" and "nat (list_length h) < push_limit"
  shows "\<exists>h'. push alloc v h = Inr h' \<and> head_ok h' \<and> head_items h' = head_items h @ [v]"
proof -
  have pos: "0 < list_length h" "list_length h \<le> max_length h" "0 < max_length h"
    using assms(1) by (auto simp: head_ok_def)
  obtain h1 where grown: "(if max_length h - list_length h < 1 then reserve alloc (nat (max_length h)) h
      else Inr h) = Inr h1"
    and h1: "head_ok h1" "head_items h1 = head_items h" "list_length h1 < max_length h1"
  proof (cases "max_length h - list_length h < 1")
    case True
    then have "(nat (list_length h) + nat (max_length h)) * size_of_ListCell \<le> alloc_limit"
      using assms(3) pos by (simp add: push_limit_def alloc_limit_def size_of_ListCell_def)
    then obtain h1 where "reserve alloc (nat (max_length h)) h = Inr h1" "head_ok h1"
        "head_items h1 = head_items h" "list_length h1 = list_length h"
        "max_length h1 \<ge> list_length h + int (nat (max_length h))"
      using reserve_ok [OF assms(1,2)] by blast
    then show ?thesis
      using that True pos by simp
  next
    case False
    then show ?thesis
      using that assms(1) by simp
  qed
  obtain h2 where "cell_write h1 (nat (list_length h1)) v = Inr h2"
      "head_ok (h2\<lparr>list_length := list_length h2 + 1\<rparr>)"
      "head_items (h2\<lparr>list_length := list_length h2 + 1\<rparr>) = head_items h1 @ [v]"
    using write_next [OF h1(1,3)] by blast
  then show ?thesis
    using grown h1(2) pos by (simp add: push_def)
qed

lemma push_in_context_ok:
  assumes "\<forall>n \<le> alloc_limit. alloc n" and "list_ok_flat l" and "length (items l) < push_limit"
  shows "\<exists>l'. push_in_context alloc tag v l = Inr l' \<and> list_ok_flat l' \<and> items l' = items l @ [v]"
proof (cases l)
  case ListNil
  have "alloc 128"
    using assms(1) by (simp add: alloc_limit_def)
  then show ?thesis
    by (simp add: ListNil push_in_context_def size_of_List_def size_of_ListCell_def cell_write_def
      head_ok_def head_items_def c_int_MAX_def take_Suc_conv_app_nth)
next
  case (ListCons h)
  then obtain h' where "push alloc v h = Inr h'" "head_ok h'" "head_items h' = head_items h @ [v]"
    using push_ok [of h alloc v] assms by (auto simp: head_ok_bounds)
  then show ?thesis
    by (simp add: ListCons push_in_context_def map_res_def)
qed

text \<open>\<open>try_push\<close> gives the list back when it is empty or full, and otherwise never allocates.\<close>

lemma try_push_ok:
  assumes "list_ok_flat l"
  shows "if flat_list_len l < list_capacity l
    then \<exists>l'. try_push (\<lambda>_. False) v l = Inr (Some l') \<and> list_ok_flat l' \<and> items l' = items l @ [v]
    else try_push alloc v l = Inr None"
proof (cases l)
  case ListNil
  then show ?thesis by (simp add: try_push_def)
next
  case (ListCons h)
  show ?thesis
  proof (cases "list_length h < max_length h")
    case True
    then obtain h' where "cell_write h (nat (list_length h)) v = Inr h'"
        "head_ok (h'\<lparr>list_length := list_length h' + 1\<rparr>)"
        "head_items (h'\<lparr>list_length := list_length h' + 1\<rparr>) = head_items h @ [v]"
      using write_next [of h v] assms by (auto simp: ListCons)
    then show ?thesis
      using True assms by (auto simp: ListCons try_push_def push_def map_res_def head_ok_def)
  next
    case False
    then show ?thesis
      using assms by (auto simp: ListCons try_push_def head_ok_def)
  qed
qed

section \<open>The interface of a growable sequence\<close>

text \<open>
  What a client relies on when it appends: below a limit, pushing succeeds, keeps the invariant and
  adds one item at the end.
\<close>

locale growable =
  fixes push_op :: "'v \<Rightarrow> 'l \<Rightarrow> 'err + 'l"
    and seq :: "'l \<Rightarrow> 'v list"
    and good :: "'l \<Rightarrow> bool"
    and limit :: nat
  assumes push_law: "good l \<Longrightarrow> length (seq l) < limit
    \<Longrightarrow> \<exists>l'. push_op v l = Inr l' \<and> good l' \<and> seq l' = seq l @ [v]"
begin

lemma extend:
  assumes "good l" and "length (seq l) + length vs \<le> limit"
  shows "\<exists>l'. rfold push_op vs l = Inr l' \<and> good l' \<and> seq l' = seq l @ vs"
  using assms
proof (induction vs arbitrary: l)
  case Nil
  then show ?case by simp
next
  case (Cons v vs)
  then obtain l1 where "push_op v l = Inr l1" "good l1" "seq l1 = seq l @ [v]"
    using push_law [of l v] by auto
  then show ?case
    using Cons.IH [of l1] Cons.prems by simp
qed

end

lemma flat_list_growable:
  assumes "\<forall>n \<le> alloc_limit. alloc n"
  shows "growable (push_in_context alloc tag) items list_ok_flat push_limit"
  by unfold_locales (rule push_in_context_ok [OF assms])

interpretation flat_list: growable "push_in_context (\<lambda>n. n \<le> alloc_limit) tag" items list_ok_flat push_limit
  by (rule flat_list_growable) simp

section \<open>Draining\<close>

lemma drain_head:
  assumes "head_ok h" and "drain_bounds sb eb (nat (list_length h)) = (s, t)"
    and "s \<le> nat (list_length h)" and "t \<le> nat (list_length h)"
    and "int (s + (nat (list_length h) - t)) \<le> c_int_MAX"
  shows "\<exists>o'. drain sb eb (ListCons h) = Inr \<lparr>tail_start = t, tail_len = nat (list_length h) - t,
    iter_ptr = s, iter_end = t, drain_raw = Some (h\<lparr>list_length := int s\<rparr>), origin = o'\<rparr>
    \<and> (s = 0 \<longrightarrow> o' = ListNil)"
proof -
  have "int t \<le> list_length h"
    using assms(1,4) by (simp add: head_ok_def le_nat_iff)
  then have "int t \<le> c_int_MAX"
    using assms(1) by (simp add: head_ok_def)
  then show ?thesis
    using assms
    by (intro exI [of _ "if s = 0 then ListNil else ListCons (h\<lparr>list_length := int s\<rparr>)"])
      (simp add: drain_def Let_def)
qed

lemma drain_take_head:
  assumes "head_ok h" and "drain_raw d = Some (h\<lparr>list_length := k\<rparr>)" and "iter_end d \<le> nat (list_length h)"
  shows "\<exists>p. drain_take n d
    = Inr (take n (take (iter_end d - iter_ptr d) (drop (iter_ptr d) (head_items h))), d\<lparr>iter_ptr := p\<rparr>)"
  using assms(2,3)
proof (induction n arbitrary: d)
  case 0
  show ?case
    by (rule exI [of _ "iter_ptr d"]) simp
next
  case (Suc n)
  show ?case
  proof (cases "iter_ptr d < iter_end d")
    case True
    let ?xs = "head_items h" and ?p = "iter_ptr d"
    have p: "?p < length ?xs"
      using True Suc.prems head_ok_bounds(2) [OF assms(1)] by simp
    have "cell_read (h\<lparr>list_length := k\<rparr>) ?p = Inr (?xs ! ?p)"
      using cell_read_ok [OF assms(1), of ?p] True Suc.prems by simp
    then have nxt: "drain_next d = Inr (Some (?xs ! ?p), d\<lparr>iter_ptr := ?p + 1\<rparr>)"
      using True Suc.prems by (simp add: drain_next_def raw_next_def)
    obtain q where "drain_take n (d\<lparr>iter_ptr := ?p + 1\<rparr>)
        = Inr (take n (take (iter_end d - (?p + 1)) (drop (?p + 1) ?xs)), d\<lparr>iter_ptr := q\<rparr>)"
      using Suc.IH [of "d\<lparr>iter_ptr := ?p + 1\<rparr>"] Suc.prems by auto
    moreover have "take (iter_end d - ?p) (drop ?p ?xs)
        = ?xs ! ?p # take (iter_end d - (?p + 1)) (drop (?p + 1) ?xs)"
      using True p Cons_nth_drop_Suc [OF p, symmetric] by (simp add: take_Cons')
    ultimately show ?thesis
      using nxt by auto
  next
    case False
    then have "drain_take (Suc n) d = Inr ([], d\<lparr>iter_ptr := iter_ptr d\<rparr>)"
      by (simp add: drain_next_def raw_next_def)
    then show ?thesis
      using False by (intro exI [of _ "iter_ptr d"]) simp
  qed
qed

lemma weld_items:
  fixes xs :: "'b list"
  assumes "s \<le> n" and "t \<le> n" and "n \<le> length xs"
  shows "take (s + (n - t)) (take s xs @ take (n - t) (drop t xs) @ drop (s + (n - t)) xs)
    = take s (take n xs) @ drop t (take n xs)"
proof -
  let ?A = "take s xs" and ?B = "take (n - t) (drop t xs)" and ?C = "drop (s + (n - t)) xs"
  have "s + (n - t) = length (?A @ ?B)"
    using assms by simp
  then have "take (s + (n - t)) ((?A @ ?B) @ ?C) = ?A @ ?B"
    by (simp only: append_eq_conv_conj [THEN iffD1, OF refl, THEN conjunct1, symmetric])
  then show ?thesis
    using assms by (simp add: drop_take min_def)
qed

lemma welded_head:
  assumes "head_ok h" and "s \<le> nat (list_length h)" and "t \<le> nat (list_length h)"
    and "k = nat (list_length h) - t" and "s + k \<noteq> 0" and "s + k \<le> length (elements h)"
  defines "h' \<equiv> h\<lparr>elements :=
    take s (elements h) @ take k (drop t (elements h)) @ drop (s + k) (elements h),
    list_length := int s + int k\<rparr>"
  shows "head_ok h'" and "head_items h' = take s (head_items h) @ drop t (head_items h)"
proof -
  let ?n = "nat (list_length h)" and ?E = "elements h"
  have n: "?n \<le> length ?E"
    by (rule head_ok_bounds(1) [OF assms(1)])
  have weld: "take (s + k) (elements h') = take s (take ?n ?E) @ drop t (take ?n ?E)"
    unfolding h'_def assms(4) using weld_items [OF assms(2,3) n] by simp
  then show "head_items h' = take s (head_items h) @ drop t (head_items h)"
    by (simp add: head_items_def h'_def take_map drop_map nat_int_add del: take_append take_take)
  have "\<forall>x\<in>set (take ?n ?E). x \<noteq> None"
    using assms(1) n by (auto simp: head_ok_def in_set_conv_nth)
  then have "\<forall>x\<in>set (take (s + k) (elements h')). x \<noteq> None"
    unfolding weld using set_take_subset [of s "take ?n ?E"] set_drop_subset [of t "take ?n ?E"] by auto
  moreover have "length (take s ?E) = s" "length (take k (drop t ?E)) = k"
    using assms(2-4) n by simp_all
  then have len: "length (elements h') = length ?E"
    using assms(6) by (simp add: h'_def del: length_take)
  ultimately have "\<forall>i < s + k. elements h' ! i \<noteq> None"
    using assms(6) by (metis in_set_conv_nth length_take min.absorb2 nth_take)
  then show "head_ok h'"
    using assms(1,5,6) len by (auto simp: head_ok_def h'_def)
qed

lemma drain_drop_weld:
  assumes "head_ok h" and "s \<le> nat (list_length h)" and "t \<le> nat (list_length h)"
    and "drain_raw d = Some (h\<lparr>list_length := int s\<rparr>)" and "tail_start d = t"
    and "tail_len d = k" and "k = nat (list_length h) - t" and "s + k \<noteq> 0"
  shows "s + k \<le> length (elements h) \<Longrightarrow> \<exists>h'. drain_drop d = Inr (ListCons h') \<and> head_ok h'
      \<and> head_items h' = take s (head_items h) @ drop t (head_items h)"
    and "\<not> s + k \<le> length (elements h) \<Longrightarrow> drain_drop d = Inl OutOfBounds"
proof -
  have tail: "t + k \<le> length (elements h)"
    using assms(3,7) head_ok_bounds(1) [OF assms(1)] by simp
  have nonempty: "\<not> (int s = 0 \<and> k = 0)"
    using assms(8) by simp
  show "drain_drop d = Inl OutOfBounds" if "\<not> s + k \<le> length (elements h)"
    using that tail nonempty assms(4-6) by (simp add: drain_drop_def cells_copy_def)
  show "\<exists>h'. drain_drop d = Inr (ListCons h') \<and> head_ok h'
      \<and> head_items h' = take s (head_items h) @ drop t (head_items h)"
    if fits: "s + k \<le> length (elements h)"
    using fits tail nonempty assms(4-6) welded_head [OF assms(1-3,7,8) fits]
    by (auto simp: drain_drop_def cells_copy_def)
qed

section \<open>Properties\<close>

text \<open>
  C28. Pushing onto a Postgres list appends. From a list that satisfies the representation invariant
  (the empty list included), pushing any values one after the other succeeds, keeps the invariant (the
  length positive, within the capacity and the capacity the size of the buffer, every cell below the
  length written) and leaves the list standing for the old items followed by the new ones, through the
  first allocation, the move out of the header and every reallocation. This holds up to 2^26 items, with
  a server that serves allocations up to its limit.
\<close>

theorem push_appends:
  assumes "\<forall>n \<le> alloc_limit. alloc n" and "list_ok_flat l"
    and "length (items l) + length vs \<le> push_limit"
  shows "\<exists>l'. rfold (push_in_context alloc tag) vs l = Inr l'
    \<and> list_ok_flat l' \<and> items l' = items l @ vs"
  using growable.extend [OF flat_list_growable [OF assms(1)] assms(2,3)] .

theorem push_appends_witness:
  "\<exists>l'. rfold (push_in_context (\<lambda>n. n \<le> alloc_limit) T_IntList) [5, 6, 7::int] ListNil = Inr l'
    \<and> list_ok_flat l' \<and> items l' = [5, 6, 7]"
  using push_appends [of "\<lambda>n. n \<le> alloc_limit" ListNil "[5, 6, 7::int]" T_IntList]
  by (simp add: push_limit_def)

text \<open>
  C29. Draining a range removes exactly that range. When the bounds denote a range inside the list with
  its start not after its end, \<open>drain\<close> succeeds; a client that takes any number of items gets the items
  of the range in order, as many as it asked for; and dropping the iterator, however many items were
  taken, leaves a list that satisfies the invariant and stands for the items before and after the range.
\<close>

theorem drain_removes_range:
  assumes ok: "list_ok_flat l"
    and bounds: "drain_bounds sb eb (flat_list_len l) = (s, t)" "s \<le> t" "t \<le> flat_list_len l"
  shows "\<exists>d d' l'. drain sb eb l = Inr d
    \<and> drain_take n d = Inr (take n (take (t - s) (drop s (items l))), d')
    \<and> drain_drop d' = Inr l' \<and> list_ok_flat l' \<and> items l' = take s (items l) @ drop t (items l)"
proof (cases l)
  case ListNil
  let ?d = "\<lparr>tail_start = 0, tail_len = 0, iter_ptr = 0, iter_end = 0, drain_raw = None, origin = ListNil\<rparr>"
  have d: "drain sb eb l = Inr ?d" and zero: "s = 0" "t = 0"
    using bounds by (simp_all add: ListNil drain_def c_int_MAX_def)
  have "drain_take n ?d = Inr ([], ?d)"
    by (cases n) (simp_all add: drain_next_def raw_next_def)
  moreover have "drain_drop ?d = Inr ListNil"
    by (simp add: drain_drop_def)
  ultimately show ?thesis
    using d zero by (intro exI [of _ ?d] exI [of _ ListNil]) (simp add: ListNil)
next
  case (ListCons h)
  let ?k = "nat (list_length h) - t"
  have h: "head_ok h" and len: "flat_list_len l = nat (list_length h)"
    using ok by (simp_all add: ListCons)
  have st: "s \<le> nat (list_length h)" "t \<le> nat (list_length h)" "s + ?k \<le> nat (list_length h)"
    using bounds len by simp_all
  have fits: "s + ?k \<le> length (elements h)" "int (s + ?k) \<le> c_int_MAX"
    using st h head_ok_bounds(1) [OF h] by (auto simp: head_ok_def)
  obtain o' where d: "drain sb eb l = Inr \<lparr>tail_start = t, tail_len = ?k, iter_ptr = s, iter_end = t,
      drain_raw = Some (h\<lparr>list_length := int s\<rparr>), origin = o'\<rparr>" (is "_ = Inr ?d")
    and o': "s = 0 \<longrightarrow> o' = ListNil"
    using drain_head [OF h, of sb eb s t] bounds(1) len st fits(2) ListCons by auto
  obtain p where taken: "drain_take n ?d
      = Inr (take n (take (t - s) (drop s (head_items h))), ?d\<lparr>iter_ptr := p\<rparr>)"
    using drain_take_head [OF h, of ?d "int s" n] st by auto
  have "\<exists>l'. drain_drop (?d\<lparr>iter_ptr := p\<rparr>) = Inr l' \<and> list_ok_flat l'
      \<and> items l' = take s (head_items h) @ drop t (head_items h)"
  proof (cases "s + ?k = 0")
    case True
    then show ?thesis
      using o' st head_ok_bounds(2) [OF h] by (simp add: drain_drop_def)
  next
    case False
    then obtain h' where "drain_drop (?d\<lparr>iter_ptr := p\<rparr>) = Inr (ListCons h')" "head_ok h'"
        "head_items h' = take s (head_items h) @ drop t (head_items h)"
      using drain_drop_weld(1) [OF h st(1,2), of "?d\<lparr>iter_ptr := p\<rparr>" ?k] fits(1) by auto
    then show ?thesis
      by (intro exI [of _ "ListCons h'"]) simp
  qed
  then show ?thesis
    using d taken unfolding ListCons items.simps by blast
qed

text \<open>A list of five integers in the allocation of its header, as pushing builds it.\<close>

definition demo_list :: "int List" where
  "demo_list = ListCons \<lparr>list_type = T_IntList, list_length = 5, max_length = 13,
     elements = map Some [1, 2, 3, 4, 5] @ replicate 8 None, inline_elements = True\<rparr>"

lemma demo_list_ok: "list_ok_flat demo_list" "items demo_list = [1, 2, 3, 4, 5]" "flat_list_len demo_list = 5"
  by (simp_all add: demo_list_def head_ok_def head_items_def c_int_MAX_def nth_Cons' less_Suc_eq
    numeral_eq_Suc)

theorem drain_removes_range_witness:
  "\<exists>d d' l'. drain (Included 1) (Excluded 3) demo_list = Inr d
    \<and> drain_take 1 d = Inr ([2], d')
    \<and> drain_drop d' = Inr l' \<and> list_ok_flat l' \<and> items l' = [1, 4, 5]"
  using drain_removes_range [of demo_list "Included 1" "Excluded 3" 1 3 1] demo_list_ok
  by (simp add: drain_bounds_def)

text \<open>
  C30. \<open>drain\<close> does not reject a range whose end is before its start. For a start inside the list and an
  end before it the call succeeds and yields nothing, but dropping the iterator moves the tail up to the
  start: when the moved tail fits into the buffer the list comes back longer than it was, with the items
  from the end to the start duplicated, and when it does not fit the copy writes past the buffer.
\<close>

theorem drain_reversed_range_corrupts:
  assumes ok: "list_ok_flat l"
    and bounds: "drain_bounds sb eb (flat_list_len l) = (s, t)" "t < s" "s \<le> flat_list_len l"
    and c_int: "int (flat_list_len l + (s - t)) \<le> c_int_MAX"
  shows "\<exists>d. drain sb eb l = Inr d \<and> drain_take n d = Inr ([], d)
    \<and> (if flat_list_len l + (s - t) \<le> list_capacity l
       then \<exists>l'. drain_drop d = Inr l' \<and> items l' = take s (items l) @ drop t (items l)
         \<and> length (items l') = flat_list_len l + (s - t)
       else drain_drop d = Inl OutOfBounds)"
proof (cases l)
  case ListNil
  then show ?thesis
    using bounds by simp
next
  case (ListCons h)
  let ?k = "nat (list_length h) - t"
  have h: "head_ok h" and len: "flat_list_len l = nat (list_length h)"
    using ok by (simp_all add: ListCons)
  have st: "s \<le> nat (list_length h)" "t \<le> nat (list_length h)" "s + ?k = flat_list_len l + (s - t)"
      "s + ?k \<noteq> 0"
    using bounds len by simp_all
  have cap: "list_capacity l = length (elements h)"
    using h by (auto simp: ListCons head_ok_def)
  obtain o' where d: "drain sb eb l = Inr \<lparr>tail_start = t, tail_len = ?k, iter_ptr = s, iter_end = t,
      drain_raw = Some (h\<lparr>list_length := int s\<rparr>), origin = o'\<rparr>" (is "_ = Inr ?d")
    using drain_head [OF h, of sb eb s t] bounds(1) len st c_int ListCons by auto
  have "drain_take n ?d = Inr ([], ?d)"
    using bounds(2) by (cases n) (simp_all add: drain_next_def raw_next_def)
  moreover have "drain_drop ?d = Inl OutOfBounds" if "\<not> s + ?k \<le> length (elements h)"
    using drain_drop_weld(2) [OF h st(1,2), of ?d ?k] st(4) that by simp
  moreover have "\<exists>l'. drain_drop ?d = Inr l' \<and> items l' = take s (items l) @ drop t (items l)
      \<and> length (items l') = s + ?k" if fits: "s + ?k \<le> length (elements h)"
  proof -
    obtain h' where "drain_drop ?d = Inr (ListCons h')"
        "head_items h' = take s (head_items h) @ drop t (head_items h)"
      using drain_drop_weld(1) [OF h st(1,2), of ?d ?k] st(4) fits by auto
    then show ?thesis
      using st(1,2) head_ok_bounds(2) [OF h]
      by (intro exI [of _ "ListCons h'"]) (simp add: ListCons)
  qed
  ultimately show ?thesis
    using d unfolding cap st(3) [symmetric] by auto
qed

theorem drain_reversed_range_corrupts_witness:
  "(\<exists>d l'. drain (Included 4) (Excluded 1) demo_list = Inr d
     \<and> drain_drop d = Inr l' \<and> items l' = [1, 2, 3, 4, 2, 3, 4, 5])
   \<and> (\<exists>d. drain (Included 5) (Excluded 1) (ListCons \<lparr>list_type = T_IntList, list_length = 5, max_length = 8,
          elements = map Some [1, 2, 3, 4, 5::int] @ replicate 3 None, inline_elements = False\<rparr>) = Inr d
     \<and> drain_drop d = Inl OutOfBounds)"
proof -
  let ?l = "ListCons \<lparr>list_type = T_IntList, list_length = 5, max_length = 8,
          elements = map Some [1, 2, 3, 4, 5::int] @ replicate 3 None, inline_elements = False\<rparr>"
  have "list_ok_flat ?l"
    by (simp add: head_ok_def c_int_MAX_def nth_Cons' less_Suc_eq numeral_eq_Suc)
  then have "\<exists>d. drain (Included 5) (Excluded 1) ?l = Inr d \<and> drain_drop d = Inl OutOfBounds"
    using drain_reversed_range_corrupts [of ?l "Included 5" "Excluded 1" 5 1 0]
    by (auto simp: drain_bounds_def c_int_MAX_def)
  moreover have "list_capacity demo_list = 13"
    by (simp add: demo_list_def)
  then have "\<exists>d l'. drain (Included 4) (Excluded 1) demo_list = Inr d
     \<and> drain_drop d = Inr l' \<and> items l' = [1, 2, 3, 4, 2, 3, 4, 5]"
    using drain_reversed_range_corrupts [of demo_list "Included 4" "Excluded 1" 4 1 0] demo_list_ok
    by (auto simp: drain_bounds_def c_int_MAX_def)
  ultimately show ?thesis
    by blast
qed

end
