(* ===== verification/Varlena.thy ===== *)
theory Varlena
  imports Prelude
begin

unbundle bit_operations_syntax

text \<open>
  Variable-length values (\<open>pgrx/src/varlena.rs\<close>, \<open>pgrx/src/datum/into.rs\<close>, \<open>pgrx/src/datum/varlena.rs\<close>)
  on a little-endian machine: the bytes from the pointer to the end of the allocation, with the header
  in the first one or four of them. A read past the allocation is \<^term>\<open>None\<close>; subtraction on \<open>usize\<close>
  wraps.
\<close>

type_synonym varlena = "u8 list"

section \<open>Headers\<close>

definition VARHDRSZ :: nat where
  "VARHDRSZ = 4"

definition VARHDRSZ_SHORT :: nat where
  "VARHDRSZ_SHORT = 1"

definition VARHDRSZ_EXTERNAL :: nat where
  "VARHDRSZ_EXTERNAL = 2"

definition encode_vlen_4b :: "32 word \<Rightarrow> u32" where
  "encode_vlen_4b len = push_bit 2 len"

definition encode_vlen_1b :: "32 word \<Rightarrow> u8" where
  "encode_vlen_1b len = push_bit 1 (ucast len) OR 1"

definition set_varsize_4b :: "varlena \<Rightarrow> 32 word \<Rightarrow> varlena" where
  "set_varsize_4b ptr len = to_le_bytes (encode_vlen_4b len) @ drop 4 ptr"

definition set_varsize_1b :: "varlena \<Rightarrow> 32 word \<Rightarrow> varlena" where
  "set_varsize_1b ptr len = encode_vlen_1b len # drop 1 ptr"

definition va_header_4b :: "varlena \<Rightarrow> u32" where
  "va_header_4b ptr = from_le_bytes (take 4 ptr)"

definition va_header_1b :: "varlena \<Rightarrow> u8" where
  "va_header_1b ptr = ptr ! 0"

definition varsize_4b :: "varlena \<Rightarrow> nat" where
  "varsize_4b ptr = unat (drop_bit 2 (va_header_4b ptr) AND 0x3FFFFFFF)"

definition varsize_1b :: "varlena \<Rightarrow> nat" where
  "varsize_1b ptr = unat (drop_bit 1 (va_header_1b ptr) AND 0x7F)"

definition varatt_is_4b :: "varlena \<Rightarrow> bool" where
  "varatt_is_4b ptr = (va_header_1b ptr AND 0x01 = 0x00)"

definition varatt_is_4b_u :: "varlena \<Rightarrow> bool" where
  "varatt_is_4b_u ptr = (va_header_1b ptr AND 0x03 = 0x00)"

definition varatt_is_4b_c :: "varlena \<Rightarrow> bool" where
  "varatt_is_4b_c ptr = (va_header_1b ptr AND 0x03 = 0x02)"

definition varatt_is_1b :: "varlena \<Rightarrow> bool" where
  "varatt_is_1b ptr = (va_header_1b ptr AND 0x01 = 0x01)"

definition varatt_is_1b_e :: "varlena \<Rightarrow> bool" where
  "varatt_is_1b_e ptr = (va_header_1b ptr = 0x01)"

section \<open>External values\<close>

definition vartag_is_expanded :: "u32 \<Rightarrow> bool" where
  "vartag_is_expanded tag = (tag AND (NOT 1) = 2)"

text \<open>The panic on an unknown tag is \<^term>\<open>None\<close>. The sizes are those of a 64-bit machine.\<close>

definition vartag_size :: "u32 \<Rightarrow> nat option" where
  "vartag_size tag =
     (if tag = 1 then Some 8
      else if vartag_is_expanded tag then Some 8
      else if tag = 18 then Some 16
      else None)"

definition vartag_1b_e :: "varlena \<Rightarrow> u8" where
  "vartag_1b_e ptr = ptr ! 1"

definition varsize_external :: "varlena \<Rightarrow> nat option" where
  "varsize_external ptr = map_option (\<lambda>n. VARHDRSZ_EXTERNAL + n) (vartag_size (ucast (vartag_1b_e ptr)))"

section \<open>Sizes and contents\<close>

definition varsize_any :: "varlena \<Rightarrow> nat option" where
  "varsize_any ptr =
     (if varatt_is_1b_e ptr then varsize_external ptr
      else if varatt_is_1b ptr then Some (varsize_1b ptr)
      else Some (varsize_4b ptr))"

definition usize_sub :: "nat \<Rightarrow> nat \<Rightarrow> nat" where
  "usize_sub m n = (m + 18446744073709551616 - n) mod 18446744073709551616"

definition varsize_any_exhdr :: "varlena \<Rightarrow> nat option" where
  "varsize_any_exhdr ptr =
     (if varatt_is_1b_e ptr
      then map_option (\<lambda>n. usize_sub n VARHDRSZ_EXTERNAL) (varsize_external ptr)
      else if varatt_is_1b ptr then Some (usize_sub (varsize_1b ptr) VARHDRSZ_SHORT)
      else Some (usize_sub (varsize_4b ptr) VARHDRSZ))"

text \<open>The offset of the data from the pointer.\<close>

definition vardata_any :: "varlena \<Rightarrow> nat" where
  "vardata_any ptr = (if varatt_is_1b ptr then 1 else 4)"

definition varlena_to_byte_slice :: "varlena \<Rightarrow> u8 list option" where
  "varlena_to_byte_slice ptr =
     (case varsize_any_exhdr ptr of
        None \<Rightarrow> None
      | Some len \<Rightarrow>
          if vardata_any ptr + len \<le> length ptr then Some (take len (drop (vardata_any ptr) ptr))
          else None)"

datatype text_error = Utf8Error

definition text_to_rust_str :: "varlena \<Rightarrow> (text_error + string) option" where
  "text_to_rust_str ptr =
     map_option (\<lambda>bytes. if utf8_valid bytes then Inr (from_bytes bytes) else Inl Utf8Error)
       (varlena_to_byte_slice ptr)"

text \<open>
  \<open>IntoDatum for &[u8]\<close>: the assertion on the length is a panic. The bytes of the header are written
  before the rest of the allocation.
\<close>

definition bytes_into_datum :: "u8 list \<Rightarrow> varlena option" where
  "bytes_into_datum bytes =
     (let len = min (length bytes + VARHDRSZ) 18446744073709551615 in
      if len < 0x3FFFFFFF
      then Some (take 4 (set_varsize_4b (replicate len 0) (word_of_nat len)) @ bytes)
      else None)"

definition str_into_datum :: "string \<Rightarrow> varlena option" where
  "str_into_datum s = bytes_into_datum (as_bytes s)"

text \<open>
  \<open>PgVarlena::new\<close> for a type of a size: a zeroed allocation with the short header when the value
  fits, and \<open>as_ref\<close>, which makes a reference to the data at its offset from the allocation.
\<close>

definition PgVarlena_new :: "nat \<Rightarrow> varlena" where
  "PgVarlena_new size_of =
     (if size_of + VARHDRSZ_SHORT \<le> 127
      then set_varsize_1b (replicate (VARHDRSZ + size_of) 0) (word_of_nat (size_of + VARHDRSZ_SHORT))
      else set_varsize_4b (replicate (VARHDRSZ + size_of) 0) (word_of_nat (size_of + VARHDRSZ)))"

definition PgVarlena_ref :: "nat \<Rightarrow> varlena \<Rightarrow> nat" where
  "PgVarlena_ref address v = address + vardata_any v"

end
