(* ===== verification/Flat_Array.thy ===== *)
theory Flat_Array
  imports Varlena
begin

unbundle bit_operations_syntax

text \<open>
  Postgres arrays (\<open>pgrx/src/array.rs\<close>, \<open>pgrx/src/array/flat_array.rs\<close>, \<open>pgrx/src/array/port.rs\<close> and
  \<open>pgrx/src/layout.rs\<close>) as the bytes of their allocation: the header \<open>ArrayType\<close> (length word, number of
  dimensions, data offset, element type), the dimensions, the lower bounds, the null bitmap and the
  elements.
\<close>

type_synonym array = "u8 list"
type_synonym usize = "64 word"

section \<open>Alignment\<close>

definition TYPEALIGN :: "usize \<Rightarrow> usize \<Rightarrow> usize" where
  "TYPEALIGN alignval len = (len + (alignval - 1)) AND (NOT (alignval - 1))"

definition MAXALIGN :: "usize \<Rightarrow> usize" where
  "MAXALIGN len = TYPEALIGN 8 len"

datatype Align = AlignByte | AlignShort | AlignInt | AlignDouble

primrec Align_as_usize :: "Align \<Rightarrow> usize" where
  "Align_as_usize AlignByte = 1"
| "Align_as_usize AlignShort = 2"
| "Align_as_usize AlignInt = 4"
| "Align_as_usize AlignDouble = 8"

definition Align_try_from :: "char \<Rightarrow> Align option" where
  "Align_try_from c =
     (if c = CHR ''c'' then Some AlignByte
      else if c = CHR ''s'' then Some AlignShort
      else if c = CHR ''i'' then Some AlignInt
      else if c = CHR ''d'' then Some AlignDouble
      else None)"

primrec as_typalign :: "Align \<Rightarrow> char" where
  "as_typalign AlignByte = CHR ''c''"
| "as_typalign AlignShort = CHR ''s''"
| "as_typalign AlignInt = CHR ''i''"
| "as_typalign AlignDouble = CHR ''d''"

definition Align_pad :: "Align \<Rightarrow> usize \<Rightarrow> usize" where
  "Align_pad a n = (let align = Align_as_usize a in (n + (align - 1)) AND (NOT (align - 1)))"

section \<open>The header\<close>

definition size_of_ArrayType :: nat where
  "size_of_ArrayType = 16"

definition read_word :: "array \<Rightarrow> nat \<Rightarrow> u32" where
  "read_word bs off = from_le_bytes (take 4 (drop off bs))"

text \<open>A \<open>c_int\<close> cast to \<open>usize\<close> is sign-extended.\<close>

definition c_int_as_usize :: "u32 \<Rightarrow> nat" where
  "c_int_as_usize w = unat (scast w :: usize)"

definition ARR_NDIM :: "array \<Rightarrow> nat" where
  "ARR_NDIM a = c_int_as_usize (read_word a 4)"

definition ARR_HASNULL :: "array \<Rightarrow> bool" where
  "ARR_HASNULL a = (read_word a 8 \<noteq> 0)"

definition ARR_ELEMTYPE :: "array \<Rightarrow> u32" where
  "ARR_ELEMTYPE a = read_word a 12"

definition ARR_DIMS :: "array \<Rightarrow> nat" where
  "ARR_DIMS a = size_of_ArrayType"

text \<open>The offset of the null bitmap, when there is one.\<close>

definition ARR_NULLBITMAP :: "array \<Rightarrow> nat option" where
  "ARR_NULLBITMAP a =
     (if ARR_HASNULL a then Some (size_of_ArrayType + 2 * 4 * ARR_NDIM a) else None)"

definition ARR_OVERHEAD_NONULLS :: "nat \<Rightarrow> nat" where
  "ARR_OVERHEAD_NONULLS ndims = unat (MAXALIGN (word_of_nat (size_of_ArrayType + 2 * 4 * ndims)))"

definition ARR_DATA_OFFSET :: "array \<Rightarrow> nat" where
  "ARR_DATA_OFFSET a =
     (if ARR_HASNULL a then c_int_as_usize (read_word a 8) else ARR_OVERHEAD_NONULLS (ARR_NDIM a))"

definition raw_dims :: "array \<Rightarrow> u32 list" where
  "raw_dims a = map (\<lambda>i. read_word a (ARR_DIMS a + 4 * i)) [0..<ARR_NDIM a]"

definition MAX_ALLOC_SIZE :: nat where
  "MAX_ALLOC_SIZE = 0x3FFFFFFF"

definition MAX_ARRAY_SIZE :: nat where
  "MAX_ARRAY_SIZE = MAX_ALLOC_SIZE div 8"

fun checked_product :: "nat \<Rightarrow> u32 list \<Rightarrow> nat option" where
  "checked_product acc [] = Some acc"
| "checked_product acc (d # ds) =
     (if acc * unat d < 4294967296 then checked_product (acc * unat d) ds else None)"

text \<open>\<open>RawArray::len\<close>: the \<open>expect\<close> on a product that is too large is a panic.\<close>

definition RawArray_len :: "array \<Rightarrow> nat option" where
  "RawArray_len a =
     (if raw_dims a = [] then Some 0
      else (case checked_product 1 (raw_dims a) of
              Some n \<Rightarrow> if n \<le> MAX_ARRAY_SIZE then Some n else None
            | None \<Rightarrow> None))"

section \<open>Making arrays\<close>

datatype ArrayAllocError = TooManyBytes | TooManyElems | ZeroLenDim | OutOfMemory

definition i32_bytes :: "nat \<Rightarrow> u8 list" where
  "i32_bytes n = to_le_bytes (word_of_nat n)"

definition alloc_zeroed_head ::
    "(nat \<Rightarrow> bool) \<Rightarrow> nat \<Rightarrow> nat \<Rightarrow> nat \<Rightarrow> u32 \<Rightarrow> ArrayAllocError + array" where
  "alloc_zeroed_head alloc tail_size ndim dataoffset elemtype =
     (let nbytes = size_of_ArrayType + tail_size in
      if \<not> alloc nbytes then Inl OutOfMemory
      else Inr (to_le_bytes (encode_vlen_4b (word_of_nat nbytes)) @ i32_bytes ndim
        @ i32_bytes dataoffset @ to_le_bytes elemtype @ replicate tail_size 0))"

text \<open>The lower bounds and the number of elements: the loop over the dimensions.\<close>

fun lbounds_product :: "nat \<Rightarrow> nat list \<Rightarrow> ArrayAllocError + nat list \<times> nat" where
  "lbounds_product product [] = Inr ([], product)"
| "lbounds_product product (dim # dims) =
     (if dim * product < 18446744073709551616 \<and> dim * product \<le> 2147483647
      then map_res (\<lambda>(ls, p). (product # ls, p)) (lbounds_product (dim * product) dims)
      else Inl TooManyElems)"

definition next_multiple_of :: "nat \<Rightarrow> nat \<Rightarrow> nat" where
  "next_multiple_of n k = (if n mod k = 0 then n else n + (k - n mod k))"

definition write_at :: "nat \<Rightarrow> u8 list \<Rightarrow> array \<Rightarrow> array" where
  "write_at off bytes a = take off a @ bytes @ drop (off + length bytes) a"

definition new_empty :: "(nat \<Rightarrow> bool) \<Rightarrow> u32 \<Rightarrow> ArrayAllocError + array" where
  "new_empty alloc elemtype = alloc_zeroed_head alloc 0 0 0 elemtype"

text \<open>\<open>FlatArray::new_zeroed_in\<close>, for elements of a size and a type.\<close>

definition new_zeroed_in ::
    "(nat \<Rightarrow> bool) \<Rightarrow> nat \<Rightarrow> u32 \<Rightarrow> nat list \<Rightarrow> bool \<Rightarrow> ArrayAllocError + array" where
  "new_zeroed_in alloc size_of_T elemtype dim_lens has_nulls =
     (let base_size = size_of_ArrayType; ndims = length dim_lens in
      if ndims = 0 then new_empty alloc elemtype
      else
        let dims_size = 4 * ndims in
        if 0 \<in> set dim_lens then Inl ZeroLenDim
        else
          rbind (lbounds_product 1 dim_lens) (\<lambda>(lbounds, nelems).
          if nelems > MAX_ARRAY_SIZE then Inl TooManyElems
          else
            let null_size = (if has_nulls then (nelems + 7) div 8 else 0);
                prefix_size = next_multiple_of (base_size + dims_size * 2 + null_size) 8;
                total = prefix_size + size_of_T * nelems
            in
            if total > MAX_ALLOC_SIZE then Inl TooManyBytes
            else
              let dataoffset = (if has_nulls then prefix_size else 0) in
              rbind (alloc_zeroed_head alloc (total - base_size) ndims dataoffset elemtype) (\<lambda>ptr.
              Inr (write_at (base_size + dims_size) (concat (map i32_bytes lbounds))
                (write_at base_size (concat (map i32_bytes dim_lens)) ptr)))))"

section \<open>Reading elements\<close>

text \<open>
  \<open>ArrayIter\<close>. What an element type says of the bytes at an offset, the value and its size in memory,
  is a parameter. A bit of the null bitmap that is not set marks a null.
\<close>

record ArrayIter =
  ai_index :: nat
  ai_offset :: nat

definition is_null_at :: "array \<Rightarrow> nat \<Rightarrow> bool" where
  "is_null_at a i =
     (case ARR_NULLBITMAP a of
        None \<Rightarrow> False
      | Some off \<Rightarrow> \<not> bit (a ! (off + i div 8)) (i mod 8))"

definition array_iter_next ::
    "(u8 list \<Rightarrow> 'v \<times> nat) \<Rightarrow> Align \<Rightarrow> array \<Rightarrow> nat \<Rightarrow> ArrayIter \<Rightarrow> 'v option option \<times> ArrayIter" where
  "array_iter_next borrow align a nelems it =
     (if ai_index it \<ge> nelems then (None, it)
      else
        let is_null = is_null_at a (ai_index it);
            it' = it\<lparr>ai_index := ai_index it + 1\<rparr>
        in
        if is_null then (Some None, it')
        else
          let (v, n) = borrow (drop (ARR_DATA_OFFSET a + ai_offset it) a)
          in (Some (Some v), it'\<lparr>ai_offset := ai_offset it + unat (Align_pad align (word_of_nat n))\<rparr>))"

text \<open>Pulling items until there are none or a number of them was pulled.\<close>

primrec array_iter_take ::
    "(u8 list \<Rightarrow> 'v \<times> nat) \<Rightarrow> Align \<Rightarrow> array \<Rightarrow> nat \<Rightarrow> nat \<Rightarrow> ArrayIter
      \<Rightarrow> 'v option list \<times> ArrayIter" where
  "array_iter_take borrow align a nelems 0 it = ([], it)"
| "array_iter_take borrow align a nelems (Suc n) it =
     (case array_iter_next borrow align a nelems it of
        (None, it') \<Rightarrow> ([], it')
      | (Some v, it') \<Rightarrow> (let (vs, it'') = array_iter_take borrow align a nelems n it' in (v # vs, it'')))"

definition array_iter :: ArrayIter where
  "array_iter = \<lparr>ai_index = 0, ai_offset = 0\<rparr>"

text \<open>All the items of \<open>FlatArray::iter\<close>; the number of elements may panic.\<close>

definition array_items :: "(u8 list \<Rightarrow> 'v \<times> nat) \<Rightarrow> Align \<Rightarrow> array \<Rightarrow> 'v option list option" where
  "array_items borrow align a =
     map_option (\<lambda>nelems. fst (array_iter_take borrow align a nelems (Suc nelems) array_iter)) (RawArray_len a)"

definition iter_non_null :: "(u8 list \<Rightarrow> 'v \<times> nat) \<Rightarrow> Align \<Rightarrow> array \<Rightarrow> 'v list option" where
  "iter_non_null borrow align a = map_option (List.map_filter id) (array_items borrow align a)"

definition array_get :: "(u8 list \<Rightarrow> 'v \<times> nat) \<Rightarrow> Align \<Rightarrow> array \<Rightarrow> nat \<Rightarrow> 'v option option option" where
  "array_get borrow align a index =
     map_option (\<lambda>nelems.
       fst (array_iter_next borrow align a nelems
         (snd (array_iter_take borrow align a nelems index array_iter)))) (RawArray_len a)"

text \<open>
  \<open>as_non_null_slice_mut\<close> followed by \<open>copy_from_slice\<close>, which panics when the lengths differ. Whether
  an array has null elements is a question to the server, a parameter.
\<close>

definition copy_from_slice ::
    "(array \<Rightarrow> bool) \<Rightarrow> ('v \<Rightarrow> u8 list) \<Rightarrow> 'v list \<Rightarrow> array \<Rightarrow> array option" where
  "copy_from_slice contains_nulls enc data a =
     (if contains_nulls a \<or> RawArray_len a \<noteq> Some (length data) then None
      else Some (write_at (ARR_DATA_OFFSET a) (concat (map enc data)) a))"

definition new_from_slice ::
    "(nat \<Rightarrow> bool) \<Rightarrow> (array \<Rightarrow> bool) \<Rightarrow> nat \<Rightarrow> ('v \<Rightarrow> u8 list) \<Rightarrow> u32 \<Rightarrow> 'v list
      \<Rightarrow> (ArrayAllocError + array) option" where
  "new_from_slice alloc contains_nulls size_of_T enc elemtype data =
     (if length data = 0 then Some (new_empty alloc elemtype)
      else (case new_zeroed_in alloc size_of_T elemtype [length data] False of
              Inl e \<Rightarrow> Some (Inl e)
            | Inr a \<Rightarrow> map_option Inr (copy_from_slice contains_nulls enc data a)))"

end
