(* ===== verification/Varlena_Properties.thy ===== *)
theory Varlena_Properties
  imports Varlena
begin

unbundle bit_operations_syntax

text \<open>
  Headers of variable-length values: what the encoders write is what the readers read, the four kinds
  of header are told apart, and values survive the trip through a datum.
\<close>

section \<open>Header arithmetic\<close>

lemma and_30_bits: "w AND 0x3FFFFFFF = take_bit 30 (w :: u32)"
  by (simp add: take_bit_eq_mask mask_eq_exp_minus_1)

lemma and_7_bits: "w AND 0x7F = take_bit 7 (w :: u8)"
  by (simp add: take_bit_eq_mask mask_eq_exp_minus_1)

lemma and_2_bits: "w AND 3 = take_bit 2 (w :: u8)"
  by (simp add: take_bit_eq_mask mask_eq_exp_minus_1)

lemma and_1_bit: "w AND 1 = take_bit 1 (w :: u8)"
  by (simp add: take_bit_eq_mask mask_eq_exp_minus_1)

lemma unat_take_bit_small: "unat (w :: 'a::len word) < 2 ^ n \<Longrightarrow> unat (take_bit n w) = unat w"
  by (simp add: unsigned_take_bit_eq take_bit_nat_eq_self)

lemma decode_4b: "drop_bit 2 (encode_vlen_4b len) AND 0x3FFFFFFF = take_bit 30 len"
  unfolding and_30_bits encode_vlen_4b_def by (rule bit_word_eqI) (auto simp: bit_simps)

lemma decode_1b: "drop_bit 1 (encode_vlen_1b len) AND 0x7F = take_bit 7 (ucast len)"
  unfolding and_7_bits encode_vlen_1b_def
  by (rule bit_word_eqI) (auto simp: bit_simps bit_double_iff mult.commute [of "ucast len" 2])

text \<open>The first byte in memory carries the two flag bits.\<close>

lemma first_byte_4b: "take_bit 2 (to_le_bytes (encode_vlen_4b len) ! 0) = 0"
proof -
  have "4 dvd unat (encode_vlen_4b len)"
    by (simp add: encode_vlen_4b_def push_bit_eq_mult unat_word_ariths dvd_mod)
  then have "unat (encode_vlen_4b len) mod 256 mod 4 = 0"
    by (simp add: mod_mod_cancel)
  then have "unat (take_bit 2 (to_le_bytes (encode_vlen_4b len) ! 0)) = 0"
    unfolding unsigned_take_bit_eq by (simp add: take_bit_eq_mod to_le_bytes_def unat_of_nat)
  then show ?thesis
    by (simp add: unat_eq_0)
qed

lemma first_byte_1b: "encode_vlen_1b len AND 1 = 1"
  unfolding encode_vlen_1b_def
  by (rule bit_word_eqI) (auto simp: bit_simps bit_1_iff)

lemma first_byte_1b_e:
  assumes "0 < unat len" "unat len < 128"
  shows "encode_vlen_1b len \<noteq> 1"
proof
  assume "encode_vlen_1b len = 1"
  then have "take_bit 7 (ucast len :: u8) = 0"
    using decode_1b [of len] by simp
  moreover have "unat (ucast len :: u8) = unat len"
    using assms by (simp add: unsigned_ucast_eq take_bit_nat_eq_self)
  ultimately show False
    using assms unat_take_bit_small [of "ucast len :: u8" 7] by simp
qed

section \<open>Reading what was written\<close>

lemma read_4b:
  fixes ptr :: varlena
  assumes "n < 0x40000000"
  defines "v \<equiv> set_varsize_4b ptr (word_of_nat n)"
  shows "varatt_is_4b_u v" "\<not> varatt_is_1b v" "\<not> varatt_is_1b_e v" "varsize_4b v = n"
    and "varsize_any v = Some n" "vardata_any v = 4"
proof -
  let ?h = "encode_vlen_4b (word_of_nat n)"
  have first: "va_header_1b v = to_le_bytes ?h ! 0"
    by (simp add: v_def va_header_1b_def set_varsize_4b_def nth_append)
  then have bits: "take_bit 2 (va_header_1b v) = 0"
    by (simp add: first_byte_4b)
  then have bit: "take_bit 1 (va_header_1b v) = 0"
    using take_bit_take_bit [of 1 2 "va_header_1b v"] by simp
  show u: "varatt_is_4b_u v"
    using bits by (simp add: varatt_is_4b_u_def and_2_bits)
  show s: "\<not> varatt_is_1b v"
    using bit by (simp add: varatt_is_1b_def and_1_bit)
  show e: "\<not> varatt_is_1b_e v"
    using s by (auto simp: varatt_is_1b_def varatt_is_1b_e_def)
  have "va_header_4b v = ?h"
    by (simp add: v_def va_header_4b_def set_varsize_4b_def)
  then have "varsize_4b v = unat (take_bit 30 (word_of_nat n :: u32))"
    by (simp add: varsize_4b_def decode_4b)
  also have "\<dots> = n"
    using assms(1) by (simp add: unsigned_take_bit_eq unat_of_nat take_bit_nat_eq_self)
  finally show "varsize_4b v = n" .
  then show "varsize_any v = Some n" "vardata_any v = 4"
    using s e by (simp_all add: varsize_any_def vardata_any_def)
qed

lemma read_1b:
  fixes ptr :: varlena
  assumes "0 < n" "n < 128"
  defines "v \<equiv> set_varsize_1b ptr (word_of_nat n)"
  shows "varatt_is_1b v" "\<not> varatt_is_4b v" "\<not> varatt_is_1b_e v" "varsize_1b v = n"
    and "varsize_any v = Some n" "vardata_any v = 1"
proof -
  let ?h = "encode_vlen_1b (word_of_nat n)"
  have first: "va_header_1b v = ?h"
    by (simp add: v_def va_header_1b_def set_varsize_1b_def)
  have n: "unat (word_of_nat n :: u32) = n"
    using assms(2) by (simp add: unat_of_nat)
  show s: "varatt_is_1b v" "\<not> varatt_is_4b v"
    by (simp_all add: varatt_is_1b_def varatt_is_4b_def first first_byte_1b)
  show e: "\<not> varatt_is_1b_e v"
    using first_byte_1b_e [of "word_of_nat n"] assms(1,2) n by (simp add: varatt_is_1b_e_def first)
  have "varsize_1b v = unat (take_bit 7 (ucast (word_of_nat n :: u32) :: u8))"
    unfolding varsize_1b_def first decode_1b ..
  also have "\<dots> = n"
    using assms(2) by (simp add: unsigned_take_bit_eq unsigned_ucast_eq n take_bit_nat_eq_self)
  finally show "varsize_1b v = n" .
  then show "varsize_any v = Some n" "vardata_any v = 1"
    using s e by (simp_all add: varsize_any_def vardata_any_def)
qed

text \<open>Every header is of exactly one of the kinds, whatever its byte.\<close>

lemma kinds_exclusive:
  "varatt_is_4b v \<longleftrightarrow> \<not> varatt_is_1b v"
  "varatt_is_4b_u v \<longrightarrow> varatt_is_4b v" "varatt_is_4b_c v \<longrightarrow> varatt_is_4b v"
  "varatt_is_1b_e v \<longrightarrow> varatt_is_1b v" "\<not> (varatt_is_4b_u v \<and> varatt_is_4b_c v)"
proof -
  let ?h = "va_header_1b v"
  have one: "?h AND 1 = 0 \<or> ?h AND 1 = 1"
    using and_one_eq [of ?h] by (auto simp: mod2_eq_if)
  show "varatt_is_4b v \<longleftrightarrow> \<not> varatt_is_1b v"
    using one by (auto simp: varatt_is_4b_def varatt_is_1b_def)
  have low: "?h AND 1 = (?h AND 3) AND 1"
    by (simp add: and.assoc)
  show "varatt_is_4b_u v \<longrightarrow> varatt_is_4b v" "varatt_is_4b_c v \<longrightarrow> varatt_is_4b v"
    using low by (auto simp: varatt_is_4b_u_def varatt_is_4b_c_def varatt_is_4b_def)
  show "varatt_is_1b_e v \<longrightarrow> varatt_is_1b v" "\<not> (varatt_is_4b_u v \<and> varatt_is_4b_c v)"
    by (auto simp: varatt_is_1b_e_def varatt_is_1b_def varatt_is_4b_u_def varatt_is_4b_c_def)
qed

text \<open>
  A value made by \<open>PgVarlena::new\<close> for a type of at most 126 bytes has its data one byte after the
  allocation, so the reference that \<open>as_ref\<close> makes is at an odd address: it is misaligned for every
  type whose alignment is more than one byte.
\<close>

lemma PgVarlena_ref_misaligned:
  assumes "size_of \<le> 126" and "8 dvd address" and "1 < align" "align dvd 8"
  shows "\<not> align dvd PgVarlena_ref address (PgVarlena_new size_of)"
proof -
  have "PgVarlena_ref address (PgVarlena_new size_of) = address + 1"
    using assms(1) read_1b(6) [of "size_of + 1"]
    by (simp add: PgVarlena_ref_def PgVarlena_new_def VARHDRSZ_SHORT_def)
  moreover have "align dvd address"
    using assms(2,4) by (rule dvd_trans [rotated])
  ultimately show ?thesis
    using assms(3) by (metis dvd_add_right_iff less_irrefl nat_dvd_1_iff_1)
qed

lemma usize_sub_small: "n \<le> m \<Longrightarrow> m < 18446744073709551616 \<Longrightarrow> usize_sub m n = m - n"
  by (simp add: usize_sub_def mod_if)

lemma slice_4b:
  assumes "length bytes + 4 < 0x40000000" "length hd4 = 4"
  shows "varlena_to_byte_slice (set_varsize_4b (hd4 @ bytes) (word_of_nat (length bytes + 4))) = Some bytes"
proof -
  let ?v = "set_varsize_4b (hd4 @ bytes) (word_of_nat (length bytes + 4))"
  note r = read_4b [OF assms(1), where ptr = "hd4 @ bytes"]
  have "varsize_any_exhdr ?v = Some (length bytes)"
    using r(2,3,4) assms(1) by (simp add: varsize_any_exhdr_def VARHDRSZ_def usize_sub_small)
  then show ?thesis
    using r(6) assms(2) by (simp add: varlena_to_byte_slice_def) (simp add: set_varsize_4b_def)
qed

lemma slice_1b:
  assumes "length bytes + 1 < 128"
  shows "varlena_to_byte_slice (set_varsize_1b (h # bytes) (word_of_nat (length bytes + 1))) = Some bytes"
proof -
  let ?v = "set_varsize_1b (h # bytes) (word_of_nat (length bytes + 1))"
  note r = read_1b [OF _ assms(1), where ptr = "h # bytes"]
  have "varsize_any_exhdr ?v = Some (length bytes)"
    using r(1,3,4) assms(1) by (simp add: varsize_any_exhdr_def VARHDRSZ_SHORT_def usize_sub_small)
  then show ?thesis
    using r(6) by (simp add: varlena_to_byte_slice_def) (simp add: set_varsize_1b_def)
qed

section \<open>Properties\<close>

text \<open>
  C33. Byte strings and text survive the trip through a datum. Converting bytes to a datum succeeds
  exactly when the value with its header is below the limit of a varlena, and reading the datum gives
  the same bytes; the datum is classified as a plain four-byte value whose total size is the number of
  its bytes. A string comes back as the same string. The short form with a one-byte header, which the
  server uses for small values, is read back as well.
\<close>

theorem bytes_survive_datum:
  shows "(bytes_into_datum bytes = None \<longleftrightarrow> length bytes + 4 \<ge> 0x3FFFFFFF)
    \<and> (bytes_into_datum bytes = Some v \<longrightarrow>
         varlena_to_byte_slice v = Some bytes \<and> varsize_any v = Some (length v)
         \<and> length v = length bytes + 4 \<and> varatt_is_4b_u v)
    \<and> (str_ok s \<and> str_into_datum s = Some w \<longrightarrow> text_to_rust_str w = Some (Inr s))
    \<and> (length bytes + 1 < 128 \<longrightarrow>
         varlena_to_byte_slice (set_varsize_1b (h # bytes) (word_of_nat (length bytes + 1))) = Some bytes)"
proof -
  have into: "v' = set_varsize_4b (replicate 4 0 @ bs) (word_of_nat (length bs + 4))
      \<and> length bs + 4 < 0x3FFFFFFF" if "bytes_into_datum bs = Some v'" for bs v'
    using that
    by (auto simp: bytes_into_datum_def VARHDRSZ_def set_varsize_4b_def Let_def split: if_splits)
  have none: "bytes_into_datum bytes = None \<longleftrightarrow> length bytes + 4 \<ge> 0x3FFFFFFF"
    by (auto simp: bytes_into_datum_def VARHDRSZ_def Let_def)
  have bytes: "varlena_to_byte_slice v' = Some bs \<and> varsize_any v' = Some (length v')
      \<and> length v' = length bs + 4 \<and> varatt_is_4b_u v'" if "bytes_into_datum bs = Some v'" for bs v'
    using into [OF that] slice_4b [of bs "replicate 4 0"] read_4b(1,5) [of "length bs + 4" "replicate 4 0 @ bs"]
    by (simp add: set_varsize_4b_def)
  have strs: "text_to_rust_str w = Some (Inr s)" if "str_ok s" "str_into_datum s = Some w"
    using that bytes [of "as_bytes s" w]
    by (simp add: str_into_datum_def text_to_rust_str_def str_ok_def)
  show ?thesis
    using none bytes [of bytes v] strs slice_1b [of bytes h] by blast
qed

theorem bytes_survive_datum_witness:
  "bytes_into_datum [1, 2, 3] = Some [28, 0, 0, 0, 1, 2, 3]
    \<and> varlena_to_byte_slice [28, 0, 0, 0, 1, 2, 3] = Some [1, 2, 3]
    \<and> text_to_rust_str ([24, 0, 0, 0] @ as_bytes ''hi'') = Some (Inr ''hi'')
    \<and> varlena_to_byte_slice (set_varsize_1b [0, 1, 2, 3] 4) = Some [1, 2, 3]"
proof -
  have v: "bytes_into_datum [1, 2, 3] = Some [28, 0, 0, 0, 1, 2, 3]"
    by (simp add: bytes_into_datum_def VARHDRSZ_def set_varsize_4b_def encode_vlen_4b_def
      to_le_bytes_def push_bit_eq_mult)
  have w: "str_into_datum ''hi'' = Some ([24, 0, 0, 0] @ as_bytes ''hi'')"
    by (simp add: str_into_datum_def bytes_into_datum_def VARHDRSZ_def set_varsize_4b_def
      encode_vlen_4b_def to_le_bytes_def push_bit_eq_mult)
  have "str_ok ''hi''"
    by (simp add: str_ok_def as_bytes_def byte_of_char_def utf8_valid.simps(2))
  then show ?thesis
    using bytes_survive_datum [of "[1, 2, 3]" "[28, 0, 0, 0, 1, 2, 3]" "''hi''"
      "[24, 0, 0, 0] @ as_bytes ''hi''" 0] v w by simp
qed

end
