(* ===== verification/Flat_Array_Properties.thy ===== *)
theory Flat_Array_Properties
  imports Flat_Array Varlena_Properties
begin

unbundle bit_operations_syntax

text \<open>
  What the array code promises: an array that is made has a consistent header, its dimensions are read
  back, and its elements lie inside the allocation; and the iterator visits every element once.
\<close>

section \<open>Alignment\<close>

lemma unat_clear_low:
  "unat (w AND NOT (mask k) :: usize) = unat w div 2 ^ k * 2 ^ k"
proof -
  have "w AND NOT (mask k) = push_bit k (drop_bit k w)"
    by (rule bit_word_eqI) (auto simp: bit_simps)
  moreover have "unat (push_bit k (drop_bit k w)) = take_bit 64 (push_bit k (drop_bit k (unat w)))"
    by (simp only: unsigned_push_bit_eq unat_drop_bit_eq len_num1 len_num0 len_bit0)
      (simp add: numeral_eq_Suc)
  moreover have "push_bit k (drop_bit k (unat w)) = unat w div 2 ^ k * 2 ^ k"
    by (simp add: push_bit_eq_mult drop_bit_eq_div)
  moreover have "unat w < 2 ^ 64"
    using unsigned_less [of w, where ?'a = nat] by simp
  then have "unat w div 2 ^ k * 2 ^ k < 2 ^ 64"
    by (rule le_less_trans [OF div_times_less_eq_dividend])
  ultimately show ?thesis
    by (simp add: take_bit_nat_eq_self)
qed

lemma align_up:
  assumes "n < 9223372036854775808" and "k \<le> 3"
  shows "unat ((word_of_nat n + mask k) AND NOT (mask k) :: usize) = (n + (2 ^ k - 1)) div 2 ^ k * 2 ^ k"
proof -
  have "(2::nat) ^ k \<le> 2 ^ 3"
    using assms(2) by (rule power_increasing) simp
  moreover have "k = 0 \<or> k = 1 \<or> k = 2 \<or> k = 3"
    using assms(2) by linarith
  then have "unat (mask k :: usize) = 2 ^ k - 1"
    by (elim disjE) (simp_all add: mask_eq_exp_minus_1)
  moreover have "unat (word_of_nat n :: usize) = n"
    using assms(1) by (simp add: unat_of_nat)
  ultimately have "unat (word_of_nat n + mask k :: usize) = n + (2 ^ k - 1)"
    using assms(1) by (simp add: unat_word_ariths)
  then show ?thesis
    by (simp add: unat_clear_low)
qed

text \<open>Aligning up is rounding up to the next multiple.\<close>

lemma round_up: "(n + (k - 1)) div k * k = next_multiple_of n k" if "0 < k" for n k :: nat
proof (cases "n mod k = 0")
  case True
  then obtain q where "n = k * q"
    by (auto simp: mod_eq_0_iff_dvd dvd_def)
  moreover have "(k * q + (k - 1)) div k = q + (k - 1) div k"
    using that by (intro div_mult_self4) simp
  moreover have "(k - 1) div k = 0"
    using that by (intro div_less) simp
  ultimately show ?thesis
    by (simp only: next_multiple_of_def) simp
next
  case False
  define q r where "q = n div k" and "r = n mod k"
  have n: "n = k * q + r" and r: "0 < r" "r < k"
    using False that by (simp_all add: q_def r_def)
  have "n + (k - 1) = k * (q + 1) + (r - 1)"
    unfolding n distrib_left using r by linarith
  moreover have "(k * (q + 1) + (r - 1)) div k = q + 1 + (r - 1) div k"
    using that by (intro div_mult_self4) simp
  moreover have "(r - 1) div k = 0"
    using r by (intro div_less) simp
  ultimately have "(n + (k - 1)) div k * k = k * q + k"
    by (simp add: algebra_simps)
  moreover have "n + (k - r) = k * q + k"
    unfolding n using r by linarith
  ultimately show ?thesis
    using False by (simp only: next_multiple_of_def r_def [symmetric]) simp
qed

lemma MAXALIGN_unat:
  assumes "n < 9223372036854775808"
  shows "unat (MAXALIGN (word_of_nat n)) = next_multiple_of n 8"
proof -
  have "(8 - 1 :: usize) = mask 3"
    by (simp add: mask_eq_exp_minus_1)
  then show ?thesis
    using align_up [OF assms, of 3] round_up [of 8 n] by (simp add: MAXALIGN_def TYPEALIGN_def)
qed

lemma Align_pad_unat:
  assumes "n < 9223372036854775808"
  shows "unat (Align_pad a (word_of_nat n)) = next_multiple_of n (unat (Align_as_usize a))"
proof -
  have pad: "unat (Align_pad a (word_of_nat n)) = next_multiple_of n (2 ^ k)"
    if "Align_as_usize a - 1 = mask k" "k \<le> 3" for k
    using align_up [OF assms that(2)] round_up [of "2 ^ k" n] that(1) by (simp add: Align_pad_def)
  show ?thesis
    by (cases a) (use pad [of 0] pad [of 1] pad [of 2] pad [of 3] in \<open>simp_all add: mask_eq_exp_minus_1\<close>)
qed

lemma next_multiple_of_ge: "0 < k \<Longrightarrow> n \<le> next_multiple_of n k"
  by (simp only: next_multiple_of_def le_add1 order_refl split: if_split) simp

lemma next_multiple_of_dvd: "0 < k \<Longrightarrow> k dvd next_multiple_of n k"
  using round_up [of k n] by (metis dvd_triv_right)

section \<open>The bytes of a new array\<close>

lemma lbounds_product_ok:
  assumes "lbounds_product p ds = Inr (ls, q)"
  shows "length ls = length ds \<and> q = p * prod_list ds \<and> (ds \<noteq> [] \<longrightarrow> q \<le> 2147483647)"
  using assms
proof (induction p ds arbitrary: ls q rule: lbounds_product.induct)
  case (1 p)
  then show ?case by simp
next
  case (2 p d ds)
  from "2.prems" obtain ls' where step: "d * p < 18446744073709551616 \<and> d * p \<le> 2147483647"
      "lbounds_product (d * p) ds = Inr (ls', q)" "ls = p # ls'"
    by (auto simp: map_res_def split: if_splits sum.splits)
  from "2.IH" [OF step(1,2)] show ?case
    using step by (cases "ds = []") (auto simp: ac_simps)
qed

lemma dim_le_product:
  fixes ds :: "nat list"
  assumes "0 \<notin> set ds" and "d \<in> set ds"
  shows "d \<le> prod_list ds"
proof -
  have "d dvd prod_list ds"
    using assms(2) by (induction ds) auto
  moreover have "prod_list ds \<noteq> 0"
    using assms(1) by (simp add: prod_list_zero_iff)
  ultimately show ?thesis
    by (simp add: dvd_imp_le)
qed

lemma length_i32_bytes [simp]: "length (i32_bytes n) = 4"
  by (simp add: i32_bytes_def)

lemma length_concat_i32 [simp]: "length (concat (map i32_bytes ns)) = 4 * length ns"
  by (induction ns) simp_all

lemma take_i32_bytes:
  "i < length ns \<Longrightarrow> take 4 (drop (4 * i) (concat (map i32_bytes ns) @ rest)) = i32_bytes (ns ! i)"
proof (induction ns arbitrary: i)
  case (Cons n ns)
  then show ?case
    by (cases i) simp_all
qed simp

lemma write_at_append:
  assumes "length h = off" and "length bytes \<le> length z"
  shows "write_at off bytes (h @ z) = h @ bytes @ drop (length bytes) z"
  using assms by (simp add: write_at_def)

text \<open>The header, the dimensions, the lower bounds and the rest, as \<open>new_zeroed_in\<close> lays them out.\<close>

definition array_bytes :: "nat \<Rightarrow> nat \<Rightarrow> u32 \<Rightarrow> nat list \<Rightarrow> nat list \<Rightarrow> array" where
  "array_bytes nbytes dataoffset elemtype dims lbounds =
     to_le_bytes (encode_vlen_4b (word_of_nat nbytes)) @ i32_bytes (length dims) @ i32_bytes dataoffset
     @ to_le_bytes elemtype @ concat (map i32_bytes dims) @ concat (map i32_bytes lbounds)
     @ replicate (nbytes - 16 - 8 * length dims) 0"

lemma read_header:
  fixes nbytes dataoffset :: nat and elemtype :: u32 and dims lbounds :: "nat list"
  defines "a \<equiv> array_bytes nbytes dataoffset elemtype dims lbounds"
  shows "read_word a 4 = word_of_nat (length dims)" "read_word a 8 = word_of_nat dataoffset"
    and "ARR_ELEMTYPE a = elemtype"
    and "i < length dims \<Longrightarrow> read_word a (16 + 4 * i) = word_of_nat (dims ! i)"
proof -
  show "read_word a 4 = word_of_nat (length dims)" "read_word a 8 = word_of_nat dataoffset"
    "ARR_ELEMTYPE a = elemtype"
    by (simp_all add: a_def array_bytes_def read_word_def ARR_ELEMTYPE_def i32_bytes_def)
  assume i: "i < length dims"
  have "drop (16 + 4 * i) a = drop (4 * i) (concat (map i32_bytes dims) @ concat (map i32_bytes lbounds)
      @ replicate (nbytes - 16 - 8 * length dims) 0)"
    by (simp add: a_def array_bytes_def)
  then show "read_word a (16 + 4 * i) = word_of_nat (dims ! i)"
    by (simp only: read_word_def take_i32_bytes [OF i]) (simp add: i32_bytes_def)
qed

lemma c_int_small:
  assumes "n < 2147483648"
  shows "c_int_as_usize (word_of_nat n) = n"
proof -
  have "sint (word_of_nat n :: u32) = int n"
    using assms int_word_sint [of "int n", where ?'a = 32] by simp
  then have "scast (word_of_nat n :: u32) = (word_of_nat n :: usize)"
    by (simp only: scast_eq of_int_of_nat_eq)
  then show ?thesis
    using assms by (simp add: c_int_as_usize_def unat_of_nat)
qed

lemma checked_product_ok:
  assumes "0 \<notin> set ds" and "p * prod_list ds < 4294967296" and "0 < p"
  shows "checked_product p (map word_of_nat ds) = Some (p * prod_list ds)"
  using assms
proof (induction ds arbitrary: p)
  case Nil
  then show ?case by simp
next
  case (Cons d ds)
  have pos: "0 < prod_list ds" "0 < d"
    using Cons.prems(1) by (auto simp: prod_list_zero_iff neq0_conv [symmetric] simp del: neq0_conv)
  have "p * d \<le> p * d * prod_list ds"
    using pos by simp
  then have small: "p * d < 4294967296"
    using Cons.prems(2) by (metis le_less_trans mult.assoc prod_list.Cons)
  have "d \<le> p * d"
    using Cons.prems(3) by simp
  then have "d < 4294967296"
    using small by (rule le_less_trans)
  then have "unat (word_of_nat d :: u32) = d"
    by (simp add: unat_of_nat)
  then show ?case
    using Cons.IH [of "p * d"] Cons.prems small pos by (simp add: ac_simps)
qed

lemma array_bytes_layout:
  assumes "length lbounds = length dims" and "16 + 8 * length dims \<le> nbytes"
  shows "write_at (16 + 4 * length dims) (concat (map i32_bytes lbounds))
      (write_at 16 (concat (map i32_bytes dims))
        (to_le_bytes (encode_vlen_4b (word_of_nat nbytes)) @ i32_bytes (length dims)
          @ i32_bytes dataoffset @ to_le_bytes elemtype @ replicate (nbytes - 16) 0))
    = array_bytes nbytes dataoffset elemtype dims lbounds"
proof -
  let ?h = "to_le_bytes (encode_vlen_4b (word_of_nat nbytes)) @ i32_bytes (length dims)
    @ i32_bytes dataoffset @ to_le_bytes elemtype"
  let ?d = "concat (map i32_bytes dims)" and ?l = "concat (map i32_bytes lbounds)"
  have "write_at 16 ?d (?h @ replicate (nbytes - 16) 0) = ?h @ ?d @ replicate (nbytes - 16 - 4 * length dims) 0"
    using assms by (subst write_at_append) simp_all
  moreover have "write_at (16 + 4 * length dims) ?l ((?h @ ?d) @ replicate (nbytes - 16 - 4 * length dims) 0)
      = (?h @ ?d) @ ?l @ replicate (nbytes - 16 - 4 * length dims - 4 * length dims) 0"
    using assms by (subst write_at_append) simp_all
  ultimately show ?thesis
    by (simp add: array_bytes_def)
qed

lemma new_zeroed_layout:
  assumes "new_zeroed_in alloc size_of_T elemtype dims has_nulls = Inr a" and "dims \<noteq> []"
  defines "null_size \<equiv> if has_nulls then (prod_list dims + 7) div 8 else 0"
  defines "prefix \<equiv> next_multiple_of (16 + 8 * length dims + null_size) 8"
  defines "nbytes \<equiv> prefix + size_of_T * prod_list dims"
  obtains lbounds where "a = array_bytes nbytes (if has_nulls then prefix else 0) elemtype dims lbounds"
    and "length lbounds = length dims" "0 \<notin> set dims" "prod_list dims \<le> MAX_ARRAY_SIZE"
    and "nbytes \<le> MAX_ALLOC_SIZE"
proof -
  obtain lbounds nelems where lp: "lbounds_product 1 dims = Inr (lbounds, nelems)"
    using assms(1,2) by (auto simp: new_zeroed_in_def Let_def rbind_def split: if_splits sum.splits)
  have l: "length lbounds = length dims" and n: "nelems = prod_list dims"
    using lbounds_product_ok [OF lp] by simp_all
  have size: "16 + 8 * length dims \<le> nbytes"
    using next_multiple_of_ge [of 8 "16 + 8 * length dims + null_size"] by (simp add: nbytes_def prefix_def)
  have ok: "0 \<notin> set dims" "prod_list dims \<le> MAX_ARRAY_SIZE" "nbytes \<le> MAX_ALLOC_SIZE" "alloc nbytes"
    and a: "a = write_at (16 + 4 * length dims) (concat (map i32_bytes lbounds))
      (write_at 16 (concat (map i32_bytes dims))
        (to_le_bytes (encode_vlen_4b (word_of_nat nbytes)) @ i32_bytes (length dims)
          @ i32_bytes (if has_nulls then prefix else 0) @ to_le_bytes elemtype @ replicate (nbytes - 16) 0))"
    using assms(1,2) size
    by (auto simp: new_zeroed_in_def lp [unfolded One_nat_def] n alloc_zeroed_head_def size_of_ArrayType_def nbytes_def prefix_def
      null_size_def Let_def rbind_def ac_simps split: if_splits)
  show ?thesis
    by (rule that [OF _ l ok(1,2,3)]) (simp only: a array_bytes_layout [OF l size])
qed

text \<open>What the readers of \<open>port.rs\<close> and \<open>RawArray\<close> find in a new array.\<close>

lemma read_array_bytes:
  fixes dims lbounds :: "nat list" and elemtype :: u32
  assumes "0 \<notin> set dims" and "prod_list dims \<le> MAX_ARRAY_SIZE" and "nbytes \<le> MAX_ALLOC_SIZE"
    and "length lbounds = length dims" and "16 + 8 * length dims \<le> nbytes" and "dataoffset \<le> nbytes"
    and "dims \<noteq> []"
  defines "a \<equiv> array_bytes nbytes dataoffset elemtype dims lbounds"
  shows "length a = nbytes" and "varsize_any a = Some nbytes" and "ARR_NDIM a = length dims"
    and "raw_dims a = map word_of_nat dims" and "RawArray_len a = Some (prod_list dims)"
    and "ARR_HASNULL a \<longleftrightarrow> dataoffset \<noteq> 0"
    and "ARR_DATA_OFFSET a = (if dataoffset = 0 then next_multiple_of (16 + 8 * length dims) 8 else dataoffset)"
proof -
  have small: "nbytes < 1073741824" "prod_list dims < 134217728"
    using assms(2,3) by (simp_all add: MAX_ALLOC_SIZE_def MAX_ARRAY_SIZE_def)
  show len: "length a = nbytes"
    using assms(4,5) by (simp add: a_def array_bytes_def)
  have "a = set_varsize_4b a (word_of_nat nbytes)"
    by (simp add: a_def array_bytes_def set_varsize_4b_def)
  then show "varsize_any a = Some nbytes"
    using read_4b(5) [of nbytes a] small(1) by simp
  show ndim: "ARR_NDIM a = length dims"
    using c_int_small [of "length dims"] assms(5) small(1) by (simp add: a_def ARR_NDIM_def read_header(1))
  show dims: "raw_dims a = map word_of_nat dims"
    unfolding raw_dims_def ndim ARR_DIMS_def size_of_ArrayType_def
    by (rule nth_equalityI) (simp_all add: a_def read_header(4))
  show "RawArray_len a = Some (prod_list dims)"
    using checked_product_ok [of dims 1] assms(1,2,7) small(2) by (simp add: RawArray_len_def dims)
  have "(word_of_nat dataoffset :: u32) = 0 \<longleftrightarrow> dataoffset = 0"
    using assms(6) small(1) by (simp add: word_of_nat_eq_0_iff) (auto dest: dvd_imp_le)
  then show null: "ARR_HASNULL a \<longleftrightarrow> dataoffset \<noteq> 0"
    by (simp add: a_def ARR_HASNULL_def read_header(2))
  have "c_int_as_usize (read_word a 8) = dataoffset"
    using c_int_small [of dataoffset] assms(6) small(1) by (simp add: a_def read_header(2))
  then show "ARR_DATA_OFFSET a = (if dataoffset = 0 then next_multiple_of (16 + 8 * length dims) 8 else dataoffset)"
    using MAXALIGN_unat [of "16 + 8 * length dims"] assms(5) small(1)
    by (simp add: ARR_DATA_OFFSET_def null ndim ARR_OVERHEAD_NONULLS_def size_of_ArrayType_def)
qed

section \<open>Writing and iterating elements\<close>

lemma read_word_prefix:
  assumes "take off a = take off b" "off \<le> length a" "off \<le> length b" "k + 4 \<le> off"
  shows "read_word a k = read_word b k"
proof -
  have "take 4 (drop k x) = take 4 (drop k (take off x))" for x :: array
    using assms(4) by (simp add: drop_take min_absorb1)
  then show ?thesis
    using assms(1) by (metis read_word_def)
qed

text \<open>The readers of the header look only at the bytes in front of the elements.\<close>

lemma header_prefix:
  assumes "take off a = take off b" "off \<le> length a" "off \<le> length b"
    and "16 + 4 * ARR_NDIM a \<le> off"
  shows "ARR_NDIM b = ARR_NDIM a" "ARR_HASNULL b = ARR_HASNULL a" "ARR_DATA_OFFSET b = ARR_DATA_OFFSET a"
    and "RawArray_len b = RawArray_len a"
proof -
  note same = read_word_prefix [OF assms(1-3)]
  show n: "ARR_NDIM b = ARR_NDIM a" and h: "ARR_HASNULL b = ARR_HASNULL a"
    using same [of 4] same [of 8] assms(4) by (simp_all add: ARR_NDIM_def ARR_HASNULL_def)
  show "ARR_DATA_OFFSET b = ARR_DATA_OFFSET a"
    using same [of 8] assms(4) by (simp add: ARR_DATA_OFFSET_def n h)
  have "read_word b (16 + 4 * i) = read_word a (16 + 4 * i)" if "i < ARR_NDIM a" for i
    using same [of "16 + 4 * i"] assms(4) that by simp
  then have "raw_dims b = raw_dims a"
    by (simp add: raw_dims_def ARR_DIMS_def size_of_ArrayType_def n)
  then show "RawArray_len b = RawArray_len a"
    by (simp add: RawArray_len_def)
qed

lemma next_multiple_of_self: "k dvd n \<Longrightarrow> next_multiple_of n k = n"
  by (auto simp: next_multiple_of_def mod_eq_0_iff_dvd)

lemma length_concat_enc:
  "(\<And>v. length (enc v) = sz) \<Longrightarrow> length (concat (map enc vs)) = sz * length vs"
  by (induction vs) simp_all

text \<open>The iterator over the elements from an index on gives exactly those elements, and then ends.\<close>

lemma array_iter_take_data:
  assumes sz: "\<And>v. length (enc v) = sz" and borrow: "\<And>v rest. borrow (enc v @ rest) = (v, sz)"
    and align: "unat (Align_as_usize align) dvd sz" and small: "sz < 9223372036854775808"
    and nonull: "\<not> ARR_HASNULL a"
    and data: "drop (ARR_DATA_OFFSET a + off) a = concat (map enc vs)" and n: "nelems = i + length vs"
  shows "array_iter_take borrow align a nelems (Suc (length vs)) \<lparr>ai_index = i, ai_offset = off\<rparr>
    = (map Some vs, \<lparr>ai_index = nelems, ai_offset = off + sz * length vs\<rparr>)"
  using data n
proof (induction vs arbitrary: i off)
  case Nil
  then show ?case by (simp add: array_iter_next_def)
next
  case (Cons v vs)
  have pad: "unat (Align_pad align (word_of_nat sz)) = sz"
    using Align_pad_unat [OF small] next_multiple_of_self [OF align] by simp
  have "array_iter_next borrow align a nelems \<lparr>ai_index = i, ai_offset = off\<rparr>
      = (Some (Some v), \<lparr>ai_index = Suc i, ai_offset = off + sz\<rparr>)"
    using Cons.prems borrow nonull pad
    by (simp add: array_iter_next_def is_null_at_def ARR_NULLBITMAP_def)
  moreover have "drop (ARR_DATA_OFFSET a + (off + sz)) a = drop sz (drop (ARR_DATA_OFFSET a + off) a)"
    by (simp add: ac_simps)
  then have "drop (ARR_DATA_OFFSET a + (off + sz)) a = concat (map enc vs)"
    using Cons.prems(1) sz by simp
  ultimately show ?case
    using Cons.IH [of "off + sz" "Suc i"] Cons.prems(2) by (simp add: ac_simps)
qed

text \<open>A new array as a whole, in terms of the readers.\<close>

lemma new_zeroed_read:
  assumes "new_zeroed_in alloc size_of_T elemtype dims has_nulls = Inr a" and "dims \<noteq> []"
  shows "varsize_any a = Some (length a)" and "ARR_NDIM a = length dims" and "raw_dims a = map word_of_nat dims"
    and "RawArray_len a = Some (prod_list dims)" and "ARR_ELEMTYPE a = elemtype"
    and "ARR_HASNULL a = has_nulls" and "8 dvd ARR_DATA_OFFSET a"
    and "ARR_DATA_OFFSET a + size_of_T * prod_list dims = length a"
    and "16 + 8 * length dims + (if has_nulls then (prod_list dims + 7) div 8 else 0) \<le> ARR_DATA_OFFSET a"
    and "length a \<le> MAX_ALLOC_SIZE"
proof -
  define null_size where "null_size = (if has_nulls then (prod_list dims + 7) div 8 else 0)"
  define prefix where "prefix = next_multiple_of (16 + 8 * length dims + null_size) 8"
  define nbytes where "nbytes = prefix + size_of_T * prod_list dims"
  obtain lbounds where a: "a = array_bytes nbytes (if has_nulls then prefix else 0) elemtype dims lbounds"
    and l: "length lbounds = length dims" and ok: "0 \<notin> set dims" "prod_list dims \<le> MAX_ARRAY_SIZE"
    and bytes: "nbytes \<le> MAX_ALLOC_SIZE"
    using new_zeroed_layout [OF assms] unfolding null_size_def prefix_def nbytes_def by metis
  have ge: "16 + 8 * length dims + null_size \<le> prefix"
    unfolding prefix_def by (rule next_multiple_of_ge) simp
  then have size: "16 + 8 * length dims \<le> nbytes" "(if has_nulls then prefix else 0) \<le> nbytes"
    by (simp_all add: nbytes_def)
  note r = read_array_bytes [OF ok bytes l size assms(2), of elemtype, folded a]
  have off: "ARR_DATA_OFFSET a = prefix"
    using r(7) ge by (auto simp: prefix_def null_size_def split: if_splits)
  show "varsize_any a = Some (length a)" "ARR_NDIM a = length dims" "raw_dims a = map word_of_nat dims"
    "RawArray_len a = Some (prod_list dims)" "length a \<le> MAX_ALLOC_SIZE"
    using r bytes by simp_all
  show "ARR_ELEMTYPE a = elemtype"
    by (simp add: a read_header(3))
  show "ARR_HASNULL a = has_nulls"
    using r(6) ge by auto
  show "8 dvd ARR_DATA_OFFSET a"
    unfolding off prefix_def by (rule next_multiple_of_dvd) simp
  show "ARR_DATA_OFFSET a + size_of_T * prod_list dims = length a"
    using r(1) by (simp add: off nbytes_def)
  show "16 + 8 * length dims + (if has_nulls then (prod_list dims + 7) div 8 else 0) \<le> ARR_DATA_OFFSET a"
    using ge by (simp add: off null_size_def)
qed

text \<open>The array that \<open>new_from_slice\<close> makes holds the bytes of the elements where the readers look.\<close>

lemma new_from_slice_data:
  assumes len: "\<And>v. length (enc v) = size_of_T" and nulls: "\<And>a. \<not> ARR_HASNULL a \<Longrightarrow> \<not> contains_nulls a"
    and new: "new_zeroed_in alloc size_of_T elemtype [length data] False = Inr a" and "data \<noteq> []"
  obtains b where "new_from_slice alloc contains_nulls size_of_T enc elemtype data = Some (Inr b)"
    and "\<not> ARR_HASNULL b" "RawArray_len b = Some (length data)" "ARR_NDIM b = 1" "length b = length a"
    and "drop (ARR_DATA_OFFSET b) b = concat (map enc data)"
proof -
  note r = new_zeroed_read [OF new, simplified]
  define off where "off = ARR_DATA_OFFSET a"
  define b where "b = write_at off (concat (map enc data)) a"
  have la: "off + size_of_T * length data = length a"
    using r(8) by (simp add: off_def)
  then have b: "b = take off a @ concat (map enc data)"
    by (simp add: b_def write_at_def length_concat_enc [OF len])
  have pre: "take off a = take off b" "off \<le> length a" "off \<le> length b"
    using la by (simp_all add: b)
  have "16 + 4 * ARR_NDIM a \<le> off"
    using r(2,9) by (simp add: off_def)
  note h = header_prefix [OF pre this]
  have "new_from_slice alloc contains_nulls size_of_T enc elemtype data = Some (Inr b)"
    using nulls [of a] r(4,6) assms(4) new
    by (simp add: new_from_slice_def copy_from_slice_def b_def off_def)
  moreover have "drop (ARR_DATA_OFFSET b) b = concat (map enc data)"
    using pre(2) by (simp add: h(3) off_def [symmetric]) (simp add: b)
  moreover have "length b = length a"
    using la length_concat_enc [of enc size_of_T data] len by (simp add: b)
  ultimately show ?thesis
    using that [of b] h(1,2,4) r(2,4,6) by simp
qed

section \<open>Properties\<close>

text \<open>
  C31. A new array describes itself correctly. When \<open>new_zeroed_in\<close> makes an array of some dimensions,
  the readers of the header find the total size in bytes, the number of dimensions, each dimension, the
  element type and whether there is a null bitmap; the number of elements is the product of the
  dimensions. The elements start at a multiple of eight bytes, after the header and, when there is one,
  the bitmap with a bit for each element, and end exactly at the end of the allocation, which is within
  the limit of the server.
\<close>

theorem new_array_consistent:
  assumes "new_zeroed_in alloc size_of_T elemtype dims has_nulls = Inr a" and "dims \<noteq> []"
  shows "varsize_any a = Some (length a) \<and> length a \<le> MAX_ALLOC_SIZE
    \<and> ARR_NDIM a = length dims \<and> raw_dims a = map word_of_nat dims
    \<and> RawArray_len a = Some (prod_list dims) \<and> ARR_ELEMTYPE a = elemtype \<and> ARR_HASNULL a = has_nulls
    \<and> 8 dvd ARR_DATA_OFFSET a \<and> ARR_DATA_OFFSET a + size_of_T * prod_list dims = length a
    \<and> (case ARR_NULLBITMAP a of
         None \<Rightarrow> \<not> has_nulls \<and> 16 + 8 * length dims \<le> ARR_DATA_OFFSET a
       | Some off \<Rightarrow> has_nulls \<and> off = 16 + 8 * length dims \<and> off + (prod_list dims + 7) div 8 \<le> ARR_DATA_OFFSET a)"
  using new_zeroed_read [OF assms] by (cases has_nulls) (simp_all add: ARR_NULLBITMAP_def size_of_ArrayType_def)

theorem new_array_consistent_witness:
  "\<exists>a. new_zeroed_in (\<lambda>_. True) 4 23 [3, 4] True = Inr a \<and> varsize_any a = Some 88
    \<and> RawArray_len a = Some 12 \<and> ARR_NULLBITMAP a = Some 32 \<and> ARR_DATA_OFFSET a = 40"
proof -
  obtain a where a: "new_zeroed_in (\<lambda>_. True) 4 23 [3, 4] True = Inr a"
    using that by (simp add: new_zeroed_in_def alloc_zeroed_head_def next_multiple_of_def map_res_def
      MAX_ARRAY_SIZE_def MAX_ALLOC_SIZE_def size_of_ArrayType_def)
  have "length a = 88"
    using a by (auto simp: new_zeroed_in_def alloc_zeroed_head_def next_multiple_of_def map_res_def
      MAX_ARRAY_SIZE_def MAX_ALLOC_SIZE_def size_of_ArrayType_def write_at_def)
  then have "varsize_any a = Some 88" "RawArray_len a = Some 12" "ARR_DATA_OFFSET a + 48 = 88"
    "case ARR_NULLBITMAP a of None \<Rightarrow> False | Some off \<Rightarrow> off = 32"
    using new_array_consistent [OF a] by (simp_all split: option.splits)
  then show ?thesis
    using a by (intro exI [of _ a]) (simp split: option.splits)
qed

text \<open>
  C32. A slice survives the trip through an array. For elements of a fixed size that is a multiple of
  their alignment, \<open>new_from_slice\<close> never panics, and the array that it makes gives back, when it is
  iterated, exactly the elements of the slice in their order, none of them null, and then ends; the
  empty slice gives the array without dimensions, which has no elements. The hypotheses are what the
  element type and the server promise: an element is read back from its bytes, and an array without
  a bitmap contains no nulls.
\<close>

theorem slice_survives_array:
  assumes "\<And>v. length (enc v) = size_of_T" and "\<And>v rest. borrow (enc v @ rest) = (v, size_of_T)"
    and "unat (Align_as_usize align) dvd size_of_T" and "size_of_T < 9223372036854775808"
    and "\<And>a. \<not> ARR_HASNULL a \<Longrightarrow> \<not> contains_nulls a"
  shows "new_from_slice alloc contains_nulls size_of_T enc elemtype data \<noteq> None
    \<and> (new_from_slice alloc contains_nulls size_of_T enc elemtype data = Some (Inr a) \<longrightarrow>
         array_items borrow align a = Some (map Some data)
         \<and> iter_non_null borrow align a = Some data
         \<and> ARR_NDIM a = (if data = [] then 0 else 1))"
proof (cases "data = []")
  case True
  have "array_items borrow align a = Some [] \<and> ARR_NDIM a = 0" if "new_empty alloc elemtype = Inr a"
  proof -
    have "read_word a 4 = 0"
      using that by (auto simp: new_empty_def alloc_zeroed_head_def read_word_def i32_bytes_def Let_def split: if_splits)
    then have "ARR_NDIM a = 0"
      using c_int_small [of 0] by (simp add: ARR_NDIM_def)
    then show ?thesis
      by (simp add: array_items_def RawArray_len_def raw_dims_def array_iter_next_def array_iter_def)
  qed
  then show ?thesis
    using True by (simp add: new_from_slice_def iter_non_null_def map_filter_simps)
next
  case False
  have some: "List.map_filter id (map Some data) = data"
    by (simp add: map_filter_def comp_def)
  show ?thesis
  proof (cases "new_zeroed_in alloc size_of_T elemtype [length data] False")
    case (Inl e)
    then show ?thesis
      using False by (simp add: new_from_slice_def)
  next
    case (Inr a0)
    obtain b where b: "new_from_slice alloc contains_nulls size_of_T enc elemtype data = Some (Inr b)"
        "\<not> ARR_HASNULL b" "RawArray_len b = Some (length data)" "ARR_NDIM b = 1"
        "drop (ARR_DATA_OFFSET b) b = concat (map enc data)"
      by (rule new_from_slice_data [OF assms(1,5) Inr False])
    have "array_iter_take borrow align b (length data) (Suc (length data)) array_iter
        = (map Some data, \<lparr>ai_index = length data, ai_offset = size_of_T * length data\<rparr>)"
      using array_iter_take_data [OF assms(1-4) b(2), of 0 data "length data" 0] b(5)
      by (simp add: array_iter_def)
    then have "array_items borrow align b = Some (map Some data)"
      by (simp only: array_items_def b(3) option.map fst_conv)
    then show ?thesis
      using b(1,4) False some by (auto simp: iter_non_null_def)
  qed
qed

theorem slice_survives_array_witness:
  "\<exists>a. new_from_slice (\<lambda>_. True) ARR_HASNULL 4 to_le_bytes 23 [7, 0, 9 :: u32] = Some (Inr a)
    \<and> array_items (\<lambda>bs. (from_le_bytes (take 4 bs), 4)) AlignInt a = Some [Some 7, Some 0, Some 9]"
proof -
  have enc: "length (to_le_bytes v) = 4"
    "(\<lambda>bs. (from_le_bytes (take 4 bs), 4)) (to_le_bytes v @ rest) = (v, 4 :: nat)" for v :: u32 and rest
    by simp_all
  have new: "\<exists>a0. new_zeroed_in (\<lambda>_. True) 4 23 [length [7, 0, 9 :: u32]] False = Inr a0"
    by (simp add: new_zeroed_in_def alloc_zeroed_head_def next_multiple_of_def map_res_def
      MAX_ARRAY_SIZE_def MAX_ALLOC_SIZE_def size_of_ArrayType_def)
  have "\<exists>a. new_from_slice (\<lambda>_. True) ARR_HASNULL 4 to_le_bytes 23 [7, 0, 9 :: u32] = Some (Inr a)"
    using new new_from_slice_data [of to_le_bytes 4 ARR_HASNULL "\<lambda>_. True" 23 "[7, 0, 9 :: u32]"] by auto
  then show ?thesis
    using slice_survives_array [of to_le_bytes 4 "\<lambda>bs. (from_le_bytes (take 4 bs), 4)" AlignInt ARR_HASNULL
      "\<lambda>_. True" 23 "[7, 0, 9 :: u32]"] enc by auto
qed

end
