(* ===== verification/Datetime.thy ===== *)
theory Datetime
  imports Prelude
begin

text \<open>
  Dates, times, timestamps and intervals (\<open>pgrx/src/datetime\<close>): the checks and conversions that the
  Rust types do themselves, without a call into the server. A value is the machine word that it wraps,
  read with \<^term>\<open>sint\<close> where the source compares it; arithmetic wraps as in a release build.
\<close>

type_synonym i32 = "32 word"
type_synonym i64 = "64 word"
type_synonym Datum = "64 word"

section \<open>Dates\<close>

definition POSTGRES_EPOCH_JDATE :: i32 where
  "POSTGRES_EPOCH_JDATE = 2451545"

definition UNIX_EPOCH_JDATE :: i32 where
  "UNIX_EPOCH_JDATE = 2440588"

definition JULIAN_DAY_ZERO :: int where
  "JULIAN_DAY_ZERO = 0 - 2451545"

definition LAST_JULIAN_DAY :: int where
  "LAST_JULIAN_DAY = 2147483494 - 2451545 - 1"

type_synonym Date = i32

datatype datetime_error = OutOfRange | FieldOverflow | InvalidTimezoneOffset i32 | MicrosOutOfBounds

definition i32_MIN :: i32 where
  "i32_MIN = word_of_int (- 2147483648)"

definition i32_MAX :: i32 where
  "i32_MAX = 2147483647"

definition Date_try_from :: "i32 \<Rightarrow> datetime_error + Date" where
  "Date_try_from v =
     (if v = i32_MIN \<or> v = i32_MAX \<or> (JULIAN_DAY_ZERO \<le> sint v \<and> sint v \<le> LAST_JULIAN_DAY)
      then Inr v else Inl OutOfRange)"

definition Date_saturating_from_raw :: "i32 \<Rightarrow> Date" where
  "Date_saturating_from_raw date_int =
     (if sint date_int \<le> JULIAN_DAY_ZERO - 1 then i32_MIN
      else if sint date_int \<le> LAST_JULIAN_DAY then date_int
      else i32_MAX)"

definition date_is_finite :: "Date \<Rightarrow> bool" where
  "date_is_finite d = (\<not> (d = i32_MIN \<or> d = i32_MAX))"

definition to_julian_days :: "Date \<Rightarrow> i32" where
  "to_julian_days d = d + POSTGRES_EPOCH_JDATE"

definition to_unix_epoch_days :: "Date \<Rightarrow> i32" where
  "to_unix_epoch_days d = d + POSTGRES_EPOCH_JDATE - UNIX_EPOCH_JDATE"

definition to_posix_time :: "Date \<Rightarrow> i64" where
  "to_posix_time d = scast (to_unix_epoch_days d) * 86400"

text \<open>\<open>Datum::from(i32)\<close> sign-extends, and \<open>as i32\<close> truncates.\<close>

definition date_into_datum :: "Date \<Rightarrow> Datum" where
  "date_into_datum d = scast d"

definition date_from_datum :: "Datum \<Rightarrow> bool \<Rightarrow> Date option" where
  "date_from_datum datum is_null = (if is_null then None else Some (ucast datum))"

section \<open>Times of day\<close>

definition MICROSECONDS_PER_DAY :: int where
  "MICROSECONDS_PER_DAY = 24 * 60 * 60 * 1000 * 1000"

definition Time_try_from :: "i64 \<Rightarrow> i64 + i64" where
  "Time_try_from raw =
     (if 0 \<le> sint raw \<and> sint raw \<le> MICROSECONDS_PER_DAY then Inr raw else Inl raw)"

text \<open>\<open>rem_euclid\<close> with a positive divisor is the remainder of HOL.\<close>

definition Time_modular_from_raw :: "i64 \<Rightarrow> i64" where
  "Time_modular_from_raw time = word_of_int (sint time mod MICROSECONDS_PER_DAY)"

definition time_into_datum :: "i64 \<Rightarrow> Datum" where
  "time_into_datum t = t"

definition time_from_datum :: "Datum \<Rightarrow> bool \<Rightarrow> i64 option" where
  "time_from_datum datum is_null = (if is_null then None else Some (Time_modular_from_raw datum))"

text \<open>A time with a zone: the offset counts seconds west of UTC, so it is negative to the east.\<close>

record TimeTz =
  tz_time :: i64
  tz_zone :: i32

definition TZDISP_LIMIT :: int where
  "TZDISP_LIMIT = 57600"

definition TimeTz_modular_from_raw :: "i64 \<times> i32 \<Rightarrow> TimeTz" where
  "TimeTz_modular_from_raw raw =
     \<lparr>tz_time = word_of_int (sint (fst raw) mod MICROSECONDS_PER_DAY),
      tz_zone = word_of_int (sint (snd raw) mod TZDISP_LIMIT)\<rparr>"

definition TimeTz_try_from :: "i64 \<times> i32 \<Rightarrow> datetime_error + TimeTz" where
  "TimeTz_try_from raw =
     (let timetz = TimeTz_modular_from_raw raw in
      if tz_time timetz \<noteq> fst raw then Inl FieldOverflow
      else if tz_zone timetz \<noteq> snd raw then Inl (InvalidTimezoneOffset (snd raw))
      else Inr timetz)"

section \<open>Timestamps\<close>

definition MIN_TIMESTAMP :: int where
  "MIN_TIMESTAMP = - 211813488000000000"

definition END_TIMESTAMP :: int where
  "END_TIMESTAMP = 9223371331200000000"

definition i64_MIN :: i64 where
  "i64_MIN = word_of_int (- 9223372036854775808)"

definition i64_MAX :: i64 where
  "i64_MAX = 9223372036854775807"

definition Timestamp_try_from :: "i64 \<Rightarrow> i64 + i64" where
  "Timestamp_try_from ts =
     (if ts = i64_MIN \<or> ts = i64_MAX \<or> (MIN_TIMESTAMP \<le> sint ts \<and> sint ts \<le> END_TIMESTAMP - 1)
      then Inr ts else Inl ts)"

definition Timestamp_saturating_from_raw :: "i64 \<Rightarrow> i64" where
  "Timestamp_saturating_from_raw v =
     (case Timestamp_try_from v of
        Inr ts \<Rightarrow> ts
      | Inl i \<Rightarrow> if sint i < 0 then i64_MIN else i64_MAX)"

definition TimestampTz_try_from :: "i64 \<Rightarrow> datetime_error + i64" where
  "TimestampTz_try_from v =
     (if v = i64_MIN \<or> v = i64_MAX \<or> (MIN_TIMESTAMP \<le> sint v \<and> sint v \<le> END_TIMESTAMP - 1)
      then Inr v else Inl MicrosOutOfBounds)"

text \<open>Reading a \<open>timestamptz\<close> datum checks the range again; the \<open>expect\<close> is a panic.\<close>

definition timestamptz_from_datum :: "Datum \<Rightarrow> bool \<Rightarrow> string + i64 option" where
  "timestamptz_from_datum datum is_null =
     (if is_null then Inr None
      else (case TimestampTz_try_from datum of
              Inr t \<Rightarrow> Inr (Some t)
            | Inl err \<Rightarrow> Inl ''Error converting timestamp with time zone datum''))"

section \<open>Intervals and durations\<close>

record Interval =
  iv_time :: i64
  iv_day :: i32
  iv_month :: i32

datatype interval_error =
  MismatchedSigns | NegativeInterval | DurationMonthsOutOfBounds | IntervalTooLarge

definition Interval_new :: "i32 \<Rightarrow> i32 \<Rightarrow> i64 \<Rightarrow> interval_error + Interval" where
  "Interval_new months days micros =
     (if sint months < 0 then
        (if sint days > 0 \<or> sint micros > 0 then Inl MismatchedSigns
         else Inr \<lparr>iv_time = micros, iv_day = days, iv_month = months\<rparr>)
      else if sint months > 0 \<and> (sint days < 0 \<or> sint micros < 0) then Inl MismatchedSigns
      else Inr \<lparr>iv_time = micros, iv_day = days, iv_month = months\<rparr>)"

definition USECS_PER_DAY :: int where
  "USECS_PER_DAY = 86400 * 1000000"

definition DAYS_PER_MONTH :: int where
  "DAYS_PER_MONTH = 30"

text \<open>The sum fits into the \<open>i128\<close> of the source.\<close>

definition as_micros :: "Interval \<Rightarrow> int" where
  "as_micros i = sint (iv_time i) + sint (iv_month i) * DAYS_PER_MONTH * USECS_PER_DAY
     + sint (iv_day i) * USECS_PER_DAY"

definition interval_abs :: "Interval \<Rightarrow> Interval" where
  "interval_abs i =
     \<lparr>iv_time = word_of_int \<bar>sint (iv_time i)\<bar>, iv_day = word_of_int \<bar>sint (iv_day i)\<bar>,
      iv_month = word_of_int \<bar>sint (iv_month i)\<bar>\<rparr>"

definition is_negative :: "Interval \<Rightarrow> bool" where
  "is_negative i = (sint (iv_month i) < 0 \<or> sint (iv_day i) < 0 \<or> sint (iv_time i) < 0)"

definition is_positive :: "Interval \<Rightarrow> bool" where
  "is_positive i = (\<not> is_negative i)"

definition signum :: "Interval \<Rightarrow> Interval" where
  "signum i =
     (if iv_month i = 0 \<and> iv_day i = 0 \<and> iv_time i = 0
      then \<lparr>iv_time = 0, iv_day = 0, iv_month = 0\<rparr>
      else if is_positive i then \<lparr>iv_time = 1, iv_day = 0, iv_month = 0\<rparr>
      else \<lparr>iv_time = - 1, iv_day = 0, iv_month = 0\<rparr>)"

text \<open>
  \<open>std::time::Duration\<close>: whole seconds below 2^64 and nanoseconds below a second. \<open>as_micros\<close> rounds
  down and \<open>from_micros\<close> takes a \<open>u64\<close>.
\<close>

record Duration =
  dur_secs :: int
  dur_nanos :: int

definition duration_ok :: "Duration \<Rightarrow> bool" where
  "duration_ok d \<longleftrightarrow> 0 \<le> dur_secs d \<and> dur_secs d < 18446744073709551616
     \<and> 0 \<le> dur_nanos d \<and> dur_nanos d < 1000000000"

definition duration_micros :: "Duration \<Rightarrow> int" where
  "duration_micros d = dur_secs d * 1000000 + dur_nanos d div 1000"

definition duration_from_micros :: "int \<Rightarrow> Duration" where
  "duration_from_micros m = \<lparr>dur_secs = m div 1000000, dur_nanos = m mod 1000000 * 1000\<rparr>"

text \<open>The two \<open>expect\<close>s of the conversion are panics, the error value on the left.\<close>

definition Interval_try_from :: "Duration \<Rightarrow> string + (interval_error + Interval)" where
  "Interval_try_from duration =
     (let microseconds = duration_micros duration;
          seconds = microseconds div 1000000;
          days = seconds div 86400;
          months = days div DAYS_PER_MONTH;
          leftover_days = days - months * DAYS_PER_MONTH;
          leftover_microseconds =
            microseconds - (leftover_days * USECS_PER_DAY + months * DAYS_PER_MONTH * USECS_PER_DAY)
      in
      if months > 2147483647 then Inr (Inl DurationMonthsOutOfBounds)
      else if leftover_days > 2147483647 then Inl ''bad math during Duration to Interval days''
      else if leftover_microseconds > 9223372036854775807
      then Inl ''bad math during Duration to Interval micros''
      else Inr (Interval_new (word_of_int months) (word_of_int leftover_days)
        (word_of_int leftover_microseconds)))"

definition Duration_try_from :: "Interval \<Rightarrow> interval_error + Duration" where
  "Duration_try_from i =
     (if sint (iv_time i) < 0 \<or> sint (iv_month i) < 0 \<or> sint (iv_day i) < 0 then Inl NegativeInterval
      else
        let micros = sint (iv_time i) + sint (iv_day i) * 86400 * 1000000
              + sint (iv_month i) * DAYS_PER_MONTH * USECS_PER_DAY
        in if micros \<le> 18446744073709551615 then Inr (duration_from_micros micros)
           else Inl IntervalTooLarge)"

section \<open>Parts of a date or time\<close>

datatype DateTimeParts =
  Century | Day | Decade | DayOfWeek | DayOfYear | Epoch | Hour | ISODayOfWeek | ISOYear | Julian
  | Microseconds | Millennium | Milliseconds | Minute | Month | Quarter | Second | Timezone
  | TimezoneHour | TimezoneMinute | Week | Year

primrec part_name :: "DateTimeParts \<Rightarrow> string" where
  "part_name Century = ''century''"
| "part_name Day = ''day''"
| "part_name Decade = ''decade''"
| "part_name DayOfWeek = ''dow''"
| "part_name DayOfYear = ''doy''"
| "part_name Epoch = ''epoch''"
| "part_name Hour = ''hour''"
| "part_name ISODayOfWeek = ''isodow''"
| "part_name ISOYear = ''isodoy''"
| "part_name Julian = ''julian''"
| "part_name Microseconds = ''microseconds''"
| "part_name Millennium = ''millennium''"
| "part_name Milliseconds = ''milliseconds''"
| "part_name Minute = ''minute''"
| "part_name Month = ''month''"
| "part_name Quarter = ''quarter''"
| "part_name Second = ''second''"
| "part_name Timezone = ''timezone''"
| "part_name TimezoneHour = ''timezone_hour''"
| "part_name TimezoneMinute = ''timezone_minute''"
| "part_name Week = ''week''"
| "part_name Year = ''year''"

end
