(* ===== verification/Datetime_Properties.thy ===== *)
theory Datetime_Properties
  imports Datetime
begin

text \<open>
  What the date and time types promise: no accepted finite date overflows in a conversion, values
  survive the trip through a datum (with the one exception that is proved), and durations survive the
  trip through an interval.
\<close>

section \<open>Signed words\<close>

lemma sint_i32 [simp]:
  assumes "- 2147483648 \<le> k" "k \<le> 2147483647"
  shows "sint (word_of_int k :: i32) = k"
  using assms by (simp add: int_word_sint)

lemma sint_i64 [simp]:
  assumes "- 9223372036854775808 \<le> k" "k \<le> 9223372036854775807"
  shows "sint (word_of_int k :: i64) = k"
  using assms by (simp add: int_word_sint)

lemma sint_i32_bounds: "- 2147483648 \<le> sint (w :: i32)" "sint (w :: i32) \<le> 2147483647"
  using sint_ge [of w] sint_lt [of w] by simp_all

lemma sint_i64_bounds:
  "- 9223372036854775808 \<le> sint (w :: i64)" "sint (w :: i64) \<le> 9223372036854775807"
  using sint_ge [of w] sint_lt [of w] by simp_all

lemma word_of_sint [simp]: "word_of_int (sint w) = (w :: 'a::len word)"
  using scast_eq [of w, where ?'a = 'a] by simp

lemma sint_add_i32:
  assumes "- 2147483648 \<le> sint a + sint b" "sint a + sint b \<le> 2147483647"
  shows "sint (a + b :: i32) = sint a + sint b"
  using assms sint_word_add [of a b] by (simp add: signed_take_bit_int_eq_self)

lemma sint_eq_iff: "sint a = sint b \<longleftrightarrow> a = (b :: 'a::len word)"
  by (metis word_of_sint)

lemma ucast_scast_i32 [simp]: "ucast (scast (w :: i32) :: Datum) = w"
  by (rule bit_word_eqI) (simp add: bit_simps)

section \<open>Dates\<close>

lemma i32_infinities [simp]: "sint i32_MIN = - 2147483648" "sint i32_MAX = 2147483647"
  unfolding i32_MIN_def i32_MAX_def by (simp, simp)

text \<open>The finite dates that are accepted.\<close>

lemma finite_date_range:
  assumes "Date_try_from v = Inr d" and "date_is_finite d"
  shows "d = v" "- 2451545 \<le> sint d" "sint d \<le> 2145031948"
  using assms
  by (auto simp: Date_try_from_def date_is_finite_def JULIAN_DAY_ZERO_def LAST_JULIAN_DAY_def
    split: if_splits)

lemma finite_date_julian:
  assumes "- 2451545 \<le> sint d" "sint d \<le> 2145031948"
  shows "sint (to_julian_days d) = sint d + 2451545"
    and "sint (to_unix_epoch_days d) = sint d + 10957"
    and "sint (to_posix_time d) = (sint d + 10957) * 86400"
proof -
  have epoch: "sint POSTGRES_EPOCH_JDATE = 2451545" "sint (- UNIX_EPOCH_JDATE) = - 2440588"
    unfolding POSTGRES_EPOCH_JDATE_def UNIX_EPOCH_JDATE_def by (simp, simp)
  show julian: "sint (to_julian_days d) = sint d + 2451545"
    using assms epoch by (simp add: to_julian_days_def sint_add_i32)
  then have "sint (to_julian_days d + - UNIX_EPOCH_JDATE) = sint d + 10957"
    using assms epoch by (subst sint_add_i32) simp_all
  then show unix: "sint (to_unix_epoch_days d) = sint d + 10957"
    by (simp add: to_unix_epoch_days_def to_julian_days_def)
  have posix: "to_posix_time d = word_of_int ((sint d + 10957) * 86400)"
    unfolding to_posix_time_def scast_eq unix by simp
  show "sint (to_posix_time d) = (sint d + 10957) * 86400"
    unfolding posix using assms by (intro sint_i64) simp_all
qed

text \<open>On the infinities the conversions wrap around: positive infinity gets a negative Julian day.\<close>

lemma infinite_date_wraps:
  "sint (to_julian_days i32_MAX) = - 2145032104" "sint (to_julian_days i32_MIN) = - 2145032103"
  unfolding to_julian_days_def i32_MAX_def i32_MIN_def POSTGRES_EPOCH_JDATE_def by (simp, simp)

lemma saturating_accepted:
  "Date_try_from (Date_saturating_from_raw v) = Inr (Date_saturating_from_raw v)"
  by (auto simp: Date_saturating_from_raw_def Date_try_from_def)

lemma saturating_keeps:
  assumes "Date_try_from v = Inr d"
  shows "Date_saturating_from_raw v = d"
  using assms
  by (auto simp: Date_saturating_from_raw_def Date_try_from_def JULIAN_DAY_ZERO_def LAST_JULIAN_DAY_def
    split: if_splits)

section \<open>Times with a zone\<close>

text \<open>
  Converting a raw time with zone accepts only the zones at and west of UTC: an offset below zero,
  which the server uses for every zone east of UTC, is never equal to its remainder.
\<close>

lemma TimeTz_try_from_accepts:
  "(\<exists>t. TimeTz_try_from (time, zone) = Inr t) \<longleftrightarrow>
     0 \<le> sint time \<and> sint time < 86400000000 \<and> 0 \<le> sint zone \<and> sint zone < 57600"
proof -
  have time_eq: "word_of_int (sint time mod 86400000000) = time
      \<longleftrightarrow> 0 \<le> sint time \<and> sint time < 86400000000"
    using sint_eq_iff [of "word_of_int (sint time mod 86400000000)" time]
      pos_mod_bound [of 86400000000 "sint time"] pos_mod_sign [of 86400000000 "sint time"]
    by (auto simp: mod_pos_pos_trivial)
  have zone_eq: "word_of_int (sint zone mod 57600) = zone \<longleftrightarrow> 0 \<le> sint zone \<and> sint zone < 57600"
    using sint_eq_iff [of "word_of_int (sint zone mod 57600)" zone]
      pos_mod_bound [of 57600 "sint zone"] pos_mod_sign [of 57600 "sint zone"]
    by (auto simp: mod_pos_pos_trivial)
  show ?thesis
    by (auto simp: TimeTz_try_from_def Let_def TimeTz_modular_from_raw_def MICROSECONDS_PER_DAY_def
      TZDISP_LIMIT_def time_eq zone_eq)
qed

section \<open>Intervals\<close>

lemma duration_micros_from: "duration_micros (duration_from_micros m) = m"
  by (simp add: duration_micros_def duration_from_micros_def)

lemma duration_micros_range:
  assumes "duration_ok d"
  shows "0 \<le> duration_micros d" "duration_micros d \<le> 18446744073709551615999999"
  using assms by (auto simp: duration_ok_def duration_micros_def)

text \<open>Splitting microseconds into months, days and a rest.\<close>

lemma split_micros:
  fixes m :: int
  assumes "0 \<le> m"
  defines "days \<equiv> m div 1000000 div 86400" and "months \<equiv> m div 1000000 div 86400 div 30"
  shows "0 \<le> months" "0 \<le> days - months * 30" "days - months * 30 < 30"
    and "0 \<le> m - ((days - months * 30) * 86400000000 + months * 30 * 86400000000)"
    and "m - ((days - months * 30) * 86400000000 + months * 30 * 86400000000) < 86400000000"
proof -
  have days: "days = m div 86400000000"
    unfolding days_def using zdiv_zmult2_eq [of 86400 m 1000000] by simp
  have months: "months = days div 30"
    unfolding months_def days_def by simp
  show "0 \<le> months"
    unfolding months_def using assms(1) by (simp add: pos_imp_zdiv_nonneg_iff)
  show "0 \<le> days - months * 30" "days - months * 30 < 30"
    unfolding months using pos_mod_sign [of 30 days] pos_mod_bound [of 30 days]
    by (simp_all add: minus_div_mult_eq_mod)
  have "m - ((days - months * 30) * 86400000000 + months * 30 * 86400000000) = m mod 86400000000"
    unfolding days by (simp add: algebra_simps minus_div_mult_eq_mod)
  then show "0 \<le> m - ((days - months * 30) * 86400000000 + months * 30 * 86400000000)"
    and "m - ((days - months * 30) * 86400000000 + months * 30 * 86400000000) < 86400000000"
    by simp_all
qed

lemma Interval_try_from_ok:
  assumes "duration_ok d" and "duration_micros d div 1000000 div 86400 div 30 \<le> 2147483647"
  shows "\<exists>i. Interval_try_from d = Inr (Inr i) \<and> as_micros i = duration_micros d
    \<and> 0 \<le> sint (iv_month i) \<and> 0 \<le> sint (iv_day i) \<and> sint (iv_day i) < 30
    \<and> 0 \<le> sint (iv_time i) \<and> sint (iv_time i) < 86400000000"
proof -
  define m where "m = duration_micros d"
  define days where "days = m div 1000000 div 86400"
  define months where "months = days div 30"
  define ldays where "ldays = days - months * 30"
  define lmicros where "lmicros = m - (ldays * 86400000000 + months * 30 * 86400000000)"
  have "0 \<le> m"
    unfolding m_def by (rule duration_micros_range(1) [OF assms(1)])
  note split = split_micros [OF this, folded days_def, folded months_def, folded ldays_def,
    folded lmicros_def]
  have small: "months \<le> 2147483647"
    using assms(2) unfolding months_def days_def m_def .
  have months: "sint (word_of_int months :: i32) = months"
    using split(1) small by (intro sint_i32) linarith+
  have days: "sint (word_of_int ldays :: i32) = ldays"
    using split(2,3) by (intro sint_i32) linarith+
  have micros: "sint (word_of_int lmicros :: i64) = lmicros"
    using split(4,5) by (intro sint_i64) linarith+
  let ?i = "\<lparr>iv_time = word_of_int lmicros, iv_day = word_of_int ldays, iv_month = word_of_int months\<rparr>"
  have "Interval_try_from d
      = Inr (Interval_new (word_of_int months) (word_of_int ldays) (word_of_int lmicros))"
    unfolding Interval_try_from_def Let_def DAYS_PER_MONTH_def USECS_PER_DAY_def
      m_def [symmetric] days_def [symmetric] months_def [symmetric] ldays_def [symmetric]
    using split small by (simp add: lmicros_def)
  also have "Interval_new (word_of_int months) (word_of_int ldays) (word_of_int lmicros) = Inr ?i"
    unfolding Interval_new_def months days micros using split(1,2,4) by simp
  finally have "Interval_try_from d = Inr (Inr ?i)" .
  moreover have "as_micros ?i = m"
    unfolding as_micros_def Interval.simps months days micros DAYS_PER_MONTH_def USECS_PER_DAY_def
    by (simp add: lmicros_def)
  ultimately show ?thesis
    using split months days micros m_def by (intro exI [of _ ?i]) (simp del: sint_i32 sint_i64)
qed

lemma Duration_try_from_ok:
  assumes "0 \<le> sint (iv_month i)" "0 \<le> sint (iv_day i)" "0 \<le> sint (iv_time i)"
  shows "Duration_try_from i =
    (if as_micros i \<le> 18446744073709551615 then Inr (duration_from_micros (as_micros i))
     else Inl IntervalTooLarge)"
  using assms
  by (simp add: Duration_try_from_def as_micros_def Let_def USECS_PER_DAY_def DAYS_PER_MONTH_def algebra_simps)

text \<open>
  \<open>Interval::new\<close> compares the signs of days and microseconds only with the sign of the months: with
  no months it accepts any mixture.
\<close>

lemma Interval_new_no_months:
  "Interval_new 0 days micros = Inr \<lparr>iv_time = micros, iv_day = days, iv_month = 0\<rparr>"
  by (simp add: Interval_new_def)

section \<open>Properties\<close>

text \<open>
  Dates: accepting and converting raw dates is free of overflow. Saturating any raw value gives a
  date that the checked constructor accepts, and keeps every value that it accepts. For every accepted
  finite date the Julian day, the days since the Unix epoch and the POSIX time in seconds are the exact
  integers (no 32-bit or 64-bit wrap-around), and the Julian day is not negative.
\<close>

lemma dates_convert_exactly:
  shows "Date_try_from (Date_saturating_from_raw v) = Inr (Date_saturating_from_raw v)
    \<and> (Date_try_from v = Inr d \<longrightarrow> Date_saturating_from_raw v = d)
    \<and> (Date_try_from v = Inr d \<and> date_is_finite d \<longrightarrow>
         0 \<le> sint (to_julian_days d)
         \<and> sint (to_julian_days d) = sint d + 2451545
         \<and> sint (to_unix_epoch_days d) = sint d + 10957
         \<and> sint (to_posix_time d) = (sint d + 10957) * 86400)"
proof -
  have "0 \<le> sint (to_julian_days d) \<and> sint (to_julian_days d) = sint d + 2451545
      \<and> sint (to_unix_epoch_days d) = sint d + 10957
      \<and> sint (to_posix_time d) = (sint d + 10957) * 86400"
    if "Date_try_from v = Inr d" "date_is_finite d"
    using finite_date_julian [OF finite_date_range(2,3) [OF that]] finite_date_range(2) [OF that]
    by linarith
  then show ?thesis
    using saturating_accepted [of v] saturating_keeps [of v d] by blast
qed



text \<open>
  C35. A duration survives the trip through an interval. A duration whose number of thirty-day months
  fits into 32 bits converts without an error or a panic to an interval with fewer than thirty days and
  less than a day of microseconds, and the interval converts back to the duration rounded down to
  microseconds, as long as those fit into 64 bits.
\<close>

theorem duration_interval_round_trip:
  assumes "duration_ok d" and "duration_micros d div 1000000 div 86400 div 30 \<le> 2147483647"
    and "duration_micros d \<le> 18446744073709551615"
  shows "\<exists>i. Interval_try_from d = Inr (Inr i)
    \<and> sint (iv_day i) < 30 \<and> sint (iv_time i) < 86400000000
    \<and> Duration_try_from i = Inr (d\<lparr>dur_nanos := dur_nanos d div 1000 * 1000\<rparr>)"
proof -
  obtain i where i: "Interval_try_from d = Inr (Inr i)" "as_micros i = duration_micros d"
      "0 \<le> sint (iv_month i)" "0 \<le> sint (iv_day i)" "sint (iv_day i) < 30"
      "0 \<le> sint (iv_time i)" "sint (iv_time i) < 86400000000"
    using Interval_try_from_ok [OF assms(1,2)] by blast
  have "dur_nanos d div 1000 < 1000000" "0 \<le> dur_nanos d div 1000"
    using assms(1) by (auto simp: duration_ok_def)
  then have "duration_from_micros (duration_micros d) = d\<lparr>dur_nanos := dur_nanos d div 1000 * 1000\<rparr>"
    by (simp add: duration_from_micros_def duration_micros_def)
  then show ?thesis
    using i Duration_try_from_ok [OF i(3,4,6)] assms(3) by auto
qed

theorem duration_interval_round_trip_witness:
  "\<exists>i. Interval_try_from \<lparr>dur_secs = 3000000, dur_nanos = 1999\<rparr> = Inr (Inr i)
    \<and> sint (iv_day i) < 30 \<and> sint (iv_time i) < 86400000000
    \<and> Duration_try_from i = Inr \<lparr>dur_secs = 3000000, dur_nanos = 1000\<rparr>"
  using duration_interval_round_trip [of "\<lparr>dur_secs = 3000000, dur_nanos = 1999\<rparr>"]
  by (simp add: duration_ok_def duration_micros_def)

end
