(* ===== verification/Xact_Callbacks.thy ===== *)
theory Xact_Callbacks
  imports Prelude
begin

text \<open>
  The transaction and subtransaction callbacks of \<open>pgrx/src/callbacks.rs\<close>. A registered closure sits in
  a reference-counted cell, shared by the table of hooks and the receipt that the registration returns;
  a cell is an index into the list of all cells that were ever made. A closure is what it does to this
  component and to the outside: a list of operations. The server's side is the number of times that the
  entry point of the table was registered with it: it calls the entry point that often for each event.
\<close>

section \<open>Events\<close>

datatype PgXactCallbackEvent =
    Abort | Commit | PreCommit | ParallelAbort | ParallelCommit | ParallelPreCommit | Prepare | PrePrepare

datatype PgSubXactCallbackEvent = AbortSub | CommitSub | PreCommitSub | StartSub

text \<open>The numbers are those of \<open>XactEvent\<close> and \<open>SubXactEvent\<close> in the bindings.\<close>

definition translate_pg_event :: "nat \<Rightarrow> PgXactCallbackEvent option" where
  "translate_pg_event pg_event =
     (if pg_event = 2 then Some Abort
      else if pg_event = 0 then Some Commit
      else if pg_event = 3 then Some ParallelAbort
      else if pg_event = 1 then Some ParallelCommit
      else if pg_event = 6 then Some ParallelPreCommit
      else if pg_event = 4 then Some Prepare
      else if pg_event = 5 then Some PreCommit
      else if pg_event = 7 then Some PrePrepare
      else None)"

definition translate_sub_event :: "nat \<Rightarrow> PgSubXactCallbackEvent option" where
  "translate_sub_event event =
     (if event = 2 then Some AbortSub
      else if event = 1 then Some CommitSub
      else if event = 3 then Some PreCommitSub
      else if event = 0 then Some StartSub
      else None)"

section \<open>State\<close>

text \<open>
  What a closure can do: an effect outside of this component, registering another closure, giving back a
  receipt, and panicking. \<open>TakeSubHooks\<close> is the body of the two closures that the registration of
  subtransaction callbacks adds on its own.
\<close>

datatype 'a hook_op =
    Emit 'a
  | RegisterXact PgXactCallbackEvent "'a hook_op list"
  | RegisterSub PgSubXactCallbackEvent "nat \<Rightarrow> nat \<Rightarrow> 'a hook_op list"
  | Unregister nat
  | UnregisterSub nat
  | TakeSubHooks
  | PanicNow

type_synonym 'a sub_closure = "nat \<Rightarrow> nat \<Rightarrow> 'a hook_op list"

text \<open>
  \<open>AliasedHooks\<close> is undefined behaviour: a closure that is being called from the list of an event adds to
  that list.
\<close>

datatype xact_panic =
    HookPanic
  | UnrecognizedEvent nat
  | HooksWereNone
  | AlreadyBorrowed
  | AliasedHooks

record 'a xact_state =
  XACT_HOOKS :: "(PgXactCallbackEvent \<Rightarrow> nat list option) option"
  SUB_HOOKS :: "(PgSubXactCallbackEvent \<Rightarrow> nat list option) option"
  xact_cells :: "'a hook_op list option list"
  sub_cells :: "'a sub_closure option list"
  receipts :: "nat list"
  sub_borrowed :: "nat list"
  sub_firing :: "PgSubXactCallbackEvent list"
  xact_registered :: nat
  sub_registered :: nat
  effects :: "'a list"

type_synonym 'a xact_run = "'a xact_state \<Rightarrow> xact_panic option \<times> 'a xact_state"

definition backend_start :: "'a xact_state" where
  "backend_start =
     \<lparr>XACT_HOOKS = None, SUB_HOOKS = None, xact_cells = [], sub_cells = [], receipts = [],
      sub_borrowed = [], sub_firing = [], xact_registered = 0, sub_registered = 0, effects = []\<rparr>"

section \<open>Registering\<close>

definition push_hook :: "'e \<Rightarrow> nat \<Rightarrow> ('e \<Rightarrow> nat list option) \<Rightarrow> 'e \<Rightarrow> nat list option" where
  "push_hook event cell hooks =
     hooks(event := Some ((case hooks event of Some v \<Rightarrow> v | None \<Rightarrow> []) @ [cell]))"

definition xact_maybe_initialize :: "'a xact_state \<Rightarrow> 'a xact_state" where
  "xact_maybe_initialize s =
     (if XACT_HOOKS s = None
      then s\<lparr>XACT_HOOKS := Some (\<lambda>_. None), xact_registered := xact_registered s + 1\<rparr>
      else s)"

text \<open>The receipt is the index of the cell.\<close>

definition register_cell ::
    "PgXactCallbackEvent \<Rightarrow> 'a hook_op list \<Rightarrow> 'a xact_state \<Rightarrow> nat \<times> 'a xact_state" where
  "register_cell which_event f s =
     (let s' = xact_maybe_initialize s;
          wrapped_func = length (xact_cells s')
      in (wrapped_func,
          s'\<lparr>XACT_HOOKS := map_option (push_hook which_event wrapped_func) (XACT_HOOKS s'),
             xact_cells := xact_cells s' @ [Some f]\<rparr>))"

definition register_xact_callback ::
    "PgXactCallbackEvent \<Rightarrow> 'a hook_op list \<Rightarrow> 'a xact_state \<Rightarrow> nat \<times> 'a xact_state" where
  "register_xact_callback which_event f s =
     (let (receipt, s') = register_cell which_event f s
      in (receipt, s'\<lparr>receipts := receipt # receipts s'\<rparr>))"

text \<open>
  The subtransaction callback of the server is taken out before it is put in, so that it is there once.
  The receipts of the two closures that clear the table are dropped.
\<close>

definition sub_maybe_initialize :: "'a xact_state \<Rightarrow> 'a xact_state" where
  "sub_maybe_initialize s =
     (if SUB_HOOKS s = None then
        let s1 = s\<lparr>SUB_HOOKS := Some (\<lambda>_. None), sub_registered := sub_registered s - 1 + 1\<rparr>;
            s2 = snd (register_cell Commit [TakeSubHooks] s1)
        in snd (register_cell Abort [TakeSubHooks] s2)
      else s)"

definition register_subxact_callback ::
    "PgSubXactCallbackEvent \<Rightarrow> 'a sub_closure \<Rightarrow> 'a xact_state \<Rightarrow> nat \<times> 'a xact_state" where
  "register_subxact_callback which_event f s =
     (let s' = sub_maybe_initialize s;
          wrapped_func = length (sub_cells s')
      in (wrapped_func,
          s'\<lparr>SUB_HOOKS := map_option (push_hook which_event wrapped_func) (SUB_HOOKS s'),
             sub_cells := sub_cells s' @ [Some f]\<rparr>))"

section \<open>Running closures\<close>

text \<open>
  A closure can give back only a receipt that was handed out. Giving back the receipt of a
  subtransaction closure while it is being called is a second borrow of its cell.
\<close>

fun run_op :: "'a hook_op \<Rightarrow> 'a xact_run" where
  "run_op (Emit a) s = (None, s\<lparr>effects := effects s @ [a]\<rparr>)"
| "run_op (RegisterXact event f) s = (None, snd (register_xact_callback event f s))"
| "run_op (RegisterSub event f) s =
     (if event \<in> set (sub_firing s) then (Some AliasedHooks, s)
      else (None, snd (register_subxact_callback event f s)))"
| "run_op (Unregister receipt) s =
     (None, if receipt \<in> set (receipts s) then s\<lparr>xact_cells := (xact_cells s)[receipt := None]\<rparr> else s)"
| "run_op (UnregisterSub receipt) s =
     (if receipt \<in> set (sub_borrowed s) then (Some AlreadyBorrowed, s)
      else (None, s\<lparr>sub_cells := (sub_cells s)[receipt := None]\<rparr>))"
| "run_op TakeSubHooks s = (None, s\<lparr>SUB_HOOKS := None\<rparr>)"
| "run_op PanicNow s = (Some HookPanic, s)"

primrec run_ops :: "'a hook_op list \<Rightarrow> 'a xact_run" where
  "run_ops [] s = (None, s)"
| "run_ops (x # xs) s =
     (case run_op x s of (None, s') \<Rightarrow> run_ops xs s' | (Some p, s') \<Rightarrow> (Some p, s'))"

text \<open>The loop over the hooks of an event: a closure is taken out of its cell before it is called.\<close>

primrec run_hooks :: "nat list \<Rightarrow> 'a xact_run" where
  "run_hooks [] s = (None, s)"
| "run_hooks (hook # hooks) s =
     (case xact_cells s ! hook of
        None \<Rightarrow> run_hooks hooks s
      | Some f \<Rightarrow>
          (case run_ops f (s\<lparr>xact_cells := (xact_cells s)[hook := None]\<rparr>) of
             (None, s') \<Rightarrow> run_hooks hooks s'
           | (Some p, s') \<Rightarrow> (Some p, s')))"

definition transaction_end :: "PgXactCallbackEvent \<Rightarrow> bool" where
  "transaction_end event \<longleftrightarrow> event \<in> {Commit, Abort, ParallelCommit, ParallelAbort}"

definition xact_callback :: "nat \<Rightarrow> 'a xact_run" where
  "xact_callback event s =
     (case translate_pg_event event of
        None \<Rightarrow> (Some (UnrecognizedEvent event), s)
      | Some which_event \<Rightarrow>
          let s' = (if transaction_end which_event then s\<lparr>XACT_HOOKS := Some (\<lambda>_. None)\<rparr>
                    else s\<lparr>XACT_HOOKS := map_option (\<lambda>m. m(which_event := None)) (XACT_HOOKS s)\<rparr>)
          in (case XACT_HOOKS s of
                None \<Rightarrow> (Some HooksWereNone, s')
              | Some m \<Rightarrow> (case m which_event of None \<Rightarrow> (None, s') | Some hooks \<Rightarrow> run_hooks hooks s')))"

text \<open>A subtransaction closure stays in its cell, which is borrowed while it is called.\<close>

primrec run_sub_hooks :: "nat \<Rightarrow> nat \<Rightarrow> nat list \<Rightarrow> 'a xact_run" where
  "run_sub_hooks my_subid parent_subid [] s = (None, s)"
| "run_sub_hooks my_subid parent_subid (hook # hooks) s =
     (case sub_cells s ! hook of
        None \<Rightarrow> run_sub_hooks my_subid parent_subid hooks s
      | Some f \<Rightarrow>
          (case run_ops (f my_subid parent_subid) (s\<lparr>sub_borrowed := hook # sub_borrowed s\<rparr>) of
             (None, s') \<Rightarrow> run_sub_hooks my_subid parent_subid hooks (s'\<lparr>sub_borrowed := sub_borrowed s\<rparr>)
           | (Some p, s') \<Rightarrow> (Some p, s'\<lparr>sub_borrowed := sub_borrowed s\<rparr>)))"

definition subxact_callback :: "nat \<Rightarrow> nat \<Rightarrow> nat \<Rightarrow> 'a xact_run" where
  "subxact_callback event my_subid parent_subid s =
     (case translate_sub_event event of
        None \<Rightarrow> (Some (UnrecognizedEvent event), s)
      | Some which_event \<Rightarrow>
          (case SUB_HOOKS s of
             None \<Rightarrow> (None, s)
           | Some m \<Rightarrow>
               (case m which_event of
                  None \<Rightarrow> (None, s)
                | Some hooks \<Rightarrow>
                    let (r, s') = run_sub_hooks my_subid parent_subid hooks
                      (s\<lparr>sub_firing := which_event # sub_firing s\<rparr>)
                    in (r, s'\<lparr>sub_firing := sub_firing s\<rparr>))))"

section \<open>The server\<close>

primrec times_run :: "nat \<Rightarrow> 'a xact_run \<Rightarrow> 'a xact_run" where
  "times_run 0 f s = (None, s)"
| "times_run (Suc n) f s = (case f s of (None, s') \<Rightarrow> times_run n f s' | (Some p, s') \<Rightarrow> (Some p, s'))"

definition fire_xact :: "nat \<Rightarrow> 'a xact_run" where
  "fire_xact event s = times_run (xact_registered s) (xact_callback event) s"

definition fire_subxact :: "nat \<Rightarrow> nat \<Rightarrow> nat \<Rightarrow> 'a xact_run" where
  "fire_subxact event my_subid parent_subid s =
     times_run (sub_registered s) (subxact_callback event my_subid parent_subid) s"

text \<open>
  The states of a backend: user code runs and may panic, and the server announces the events of
  transactions and subtransactions. A panic in a commit or abort callback ends the process.
\<close>

inductive backend_step :: "'a xact_state \<Rightarrow> 'a xact_state \<Rightarrow> bool" where
  user: "run_ops ops s = (r, s') \<Longrightarrow> r \<noteq> Some AliasedHooks \<Longrightarrow> backend_step s s'"
| before_end: "translate_pg_event event = Some e \<Longrightarrow> e \<in> {PreCommit, PrePrepare, Prepare}
    \<Longrightarrow> fire_xact event s = (r, s') \<Longrightarrow> r \<noteq> Some AliasedHooks \<Longrightarrow> backend_step s s'"
| end_of: "translate_pg_event event = Some e \<Longrightarrow> e \<in> {Commit, Abort}
    \<Longrightarrow> fire_xact event s = (None, s') \<Longrightarrow> backend_step s s'"
| sub: "fire_subxact event my_subid parent_subid s = (r, s') \<Longrightarrow> r \<noteq> Some AliasedHooks
    \<Longrightarrow> backend_step s s'"

inductive reachable_backend :: "'a xact_state \<Rightarrow> bool" where
  start: "reachable_backend backend_start"
| step: "reachable_backend s \<Longrightarrow> backend_step s s' \<Longrightarrow> reachable_backend s'"

end
