(* ===== verification/Xact_Properties.thy ===== *)
theory Xact_Properties
  imports Xact_Callbacks
begin

text \<open>
  What the transaction callbacks promise: the table and the server agree in every reachable state, the
  callbacks of a transaction run once, in their order, and end with it; and where that fails.
\<close>

section \<open>The hooks of an event\<close>

definition hooks_at :: "'a xact_state \<Rightarrow> PgXactCallbackEvent \<Rightarrow> nat list" where
  "hooks_at s e = (case XACT_HOOKS s of Some m \<Rightarrow> (case m e of Some v \<Rightarrow> v | None \<Rightarrow> []) | None \<Rightarrow> [])"

definition sub_hooks_at :: "'a xact_state \<Rightarrow> PgSubXactCallbackEvent \<Rightarrow> nat list" where
  "sub_hooks_at s e = (case SUB_HOOKS s of Some m \<Rightarrow> (case m e of Some v \<Rightarrow> v | None \<Rightarrow> []) | None \<Rightarrow> [])"

text \<open>The closures that an event would run now, in their order.\<close>

definition pending :: "'a xact_state \<Rightarrow> PgXactCallbackEvent \<Rightarrow> 'a hook_op list list" where
  "pending s e = List.map_filter (\<lambda>i. xact_cells s ! i) (hooks_at s e)"

lemma map_filter_same:
  "(\<And>x. x \<in> set xs \<Longrightarrow> f x = g x) \<Longrightarrow> List.map_filter f xs = List.map_filter g xs"
  by (induction xs) (auto split: option.split)

lemma push_hook_at:
  "(case push_hook e i m e' of Some v \<Rightarrow> v | None \<Rightarrow> []) =
     (case m e' of Some v \<Rightarrow> v | None \<Rightarrow> []) @ (if e' = e then [i] else [])"
  by (simp add: push_hook_def split: option.split)

lemma hooks_at_init [simp]:
  "hooks_at (xact_maybe_initialize s) = hooks_at s" "xact_cells (xact_maybe_initialize s) = xact_cells s"
  "SUB_HOOKS (xact_maybe_initialize s) = SUB_HOOKS s" "sub_cells (xact_maybe_initialize s) = sub_cells s"
  "receipts (xact_maybe_initialize s) = receipts s" "sub_registered (xact_maybe_initialize s) = sub_registered s"
  "sub_firing (xact_maybe_initialize s) = sub_firing s" "XACT_HOOKS (xact_maybe_initialize s) \<noteq> None"
  by (auto simp: xact_maybe_initialize_def hooks_at_def fun_eq_iff)

lemma hooks_at_register:
  "hooks_at (snd (register_cell e f s)) e' = hooks_at s e' @ (if e' = e then [length (xact_cells s)] else [])"
proof -
  obtain m where m: "XACT_HOOKS (xact_maybe_initialize s) = Some m"
    using hooks_at_init(8) by blast
  have "hooks_at (xact_maybe_initialize s) e' = (case m e' of Some v \<Rightarrow> v | None \<Rightarrow> [])"
    by (simp only: hooks_at_def m option.case)
  then have "hooks_at s e' = (case m e' of Some v \<Rightarrow> v | None \<Rightarrow> [])"
    by simp
  then show ?thesis
    using m push_hook_at [of e "length (xact_cells s)" m e'] by (simp add: register_cell_def hooks_at_def Let_def)
qed

lemma register_cell_simps [simp]:
  "fst (register_cell e f s) = length (xact_cells s)"
  "xact_cells (snd (register_cell e f s)) = xact_cells s @ [Some f]"
  "SUB_HOOKS (snd (register_cell e f s)) = SUB_HOOKS s" "sub_cells (snd (register_cell e f s)) = sub_cells s"
  "receipts (snd (register_cell e f s)) = receipts s"
  "sub_registered (snd (register_cell e f s)) = sub_registered s"
  "XACT_HOOKS (snd (register_cell e f s)) \<noteq> None"
  by (simp_all add: register_cell_def Let_def)

lemma hooks_at_update [simp]:
  "hooks_at (s\<lparr>xact_cells := c\<rparr>) = hooks_at s" "hooks_at (s\<lparr>effects := x\<rparr>) = hooks_at s"
  "hooks_at (s\<lparr>receipts := r\<rparr>) = hooks_at s" "hooks_at (s\<lparr>sub_cells := d\<rparr>) = hooks_at s"
  "hooks_at (s\<lparr>SUB_HOOKS := h\<rparr>) = hooks_at s" "hooks_at (s\<lparr>sub_registered := n\<rparr>) = hooks_at s"
  "hooks_at (s\<lparr>sub_borrowed := b\<rparr>) = hooks_at s" "hooks_at (s\<lparr>sub_firing := g\<rparr>) = hooks_at s"
  by (simp_all add: hooks_at_def fun_eq_iff)

lemma sub_hooks_at_update [simp]:
  "sub_hooks_at (s\<lparr>xact_cells := c\<rparr>) = sub_hooks_at s" "sub_hooks_at (s\<lparr>effects := x\<rparr>) = sub_hooks_at s"
  "sub_hooks_at (s\<lparr>receipts := r\<rparr>) = sub_hooks_at s" "sub_hooks_at (s\<lparr>sub_cells := d\<rparr>) = sub_hooks_at s"
  "sub_hooks_at (s\<lparr>XACT_HOOKS := h\<rparr>) = sub_hooks_at s"
  "sub_hooks_at (s\<lparr>sub_borrowed := b\<rparr>) = sub_hooks_at s" "sub_hooks_at (s\<lparr>sub_firing := g\<rparr>) = sub_hooks_at s"
  "sub_hooks_at (s\<lparr>SUB_HOOKS := None\<rparr>) e = []"
  by (simp_all add: sub_hooks_at_def fun_eq_iff)

section \<open>How the state evolves while closures run\<close>

text \<open>
  Cells are only added, cells whose receipt was not handed out are left alone, and the hooks of an event
  are extended by new cells only.
\<close>

definition evolves :: "'a xact_state \<Rightarrow> 'a xact_state \<Rightarrow> bool" where
  "evolves s s' \<longleftrightarrow>
     length (xact_cells s) \<le> length (xact_cells s') \<and> length (sub_cells s) \<le> length (sub_cells s')
     \<and> (\<forall>i < length (xact_cells s). i \<notin> set (receipts s) \<longrightarrow> xact_cells s' ! i = xact_cells s ! i)
     \<and> (\<forall>i \<in> set (receipts s'). i \<in> set (receipts s) \<or> length (xact_cells s) \<le> i)
     \<and> (\<forall>e. \<exists>new. hooks_at s' e = hooks_at s e @ new \<and> (\<forall>i \<in> set new. length (xact_cells s) \<le> i))
     \<and> (\<forall>e. \<forall>i \<in> set (sub_hooks_at s' e). i \<in> set (sub_hooks_at s e) \<or> length (sub_cells s) \<le> i)"

lemma evolves_refl [simp]: "evolves s s"
  by (simp add: evolves_def)

lemma evolves_extends:
  assumes "evolves s s'"
  obtains new where "hooks_at s' e = hooks_at s e @ new" "\<forall>i \<in> set new. length (xact_cells s) \<le> i"
  using assms unfolding evolves_def by blast

lemma evolves_hooks:
  assumes "evolves s s'" and "i \<in> set (hooks_at s' e)"
  shows "i \<in> set (hooks_at s e) \<or> length (xact_cells s) \<le> i"
proof -
  obtain new where "hooks_at s' e = hooks_at s e @ new" "\<forall>i \<in> set new. length (xact_cells s) \<le> i"
    using evolves_extends [OF assms(1)] .
  with assms(2) show ?thesis by auto
qed

lemma evolves_trans:
  assumes st: "evolves s t" and tu: "evolves t u"
  shows "evolves s u"
proof -
  have len: "length (xact_cells s) \<le> length (xact_cells t)" "length (xact_cells t) \<le> length (xact_cells u)"
    "length (sub_cells s) \<le> length (sub_cells t)" "length (sub_cells t) \<le> length (sub_cells u)"
    using st tu by (simp_all add: evolves_def)
  have "\<exists>new. hooks_at u e = hooks_at s e @ new \<and> (\<forall>i \<in> set new. length (xact_cells s) \<le> i)" for e
  proof -
    obtain n1 where n1: "hooks_at t e = hooks_at s e @ n1" "\<forall>i \<in> set n1. length (xact_cells s) \<le> i"
      using evolves_extends [OF st] .
    obtain n2 where n2: "hooks_at u e = hooks_at t e @ n2" "\<forall>i \<in> set n2. length (xact_cells t) \<le> i"
      using evolves_extends [OF tu] .
    have "\<forall>i \<in> set (n1 @ n2). length (xact_cells s) \<le> i"
      using n1(2) n2(2) len(1) by (auto intro: le_trans)
    with n1(1) n2(1) show ?thesis by (intro exI [of _ "n1 @ n2"]) simp
  qed
  moreover have "xact_cells u ! i = xact_cells s ! i" if "i < length (xact_cells s)" "i \<notin> set (receipts s)" for i
  proof -
    have "i \<notin> set (receipts t)"
      using st that by (auto simp: evolves_def)
    then show ?thesis
      using st tu that len(1) by (simp add: evolves_def)
  qed
  moreover have "i \<in> set (receipts s) \<or> length (xact_cells s) \<le> i" if "i \<in> set (receipts u)" for i
    using st tu that len(1) unfolding evolves_def by (meson le_trans)
  moreover have "i \<in> set (sub_hooks_at s e) \<or> length (sub_cells s) \<le> i" if "i \<in> set (sub_hooks_at u e)" for i e
    using st tu that len(3) unfolding evolves_def by (meson le_trans)
  ultimately show ?thesis
    using len by (simp add: evolves_def)
qed

lemma evolves_register_cell: "evolves s (snd (register_cell e f s))"
  by (auto simp: evolves_def hooks_at_register nth_append sub_hooks_at_def)

lemma evolves_sub_init: "evolves s (sub_maybe_initialize s)"
proof (cases "SUB_HOOKS s")
  case None
  let ?s1 = "s\<lparr>SUB_HOOKS := Some (\<lambda>_. None), sub_registered := sub_registered s - 1 + 1\<rparr>"
  have "evolves s ?s1"
    using None by (auto simp: evolves_def sub_hooks_at_def hooks_at_def)
  then show ?thesis
    using None evolves_trans [OF _ evolves_trans [OF evolves_register_cell evolves_register_cell]]
    by (simp add: sub_maybe_initialize_def Let_def)
next
  case (Some m)
  then show ?thesis by (simp add: sub_maybe_initialize_def)
qed

lemma sub_init_simps [simp]:
  "sub_cells (sub_maybe_initialize s) = sub_cells s" "SUB_HOOKS (sub_maybe_initialize s) \<noteq> None"
  "receipts (sub_maybe_initialize s) = receipts s" "sub_hooks_at (sub_maybe_initialize s) = sub_hooks_at s"
  by (auto simp: sub_maybe_initialize_def Let_def sub_hooks_at_def fun_eq_iff)

lemma sub_hooks_at_push:
  assumes "SUB_HOOKS s \<noteq> None"
  shows "sub_hooks_at (s\<lparr>SUB_HOOKS := map_option (push_hook e i) (SUB_HOOKS s)\<rparr>) e' =
    sub_hooks_at s e' @ (if e' = e then [i] else [])"
  using assms push_hook_at [of e i _ e'] by (auto simp: sub_hooks_at_def)

lemma evolves_register_sub: "evolves s (snd (register_subxact_callback e f s))"
proof -
  let ?t = "sub_maybe_initialize s"
  have "evolves ?t (snd (register_subxact_callback e f s))"
    by (auto simp: evolves_def register_subxact_callback_def Let_def sub_hooks_at_push split: if_splits)
  with evolves_sub_init show ?thesis
    by (rule evolves_trans)
qed

lemma evolves_register_xact: "evolves s (snd (register_xact_callback e f s))"
proof -
  let ?t = "snd (register_cell e f s)"
  have "snd (register_xact_callback e f s) = ?t\<lparr>receipts := length (xact_cells s) # receipts ?t\<rparr>"
    by (simp add: register_xact_callback_def split_beta)
  then show ?thesis
    using evolves_register_cell [of s e f] by (simp add: evolves_def)
qed

lemma run_op_evolves:
  assumes "run_op x s = (r, s')"
  shows "evolves s s'"
proof (cases x)
  case (Unregister receipt)
  then show ?thesis
    using assms by (auto simp: evolves_def split: if_splits) (metis nth_list_update_neq)
next
  case (RegisterXact e f)
  then show ?thesis
    using assms evolves_register_xact by auto
next
  case (RegisterSub e f)
  then show ?thesis
    using assms evolves_register_sub by (auto split: if_splits)
qed (use assms in \<open>auto simp: evolves_def split: if_splits\<close>)

lemma run_ops_evolves: "run_ops xs s = (r, s') \<Longrightarrow> evolves s s'"
proof (induction xs arbitrary: s)
  case (Cons x xs)
  obtain q t where step: "run_op x s = (q, t)" by fastforce
  then show ?case
    using Cons run_op_evolves [OF step] by (cases q) (auto intro: evolves_trans)
qed simp

section \<open>The invariant of the table\<close>

text \<open>
  The entry point is registered with the server exactly when there is a table; every hook is a cell,
  and no cell is twice in the table.
\<close>

definition table_ok :: "'a xact_state \<Rightarrow> bool" where
  "table_ok s \<longleftrightarrow>
     xact_registered s = (if XACT_HOOKS s = None then 0 else 1)
     \<and> (\<forall>e. distinct (hooks_at s e) \<and> (\<forall>i \<in> set (hooks_at s e). i < length (xact_cells s)))
     \<and> (\<forall>e e'. e \<noteq> e' \<longrightarrow> set (hooks_at s e) \<inter> set (hooks_at s e') = {})
     \<and> (\<forall>e. \<forall>i \<in> set (sub_hooks_at s e). i < length (sub_cells s))
     \<and> (\<forall>i \<in> set (receipts s). i < length (xact_cells s))"

text \<open>
  While there is a table of subtransaction hooks, the closure that clears it waits for the end of the
  transaction: in the given cells, which are about to be run, or both for a commit and for an abort.
\<close>

definition takes :: "'a xact_state \<Rightarrow> nat \<Rightarrow> bool" where
  "takes s i \<longleftrightarrow> i < length (xact_cells s) \<and> xact_cells s ! i = Some [TakeSubHooks] \<and> i \<notin> set (receipts s)"

definition cleared_later :: "nat set \<Rightarrow> 'a xact_state \<Rightarrow> bool" where
  "cleared_later R s \<longleftrightarrow>
     SUB_HOOKS s = None \<or> (\<exists>i \<in> R. takes s i)
     \<or> ((\<exists>i \<in> set (hooks_at s Commit). takes s i) \<and> (\<exists>i \<in> set (hooks_at s Abort). takes s i))"

lemma xact_registered_init:
  "table_ok s \<Longrightarrow> xact_registered (xact_maybe_initialize s) = 1"
  by (auto simp: table_ok_def xact_maybe_initialize_def)

lemma table_ok_register_cell:
  assumes "table_ok s"
  shows "table_ok (snd (register_cell e f s))"
proof -
  let ?t = "snd (register_cell e f s)"
  have reg: "xact_registered ?t = 1"
    using xact_registered_init [OF assms] by (simp add: register_cell_def Let_def)
  have old: "i < length (xact_cells s)" if "i \<in> set (hooks_at s e')" for i e'
    using assms that by (auto simp: table_ok_def)
  have "distinct (hooks_at ?t e')" for e'
    using assms old [of "length (xact_cells s)" e'] by (auto simp: table_ok_def hooks_at_register)
  moreover have "set (hooks_at ?t e1) \<inter> set (hooks_at ?t e2) = {}" if "e1 \<noteq> e2" for e1 e2
  proof -
    have "set (hooks_at s e1) \<inter> set (hooks_at s e2) = {}"
      using assms that by (simp add: table_ok_def)
    then show ?thesis
      using that old [of "length (xact_cells s)" e1] old [of "length (xact_cells s)" e2]
      by (auto simp: hooks_at_register)
  qed
  moreover have "\<forall>i \<in> set (hooks_at ?t e'). i < length (xact_cells ?t)" for e'
    using old [of _ e'] by (auto simp: hooks_at_register less_Suc_eq)
  moreover have "\<forall>i \<in> set (sub_hooks_at ?t e'). i < length (sub_cells ?t)" for e'
    using assms by (simp add: table_ok_def sub_hooks_at_def)
  moreover have "\<forall>i \<in> set (receipts ?t). i < length (xact_cells ?t)"
    using assms by (auto simp: table_ok_def less_Suc_eq)
  ultimately show ?thesis
    unfolding table_ok_def using reg by auto
qed

lemma table_ok_sub_init:
  assumes "table_ok s"
  shows "table_ok (sub_maybe_initialize s)"
proof (cases "SUB_HOOKS s")
  case None
  then have "table_ok (s\<lparr>SUB_HOOKS := Some (\<lambda>_. None), sub_registered := sub_registered s - 1 + 1\<rparr>)"
    using assms by (simp add: table_ok_def sub_hooks_at_def hooks_at_def)
  then show ?thesis
    using None by (simp add: sub_maybe_initialize_def Let_def table_ok_register_cell)
next
  case (Some m)
  then show ?thesis
    using assms by (simp add: sub_maybe_initialize_def)
qed

lemma table_ok_register_sub:
  assumes "table_ok s"
  shows "table_ok (snd (register_subxact_callback e f s))"
proof -
  let ?t = "sub_maybe_initialize s" and ?u = "snd (register_subxact_callback e f s)"
  have t: "table_ok ?t"
    using assms by (rule table_ok_sub_init)
  have u: "?u = ?t\<lparr>SUB_HOOKS := map_option (push_hook e (length (sub_cells s))) (SUB_HOOKS ?t),
      sub_cells := sub_cells s @ [Some f]\<rparr>"
    by (simp add: register_subxact_callback_def Let_def)
  have same: "hooks_at ?u = hooks_at ?t" "xact_cells ?u = xact_cells ?t" "receipts ?u = receipts ?t"
    "XACT_HOOKS ?u = XACT_HOOKS ?t" "xact_registered ?u = xact_registered ?t"
    by (simp_all add: u)
  have "i < length (sub_cells s)" if "i \<in> set (sub_hooks_at s e')" for i e'
    using assms that by (auto simp: table_ok_def)
  then have "i < length (sub_cells ?u)" if "i \<in> set (sub_hooks_at ?u e')" for i e'
    using that by (auto simp: u sub_hooks_at_push less_Suc_eq split: if_splits)
  then show ?thesis
    using t unfolding table_ok_def same by blast
qed

lemma table_ok_run_op:
  assumes "table_ok s" and "run_op x s = (r, s')"
  shows "table_ok s'"
proof (cases x)
  case (RegisterXact e f)
  let ?t = "snd (register_cell e f s)"
  have "s' = ?t\<lparr>receipts := length (xact_cells s) # receipts ?t\<rparr>"
    using assms(2) RegisterXact by (auto simp: register_xact_callback_def split_beta)
  then show ?thesis
    using table_ok_register_cell [OF assms(1), of e f] by (simp add: table_ok_def)
next
  case (RegisterSub e f)
  then show ?thesis
    using assms table_ok_register_sub by (auto split: if_splits)
next
  case TakeSubHooks
  then show ?thesis
    using assms by (clarsimp simp: table_ok_def)
next
  case (Unregister receipt)
  then show ?thesis
    using assms by (clarsimp simp: table_ok_def split: if_splits)
qed (use assms in \<open>(clarsimp simp: table_ok_def split: if_splits)+\<close>)

lemma takes_evolves: "evolves s s' \<Longrightarrow> takes s i \<Longrightarrow> takes s' i"
  by (auto simp: evolves_def takes_def)

lemma hooks_evolve: "evolves s s' \<Longrightarrow> i \<in> set (hooks_at s e) \<Longrightarrow> i \<in> set (hooks_at s' e)"
  by (metis UnCI evolves_extends set_append)

lemma cleared_later_mono:
  assumes "evolves s s'" and "cleared_later R s" and "SUB_HOOKS s \<noteq> None"
  shows "cleared_later R s'"
  using assms takes_evolves [OF assms(1)] hooks_evolve [OF assms(1)] unfolding cleared_later_def by blast

lemma cleared_later_None: "SUB_HOOKS s = None \<Longrightarrow> cleared_later R s"
  by (simp add: cleared_later_def)

text \<open>The first subtransaction hook of a transaction brings the two closures that clear the table.\<close>

lemma cleared_later_sub_init:
  assumes "table_ok s" and "SUB_HOOKS s = None"
  shows "cleared_later R (sub_maybe_initialize s)"
proof -
  let ?t = "sub_maybe_initialize s" and ?n = "length (xact_cells s)"
  have cells: "xact_cells ?t = xact_cells s @ [Some [TakeSubHooks], Some [TakeSubHooks]]"
    using assms(2) by (simp add: sub_maybe_initialize_def Let_def)
  have "?n \<in> set (hooks_at ?t Commit)" "Suc ?n \<in> set (hooks_at ?t Abort)"
    using assms(2) by (simp_all add: sub_maybe_initialize_def Let_def hooks_at_register)
  moreover have "?n \<notin> set (receipts s)" "Suc ?n \<notin> set (receipts s)"
    using assms(1) by (auto simp: table_ok_def)
  then have "takes ?t ?n" "takes ?t (Suc ?n)"
    by (simp_all add: takes_def cells nth_append)
  ultimately show ?thesis
    unfolding cleared_later_def by blast
qed

lemma cleared_later_run_op:
  assumes "table_ok s" and "cleared_later R s" and "run_op x s = (r, s')"
  shows "cleared_later R s'"
proof (cases "SUB_HOOKS s = None")
  case False
  then show ?thesis
    using cleared_later_mono [OF run_op_evolves [OF assms(3)] assms(2)] by blast
next
  case True
  show ?thesis
  proof (cases x)
    case (RegisterXact e f)
    then have "SUB_HOOKS s' = None"
      using assms(3) True by (auto simp: register_xact_callback_def split_beta)
    then show ?thesis by (rule cleared_later_None)
  next
    case (RegisterSub e f)
    let ?t = "sub_maybe_initialize s"
    have "evolves ?t (snd (register_subxact_callback e f s))"
      by (auto simp: evolves_def register_subxact_callback_def Let_def sub_hooks_at_push split: if_splits)
    then have "cleared_later R (snd (register_subxact_callback e f s))"
      using cleared_later_mono [OF _ cleared_later_sub_init [OF assms(1) True]] by simp
    then show ?thesis
      using assms(2,3) RegisterSub by (auto split: if_splits)
  qed (use assms(3) True in \<open>auto intro!: cleared_later_None split: if_splits\<close>)
qed

lemma run_ops_ok:
  assumes "table_ok s" and "run_ops xs s = (r, s')"
  shows "table_ok s' \<and> (cleared_later R s \<longrightarrow> cleared_later R s')"
  using assms
proof (induction xs arbitrary: s)
  case (Cons x xs)
  obtain q t where step: "run_op x s = (q, t)" by fastforce
  have "table_ok t" "cleared_later R s \<longrightarrow> cleared_later R t"
    using table_ok_run_op [OF Cons.prems(1) step] cleared_later_run_op [OF Cons.prems(1) _ step] by blast+
  then show ?case
    using Cons.IH [of t] Cons.prems(2) step by (cases q) auto
qed simp

section \<open>Running the hooks of an event\<close>

text \<open>The hooks that are about to be run are cells that are no longer in the table.\<close>

definition detached :: "nat list \<Rightarrow> 'a xact_state \<Rightarrow> bool" where
  "detached hooks s \<longleftrightarrow>
     table_ok s \<and> distinct hooks \<and> (\<forall>i \<in> set hooks. i < length (xact_cells s) \<and> (\<forall>e. i \<notin> set (hooks_at s e)))"

text \<open>Taking the next closure out and running it.\<close>

lemma detached_step:
  assumes "detached (hook # hooks) s" and "run_ops f (s\<lparr>xact_cells := (xact_cells s)[hook := None]\<rparr>) = (r, t)"
  shows "detached hooks t" and "cleared_later {} s \<Longrightarrow> cleared_later {} t"
    and "\<forall>i \<in> set hooks. takes s i \<longrightarrow> takes t i"
    and "\<not> takes s hook \<Longrightarrow> cleared_later (set (hook # hooks)) s \<Longrightarrow> cleared_later (set hooks) t"
    and "evolves (s\<lparr>xact_cells := (xact_cells s)[hook := None]\<rparr>) t"
proof -
  let ?s0 = "s\<lparr>xact_cells := (xact_cells s)[hook := None]\<rparr>"
  show ev: "evolves ?s0 t"
    using assms(2) by (rule run_ops_evolves)
  have ok0: "table_ok ?s0"
    using assms(1) by (simp add: detached_def table_ok_def)
  have takes0: "takes ?s0 i" if "takes s i" "i \<noteq> hook" for i
    using that by (simp add: takes_def)
  have notin: "hook \<notin> set (hooks_at s e)" for e
    using assms(1) by (simp add: detached_def)
  have "i < length (xact_cells t) \<and> (\<forall>e. i \<notin> set (hooks_at t e))" if "i \<in> set hooks" for i
  proof -
    have i: "i < length (xact_cells s)" "\<forall>e. i \<notin> set (hooks_at s e)"
      using assms(1) that by (auto simp: detached_def)
    then have "i \<notin> set (hooks_at t e)" for e
      using evolves_hooks [OF ev, of i e] by auto
    then show ?thesis
      using i(1) ev by (auto simp: evolves_def)
  qed
  then show "detached hooks t"
    using assms(1) run_ops_ok [OF ok0 assms(2)] by (simp add: detached_def)
  have normal: "\<exists>i \<in> set (hooks_at ?s0 e). takes ?s0 i" if "\<exists>i \<in> set (hooks_at s e). takes s i" for e
    using that takes0 notin by fastforce
  show "cleared_later {} t" if "cleared_later {} s"
  proof -
    have "cleared_later {} ?s0"
      using that normal by (auto simp: cleared_later_def)
    then show ?thesis
      using run_ops_ok [OF ok0 assms(2)] by blast
  qed
  show "\<forall>i \<in> set hooks. takes s i \<longrightarrow> takes t i"
    using takes0 takes_evolves [OF ev] assms(1) by (auto simp: detached_def)
  show "cleared_later (set hooks) t" if "\<not> takes s hook" "cleared_later (set (hook # hooks)) s"
  proof -
    have "cleared_later (set hooks) ?s0"
      using that normal by (auto simp: cleared_later_def) (metis takes0)+
    then show ?thesis
      using run_ops_ok [OF ok0 assms(2)] by blast
  qed
qed

text \<open>Running a list of detached hooks.\<close>

lemma run_hooks_ok:
  assumes "detached hooks s" and "run_hooks hooks s = (r, s')"
  shows "table_ok s'" and "cleared_later {} s \<Longrightarrow> cleared_later {} s'"
    and "r = None \<Longrightarrow> cleared_later (set hooks) s \<Longrightarrow> cleared_later {} s'"
    and "length (xact_cells s) \<le> length (xact_cells s')" and "length (sub_cells s) \<le> length (sub_cells s')"
    and "i \<in> set (hooks_at s' e) \<Longrightarrow> i \<in> set (hooks_at s e) \<or> length (xact_cells s) \<le> i"
proof -
  have "table_ok s' \<and> (cleared_later {} s \<longrightarrow> cleared_later {} s')
      \<and> (r = None \<longrightarrow> cleared_later (set hooks) s \<longrightarrow> cleared_later {} s')
      \<and> length (xact_cells s) \<le> length (xact_cells s') \<and> length (sub_cells s) \<le> length (sub_cells s')
      \<and> (\<forall>e. \<forall>i \<in> set (hooks_at s' e). i \<in> set (hooks_at s e) \<or> length (xact_cells s) \<le> i)"
    (is "?P hooks s s'")
    using assms
  proof (induction hooks arbitrary: s)
    case Nil
    then show ?case by (simp add: detached_def)
  next
    case (Cons hook hooks)
    show ?case
    proof (cases "xact_cells s ! hook")
      case None
      then have "detached hooks s" "run_hooks hooks s = (r, s')" "\<not> takes s hook"
        using Cons.prems by (simp_all add: detached_def takes_def)
      moreover have "cleared_later (set (hook # hooks)) s \<Longrightarrow> cleared_later (set hooks) s"
        using \<open>\<not> takes s hook\<close> by (auto simp: cleared_later_def)
      ultimately show ?thesis
        using Cons.IH [of s] by blast
    next
      case (Some f)
      let ?s0 = "s\<lparr>xact_cells := (xact_cells s)[hook := None]\<rparr>"
      obtain q t where run: "run_ops f ?s0 = (q, t)" by fastforce
      note step = detached_step [OF Cons.prems(1) run]
      have ev: "length (xact_cells s) \<le> length (xact_cells t)" "length (sub_cells s) \<le> length (sub_cells t)"
        using step(5) by (simp_all add: evolves_def)
      have hooks: "i \<in> set (hooks_at s e) \<or> length (xact_cells s) \<le> i" if "i \<in> set (hooks_at t e)" for i e
        using evolves_hooks [OF step(5) that] by simp
      have cover: "cleared_later (set hooks) t" if "q = None" "cleared_later (set (hook # hooks)) s"
      proof (cases "takes s hook")
        case True
        then have "SUB_HOOKS t = None"
          using run Some by (auto simp: takes_def)
        then show ?thesis by (rule cleared_later_None)
      qed (use step(4) that in blast)
      show ?thesis
      proof (cases q)
        case None
        then have "?P hooks t s'"
          using Cons.IH [OF step(1)] Cons.prems(2) Some run by simp
        then show ?thesis
          using ev hooks cover step(2) None by (meson le_trans)
      next
        case (Some p)
        then have "s' = t" "r = Some p"
          using Cons.prems(2) \<open>xact_cells s ! hook = Some f\<close> run by simp_all
        then show ?thesis
          using step(1,2) ev hooks by (simp add: detached_def)
      qed
    qed
  qed
  then show "table_ok s'" "cleared_later {} s \<Longrightarrow> cleared_later {} s'"
    "r = None \<Longrightarrow> cleared_later (set hooks) s \<Longrightarrow> cleared_later {} s'"
    "length (xact_cells s) \<le> length (xact_cells s')" "length (sub_cells s) \<le> length (sub_cells s')"
    "i \<in> set (hooks_at s' e) \<Longrightarrow> i \<in> set (hooks_at s e) \<or> length (xact_cells s) \<le> i"
    by blast+
qed

text \<open>
  When a closure that clears the table of subtransaction hooks is among them, only hooks that were
  registered meanwhile are left.
\<close>

lemma run_hooks_clear_subs:
  assumes "detached hooks s" and "run_hooks hooks s = (None, s')" and "n \<le> length (sub_cells s)"
    and "(\<exists>i \<in> set hooks. takes s i) \<or> (\<forall>e. \<forall>i \<in> set (sub_hooks_at s e). n \<le> i)"
  shows "\<forall>e. \<forall>i \<in> set (sub_hooks_at s' e). n \<le> i"
  using assms
proof (induction hooks arbitrary: s)
  case (Cons hook hooks)
  show ?case
  proof (cases "xact_cells s ! hook")
    case None
    then have "detached hooks s" "\<not> takes s hook"
      using Cons.prems(1) by (simp_all add: detached_def takes_def)
    then show ?thesis
      using Cons.IH [of s] Cons.prems None by auto
  next
    case (Some f)
    obtain t where run: "run_ops f (s\<lparr>xact_cells := (xact_cells s)[hook := None]\<rparr>) = (None, t)"
      and rest: "run_hooks hooks t = (None, s')"
      using Cons.prems(2) Some by (auto split: prod.splits option.splits)
    note step = detached_step [OF Cons.prems(1) run]
    have n: "n \<le> length (sub_cells t)"
      using step(5) Cons.prems(3) by (simp add: evolves_def)
    have "(\<exists>i \<in> set hooks. takes t i) \<or> (\<forall>e. \<forall>i \<in> set (sub_hooks_at t e). n \<le> i)"
    proof (cases "takes s hook")
      case True
      then have "SUB_HOOKS t = None"
        using run Some by (auto simp: takes_def)
      then show ?thesis by (simp add: sub_hooks_at_def)
    next
      case False
      then show ?thesis
        using Cons.prems(3,4) step(3,5) by (fastforce simp: evolves_def)
    qed
    then show ?thesis
      using Cons.IH [OF step(1) rest n] by blast
  qed
qed simp

section \<open>Events of the server\<close>

text \<open>The state in which the hooks of an event are run, their entries taken out of the table.\<close>

definition taken_out :: "PgXactCallbackEvent \<Rightarrow> 'a xact_state \<Rightarrow> 'a xact_state" where
  "taken_out e s =
     (if transaction_end e then s\<lparr>XACT_HOOKS := Some (\<lambda>_. None)\<rparr>
      else s\<lparr>XACT_HOOKS := map_option (\<lambda>m. m(e := None)) (XACT_HOOKS s)\<rparr>)"

lemma taken_out_simps [simp]:
  "xact_cells (taken_out e s) = xact_cells s" "sub_cells (taken_out e s) = sub_cells s"
  "receipts (taken_out e s) = receipts s" "SUB_HOOKS (taken_out e s) = SUB_HOOKS s"
  "effects (taken_out e s) = effects s" "takes (taken_out e s) = takes s"
  "sub_hooks_at (taken_out e s) = sub_hooks_at s"
  by (simp_all add: taken_out_def takes_def fun_eq_iff)

lemma hooks_at_taken_out:
  assumes "XACT_HOOKS s \<noteq> None"
  shows "hooks_at (taken_out e s) e' = (if transaction_end e \<or> e' = e then [] else hooks_at s e')"
  using assms by (auto simp: taken_out_def hooks_at_def)

lemma detached_taken_out:
  assumes "table_ok s" and "XACT_HOOKS s \<noteq> None"
  shows "detached (hooks_at s e) (taken_out e s)"
proof -
  have "table_ok (taken_out e s)"
    unfolding table_ok_def hooks_at_taken_out [OF assms(2)] taken_out_simps
    using assms by (auto simp: table_ok_def taken_out_def)
  moreover have "i \<notin> set (hooks_at (taken_out e s) e')" if "i \<in> set (hooks_at s e)" for i e'
  proof (cases "transaction_end e \<or> e' = e")
    case False
    then have "e \<noteq> e'" by auto
    then have "set (hooks_at s e) \<inter> set (hooks_at s e') = {}"
      using assms(1) by (simp add: table_ok_def)
    with that show ?thesis
      using assms(2) by (auto simp: hooks_at_taken_out)
  qed (use assms(2) in \<open>simp add: hooks_at_taken_out\<close>)
  ultimately show ?thesis
    using assms(1) by (auto simp: detached_def table_ok_def)
qed

lemma xact_callback_run:
  assumes "XACT_HOOKS s \<noteq> None" and "translate_pg_event event = Some e"
  shows "xact_callback event s = run_hooks (hooks_at s e) (taken_out e s)"
  using assms by (auto simp: xact_callback_def taken_out_def hooks_at_def Let_def split: option.split)

lemma fire_xact_run:
  assumes "table_ok s" and "translate_pg_event event = Some e"
  shows "fire_xact event s =
    (if XACT_HOOKS s = None then (None, s) else run_hooks (hooks_at s e) (taken_out e s))"
proof (cases "XACT_HOOKS s")
  case None
  then show ?thesis
    using assms(1) by (simp add: fire_xact_def table_ok_def)
next
  case (Some m)
  have once: "times_run 1 f s = f s" for f :: "'a xact_run" and s
    by (simp split: prod.split option.split)
  have "xact_registered s = 1"
    using assms(1) Some by (simp add: table_ok_def)
  then show ?thesis
    using Some xact_callback_run [OF _ assms(2), of s] by (simp only: fire_xact_def once) simp
qed

lemma cleared_later_taken_out:
  assumes "XACT_HOOKS s \<noteq> None" and "cleared_later {} s"
  shows "e \<in> {Commit, Abort} \<Longrightarrow> cleared_later (set (hooks_at s e)) (taken_out e s)"
    and "e \<in> {PreCommit, PrePrepare, Prepare} \<Longrightarrow> cleared_later {} (taken_out e s)"
proof -
  show "cleared_later (set (hooks_at s e)) (taken_out e s)" if "e \<in> {Commit, Abort}"
    using assms that by (auto simp: cleared_later_def)
  show "cleared_later {} (taken_out e s)" if "e \<in> {PreCommit, PrePrepare, Prepare}"
    using assms that by (auto simp: cleared_later_def hooks_at_taken_out transaction_end_def)
qed

text \<open>Subtransaction hooks.\<close>

lemma ok_sub_fields [simp]:
  "table_ok (s\<lparr>sub_borrowed := b\<rparr>) = table_ok s" "table_ok (s\<lparr>sub_firing := g\<rparr>) = table_ok s"
  "cleared_later R (s\<lparr>sub_borrowed := b\<rparr>) = cleared_later R s"
  "cleared_later R (s\<lparr>sub_firing := g\<rparr>) = cleared_later R s"
  by (simp_all add: table_ok_def cleared_later_def takes_def)

lemma run_sub_hooks_ok:
  assumes "table_ok s \<and> cleared_later {} s" and "run_sub_hooks my_subid parent_subid hooks s = (r, s')"
  shows "table_ok s' \<and> cleared_later {} s'"
  using assms
proof (induction hooks arbitrary: s)
  case (Cons hook hooks)
  show ?case
  proof (cases "sub_cells s ! hook")
    case None
    then show ?thesis
      using Cons.IH [OF Cons.prems(1)] Cons.prems(2) by simp
  next
    case (Some f)
    obtain q t where run: "run_ops (f my_subid parent_subid) (s\<lparr>sub_borrowed := hook # sub_borrowed s\<rparr>) = (q, t)"
      by fastforce
    have t: "table_ok t \<and> cleared_later {} t"
      using run_ops_ok [OF _ run, of "{}"] Cons.prems(1) by simp
    then show ?thesis
      using Cons.IH [of "t\<lparr>sub_borrowed := sub_borrowed s\<rparr>"] Cons.prems(2) Some run by (cases q) auto
  qed
qed simp

lemma fire_subxact_ok:
  assumes "table_ok s \<and> cleared_later {} s" and "fire_subxact event my_subid parent_subid s = (r, s')"
  shows "table_ok s' \<and> cleared_later {} s'"
proof -
  have one: "table_ok u \<and> cleared_later {} u"
    if "table_ok t \<and> cleared_later {} t" "subxact_callback event my_subid parent_subid t = (q, u)" for t u q
  proof -
    have run: "table_ok v \<and> cleared_later {} v"
      if "run_sub_hooks my_subid parent_subid hooks (t\<lparr>sub_firing := e # sub_firing t\<rparr>) = (p, v)" for hooks e p v
      using run_sub_hooks_ok [OF _ that] \<open>table_ok t \<and> cleared_later {} t\<close> by simp
    show ?thesis
      using that run by (auto simp: subxact_callback_def Let_def split: option.splits prod.splits)
  qed
  have "table_ok u \<and> cleared_later {} u"
    if "table_ok t \<and> cleared_later {} t" "times_run n (subxact_callback event my_subid parent_subid) t = (q, u)"
    for n t u q
    using that
  proof (induction n arbitrary: t)
    case (Suc n)
    obtain p v where "subxact_callback event my_subid parent_subid t = (p, v)" by fastforce
    then show ?case
      using Suc one [of t p v] by (cases p) auto
  qed simp
  then show ?thesis
    using assms by (auto simp: fire_subxact_def)
qed

section \<open>Reachable states\<close>

lemma backend_step_ok:
  assumes "backend_step s s'" and "table_ok s \<and> cleared_later {} s"
  shows "table_ok s' \<and> cleared_later {} s'"
  using assms(1)
proof cases
  case (user ops r)
  then show ?thesis
    using run_ops_ok [OF _ user(1), of "{}"] assms(2) by blast
next
  case (before_end event e r)
  show ?thesis
  proof (cases "XACT_HOOKS s = None")
    case False
    then have run: "run_hooks (hooks_at s e) (taken_out e s) = (r, s')"
      using before_end fire_xact_run [of s event e] assms(2) by auto
    show ?thesis
      using run_hooks_ok(1,2) [OF detached_taken_out run] cleared_later_taken_out(2) [OF False] assms(2) before_end(2) False
      by blast
  qed (use before_end fire_xact_run [of s event e] assms(2) in simp)
next
  case (end_of event e)
  show ?thesis
  proof (cases "XACT_HOOKS s = None")
    case False
    then have run: "run_hooks (hooks_at s e) (taken_out e s) = (None, s')"
      using end_of fire_xact_run [of s event e] assms(2) by auto
    show ?thesis
      using run_hooks_ok(1,3) [OF detached_taken_out run] cleared_later_taken_out(1) [OF False] assms(2) end_of(2) False
      by blast
  qed (use end_of fire_xact_run [of s event e] assms(2) in simp)
next
  case (sub event my_subid parent_subid r)
  then show ?thesis
    using fire_subxact_ok [OF assms(2)] by blast
qed

lemma reachable_ok: "reachable_backend s \<Longrightarrow> table_ok s \<and> cleared_later {} s"
proof (induction rule: reachable_backend.induct)
  case start
  show ?case
    by (simp add: table_ok_def cleared_later_def backend_start_def hooks_at_def sub_hooks_at_def)
qed (rule backend_step_ok)

section \<open>Closures that leave the tables alone\<close>

fun calm_op :: "'a hook_op \<Rightarrow> bool" where
  "calm_op (Emit a) = True"
| "calm_op TakeSubHooks = True"
| "calm_op _ = False"

fun emits_op :: "'a hook_op \<Rightarrow> 'a list" where
  "emits_op (Emit a) = [a]"
| "emits_op _ = []"

definition emitted :: "'a hook_op list \<Rightarrow> 'a list" where
  "emitted f = concat (map emits_op f)"

lemma run_ops_calm:
  assumes "list_all calm_op f"
  shows "\<exists>s'. run_ops f s = (None, s') \<and> effects s' = effects s @ emitted f \<and> xact_cells s' = xact_cells s
    \<and> XACT_HOOKS s' = XACT_HOOKS s"
  using assms
proof (induction f arbitrary: s)
  case (Cons x f)
  then show ?case
    using Cons.IH [of "s\<lparr>effects := effects s @ [_]\<rparr>"] Cons.IH [of "s\<lparr>SUB_HOOKS := None\<rparr>"]
    by (cases x) (auto simp: emitted_def)
qed (simp add: emitted_def)

lemma run_hooks_calm:
  assumes "detached hooks s" and "\<forall>f \<in> set (List.map_filter (\<lambda>i. xact_cells s ! i) hooks). list_all calm_op f"
  shows "\<exists>s'. run_hooks hooks s = (None, s')
    \<and> effects s' = effects s @ concat (map emitted (List.map_filter (\<lambda>i. xact_cells s ! i) hooks))
    \<and> XACT_HOOKS s' = XACT_HOOKS s \<and> (\<forall>i. i \<notin> set hooks \<longrightarrow> xact_cells s' ! i = xact_cells s ! i)"
  using assms
proof (induction hooks arbitrary: s)
  case (Cons hook hooks)
  show ?case
  proof (cases "xact_cells s ! hook")
    case None
    then show ?thesis
      using Cons.IH [of s] Cons.prems by (auto simp: detached_def)
  next
    case (Some f)
    let ?s0 = "s\<lparr>xact_cells := (xact_cells s)[hook := None]\<rparr>"
    obtain t where t: "run_ops f ?s0 = (None, t)" "effects t = effects s @ emitted f"
        "xact_cells t = (xact_cells s)[hook := None]" "XACT_HOOKS t = XACT_HOOKS s"
      using run_ops_calm [of f ?s0] Cons.prems(2) Some by auto
    have same: "List.map_filter (\<lambda>i. xact_cells t ! i) hooks = List.map_filter (\<lambda>i. xact_cells s ! i) hooks"
      unfolding t(3) using Cons.prems(1)
      by (intro map_filter_same) (metis detached_def distinct.simps(2) nth_list_update_neq)
    obtain s' where "run_hooks hooks t = (None, s')"
        "effects s' = effects t @ concat (map emitted (List.map_filter (\<lambda>i. xact_cells s ! i) hooks))"
        "XACT_HOOKS s' = XACT_HOOKS t" "\<forall>i. i \<notin> set hooks \<longrightarrow> xact_cells s' ! i = xact_cells t ! i"
      using Cons.IH [OF detached_step(1) [OF Cons.prems(1) t(1)]] Cons.prems(2) Some same by auto
    then show ?thesis
      using t Some by auto
  qed
qed simp

text \<open>An event whose callbacks are all calm.\<close>

lemma fire_calm:
  assumes "table_ok s" and "translate_pg_event event = Some e" and "\<forall>f \<in> set (pending s e). list_all calm_op f"
  shows "\<exists>s'. fire_xact event s = (None, s') \<and> table_ok s'
    \<and> effects s' = effects s @ concat (map emitted (pending s e))
    \<and> (\<forall>e'. pending s' e' = (if transaction_end e \<or> e' = e then [] else pending s e'))"
proof (cases "XACT_HOOKS s = None")
  case True
  then show ?thesis
    using fire_xact_run [OF assms(1,2)] assms(1) by (simp add: pending_def hooks_at_def)
next
  case False
  have det: "detached (hooks_at s e) (taken_out e s)"
    using detached_taken_out [OF assms(1) False] .
  obtain s' where s': "run_hooks (hooks_at s e) (taken_out e s) = (None, s')"
      "effects s' = effects s @ concat (map emitted (pending s e))" "XACT_HOOKS s' = XACT_HOOKS (taken_out e s)"
      "\<forall>i. i \<notin> set (hooks_at s e) \<longrightarrow> xact_cells s' ! i = xact_cells s ! i"
    using run_hooks_calm [OF det] assms(3) by (auto simp: pending_def)
  have at: "hooks_at s' = hooks_at (taken_out e s)"
    by (simp add: hooks_at_def s'(3) fun_eq_iff)
  have "pending s' e' = (if transaction_end e \<or> e' = e then [] else pending s e')" for e'
  proof (cases "transaction_end e \<or> e' = e")
    case True
    then show ?thesis
      using False by (simp add: pending_def at hooks_at_taken_out)
  next
    case other: False
    then have "e \<noteq> e'" by auto
    then have "set (hooks_at s e) \<inter> set (hooks_at s e') = {}"
      using assms(1) by (simp add: table_ok_def)
    then have "List.map_filter (\<lambda>i. xact_cells s' ! i) (hooks_at s e') = pending s e'"
      unfolding pending_def using s'(4) by (intro map_filter_same) auto
    then show ?thesis
      using other False by (simp add: pending_def at hooks_at_taken_out)
  qed
  then show ?thesis
    using False fire_xact_run [OF assms(1,2)] s' run_hooks_ok(1) [OF det s'(1)] by auto
qed

lemma pending_register:
  assumes "table_ok s"
  shows "pending (snd (register_xact_callback e f s)) e' = pending s e' @ (if e' = e then [f] else [])"
proof -
  let ?t = "snd (register_cell e f s)"
  have "List.map_filter (\<lambda>i. (xact_cells s @ [Some f]) ! i) (hooks_at s e') = pending s e'"
    unfolding pending_def using assms by (intro map_filter_same) (auto simp: table_ok_def nth_append)
  then have "pending ?t e' = pending s e' @ (if e' = e then [f] else [])"
    by (simp add: pending_def hooks_at_register map_filter_def)
  then show ?thesis
    by (simp add: register_xact_callback_def split_beta pending_def)
qed

lemma register_xact_callback_eq:
  "register_xact_callback e f s =
     (length (xact_cells s), (snd (register_cell e f s))\<lparr>receipts := length (xact_cells s) # receipts s\<rparr>)"
  by (simp add: register_xact_callback_def split_beta)

lemma pending_unregister:
  assumes "table_ok s"
  shows "pending (snd (run_op (Unregister (fst (register_xact_callback e f s)))
    (snd (register_xact_callback e f s)))) e' = pending s e'"
proof -
  have "List.map_filter (\<lambda>i. (xact_cells s @ [None]) ! i) (hooks_at s e') = pending s e'"
    unfolding pending_def using assms by (intro map_filter_same) (auto simp: table_ok_def nth_append)
  then show ?thesis
    by (simp add: register_xact_callback_eq pending_def hooks_at_register map_filter_def)
qed

lemma run_ops_no_expect: "fst (run_ops f s) \<noteq> Some HooksWereNone"
proof (induction f arbitrary: s)
  case (Cons x f)
  have "fst (run_op x s) \<noteq> Some HooksWereNone"
    by (cases x) auto
  then show ?case
    using Cons.IH by (auto split: prod.split option.split)
qed simp

lemma run_hooks_no_expect: "fst (run_hooks hooks s) \<noteq> Some HooksWereNone"
proof (induction hooks arbitrary: s)
  case (Cons hook hooks)
  have "q \<noteq> Some HooksWereNone" if "run_ops f t = (q, u)" for f t q and u :: "'a xact_state"
    using run_ops_no_expect [of f t] that by simp
  then show ?case
    using Cons.IH by (auto split: prod.split option.split)
qed simp

section \<open>Properties\<close>

text \<open>
  C25. Callbacks end with their transaction. In every state that a backend can reach, whatever closures
  were registered, run and given back before, the entry point is registered with the server exactly when
  there is a table, so that the two \<open>expect\<close>s never fail. When a commit or an abort has been announced,
  no callback that was registered before is left in the table, even when a callback panicked; and when
  none panicked, no subtransaction callback that was registered before is left either. What the tables
  still hold was registered by the callbacks while they ran.
\<close>

theorem callbacks_end_with_transaction:
  assumes "reachable_backend s" and "translate_pg_event event = Some e" and "e \<in> {Commit, Abort}"
    and "fire_xact event s = (r, s')"
  shows "r \<noteq> Some HooksWereNone \<and> (xact_registered s = (if XACT_HOOKS s = None then 0 else 1))
    \<and> (\<forall>e'. \<forall>i \<in> set (hooks_at s' e'). length (xact_cells s) \<le> i)
    \<and> (r = None \<longrightarrow> (\<forall>e'. \<forall>i \<in> set (sub_hooks_at s' e'). length (sub_cells s) \<le> i))"
proof (cases "XACT_HOOKS s = None")
  case True
  have ok: "table_ok s" "cleared_later {} s"
    using reachable_ok [OF assms(1)] by simp_all
  then have "SUB_HOOKS s = None"
    using True by (simp add: cleared_later_def hooks_at_def)
  then show ?thesis
    using fire_xact_run [OF ok(1) assms(2)] assms(4) ok(1) True
    by (auto simp: hooks_at_def sub_hooks_at_def table_ok_def)
next
  case False
  have ok: "table_ok s" "cleared_later {} s"
    using reachable_ok [OF assms(1)] by simp_all
  have run: "run_hooks (hooks_at s e) (taken_out e s) = (r, s')"
    using fire_xact_run [OF ok(1) assms(2)] assms(4) False by simp
  note det = detached_taken_out [OF ok(1) False, of e]
  have "transaction_end e"
    using assms(3) by (auto simp: transaction_end_def)
  then have hooks: "length (xact_cells s) \<le> i" if "i \<in> set (hooks_at s' e')" for i e'
    using run_hooks_ok(6) [OF det run that] False by (simp add: hooks_at_taken_out)
  have "length (sub_cells s) \<le> i" if "r = None" "i \<in> set (sub_hooks_at s' e')" for i e'
  proof -
    have "(\<exists>i \<in> set (hooks_at s e). takes s i) \<or> (\<forall>e. \<forall>i \<in> set (sub_hooks_at s e). length (sub_cells s) \<le> i)"
      using ok(2) assms(3) by (auto simp: cleared_later_def sub_hooks_at_def)
    then show ?thesis
      using run_hooks_clear_subs [OF det, of s' "length (sub_cells s)"] run that by simp
  qed
  moreover have "r \<noteq> Some HooksWereNone"
    using run_hooks_no_expect [of "hooks_at s e" "taken_out e s"] run by simp
  ultimately show ?thesis
    using hooks ok(1) by (simp add: table_ok_def)
qed

text \<open>A backend in which one commit callback and one subtransaction callback were registered.\<close>

definition demo_ops :: "string hook_op list" where
  "demo_ops = [RegisterXact Commit [Emit ''a''], RegisterSub StartSub (\<lambda>_ _. [Emit ''sub'']),
     RegisterXact PreCommit [Emit ''b''], RegisterXact Commit [Emit ''c''], Emit ''d'']"

definition demo_state :: "string xact_state" where
  "demo_state = snd (run_ops demo_ops backend_start)"

lemmas demo_eval = demo_state_def demo_ops_def backend_start_def register_xact_callback_def register_cell_def
  register_subxact_callback_def sub_maybe_initialize_def xact_maybe_initialize_def push_hook_def Let_def
  pending_def hooks_at_def map_filter_def

lemma demo_reachable: "reachable_backend demo_state"
proof -
  have run: "run_ops demo_ops backend_start = (None, demo_state)"
    by (simp add: demo_eval)
  show ?thesis
    by (rule reachable_backend.step [OF reachable_backend.start backend_step.user [OF run]]) simp
qed

lemma demo_commit:
  "\<exists>s'. fire_xact 0 demo_state = (None, s') \<and> length (xact_cells s') = 5 \<and> effects s' = [''d'', ''a'', ''c'']"
  by (simp add: fire_xact_def xact_callback_def transaction_end_def translate_pg_event_def demo_eval)

theorem callbacks_end_with_transaction_witness:
  "\<exists>s'. fire_xact 0 demo_state = (None, s') \<and> effects s' = [''d'', ''a'', ''c''] \<and> hooks_at s' PreCommit = []"
proof -
  have tr: "translate_pg_event 0 = Some Commit"
    by (simp add: translate_pg_event_def)
  obtain s' where s': "fire_xact 0 demo_state = (None, s')" "length (xact_cells s') = 5"
      "effects s' = [''d'', ''a'', ''c'']"
    using demo_commit by blast
  have "length (xact_cells demo_state) = 5"
    by (simp add: demo_eval)
  then have "\<forall>i \<in> set (hooks_at s' PreCommit). 5 \<le> i"
    using callbacks_end_with_transaction [OF demo_reachable tr _ s'(1)] by simp
  moreover have "table_ok s'"
    using reachable_ok [OF reachable_backend.step [OF demo_reachable backend_step.end_of [OF tr _ s'(1)]]] by simp
  then have "\<forall>i \<in> set (hooks_at s' PreCommit). i < 5"
    using s'(2) by (simp add: table_ok_def)
  ultimately have "hooks_at s' PreCommit = []"
    by (cases "hooks_at s' PreCommit") auto
  then show ?thesis
    using s' by blast
qed

text \<open>
  C26. Callbacks run once and in the order of their registration. Registering a closure puts it behind
  those that wait for the same event and leaves the other events alone; giving the receipt back takes
  exactly it out again. When an event is announced and its closures only have effects outside, they have
  their effects one after the other in that order, none is left waiting, and the closures that wait for
  other events are untouched, unless the event ends the transaction, after which nothing waits.
\<close>

theorem callbacks_run_in_order:
  assumes "reachable_backend s" and "translate_pg_event event = Some e"
    and "\<forall>f \<in> set (pending s e). list_all calm_op f"
  shows "pending (snd (register_xact_callback e1 g s)) e2 = pending s e2 @ (if e2 = e1 then [g] else [])
    \<and> pending (snd (run_op (Unregister (fst (register_xact_callback e1 g s)))
        (snd (register_xact_callback e1 g s)))) e2 = pending s e2
    \<and> (\<exists>s'. fire_xact event s = (None, s') \<and> effects s' = effects s @ concat (map emitted (pending s e))
        \<and> pending s' e2 = (if transaction_end e \<or> e2 = e then [] else pending s e2))"
proof -
  have ok: "table_ok s"
    using reachable_ok [OF assms(1)] by simp
  show ?thesis
    using pending_register [OF ok, of e1 g e2] pending_unregister [OF ok, of e1 g e2]
      fire_calm [OF ok assms(2,3)] by blast
qed

theorem callbacks_run_in_order_witness:
  "pending demo_state PreCommit = [[Emit ''b'']]
    \<and> (\<exists>s'. fire_xact 5 demo_state = (None, s') \<and> effects s' = [''d'', ''b''] \<and> pending s' PreCommit = [])"
proof -
  have tr: "translate_pg_event 5 = Some PreCommit"
    by (simp add: translate_pg_event_def)
  have p: "pending demo_state PreCommit = [[Emit ''b'']]" "effects demo_state = [''d'']"
    by (simp_all add: demo_eval)
  then show ?thesis
    using callbacks_run_in_order [OF demo_reachable tr, of Commit "[]" PreCommit] by (auto simp: emitted_def)
qed

text \<open>
  C27. A prepared transaction does not end its callbacks. After the closures of a transaction were
  registered, the transaction is prepared for a two-phase commit, which the server announces with
  \<open>PrePrepare\<close> and \<open>Prepare\<close> only. The closures that wait for a commit stay in the table, and run when
  the next transaction of the backend commits.
\<close>

theorem prepared_transaction_keeps_callbacks:
  assumes "reachable_backend s"
    and "pending s PrePrepare = []" "pending s Prepare = []" "pending s PreCommit = []"
    and "\<forall>f \<in> set (pending s Commit). list_all calm_op f"
  shows "\<exists>s1 s2 s3 s4. fire_xact 7 s = (None, s1) \<and> fire_xact 4 s1 = (None, s2)
    \<and> pending s2 Commit = pending s Commit
    \<and> fire_xact 5 s2 = (None, s3) \<and> fire_xact 0 s3 = (None, s4)
    \<and> effects s4 = effects s @ concat (map emitted (pending s Commit))"
proof -
  have tr: "translate_pg_event 7 = Some PrePrepare" "translate_pg_event 4 = Some Prepare"
    "translate_pg_event 5 = Some PreCommit" "translate_pg_event 0 = Some Commit"
    by (simp_all add: translate_pg_event_def)
  have no_end: "\<not> transaction_end PrePrepare" "\<not> transaction_end Prepare" "\<not> transaction_end PreCommit"
    by (simp_all add: transaction_end_def)
  have ok: "table_ok s"
    using reachable_ok [OF assms(1)] by simp
  obtain s1 where s1: "fire_xact 7 s = (None, s1)" "table_ok s1" "effects s1 = effects s"
      "\<forall>e. pending s1 e = (if e = PrePrepare then [] else pending s e)"
    using fire_calm [OF ok tr(1)] assms(2) no_end by auto
  obtain s2 where s2: "fire_xact 4 s1 = (None, s2)" "table_ok s2" "effects s2 = effects s"
      "\<forall>e. pending s2 e = (if e = Prepare then [] else pending s1 e)"
    using fire_calm [OF s1(2) tr(2)] assms(3) s1 no_end by auto
  obtain s3 where s3: "fire_xact 5 s2 = (None, s3)" "table_ok s3" "effects s3 = effects s"
      "\<forall>e. pending s3 e = (if e = PreCommit then [] else pending s2 e)"
    using fire_calm [OF s2(2) tr(3)] assms(4) s1 s2 no_end by auto
  have same: "pending s2 Commit = pending s Commit" "pending s3 Commit = pending s Commit"
    using s1(4) s2(4) s3(4) by simp_all
  obtain s4 where "fire_xact 0 s3 = (None, s4)" "effects s4 = effects s3 @ concat (map emitted (pending s3 Commit))"
    using fire_calm [OF s3(2) tr(4)] assms(5) same by auto
  then show ?thesis
    using s1(1) s2(1) s3(1,3) same by auto
qed

definition prepared_demo :: "string xact_state" where
  "prepared_demo = snd (run_ops [RegisterXact Commit [Emit ''from the first transaction'']] backend_start)"

theorem prepared_transaction_keeps_callbacks_witness:
  "\<exists>s1 s2 s3 s4. fire_xact 7 prepared_demo = (None, s1) \<and> fire_xact 4 s1 = (None, s2)
    \<and> fire_xact 5 s2 = (None, s3) \<and> fire_xact 0 s3 = (None, s4) \<and> effects s4 = [''from the first transaction'']"
proof -
  have run: "run_ops [RegisterXact Commit [Emit ''from the first transaction'']] backend_start = (None, prepared_demo)"
    by (simp add: prepared_demo_def demo_eval)
  have reach: "reachable_backend prepared_demo"
    by (rule reachable_backend.step [OF reachable_backend.start backend_step.user [OF run]]) simp
  have "pending prepared_demo PrePrepare = []" "pending prepared_demo Prepare = []"
    "pending prepared_demo PreCommit = []" "effects prepared_demo = []"
    "pending prepared_demo Commit = [[Emit ''from the first transaction'']]"
    by (simp_all add: prepared_demo_def demo_eval)
  then show ?thesis
    using prepared_transaction_keeps_callbacks [OF reach] by (auto simp: emitted_def)
qed

end
