(* ===== verification/Set_Returning.thy ===== *)
theory Set_Returning
  imports Prelude
begin

text \<open>
  Set-returning functions: \<open>TableIterator\<close> and \<open>SetOfIterator\<close> (\<open>pgrx/src/iter.rs\<close>), their part of
  \<open>pgrx/src/callconv.rs\<close> and \<open>pgrx/src/fcinfo.rs\<close>, and the wrapper that \<open>#[pg_extern]\<close> makes around a
  function. The server calls the wrapper once for each row; between the calls the iterator of the
  function lives in a box that a memory context of the server owns.
\<close>

section \<open>What the server keeps for a call\<close>

datatype ExprDoneCond = ExprSingleResult | ExprMultipleResult | ExprEndResult

text \<open>The pointer \<open>user_fctx\<close> is the number of a box, none when it is null.\<close>

record 'td FuncCallContext =
  call_cntr :: nat
  multi_call_memory_ctx :: nat
  user_fctx :: "nat option"
  tuple_desc :: "'td option"

text \<open>
  The state that the calls share: \<open>fn_extra\<close> of the function, the flags that a call leaves for the
  server, the boxes that were leaked to memory contexts (an empty one was dropped), the boxes that each
  context, by its number, drops when it is deleted, and how often the function itself was called.
\<close>

record ('i, 'td) srf_state =
  fn_extra :: "'td FuncCallContext option"
  srf_isnull :: bool
  isDone :: ExprDoneCond
  boxes :: "'i option list"
  reset_callbacks :: "nat list list"
  body_calls :: nat

text \<open>A row of one column is a value or null; a row of more columns is a tuple of them.\<close>

datatype 'd row = OneColumn "'d option" | Columns "'d option list"

datatype ('d, 'td) srf_datum = NullDatum | ValueDatum 'd | TupleDatum 'td "'d option list"

text \<open>\<open>drop_on_delete\<close>, the callback of \<open>leak_and_drop_on_delete\<close>.\<close>

definition drop_on_delete :: "nat \<Rightarrow> ('i, 'td) srf_state \<Rightarrow> ('i, 'td) srf_state" where
  "drop_on_delete b s = s\<lparr>boxes := (boxes s)[b := None]\<rparr>"

definition leak_and_drop_on_delete :: "nat \<Rightarrow> 'i \<Rightarrow> ('i, 'td) srf_state \<Rightarrow> nat \<times> ('i, 'td) srf_state" where
  "leak_and_drop_on_delete mcx v s =
     (let leaked_ptr = length (boxes s)
      in (leaked_ptr,
          s\<lparr>boxes := boxes s @ [Some v],
            reset_callbacks := (reset_callbacks s)[mcx := leaked_ptr # reset_callbacks s ! mcx]\<rparr>))"

text \<open>
  The server's side of the protocol: \<open>init_MultiFuncCall\<close> makes a context of its own for the calls, and
  \<open>end_MultiFuncCall\<close> deletes it, which runs the callbacks of the context, and forgets it. What the
  result type of the function is, is a question to the server as well.
\<close>

locale multi_func_call =
  fixes init_call end_call :: "('i, 'td) srf_state \<Rightarrow> ('i, 'td) srf_state"
  assumes init: "fn_extra s = None \<Longrightarrow> \<exists>c \<ge> length (reset_callbacks s).
      init_call s = s\<lparr>fn_extra := Some \<lparr>call_cntr = 0, multi_call_memory_ctx = c, user_fctx = None, tuple_desc = None\<rparr>,
        reset_callbacks := reset_callbacks s @ replicate (c + 1 - length (reset_callbacks s)) []\<rparr>"
    and finish: "fn_extra s = Some fcx \<Longrightarrow> end_call s =
        fold drop_on_delete (reset_callbacks s ! multi_call_memory_ctx fcx)
          (s\<lparr>fn_extra := None, reset_callbacks := (reset_callbacks s)[multi_call_memory_ctx fcx := []]\<rparr>)"

record ('i, 'td) srf_server =
  init_MultiFuncCall :: "('i, 'td) srf_state \<Rightarrow> ('i, 'td) srf_state"
  end_MultiFuncCall :: "('i, 'td) srf_state \<Rightarrow> ('i, 'td) srf_state"
  call_result_type :: "'td option"

section \<open>Steps of an iterator\<close>

text \<open>\<open>None\<close> as the result of an operation is the use of a null pointer or of a dropped box.\<close>

datatype ('i, 'd) Step = Done | Once "'d row" | Init 'i "'d row"

datatype CallCx = RestoreCx | WrappedFn nat

definition srf_is_first_call :: "('i, 'td) srf_state \<Rightarrow> bool" where
  "srf_is_first_call s \<longleftrightarrow> fn_extra s = None"

definition check_fcinfo_and_prepare ::
    "('i, 'td) srf_server \<Rightarrow> ('i, 'td) srf_state \<Rightarrow> (CallCx \<times> ('i, 'td) srf_state) option" where
  "check_fcinfo_and_prepare pg s =
     (if srf_is_first_call s then
        let s' = init_MultiFuncCall pg s
        in map_option (\<lambda>fcx. (WrappedFn (multi_call_memory_ctx fcx), s')) (fn_extra s')
      else Some (RestoreCx, s))"

definition to_ret :: "('i \<Rightarrow> 'd row option \<times> 'i) \<Rightarrow> 'i \<Rightarrow> ('i, 'd) Step" where
  "to_ret iter_next it = (case iter_next it of (None, it') \<Rightarrow> Done | (Some v, it') \<Rightarrow> Init it' v)"

definition srf_return_next :: "('i, 'td) srf_state \<Rightarrow> ('i, 'td) srf_state option" where
  "srf_return_next s =
     map_option (\<lambda>fcx. s\<lparr>fn_extra := Some (fcx\<lparr>call_cntr := call_cntr fcx + 1\<rparr>), isDone := ExprMultipleResult\<rparr>)
       (fn_extra s)"

definition srf_return_done ::
    "('i, 'td) srf_server \<Rightarrow> ('i, 'td) srf_state \<Rightarrow> ('i, 'td) srf_state option" where
  "srf_return_done pg s =
     (if fn_extra s = None then None else Some ((end_MultiFuncCall pg s)\<lparr>isDone := ExprEndResult\<rparr>))"

definition empty_srf ::
    "('i, 'td) srf_server \<Rightarrow> ('i, 'td) srf_state \<Rightarrow> (('d, 'td) srf_datum \<times> ('i, 'td) srf_state) option" where
  "empty_srf pg s = map_option (\<lambda>s'. (NullDatum, s'\<lparr>srf_isnull := True\<rparr>)) (srf_return_done pg s)"

definition move_into_fcinfo_fcx :: "'i \<Rightarrow> ('i, 'td) srf_state \<Rightarrow> ('i, 'td) srf_state option" where
  "move_into_fcinfo_fcx it s =
     map_option (\<lambda>fcx.
       let (ptr, s') = leak_and_drop_on_delete (multi_call_memory_ctx fcx) it s
       in s'\<lparr>fn_extra := Some (fcx\<lparr>user_fctx := Some ptr\<rparr>)\<rparr>) (fn_extra s)"

text \<open>Only rows of more than one column need a descriptor of their type.\<close>

fun fill_fcinfo_fcx ::
    "('i, 'td) srf_server \<Rightarrow> 'd row \<Rightarrow> ('i, 'td) srf_state \<Rightarrow> ('i, 'td) srf_state option" where
  "fill_fcinfo_fcx pg (OneColumn v) s = Some s"
| "fill_fcinfo_fcx pg (Columns vs) s =
     map_option (\<lambda>fcx.
       case call_result_type pg of
         Some td \<Rightarrow> s\<lparr>fn_extra := Some (fcx\<lparr>tuple_desc := Some td\<rparr>)\<rparr>
       | None \<Rightarrow> s) (fn_extra s)"

fun row_box_ret ::
    "'d row \<Rightarrow> ('i, 'td) srf_state \<Rightarrow> (('d, 'td) srf_datum \<times> ('i, 'td) srf_state) option" where
  "row_box_ret (OneColumn (Some v)) s = Some (ValueDatum v, s\<lparr>srf_isnull := False\<rparr>)"
| "row_box_ret (OneColumn None) s = Some (NullDatum, s\<lparr>srf_isnull := True\<rparr>)"
| "row_box_ret (Columns vs) s =
     (case fn_extra s of
        None \<Rightarrow> None
      | Some fcx \<Rightarrow> map_option (\<lambda>td. (TupleDatum td vs, s)) (tuple_desc fcx))"

definition box_row ::
    "'d row \<Rightarrow> ('i, 'td) srf_state \<Rightarrow> (('d, 'td) srf_datum \<times> ('i, 'td) srf_state) option" where
  "box_row v s = Option.bind (srf_return_next s) (row_box_ret v)"

fun box_ret_in_fcinfo ::
    "('i, 'td) srf_server \<Rightarrow> ('i, 'd) Step \<Rightarrow> ('i, 'td) srf_state
      \<Rightarrow> (('d, 'td) srf_datum \<times> ('i, 'td) srf_state) option" where
  "box_ret_in_fcinfo pg Done s = empty_srf pg s"
| "box_ret_in_fcinfo pg (Once v) s = box_row v s"
| "box_ret_in_fcinfo pg (Init it v) s =
     Option.bind (move_into_fcinfo_fcx it s) (\<lambda>s'. Option.bind (fill_fcinfo_fcx pg v s') (box_row v))"

definition ret_from_fcinfo_fcx ::
    "('i \<Rightarrow> 'd row option \<times> 'i) \<Rightarrow> ('i, 'td) srf_state \<Rightarrow> (('i, 'd) Step \<times> ('i, 'td) srf_state) option" where
  "ret_from_fcinfo_fcx iter_next s =
     Option.bind (fn_extra s) (\<lambda>fcx.
     Option.bind (user_fctx fcx) (\<lambda>ptr.
     if ptr < length (boxes s) then
       Option.bind (boxes s ! ptr) (\<lambda>it.
         case iter_next it of
           (None, it') \<Rightarrow> Some (Done, s\<lparr>boxes := (boxes s)[ptr := Some it']\<rparr>)
         | (Some v, it') \<Rightarrow> Some (Once v, s\<lparr>boxes := (boxes s)[ptr := Some it']\<rparr>))
     else None))"

section \<open>The wrapper\<close>

text \<open>
  The wrapper of a function that returns an iterator, or an error that is raised. The function runs in
  the context that the preparation chose. An error leaves the state as it is for the error handling of
  the server.
\<close>

definition internal_wrapper ::
    "('i, 'td) srf_server \<Rightarrow> ('i \<Rightarrow> 'd row option \<times> 'i) \<Rightarrow> (nat \<Rightarrow> 'e + 'i) \<Rightarrow> ('i, 'td) srf_state
      \<Rightarrow> ('e + ('d, 'td) srf_datum \<times> ('i, 'td) srf_state) option" where
  "internal_wrapper pg iter_next func s =
     Option.bind (check_fcinfo_and_prepare pg s) (\<lambda>(call_flow, s').
       case call_flow of
         WrappedFn mcx \<Rightarrow>
           (case func mcx of
              Inl e \<Rightarrow> Some (Inl e)
            | Inr it \<Rightarrow>
                map_option Inr (box_ret_in_fcinfo pg (to_ret iter_next it) (s'\<lparr>body_calls := body_calls s' + 1\<rparr>)))
       | RestoreCx \<Rightarrow>
           Option.bind (ret_from_fcinfo_fcx iter_next s') (\<lambda>(step, s'').
             map_option Inr (box_ret_in_fcinfo pg step s'')))"

text \<open>
  The server calls the wrapper again and again, each time with the flags reset, until it says that the
  set has ended.
\<close>

primrec srf_calls ::
    "nat \<Rightarrow> ('i, 'td) srf_server \<Rightarrow> ('i \<Rightarrow> 'd row option \<times> 'i) \<Rightarrow> (nat \<Rightarrow> 'e + 'i) \<Rightarrow> ('i, 'td) srf_state
      \<Rightarrow> ('e + ((ExprDoneCond \<times> bool \<times> ('d, 'td) srf_datum) list \<times> ('i, 'td) srf_state)) option" where
  "srf_calls 0 pg iter_next func s = Some (Inr ([], s))"
| "srf_calls (Suc n) pg iter_next func s =
     Option.bind (internal_wrapper pg iter_next func (s\<lparr>srf_isnull := False, isDone := ExprSingleResult\<rparr>)) (\<lambda>r.
       case r of
         Inl e \<Rightarrow> Some (Inl e)
       | Inr (d, s') \<Rightarrow>
           if isDone s' = ExprEndResult then Some (Inr ([(isDone s', srf_isnull s', d)], s'))
           else map_option (map_res (\<lambda>(ds, s''). ((isDone s', srf_isnull s', d) # ds, s'')))
             (srf_calls n pg iter_next func s'))"

end
