(* ===== verification/Set_Returning_Properties.thy ===== *)
theory Set_Returning_Properties
  imports Set_Returning
begin

text \<open>
  The value-per-call protocol gives the server exactly the rows of the iterator, one for each call, and
  cleans up after the last one.
\<close>

section \<open>A call between the first and the last\<close>

definition row_shape :: "('i, 'td) srf_server \<Rightarrow> bool \<Rightarrow> 'd row \<Rightarrow> bool" where
  "row_shape pg composite v \<longleftrightarrow>
     (case v of OneColumn _ \<Rightarrow> \<not> composite | Columns _ \<Rightarrow> composite \<and> call_result_type pg \<noteq> None)"

definition row_datum :: "('i, 'td) srf_server \<Rightarrow> 'd row \<Rightarrow> ('d, 'td) srf_datum" where
  "row_datum pg v =
     (case v of
        OneColumn (Some d) \<Rightarrow> ValueDatum d
      | OneColumn None \<Rightarrow> NullDatum
      | Columns ds \<Rightarrow> TupleDatum (the (call_result_type pg)) ds)"

text \<open>The iterator waits in a box that belongs to the context of the calls, and to nothing else.\<close>

definition serving :: "('i, 'td) srf_server \<Rightarrow> bool \<Rightarrow> 'i \<Rightarrow> 'i list \<Rightarrow> ('i, 'td) srf_state \<Rightarrow> bool" where
  "serving pg composite it others s \<longleftrightarrow>
     (\<exists>fcx ptr. fn_extra s = Some fcx \<and> user_fctx fcx = Some ptr \<and> ptr < length (boxes s)
        \<and> boxes s ! ptr = Some it \<and> reset_callbacks s ! multi_call_memory_ctx fcx = [ptr]
        \<and> tuple_desc fcx = (if composite then call_result_type pg else None)
        \<and> List.map_filter id ((boxes s)[ptr := None]) = others)"

lemma box_row_serving:
  assumes "serving pg composite it others s" and "row_shape pg composite v"
  shows "\<exists>s'. box_row v s = Some (row_datum pg v, s') \<and> serving pg composite it others s'
    \<and> isDone s' = ExprMultipleResult \<and> body_calls s' = body_calls s
    \<and> srf_isnull s' = (case v of OneColumn d \<Rightarrow> d = None | Columns _ \<Rightarrow> srf_isnull s)"
proof -
  obtain fcx ptr where s: "fn_extra s = Some fcx" "user_fctx fcx = Some ptr" "ptr < length (boxes s)"
      "boxes s ! ptr = Some it" "reset_callbacks s ! multi_call_memory_ctx fcx = [ptr]"
      "tuple_desc fcx = (if composite then call_result_type pg else None)"
      "List.map_filter id ((boxes s)[ptr := None]) = others"
    using assms(1) unfolding serving_def by blast
  then have next_s: "serving pg composite it others
      (s\<lparr>fn_extra := Some (fcx\<lparr>call_cntr := call_cntr fcx + 1\<rparr>), isDone := ExprMultipleResult, srf_isnull := n\<rparr>)"
    "serving pg composite it others
      (s\<lparr>fn_extra := Some (fcx\<lparr>call_cntr := call_cntr fcx + 1\<rparr>), isDone := ExprMultipleResult\<rparr>)" for n
    by (simp_all add: serving_def)
  show ?thesis
  proof (cases v)
    case (OneColumn d)
    then show ?thesis
      using s(1) next_s(1) by (cases d) (simp_all add: box_row_def srf_return_next_def row_datum_def)
  next
    case (Columns ds)
    then obtain td where "call_result_type pg = Some td" composite
      using assms(2) by (auto simp: row_shape_def)
    then show ?thesis
      using s(1,6) next_s(2) Columns by (simp add: box_row_def srf_return_next_def row_datum_def)
  qed
qed

lemma serving_flags [simp]:
  "serving pg composite it others (s\<lparr>srf_isnull := n, isDone := d\<rparr>) = serving pg composite it others s"
  by (simp add: serving_def)

lemma serving_restore:
  assumes "serving pg composite it others s" and "iter_next it = (r, it')"
  shows "\<exists>s'. ret_from_fcinfo_fcx iter_next s = Some (case r of Some v \<Rightarrow> Once v | None \<Rightarrow> Done, s')
    \<and> serving pg composite it' others s' \<and> body_calls s' = body_calls s \<and> srf_isnull s' = srf_isnull s"
proof -
  obtain fcx ptr where s: "fn_extra s = Some fcx" "user_fctx fcx = Some ptr" "ptr < length (boxes s)"
      "boxes s ! ptr = Some it" "reset_callbacks s ! multi_call_memory_ctx fcx = [ptr]"
      "tuple_desc fcx = (if composite then call_result_type pg else None)"
      "List.map_filter id ((boxes s)[ptr := None]) = others"
    using assms(1) unfolding serving_def by blast
  then have "serving pg composite it' others (s\<lparr>boxes := (boxes s)[ptr := Some it']\<rparr>)"
    by (simp add: serving_def)
  then show ?thesis
    using s assms(2) by (simp add: ret_from_fcinfo_fcx_def split: option.split)
qed

lemma wrapper_next:
  assumes "serving pg composite it others s" and "iter_next it = (Some v, it')" and "row_shape pg composite v"
  shows "\<exists>s'. internal_wrapper pg iter_next func (s\<lparr>srf_isnull := False, isDone := ExprSingleResult\<rparr>)
      = Some (Inr (row_datum pg v, s'))
    \<and> serving pg composite it' others s' \<and> isDone s' = ExprMultipleResult \<and> body_calls s' = body_calls s
    \<and> srf_isnull s' = (v = OneColumn None)"
proof -
  let ?s = "s\<lparr>srf_isnull := False, isDone := ExprSingleResult\<rparr>"
  obtain t where t: "ret_from_fcinfo_fcx iter_next ?s = Some (Once v, t)" "serving pg composite it' others t"
      "body_calls t = body_calls s" "\<not> srf_isnull t"
    using serving_restore [of pg composite it others ?s iter_next "Some v" it'] assms(1,2) by auto
  obtain s' where s': "box_row v t = Some (row_datum pg v, s')" "serving pg composite it' others s'"
      "isDone s' = ExprMultipleResult" "body_calls s' = body_calls t"
      "srf_isnull s' = (case v of OneColumn d \<Rightarrow> d = None | Columns _ \<Rightarrow> srf_isnull t)"
    using box_row_serving [OF t(2) assms(3)] by blast
  have "check_fcinfo_and_prepare pg ?s = Some (RestoreCx, ?s)"
    using assms(1) by (auto simp: check_fcinfo_and_prepare_def srf_is_first_call_def serving_def)
  then show ?thesis
    using t s' by (simp add: internal_wrapper_def split: row.splits)
qed

section \<open>The last call\<close>

lemma finish_serving:
  assumes "multi_func_call (init_MultiFuncCall pg) (end_MultiFuncCall pg)" and "serving pg composite it others s"
  shows "\<exists>s'. empty_srf pg s = Some (NullDatum, s') \<and> isDone s' = ExprEndResult \<and> srf_isnull s'
    \<and> fn_extra s' = None \<and> List.map_filter id (boxes s') = others \<and> body_calls s' = body_calls s"
proof -
  obtain fcx ptr where s: "fn_extra s = Some fcx" "reset_callbacks s ! multi_call_memory_ctx fcx = [ptr]"
      "List.map_filter id ((boxes s)[ptr := None]) = others"
    using assms(2) unfolding serving_def by blast
  then show ?thesis
    using multi_func_call.finish [OF assms(1) s(1)]
    by (simp add: empty_srf_def srf_return_done_def drop_on_delete_def)
qed

lemma wrapper_done:
  assumes "multi_func_call (init_MultiFuncCall pg) (end_MultiFuncCall pg)"
    and "serving pg composite it others s" and "iter_next it = (None, it')"
  shows "\<exists>s'. internal_wrapper pg iter_next func (s\<lparr>srf_isnull := False, isDone := ExprSingleResult\<rparr>)
      = Some (Inr (NullDatum, s'))
    \<and> isDone s' = ExprEndResult \<and> srf_isnull s' \<and> fn_extra s' = None
    \<and> List.map_filter id (boxes s') = others \<and> body_calls s' = body_calls s"
proof -
  let ?s = "s\<lparr>srf_isnull := False, isDone := ExprSingleResult\<rparr>"
  obtain t where t: "ret_from_fcinfo_fcx iter_next ?s = Some (Done, t)" "serving pg composite it' others t"
      "body_calls t = body_calls s"
    using serving_restore [of pg composite it others ?s iter_next None it'] assms(2,3) by auto
  have "check_fcinfo_and_prepare pg ?s = Some (RestoreCx, ?s)"
    using assms(2) by (auto simp: check_fcinfo_and_prepare_def srf_is_first_call_def serving_def)
  then show ?thesis
    using t finish_serving [OF assms(1) t(2)] by (auto simp: internal_wrapper_def)
qed

section \<open>The first call\<close>

lemma prepare_first:
  assumes "multi_func_call (init_MultiFuncCall pg) (end_MultiFuncCall pg)" and "fn_extra s = None"
  obtains c where "length (reset_callbacks s) \<le> c"
    and "check_fcinfo_and_prepare pg s = Some (WrappedFn c,
      s\<lparr>fn_extra := Some \<lparr>call_cntr = 0, multi_call_memory_ctx = c, user_fctx = None, tuple_desc = None\<rparr>,
        reset_callbacks := reset_callbacks s @ replicate (c + 1 - length (reset_callbacks s)) []\<rparr>)"
  using multi_func_call.init [OF assms] assms(2)
  by (auto simp: check_fcinfo_and_prepare_def srf_is_first_call_def)

lemma move_in_serving:
  assumes "fn_extra s = Some fcx" and "multi_call_memory_ctx fcx < length (reset_callbacks s)"
    and "reset_callbacks s ! multi_call_memory_ctx fcx = []" and "tuple_desc fcx = None" and "row_shape pg composite v"
  shows "\<exists>s' s''. move_into_fcinfo_fcx it s = Some s' \<and> fill_fcinfo_fcx pg v s' = Some s''
    \<and> serving pg composite it (List.map_filter id (boxes s)) s'' \<and> body_calls s'' = body_calls s
    \<and> srf_isnull s'' = srf_isnull s"
proof (cases v)
  case (OneColumn d)
  then show ?thesis
    using assms by (auto simp: move_into_fcinfo_fcx_def leak_and_drop_on_delete_def Let_def serving_def row_shape_def
      list_update_append map_filter_def nth_append)
next
  case (Columns ds)
  then show ?thesis
    using assms by (auto simp: move_into_fcinfo_fcx_def leak_and_drop_on_delete_def Let_def serving_def row_shape_def
      list_update_append map_filter_def nth_append)
qed

lemma wrapper_first:
  assumes "multi_func_call (init_MultiFuncCall pg) (end_MultiFuncCall pg)" and "fn_extra s = None"
    and "\<And>c. func c = Inr it" and "iter_next it = (Some v, it')" and "row_shape pg composite v"
  shows "\<exists>s'. internal_wrapper pg iter_next func (s\<lparr>srf_isnull := False, isDone := ExprSingleResult\<rparr>)
      = Some (Inr (row_datum pg v, s'))
    \<and> serving pg composite it' (List.map_filter id (boxes s)) s' \<and> isDone s' = ExprMultipleResult
    \<and> body_calls s' = body_calls s + 1 \<and> srf_isnull s' = (v = OneColumn None)"
proof -
  let ?s = "s\<lparr>srf_isnull := False, isDone := ExprSingleResult\<rparr>"
  obtain c where c: "length (reset_callbacks s) \<le> c" and prep: "check_fcinfo_and_prepare pg ?s = Some (WrappedFn c,
      ?s\<lparr>fn_extra := Some \<lparr>call_cntr = 0, multi_call_memory_ctx = c, user_fctx = None, tuple_desc = None\<rparr>,
        reset_callbacks := reset_callbacks s @ replicate (c + 1 - length (reset_callbacks s)) []\<rparr>)"
      (is "_ = Some (_, ?t)")
    using prepare_first [OF assms(1), of ?s] assms(2) by auto
  let ?u = "?t\<lparr>body_calls := body_calls s + 1\<rparr>"
  obtain s1 s2 where moved: "move_into_fcinfo_fcx it' ?u = Some s1" "fill_fcinfo_fcx pg v s1 = Some s2"
      "serving pg composite it' (List.map_filter id (boxes s)) s2" "body_calls s2 = body_calls s + 1" "\<not> srf_isnull s2"
    using move_in_serving [of ?u _ pg composite v it'] c assms(5) by (auto simp: nth_append)
  obtain s3 where "box_row v s2 = Some (row_datum pg v, s3)" "serving pg composite it' (List.map_filter id (boxes s)) s3"
      "isDone s3 = ExprMultipleResult" "body_calls s3 = body_calls s2"
      "srf_isnull s3 = (case v of OneColumn d \<Rightarrow> d = None | Columns _ \<Rightarrow> srf_isnull s2)"
    using box_row_serving [OF moved(3) assms(5)] by blast
  then show ?thesis
    using prep moved assms(3,4) by (auto simp: internal_wrapper_def to_ret_def split: row.splits)
qed

section \<open>All calls\<close>

text \<open>What an iterator gives when it is asked again and again.\<close>

fun yields :: "('i \<Rightarrow> 'd row option \<times> 'i) \<Rightarrow> 'i \<Rightarrow> 'd row list \<Rightarrow> 'i \<Rightarrow> bool" where
  "yields iter_next it [] it' \<longleftrightarrow> it' = it"
| "yields iter_next it (v # vs) it' \<longleftrightarrow>
     (case iter_next it of (r, it1) \<Rightarrow> r = Some v \<and> yields iter_next it1 vs it')"

definition row_result :: "('i, 'td) srf_server \<Rightarrow> 'd row \<Rightarrow> ExprDoneCond \<times> bool \<times> ('d, 'td) srf_datum" where
  "row_result pg v = (ExprMultipleResult, v = OneColumn None, row_datum pg v)"

lemma map_res_ident [simp]: "map_res (\<lambda>x. x) = (\<lambda>r. r)"
  by (auto simp: fun_eq_iff map_res_def split: sum.split)

lemma yields_take: "yields iter_next it vs it' \<Longrightarrow> \<exists>it1. yields iter_next it (take n vs) it1"
proof (induction vs arbitrary: it n)
  case Nil
  show ?case by (rule exI [of _ it]) simp
next
  case (Cons v vs)
  obtain it1 where it1: "iter_next it = (Some v, it1)" "yields iter_next it1 vs it'"
    using Cons.prems by (auto split: prod.splits)
  show ?case
  proof (cases n)
    case 0
    show ?thesis unfolding 0 by (rule exI [of _ it]) simp
  next
    case (Suc m)
    then show ?thesis using Cons.IH [OF it1(2), of m] it1(1) by auto
  qed
qed

lemma calls_cons:
  assumes "internal_wrapper pg iter_next func (s\<lparr>srf_isnull := False, isDone := ExprSingleResult\<rparr>)
      = Some (Inr (row_datum pg v, t))"
    and "isDone t = ExprMultipleResult" and "srf_isnull t = (v = OneColumn None)"
    and "srf_calls (length vs + n) pg iter_next func t
      = map_option (map_res (\<lambda>(ds, s''). (map (row_result pg) vs @ ds, s''))) (srf_calls n pg iter_next func s')"
  shows "srf_calls (length (v # vs) + n) pg iter_next func s
    = map_option (map_res (\<lambda>(ds, s''). (map (row_result pg) (v # vs) @ ds, s''))) (srf_calls n pg iter_next func s')"
  using assms
  by (cases "srf_calls n pg iter_next func s'") (auto simp: row_result_def map_res_def split: sum.split)

lemma calls_serving:
  assumes "serving pg composite it others s" and "yields iter_next it vs it'" and "list_all (row_shape pg composite) vs"
  shows "\<exists>s'. serving pg composite it' others s' \<and> body_calls s' = body_calls s
    \<and> (\<forall>n. srf_calls (length vs + n) pg iter_next func s
         = map_option (map_res (\<lambda>(ds, s''). (map (row_result pg) vs @ ds, s''))) (srf_calls n pg iter_next func s'))"
  using assms
proof (induction vs arbitrary: it s)
  case Nil
  then show ?case
    by (auto simp: option.map_ident intro!: exI [of _ s])
next
  case (Cons v vs)
  obtain it1 where it1: "iter_next it = (Some v, it1)" "yields iter_next it1 vs it'"
    using Cons.prems(2) by (auto split: prod.splits)
  obtain t where t: "internal_wrapper pg iter_next func (s\<lparr>srf_isnull := False, isDone := ExprSingleResult\<rparr>)
        = Some (Inr (row_datum pg v, t))"
      "serving pg composite it1 others t" "isDone t = ExprMultipleResult" "body_calls t = body_calls s"
      "srf_isnull t = (v = OneColumn None)"
    using wrapper_next [where iter_next = iter_next and it = it, OF Cons.prems(1) it1(1)] Cons.prems(3) by auto
  obtain s' where s': "serving pg composite it' others s'" "body_calls s' = body_calls t"
      "\<forall>n. srf_calls (length vs + n) pg iter_next func t
         = map_option (map_res (\<lambda>(ds, s''). (map (row_result pg) vs @ ds, s''))) (srf_calls n pg iter_next func s')"
    using Cons.IH [OF t(2) it1(2)] Cons.prems(3) by auto
  have "srf_calls (length (v # vs) + n) pg iter_next func s
      = map_option (map_res (\<lambda>(ds, s''). (map (row_result pg) (v # vs) @ ds, s''))) (srf_calls n pg iter_next func s')" for n
    using calls_cons [OF t(1,3,5)] s'(3) by blast
  then show ?case
    using s' t(4) by auto
qed

lemma calls_first:
  assumes "multi_func_call (init_MultiFuncCall pg) (end_MultiFuncCall pg)" and "fn_extra s = None"
    and "\<And>c. func c = Inr it" and "yields iter_next it vs it'" and "list_all (row_shape pg composite) vs" and "vs \<noteq> []"
  shows "\<exists>s'. serving pg composite it' (List.map_filter id (boxes s)) s' \<and> body_calls s' = body_calls s + 1
    \<and> (\<forall>n. srf_calls (length vs + n) pg iter_next func s
         = map_option (map_res (\<lambda>(ds, s''). (map (row_result pg) vs @ ds, s''))) (srf_calls n pg iter_next func s'))"
proof (cases vs)
  case (Cons v ws)
  obtain it1 where it1: "iter_next it = (Some v, it1)" "yields iter_next it1 ws it'"
    using assms(4) Cons by (auto split: prod.splits)
  have shapes: "row_shape pg composite v" "list_all (row_shape pg composite) ws"
    using assms(5) Cons by simp_all
  obtain t where t: "internal_wrapper pg iter_next func (s\<lparr>srf_isnull := False, isDone := ExprSingleResult\<rparr>)
        = Some (Inr (row_datum pg v, t))"
      "serving pg composite it1 (List.map_filter id (boxes s)) t" "isDone t = ExprMultipleResult"
      "body_calls t = body_calls s + 1" "srf_isnull t = (v = OneColumn None)"
    using wrapper_first [where iter_next = iter_next and func = func and it = it, OF assms(1-3) it1(1) shapes(1)] by blast
  obtain s' where s': "serving pg composite it' (List.map_filter id (boxes s)) s'" "body_calls s' = body_calls t"
      "\<forall>n. srf_calls (length ws + n) pg iter_next func t
         = map_option (map_res (\<lambda>(ds, s''). (map (row_result pg) ws @ ds, s''))) (srf_calls n pg iter_next func s')"
    using calls_serving [OF t(2) it1(2) shapes(2), where func = func] by auto
  have "srf_calls (length vs + n) pg iter_next func s
      = map_option (map_res (\<lambda>(ds, s''). (map (row_result pg) vs @ ds, s''))) (srf_calls n pg iter_next func s')" for n
    using calls_cons [OF t(1,3,5)] s'(3) unfolding Cons by blast
  then show ?thesis
    using s' t(4) by auto
qed (use assms(6) in simp)

text \<open>An iterator without rows ends the set in the first call.\<close>

lemma wrapper_empty:
  assumes "multi_func_call (init_MultiFuncCall pg) (end_MultiFuncCall pg)" and "fn_extra s = None"
    and "\<And>c. func c = Inr it" and "fst (iter_next it) = None"
  shows "\<exists>s'. internal_wrapper pg iter_next func (s\<lparr>srf_isnull := False, isDone := ExprSingleResult\<rparr>)
      = Some (Inr (NullDatum, s'))
    \<and> isDone s' = ExprEndResult \<and> srf_isnull s' \<and> fn_extra s' = None \<and> boxes s' = boxes s
    \<and> body_calls s' = body_calls s + 1"
proof -
  let ?s = "s\<lparr>srf_isnull := False, isDone := ExprSingleResult\<rparr>"
  obtain c where c: "length (reset_callbacks s) \<le> c" and prep: "check_fcinfo_and_prepare pg ?s = Some (WrappedFn c,
      ?s\<lparr>fn_extra := Some \<lparr>call_cntr = 0, multi_call_memory_ctx = c, user_fctx = None, tuple_desc = None\<rparr>,
        reset_callbacks := reset_callbacks s @ replicate (c + 1 - length (reset_callbacks s)) []\<rparr>)"
      (is "_ = Some (_, ?t)")
    using prepare_first [OF assms(1), of ?s] assms(2) by auto
  let ?u = "?t\<lparr>body_calls := body_calls s + 1\<rparr>"
  have "to_ret iter_next it = Done"
    using assms(4) by (auto simp: to_ret_def split: prod.split option.split)
  moreover have "end_MultiFuncCall pg ?u = ?u\<lparr>fn_extra := None, reset_callbacks := (reset_callbacks ?u)[c := []]\<rparr>"
    using multi_func_call.finish [OF assms(1), of ?u] c by (simp add: nth_append)
  ultimately show ?thesis
    using prep assms(3) by (simp add: internal_wrapper_def empty_srf_def srf_return_done_def)
qed

text \<open>The server of the witnesses: a context is the next number.\<close>

definition ref_init :: "('i, 'td) srf_state \<Rightarrow> ('i, 'td) srf_state" where
  "ref_init s =
     s\<lparr>fn_extra := Some \<lparr>call_cntr = 0, multi_call_memory_ctx = length (reset_callbacks s), user_fctx = None,
         tuple_desc = None\<rparr>,
       reset_callbacks := reset_callbacks s @ [[]]\<rparr>"

definition ref_end :: "('i, 'td) srf_state \<Rightarrow> ('i, 'td) srf_state" where
  "ref_end s =
     (case fn_extra s of
        None \<Rightarrow> s
      | Some fcx \<Rightarrow>
          fold drop_on_delete (reset_callbacks s ! multi_call_memory_ctx fcx)
            (s\<lparr>fn_extra := None, reset_callbacks := (reset_callbacks s)[multi_call_memory_ctx fcx := []]\<rparr>))"

interpretation ref_calls: multi_func_call ref_init ref_end
  by unfold_locales (auto simp: ref_init_def ref_end_def)

section \<open>Properties\<close>

text \<open>
  C24. A set-returning function returns exactly the rows of its iterator. When the server calls the
  wrapper until the set has ended, the function itself runs once, in the first call; the calls return
  the rows of the iterator in their order, nulls included, each marked as one of several results, and
  then one null that marks the end, also when there are no rows. Afterwards the function has no state
  left, so that the next scan starts anew, and the iterator has been dropped and nothing else with it.
  A scan that stops early has got the first rows. The server's two functions for such calls are taken
  to make a new memory context and to delete it, and rows of several columns to have a composite type.
\<close>

theorem set_returned_exactly:
  assumes "multi_func_call (init_MultiFuncCall pg) (end_MultiFuncCall pg)" and "fn_extra s = None"
    and "\<And>c. func c = Inr it" and "yields iter_next it vs it'" and "list_all (row_shape pg composite) vs"
  shows "(\<forall>n \<le> length vs. \<exists>s'. srf_calls n pg iter_next func s = Some (Inr (map (row_result pg) (take n vs), s')))
    \<and> (fst (iter_next it') = None \<longrightarrow>
        (\<exists>s'. srf_calls (Suc (length vs)) pg iter_next func s
            = Some (Inr (map (row_result pg) vs @ [(ExprEndResult, True, NullDatum)], s'))
          \<and> fn_extra s' = None \<and> body_calls s' = body_calls s + 1
          \<and> List.map_filter id (boxes s') = List.map_filter id (boxes s)))"
proof
  show "\<forall>n \<le> length vs. \<exists>s'. srf_calls n pg iter_next func s = Some (Inr (map (row_result pg) (take n vs), s'))"
  proof (intro allI impI)
    fix n
    assume n: "n \<le> length vs"
    show "\<exists>s'. srf_calls n pg iter_next func s = Some (Inr (map (row_result pg) (take n vs), s'))"
    proof (cases "take n vs = []")
      case True
      then show ?thesis using n by (cases n) auto
    next
      case False
      obtain it1 where y: "yields iter_next it (take n vs) it1"
        using yields_take [OF assms(4)] by blast
      have "list_all (row_shape pg composite) (take n vs)"
        using assms(5) by (auto simp: list_all_iff dest: in_set_takeD)
      then obtain s' where "srf_calls (length (take n vs) + 0) pg iter_next func s
          = map_option (map_res (\<lambda>(ds, s''). (map (row_result pg) (take n vs) @ ds, s''))) (srf_calls 0 pg iter_next func s')"
        using calls_first [where func = func and composite = composite, OF assms(1-3) y _ False] by blast
      then show ?thesis
        using n by (simp add: map_res_def min_absorb2)
    qed
  qed
  show "fst (iter_next it') = None \<longrightarrow>
      (\<exists>s'. srf_calls (Suc (length vs)) pg iter_next func s
            = Some (Inr (map (row_result pg) vs @ [(ExprEndResult, True, NullDatum)], s'))
          \<and> fn_extra s' = None \<and> body_calls s' = body_calls s + 1
          \<and> List.map_filter id (boxes s') = List.map_filter id (boxes s))"
  proof
    assume last: "fst (iter_next it') = None"
    show "\<exists>s'. srf_calls (Suc (length vs)) pg iter_next func s
            = Some (Inr (map (row_result pg) vs @ [(ExprEndResult, True, NullDatum)], s'))
          \<and> fn_extra s' = None \<and> body_calls s' = body_calls s + 1
          \<and> List.map_filter id (boxes s') = List.map_filter id (boxes s)"
    proof (cases "vs = []")
      case True
      then have "fst (iter_next it) = None"
        using last assms(4) by simp
      then show ?thesis
        using True wrapper_empty [where func = func and iter_next = iter_next, OF assms(1-3)] by auto
    next
      case False
      obtain t where t: "serving pg composite it' (List.map_filter id (boxes s)) t" "body_calls t = body_calls s + 1"
          "srf_calls (length vs + 1) pg iter_next func s
            = map_option (map_res (\<lambda>(ds, s''). (map (row_result pg) vs @ ds, s''))) (srf_calls 1 pg iter_next func t)"
        using calls_first [where func = func and composite = composite, OF assms False] by blast
      obtain it'' where "iter_next it' = (None, it'')"
        using last by (cases "iter_next it'") auto
      then show ?thesis
        using wrapper_done [where func = func and iter_next = iter_next, OF assms(1) t(1)] t(2,3) by (auto simp: map_res_def)
    qed
  qed
qed

text \<open>The rows of a list, one column, one of them null.\<close>

definition list_next :: "'d row list \<Rightarrow> 'd row option \<times> 'd row list" where
  "list_next vs = (case vs of [] \<Rightarrow> (None, []) | v # vs \<Rightarrow> (Some v, vs))"

theorem set_returned_exactly_witness:
  "\<exists>s'. srf_calls 3 \<lparr>init_MultiFuncCall = ref_init, end_MultiFuncCall = ref_end, call_result_type = None :: unit option\<rparr>
      list_next (\<lambda>_. Inr [OneColumn (Some (7::int)), OneColumn None] :: unit + int row list)
      \<lparr>fn_extra = None, srf_isnull = False, isDone = ExprSingleResult, boxes = [], reset_callbacks = [], body_calls = 0\<rparr>
    = Some (Inr ([(ExprMultipleResult, False, ValueDatum 7), (ExprMultipleResult, True, NullDatum),
        (ExprEndResult, True, NullDatum)], s'))
    \<and> body_calls s' = 1 \<and> List.map_filter id (boxes s') = []"
proof -
  let ?pg = "\<lparr>init_MultiFuncCall = ref_init, end_MultiFuncCall = ref_end, call_result_type = None :: unit option\<rparr>"
  let ?s = "\<lparr>fn_extra = None, srf_isnull = False, isDone = ExprSingleResult, boxes = [], reset_callbacks = [], body_calls = 0\<rparr>"
  let ?vs = "[OneColumn (Some (7::int)), OneColumn None]"
  have "multi_func_call (init_MultiFuncCall ?pg) (end_MultiFuncCall ?pg)"
    using ref_calls.multi_func_call_axioms by simp
  then show ?thesis
    using set_returned_exactly [of ?pg ?s "\<lambda>_. Inr ?vs" ?vs list_next ?vs "[]" False]
    by (auto simp: list_next_def row_shape_def row_result_def row_datum_def numeral_3_eq_3 simp del: srf_calls.simps)
qed

end
