(* ===== verification/Transaction_Ids.thy ===== *)
theory Transaction_Ids
  imports Prelude
begin

unbundle bit_operations_syntax

text \<open>
  Transaction ids (\<open>pgrx/src/xid.rs\<close> and the functions of \<open>pgrx-pg-sys/src/port.rs\<close> that compare them)
  and item pointers (\<open>pgrx/src/itemptr.rs\<close>), as machine words. Arithmetic wraps as in a release build.
  The full id of the next transaction, which the server keeps, is a parameter.
\<close>

section \<open>Comparing\<close>

definition FirstNormalTransactionId :: "32 word" where
  "FirstNormalTransactionId = 3"

definition TransactionIdIsNormal :: "32 word \<Rightarrow> bool" where
  "TransactionIdIsNormal xid \<longleftrightarrow> FirstNormalTransactionId \<le> xid"

definition TransactionIdPrecedes :: "32 word \<Rightarrow> 32 word \<Rightarrow> bool" where
  "TransactionIdPrecedes id1 id2 \<longleftrightarrow>
     (if \<not> TransactionIdIsNormal id1 \<or> \<not> TransactionIdIsNormal id2 then id1 < id2 else sint (id1 - id2) < 0)"

definition TransactionIdPrecedesOrEquals :: "32 word \<Rightarrow> 32 word \<Rightarrow> bool" where
  "TransactionIdPrecedesOrEquals id1 id2 \<longleftrightarrow>
     (if \<not> TransactionIdIsNormal id1 \<or> \<not> TransactionIdIsNormal id2 then id1 \<le> id2 else sint (id1 - id2) \<le> 0)"

definition TransactionIdFollows :: "32 word \<Rightarrow> 32 word \<Rightarrow> bool" where
  "TransactionIdFollows id1 id2 \<longleftrightarrow>
     (if \<not> TransactionIdIsNormal id1 \<or> \<not> TransactionIdIsNormal id2 then id1 > id2 else sint (id1 - id2) > 0)"

definition TransactionIdFollowsOrEquals :: "32 word \<Rightarrow> 32 word \<Rightarrow> bool" where
  "TransactionIdFollowsOrEquals id1 id2 \<longleftrightarrow>
     (if \<not> TransactionIdIsNormal id1 \<or> \<not> TransactionIdIsNormal id2 then id1 \<ge> id2 else sint (id1 - id2) \<ge> 0)"

section \<open>Widening\<close>

definition convert_xid_common :: "32 word \<Rightarrow> 32 word \<Rightarrow> 32 word \<Rightarrow> 64 word" where
  "convert_xid_common xid last_xid epoch =
     (if \<not> TransactionIdIsNormal xid then ucast xid
      else
        let epoch = ucast epoch :: 64 word;
            epoch = (if xid > last_xid \<and> TransactionIdPrecedes xid last_xid then epoch - 1
                     else if xid < last_xid \<and> TransactionIdFollows xid last_xid then epoch + 1
                     else epoch)
        in push_bit 32 epoch OR ucast xid)"

definition xid_to_64bit :: "64 word \<Rightarrow> 32 word \<Rightarrow> 64 word" where
  "xid_to_64bit full_xid xid = convert_xid_common xid (ucast full_xid) (ucast (drop_bit 32 full_xid))"

section \<open>Item pointers\<close>

record BlockIdData =
  bi_hi :: "16 word"
  bi_lo :: "16 word"

record ItemPointerData =
  ip_blkid :: BlockIdData
  ip_posid :: "16 word"

text \<open>A pointer is \<^term>\<open>None\<close> when it is null; an assertion or an \<open>unwrap\<close> that fails gives \<^term>\<open>None\<close>.\<close>

definition item_pointer_is_valid :: "ItemPointerData option \<Rightarrow> bool" where
  "item_pointer_is_valid ctid = (case ctid of None \<Rightarrow> False | Some tid \<Rightarrow> ip_posid tid \<noteq> 0)"

definition item_pointer_get_block_number_no_check :: "ItemPointerData \<Rightarrow> 32 word" where
  "item_pointer_get_block_number_no_check ctid =
     push_bit 16 (ucast (bi_hi (ip_blkid ctid))) OR ucast (bi_lo (ip_blkid ctid))"

definition item_pointer_get_offset_number_no_check :: "ItemPointerData \<Rightarrow> 16 word" where
  "item_pointer_get_offset_number_no_check ctid = ip_posid ctid"

definition item_pointer_get_block_number :: "ItemPointerData option \<Rightarrow> 32 word option" where
  "item_pointer_get_block_number ctid =
     (if item_pointer_is_valid ctid then map_option item_pointer_get_block_number_no_check ctid else None)"

definition item_pointer_get_offset_number :: "ItemPointerData option \<Rightarrow> 16 word option" where
  "item_pointer_get_offset_number ctid =
     (if item_pointer_is_valid ctid then map_option item_pointer_get_offset_number_no_check ctid else None)"

definition item_pointer_get_both :: "ItemPointerData \<Rightarrow> 32 word \<times> 16 word" where
  "item_pointer_get_both ctid =
     (item_pointer_get_block_number_no_check ctid, item_pointer_get_offset_number_no_check ctid)"

definition u16_try_from :: "32 word \<Rightarrow> 16 word option" where
  "u16_try_from w = (if w < 65536 then Some (ucast w) else None)"

definition item_pointer_set_all ::
    "ItemPointerData \<Rightarrow> 32 word \<Rightarrow> 16 word \<Rightarrow> ItemPointerData option" where
  "item_pointer_set_all tid blockno offno =
     Option.bind (u16_try_from (drop_bit 16 blockno)) (\<lambda>hi.
     Option.bind (u16_try_from (blockno AND 0xffff)) (\<lambda>lo.
       Some (tid\<lparr>ip_posid := offno, ip_blkid := \<lparr>bi_hi = hi, bi_lo = lo\<rparr>\<rparr>)))"

definition item_pointer_to_u64 :: "ItemPointerData \<Rightarrow> 64 word" where
  "item_pointer_to_u64 ctid =
     (let (blockno, offno) = item_pointer_get_both ctid in push_bit 32 (ucast blockno) OR ucast offno)"

definition u64_to_item_pointer_parts :: "64 word \<Rightarrow> 32 word \<times> 16 word" where
  "u64_to_item_pointer_parts v = (ucast (drop_bit 32 v), ucast v)"

definition u64_to_item_pointer :: "64 word \<Rightarrow> ItemPointerData \<Rightarrow> ItemPointerData option" where
  "u64_to_item_pointer v tid =
     (let blockno = ucast (drop_bit 32 v); offno = ucast v in item_pointer_set_all tid blockno offno)"

definition new_item_pointer :: "32 word \<Rightarrow> 16 word \<Rightarrow> ItemPointerData" where
  "new_item_pointer blockno offno =
     \<lparr>ip_blkid = \<lparr>bi_hi = ucast (drop_bit 16 blockno), bi_lo = ucast (blockno AND 0xffff)\<rparr>, ip_posid = offno\<rparr>"

text \<open>A datum points to the item pointer; reading and writing one copies it.\<close>

definition item_pointer_from_datum :: "ItemPointerData \<Rightarrow> bool \<Rightarrow> ItemPointerData option option" where
  "item_pointer_from_datum datum is_null =
     (if is_null then Some None
      else
        let (blockno, offno) = item_pointer_get_both datum
        in map_option Some
             (item_pointer_set_all \<lparr>ip_blkid = \<lparr>bi_hi = 0, bi_lo = 0\<rparr>, ip_posid = 0\<rparr> blockno offno))"

section \<open>Comparing is right within half of the ids\<close>

lemma sint_sub_of_wide:
  fixes X Y :: "64 word"
  assumes "- (2 ^ 31) \<le> uint X - uint Y" and "uint X - uint Y < 2 ^ 31"
  shows "sint (ucast X - ucast Y :: 32 word) = uint X - uint Y"
proof -
  have eq: "(ucast X - ucast Y :: 32 word) = word_of_int (uint X - uint Y)"
    by (simp only: of_int_diff of_int_uint)
  show ?thesis
    unfolding eq sint_sbintrunc' using assms by (intro signed_take_bit_int_eq_self) simp_all
qed

lemma compare_wide:
  fixes X Y :: "64 word"
  assumes "- (2 ^ 31) \<le> uint X - uint Y" and "uint X - uint Y < 2 ^ 31"
    and "TransactionIdIsNormal (ucast X)" and "TransactionIdIsNormal (ucast Y)"
  shows "TransactionIdPrecedes (ucast X) (ucast Y) \<longleftrightarrow> X < Y"
    and "TransactionIdPrecedesOrEquals (ucast X) (ucast Y) \<longleftrightarrow> X \<le> Y"
    and "TransactionIdFollows (ucast X) (ucast Y) \<longleftrightarrow> Y < X"
    and "TransactionIdFollowsOrEquals (ucast X) (ucast Y) \<longleftrightarrow> Y \<le> X"
  using assms(3,4)
  by (simp_all add: TransactionIdPrecedes_def TransactionIdPrecedesOrEquals_def TransactionIdFollows_def
    TransactionIdFollowsOrEquals_def sint_sub_of_wide [OF assms(1,2)] word_less_def word_le_def)

section \<open>Widening is right within half of the ids\<close>

lemma join_halves: "push_bit 32 (drop_bit 32 w) OR ucast (ucast w :: 32 word) = (w :: 64 word)"
  by (rule bit_word_eqI) (auto simp: bit_simps)

lemma epoch_of_wide: "ucast (ucast (drop_bit 32 F) :: 32 word) = (drop_bit 32 F :: 64 word)"
  by (rule bit_word_eqI) (auto simp: bit_simps dest: bit_imp_le_length)

text \<open>The upper halves of ids that are closer than half of the lower range.\<close>

lemma upper_halves_aux:
  fixes a b x f :: int
  assumes "0 \<le> x" "x < 4294967296" "0 \<le> f" "f < 4294967296"
    and "- 2147483648 \<le> 4294967296 * a + x - (4294967296 * b + f)"
    and "4294967296 * a + x - (4294967296 * b + f) < 2147483648"
  shows "a = b + (if f < x \<and> 4294967296 * a + x < 4294967296 * b + f then - 1
    else if x < f \<and> 4294967296 * b + f < 4294967296 * a + x then 1 else 0)"
proof -
  have "a < b + 2" "b - 2 < a"
    using assms by linarith+
  then consider "a = b - 1" | "a = b" | "a = b + 1"
    by linarith
  then show ?thesis
    using assms by cases simp_all
qed

lemmas upper_halves_mod = upper_halves_aux [of "X mod 4294967296" "F mod 4294967296" "X div 4294967296" "F div 4294967296"
  for X F, unfolded mult_div_mod_eq]

lemma upper_halves:
  fixes X F :: int
  assumes "- (2 ^ 31) \<le> X - F" and "X - F < 2 ^ 31"
  shows "X div 4294967296 = F div 4294967296
      + (if F mod 4294967296 < X mod 4294967296 \<and> X < F then - 1
         else if X mod 4294967296 < F mod 4294967296 \<and> F < X then 1 else 0)"
proof (rule upper_halves_mod)
  show "- 2147483648 \<le> X - F" "X - F < 2147483648"
    using assms by simp_all
qed (rule pos_mod_sign pos_mod_bound, simp)+

lemma xid_to_64bit_wide:
  fixes X F :: "64 word"
  assumes "- (2 ^ 31) \<le> uint X - uint F" and "uint X - uint F < 2 ^ 31"
    and "TransactionIdIsNormal (ucast X)" and "TransactionIdIsNormal (ucast F)"
  shows "xid_to_64bit F (ucast X) = X"
proof -
  have low: "uint (ucast w :: 32 word) = uint w mod 4294967296" for w :: "64 word"
    by (simp add: unsigned_ucast_eq take_bit_eq_mod)
  have high: "uint (drop_bit 32 w) = uint w div 4294967296" for w :: "64 word"
    by (simp add: drop_bit_eq_div uint_div)
  let ?e = "if ucast F < (ucast X :: 32 word) \<and> X < F then drop_bit 32 F - 1
    else if (ucast X :: 32 word) < ucast F \<and> F < X then drop_bit 32 F + 1 else drop_bit 32 F"
  have "drop_bit 32 X = (word_of_int (uint (drop_bit 32 X)) :: 64 word)"
    by simp
  also have "\<dots> = ?e"
    unfolding high upper_halves [OF assms(1,2)] by (simp add: word_less_def low flip: high)
  finally have e: "drop_bit 32 X = ?e" .
  have "xid_to_64bit F (ucast X) = push_bit 32 ?e OR ucast (ucast X :: 32 word)"
    using assms(3) compare_wide(1,3) [OF assms]
    by (simp add: xid_to_64bit_def convert_xid_common_def epoch_of_wide Let_def)
  then show ?thesis
    unfolding e [symmetric] join_halves .
qed

section \<open>Item pointers are their two numbers\<close>

lemma low_half: "b AND 0xffff = take_bit 16 (b :: 32 word)"
  by (simp add: take_bit_eq_mask mask_eq_exp_minus_1)

lemma u16_try_from_halves [simp]:
  "u16_try_from (drop_bit 16 b) = Some (ucast (drop_bit 16 b))"
  "u16_try_from (b AND 0xffff) = Some (ucast (b AND 0xffff))"
proof -
  have "drop_bit 16 b < (65536 :: 32 word)"
    using uint_lt2p [of b] by (simp add: word_less_def drop_bit_eq_div uint_div)
  moreover have "b AND 0xffff < (65536 :: 32 word)"
    by (simp add: low_half word_less_def take_bit_eq_mod uint_mod)
  ultimately show "u16_try_from (drop_bit 16 b) = Some (ucast (drop_bit 16 b))"
      "u16_try_from (b AND 0xffff) = Some (ucast (b AND 0xffff))"
    by (simp_all add: u16_try_from_def)
qed

lemma block_number_halves:
  "push_bit 16 (ucast (ucast (drop_bit 16 b) :: 16 word)) OR ucast (ucast (b AND 0xffff) :: 16 word) = (b :: 32 word)"
  by (rule bit_word_eqI) (auto simp: low_half bit_simps)

lemma block_number_parts:
  fixes hi lo :: "16 word"
  defines "b \<equiv> push_bit 16 (ucast hi) OR ucast lo :: 32 word"
  shows "ucast (drop_bit 16 b) = hi" and "ucast (b AND 0xffff) = lo"
  unfolding b_def by (rule bit_word_eqI; auto simp: low_half bit_simps dest: bit_imp_le_length)+

lemma get_both_new [simp]: "item_pointer_get_both (new_item_pointer b n) = (b, n)"
  by (simp add: item_pointer_get_both_def item_pointer_get_block_number_no_check_def
    item_pointer_get_offset_number_no_check_def new_item_pointer_def block_number_halves)

lemma get_new [simp]:
  "item_pointer_get_block_number_no_check (new_item_pointer b n) = b"
  "item_pointer_get_offset_number_no_check (new_item_pointer b n) = n"
  using get_both_new [of b n] by (simp_all add: item_pointer_get_both_def)

lemma new_get_both:
  "new_item_pointer (item_pointer_get_block_number_no_check t) (item_pointer_get_offset_number_no_check t) = t"
  unfolding new_item_pointer_def item_pointer_get_block_number_no_check_def
    item_pointer_get_offset_number_no_check_def block_number_parts by simp

lemma set_all_new [simp]: "item_pointer_set_all t b n = Some (new_item_pointer b n)"
  by (simp add: item_pointer_set_all_def new_item_pointer_def)

lemma wide_parts:
  fixes b :: "32 word" and n :: "16 word"
  defines "w \<equiv> push_bit 32 (ucast b) OR ucast n :: 64 word"
  shows "ucast (drop_bit 32 w) = b" and "ucast w = n"
  unfolding w_def by (rule bit_word_eqI; auto simp: bit_simps dest: bit_imp_le_length)+

lemma wide_parts_back:
  "push_bit 32 (ucast (ucast (drop_bit 32 v) :: 32 word)) OR ucast (ucast v :: 16 word)
     = (push_bit 32 (drop_bit 32 v) OR take_bit 16 v :: 64 word)"
  by (rule bit_word_eqI) (auto simp: bit_simps dest: bit_imp_le_length)

section \<open>Properties\<close>

text \<open>
  C36. Transaction ids are compared and widened exactly. For two full 64-bit ids that are less than half
  of the 32-bit range apart and whose lower halves are normal ids, the four comparisons of the lower
  halves, which wrap around, are the comparisons of the full ids. When the second is the id of the next
  transaction, widening the lower half of the first gives it back, on both sides of a wrap-around.
  The special ids are widened to themselves.
\<close>

theorem xids_widen_exactly:
  fixes X F :: "64 word"
  assumes "- (2 ^ 31) \<le> uint X - uint F" and "uint X - uint F < 2 ^ 31"
    and "TransactionIdIsNormal (ucast X)" and "TransactionIdIsNormal (ucast F)"
  shows "xid_to_64bit F (ucast X) = X
    \<and> (TransactionIdPrecedes (ucast X) (ucast F) \<longleftrightarrow> X < F)
    \<and> (TransactionIdPrecedesOrEquals (ucast X) (ucast F) \<longleftrightarrow> X \<le> F)
    \<and> (TransactionIdFollows (ucast X) (ucast F) \<longleftrightarrow> F < X)
    \<and> (TransactionIdFollowsOrEquals (ucast X) (ucast F) \<longleftrightarrow> F \<le> X)
    \<and> (\<forall>xid < FirstNormalTransactionId. xid_to_64bit F xid = ucast xid)"
  using xid_to_64bit_wide [OF assms] compare_wide [OF assms]
  by (simp add: xid_to_64bit_def convert_xid_common_def TransactionIdIsNormal_def)

theorem xids_widen_exactly_witness:
  "xid_to_64bit 0x500000010 0xfffffff0 = 0x4fffffff0 \<and> TransactionIdPrecedes 0xfffffff0 0x10
    \<and> xid_to_64bit 0x500000010 2 = 2"
proof -
  have low: "ucast (0x4fffffff0 :: 64 word) = (0xfffffff0 :: 32 word)" "ucast (0x500000010 :: 64 word) = (0x10 :: 32 word)"
    by simp_all
  show ?thesis
    using xids_widen_exactly [of "0x4fffffff0" "0x500000010", unfolded low]
    by (simp add: TransactionIdIsNormal_def FirstNormalTransactionId_def)
qed

text \<open>
  Item pointers are their block and offset numbers. Setting both numbers never fails and gives the
  pointer that has them, whatever it was before, and every pointer is the one of its numbers. The 64-bit
  form of a pointer and the datum of a pointer are read back to the same pointer. In the other direction
  a 64-bit value keeps its upper half and its lowest 16 bits, and the 16 bits between are lost.
\<close>

lemma item_pointers_round_trip:
  "item_pointer_set_all t b n = Some (new_item_pointer b n)
    \<and> item_pointer_get_both (new_item_pointer b n) = (b, n)
    \<and> u64_to_item_pointer (item_pointer_to_u64 t) t' = Some t
    \<and> u64_to_item_pointer_parts (item_pointer_to_u64 t) = item_pointer_get_both t
    \<and> item_pointer_from_datum t False = Some (Some t)
    \<and> map_option item_pointer_to_u64 (u64_to_item_pointer v t')
        = Some (push_bit 32 (drop_bit 32 v) OR take_bit 16 v)"
  unfolding u64_to_item_pointer_def u64_to_item_pointer_parts_def item_pointer_to_u64_def item_pointer_get_both_def
    item_pointer_from_datum_def Let_def prod.case wide_parts
  by (simp add: new_get_both wide_parts_back flip: item_pointer_get_both_def)

end
