(* ===== verification/Triggers.thy ===== *)
theory Triggers
  imports Prelude
begin

unbundle bit_operations_syntax

text \<open>
  Trigger functions (\<open>pgrx/src/trigger_support\<close>, \<open>PgHeapTuple::from_trigger_data\<close> in \<open>pgrx/src/heap_tuple.rs\<close>
  and the wrapper that \<open>pgrx-sql-entity-graph/src/pg_trigger/mod.rs\<close> generates). A pointer is
  \<^term>\<open>None\<close> when it is null, a C string the bytes before its end; rows are opaque.
\<close>

section \<open>Events\<close>

definition TRIGGER_EVENT_INSERT :: u32 where "TRIGGER_EVENT_INSERT = 0"
definition TRIGGER_EVENT_DELETE :: u32 where "TRIGGER_EVENT_DELETE = 1"
definition TRIGGER_EVENT_UPDATE :: u32 where "TRIGGER_EVENT_UPDATE = 2"
definition TRIGGER_EVENT_TRUNCATE :: u32 where "TRIGGER_EVENT_TRUNCATE = 3"
definition TRIGGER_EVENT_OPMASK :: u32 where "TRIGGER_EVENT_OPMASK = 3"
definition TRIGGER_EVENT_ROW :: u32 where "TRIGGER_EVENT_ROW = 4"
definition TRIGGER_EVENT_BEFORE :: u32 where "TRIGGER_EVENT_BEFORE = 8"
definition TRIGGER_EVENT_AFTER :: u32 where "TRIGGER_EVENT_AFTER = 0"
definition TRIGGER_EVENT_INSTEAD :: u32 where "TRIGGER_EVENT_INSTEAD = 16"
definition TRIGGER_EVENT_TIMINGMASK :: u32 where "TRIGGER_EVENT_TIMINGMASK = 24"

lemmas trigger_bits = TRIGGER_EVENT_INSERT_def TRIGGER_EVENT_DELETE_def TRIGGER_EVENT_UPDATE_def
  TRIGGER_EVENT_TRUNCATE_def TRIGGER_EVENT_OPMASK_def TRIGGER_EVENT_ROW_def TRIGGER_EVENT_BEFORE_def
  TRIGGER_EVENT_AFTER_def TRIGGER_EVENT_INSTEAD_def TRIGGER_EVENT_TIMINGMASK_def

definition trigger_fired_by_insert :: "u32 \<Rightarrow> bool" where
  "trigger_fired_by_insert event \<longleftrightarrow> event AND TRIGGER_EVENT_OPMASK = TRIGGER_EVENT_INSERT"

definition trigger_fired_by_delete :: "u32 \<Rightarrow> bool" where
  "trigger_fired_by_delete event \<longleftrightarrow> event AND TRIGGER_EVENT_OPMASK = TRIGGER_EVENT_DELETE"

definition trigger_fired_by_update :: "u32 \<Rightarrow> bool" where
  "trigger_fired_by_update event \<longleftrightarrow> event AND TRIGGER_EVENT_OPMASK = TRIGGER_EVENT_UPDATE"

definition trigger_fired_by_truncate :: "u32 \<Rightarrow> bool" where
  "trigger_fired_by_truncate event \<longleftrightarrow> event AND TRIGGER_EVENT_OPMASK = TRIGGER_EVENT_TRUNCATE"

definition trigger_fired_for_row :: "u32 \<Rightarrow> bool" where
  "trigger_fired_for_row event \<longleftrightarrow> event AND TRIGGER_EVENT_ROW \<noteq> 0"

definition trigger_fired_for_statement :: "u32 \<Rightarrow> bool" where
  "trigger_fired_for_statement event \<longleftrightarrow> \<not> trigger_fired_for_row event"

definition trigger_fired_before :: "u32 \<Rightarrow> bool" where
  "trigger_fired_before event \<longleftrightarrow> event AND TRIGGER_EVENT_TIMINGMASK = TRIGGER_EVENT_BEFORE"

definition trigger_fired_after :: "u32 \<Rightarrow> bool" where
  "trigger_fired_after event \<longleftrightarrow> event AND TRIGGER_EVENT_TIMINGMASK = TRIGGER_EVENT_AFTER"

definition trigger_fired_instead :: "u32 \<Rightarrow> bool" where
  "trigger_fired_instead event \<longleftrightarrow> event AND TRIGGER_EVENT_TIMINGMASK = TRIGGER_EVENT_INSTEAD"

lemmas fired_defs = trigger_fired_by_insert_def trigger_fired_by_delete_def trigger_fired_by_update_def
  trigger_fired_by_truncate_def trigger_fired_for_row_def trigger_fired_for_statement_def
  trigger_fired_before_def trigger_fired_after_def trigger_fired_instead_def

datatype PgTriggerLevel = RowLevel | StatementLevel
datatype PgTriggerWhen = BeforeEvent | AfterEvent | InsteadOfEvent
datatype PgTriggerOperation = InsertOp | UpdateOp | DeleteOp | TruncateOp

datatype PgTriggerError =
    NotTrigger
  | NullFunctionCallInfo
  | InvalidPgTriggerWhen u32
  | InvalidPgTriggerOperation u32
  | CoreUtf8
  | TryFromInt
  | NullTrigger
  | NullTriggerData
  | NullRelation

definition PgTriggerLevel_from :: "u32 \<Rightarrow> PgTriggerLevel" where
  "PgTriggerLevel_from event = (if event AND TRIGGER_EVENT_ROW = 0 then StatementLevel else RowLevel)"

definition PgTriggerWhen_try_from :: "u32 \<Rightarrow> PgTriggerError + PgTriggerWhen" where
  "PgTriggerWhen_try_from event =
     (let v = event AND TRIGGER_EVENT_TIMINGMASK
      in if v = TRIGGER_EVENT_BEFORE then Inr BeforeEvent
         else if v = TRIGGER_EVENT_AFTER then Inr AfterEvent
         else if v = TRIGGER_EVENT_INSTEAD then Inr InsteadOfEvent
         else Inl (InvalidPgTriggerWhen v))"

definition PgTriggerOperation_try_from :: "u32 \<Rightarrow> PgTriggerError + PgTriggerOperation" where
  "PgTriggerOperation_try_from event =
     (let v = event AND TRIGGER_EVENT_OPMASK
      in if v = TRIGGER_EVENT_INSERT then Inr InsertOp
         else if v = TRIGGER_EVENT_DELETE then Inr DeleteOp
         else if v = TRIGGER_EVENT_UPDATE then Inr UpdateOp
         else if v = TRIGGER_EVENT_TRUNCATE then Inr TruncateOp
         else Inl (InvalidPgTriggerOperation v))"

primrec show_trigger_level :: "PgTriggerLevel \<Rightarrow> string" where
  "show_trigger_level RowLevel = ''ROW''"
| "show_trigger_level StatementLevel = ''STATEMENT''"

primrec show_trigger_when :: "PgTriggerWhen \<Rightarrow> string" where
  "show_trigger_when BeforeEvent = ''BEFORE''"
| "show_trigger_when AfterEvent = ''AFTER''"
| "show_trigger_when InsteadOfEvent = ''INSTEAD OF''"

primrec show_trigger_operation :: "PgTriggerOperation \<Rightarrow> string" where
  "show_trigger_operation InsertOp = ''INSERT''"
| "show_trigger_operation UpdateOp = ''UPDATE''"
| "show_trigger_operation DeleteOp = ''DELETE''"
| "show_trigger_operation TruncateOp = ''TRUNCATE''"

section \<open>The trigger of a call\<close>

text \<open>The fields of the server's \<open>Trigger\<close> and \<open>TriggerData\<close> that the code reads. \<open>tgnargs\<close> is an \<open>i16\<close>.\<close>

record server_trigger =
  tgname :: "u8 list"
  tgnargs :: "16 word"
  tgargs :: "u8 list list"
  tgoldtable :: "u8 list option"
  tgnewtable :: "u8 list option"

record 't TriggerData =
  tg_event :: u32
  tg_trigtuple :: "'t option"
  tg_newtuple :: "'t option"
  tg_trigger :: "server_trigger option"

text \<open>The node that the server passes as the context of the call.\<close>

datatype 't call_context = TriggerContext "'t TriggerData" | OtherContext

record 't trigger_call =
  pt_trigger :: server_trigger
  pt_trigger_data :: "'t TriggerData"

definition called_as_trigger :: "'t call_context option \<Rightarrow> bool" where
  "called_as_trigger context = (case context of Some (TriggerContext _) \<Rightarrow> True | _ \<Rightarrow> False)"

definition PgTrigger_from_fcinfo :: "'t call_context option \<Rightarrow> PgTriggerError + 't trigger_call" where
  "PgTrigger_from_fcinfo context =
     (if \<not> called_as_trigger context then Inl NotTrigger
      else
        rbind (ok_or NullTriggerData (case context of Some (TriggerContext td) \<Rightarrow> Some td | _ \<Rightarrow> None)) (\<lambda>td.
        rbind (ok_or NullTrigger (tg_trigger td)) (\<lambda>trigger.
          Inr \<lparr>pt_trigger = trigger, pt_trigger_data = td\<rparr>)))"

datatype TriggerTuple = NewTuple | OldTuple

text \<open>The outer option is the panic of the assertion, the inner one the result.\<close>

definition from_trigger_data :: "'t TriggerData \<Rightarrow> TriggerTuple \<Rightarrow> 't option option" where
  "from_trigger_data td which_tuple =
     (if trigger_fired_for_statement (tg_event td) then Some None
      else
        let tuple =
          (case which_tuple of
             NewTuple \<Rightarrow>
               if trigger_fired_by_insert (tg_event td) then Some (tg_trigtuple td)
               else if trigger_fired_by_update (tg_event td) then Some (tg_newtuple td)
               else None
           | OldTuple \<Rightarrow>
               if trigger_fired_by_update (tg_event td) \<or> trigger_fired_by_delete (tg_event td)
               then Some (tg_trigtuple td)
               else None)
        in (case tuple of
              None \<Rightarrow> Some None
            | Some None \<Rightarrow> None
            | Some (Some t) \<Rightarrow> Some (Some t)))"

definition PgTrigger_new :: "'t trigger_call \<Rightarrow> 't option option" where
  "PgTrigger_new t = from_trigger_data (pt_trigger_data t) NewTuple"

definition PgTrigger_old :: "'t trigger_call \<Rightarrow> 't option option" where
  "PgTrigger_old t = from_trigger_data (pt_trigger_data t) OldTuple"

definition PgTrigger_when :: "'t trigger_call \<Rightarrow> PgTriggerError + PgTriggerWhen" where
  "PgTrigger_when t = PgTriggerWhen_try_from (tg_event (pt_trigger_data t))"

definition PgTrigger_level :: "'t trigger_call \<Rightarrow> PgTriggerLevel" where
  "PgTrigger_level t = PgTriggerLevel_from (tg_event (pt_trigger_data t))"

definition PgTrigger_op :: "'t trigger_call \<Rightarrow> PgTriggerError + PgTriggerOperation" where
  "PgTrigger_op t = PgTriggerOperation_try_from (tg_event (pt_trigger_data t))"

definition CStr_to_str :: "u8 list \<Rightarrow> PgTriggerError + string" where
  "CStr_to_str bs = (if utf8_valid bs then Inr (from_bytes bs) else Inl CoreUtf8)"

definition PgTrigger_name :: "'t trigger_call \<Rightarrow> PgTriggerError + string" where
  "PgTrigger_name t = CStr_to_str (tgname (pt_trigger t))"

definition old_transition_table_name :: "'t trigger_call \<Rightarrow> PgTriggerError + string option" where
  "old_transition_table_name t =
     (case tgoldtable (pt_trigger t) of None \<Rightarrow> Inr None | Some bs \<Rightarrow> map_res Some (CStr_to_str bs))"

definition new_transition_table_name :: "'t trigger_call \<Rightarrow> PgTriggerError + string option" where
  "new_transition_table_name t =
     (case tgnewtable (pt_trigger t) of None \<Rightarrow> Inr None | Some bs \<Rightarrow> map_res Some (CStr_to_str bs))"

text \<open>Reading more arguments than there are is undefined behaviour, \<^term>\<open>None\<close>.\<close>

definition extra_args :: "'t trigger_call \<Rightarrow> (PgTriggerError + string list) option" where
  "extra_args t =
     (let n = sint (tgnargs (pt_trigger t))
      in if n = 0 then Some (Inr [])
         else if n < 0 then Some (Inl TryFromInt)
         else if length (tgargs (pt_trigger t)) < nat n then None
         else Some (rmap CStr_to_str (take (nat n) (tgargs (pt_trigger t)))))"

text \<open>
  The generated wrapper around a trigger function. A panic is a message; the result is the row that the
  server goes on with, or the null pointer.
\<close>

definition trigger_wrapper ::
    "('t trigger_call \<Rightarrow> 'e + 't option) \<Rightarrow> 't call_context option \<Rightarrow> string + 't option" where
  "trigger_wrapper f context =
     (case PgTrigger_from_fcinfo context of
        Inl _ \<Rightarrow> Inl ''PgTrigger::from_fcinfo failed''
      | Inr pg_trigger \<Rightarrow>
          (case f pg_trigger of
             Inl _ \<Rightarrow> Inl ''Trigger function panic''
           | Inr trigger_retval \<Rightarrow> Inr trigger_retval))"

section \<open>Events are made of their parts\<close>

primrec operation_bits :: "PgTriggerOperation \<Rightarrow> u32" where
  "operation_bits InsertOp = TRIGGER_EVENT_INSERT"
| "operation_bits UpdateOp = TRIGGER_EVENT_UPDATE"
| "operation_bits DeleteOp = TRIGGER_EVENT_DELETE"
| "operation_bits TruncateOp = TRIGGER_EVENT_TRUNCATE"

primrec level_bits :: "PgTriggerLevel \<Rightarrow> u32" where
  "level_bits RowLevel = TRIGGER_EVENT_ROW"
| "level_bits StatementLevel = 0"

primrec when_bits :: "PgTriggerWhen \<Rightarrow> u32" where
  "when_bits BeforeEvent = TRIGGER_EVENT_BEFORE"
| "when_bits AfterEvent = TRIGGER_EVENT_AFTER"
| "when_bits InsteadOfEvent = TRIGGER_EVENT_INSTEAD"

text \<open>The event of a trigger, with other bits of the server above.\<close>

definition trigger_event :: "PgTriggerOperation \<Rightarrow> PgTriggerLevel \<Rightarrow> PgTriggerWhen \<Rightarrow> u32 \<Rightarrow> u32" where
  "trigger_event op l w other = operation_bits op OR level_bits l OR when_bits w OR push_bit 5 other"

lemma high_and_low_bits: "push_bit k x AND take_bit k m = (0 :: 'a::len word)"
  by (rule bit_word_eqI) (auto simp: bit_simps)

lemma other_bits [simp]:
  "push_bit 5 other AND 3 = (0 :: u32)" "push_bit 5 other AND 4 = (0 :: u32)" "push_bit 5 other AND 24 = (0 :: u32)"
  using high_and_low_bits [of 5 other 3] high_and_low_bits [of 5 other 4] high_and_low_bits [of 5 other 24] by simp_all

lemmas other_bits_simp [simp] = other_bits [simplified]

lemma trigger_event_bits:
  "trigger_event op l w other AND TRIGGER_EVENT_OPMASK = operation_bits op"
  "trigger_event op l w other AND TRIGGER_EVENT_ROW = level_bits l"
  "trigger_event op l w other AND TRIGGER_EVENT_TIMINGMASK = when_bits w"
  by (cases op; cases l; cases w; simp add: trigger_event_def trigger_bits bit.conj_disj_distrib2)+

lemma trigger_event_parts:
  "PgTriggerOperation_try_from (trigger_event op l w other) = Inr op"
  "PgTriggerLevel_from (trigger_event op l w other) = l"
  "PgTriggerWhen_try_from (trigger_event op l w other) = Inr w"
proof -
  show "PgTriggerOperation_try_from (trigger_event op l w other) = Inr op"
    unfolding PgTriggerOperation_try_from_def trigger_event_bits by (cases op) (simp_all add: trigger_bits)
  show "PgTriggerLevel_from (trigger_event op l w other) = l"
    unfolding PgTriggerLevel_from_def trigger_event_bits by (cases l) (simp_all add: trigger_bits)
  show "PgTriggerWhen_try_from (trigger_event op l w other) = Inr w"
    unfolding PgTriggerWhen_try_from_def trigger_event_bits by (cases w) (simp_all add: trigger_bits)
qed

lemma trigger_event_fired:
  "trigger_fired_by_insert (trigger_event op l w other) \<longleftrightarrow> op = InsertOp"
  "trigger_fired_by_delete (trigger_event op l w other) \<longleftrightarrow> op = DeleteOp"
  "trigger_fired_by_update (trigger_event op l w other) \<longleftrightarrow> op = UpdateOp"
  "trigger_fired_by_truncate (trigger_event op l w other) \<longleftrightarrow> op = TruncateOp"
  "trigger_fired_for_row (trigger_event op l w other) \<longleftrightarrow> l = RowLevel"
  "trigger_fired_for_statement (trigger_event op l w other) \<longleftrightarrow> l = StatementLevel"
  "trigger_fired_before (trigger_event op l w other) \<longleftrightarrow> w = BeforeEvent"
  "trigger_fired_after (trigger_event op l w other) \<longleftrightarrow> w = AfterEvent"
  "trigger_fired_instead (trigger_event op l w other) \<longleftrightarrow> w = InsteadOfEvent"
proof -
  show "trigger_fired_by_insert (trigger_event op l w other) \<longleftrightarrow> op = InsertOp"
    "trigger_fired_by_delete (trigger_event op l w other) \<longleftrightarrow> op = DeleteOp"
    "trigger_fired_by_update (trigger_event op l w other) \<longleftrightarrow> op = UpdateOp"
    "trigger_fired_by_truncate (trigger_event op l w other) \<longleftrightarrow> op = TruncateOp"
    unfolding fired_defs trigger_event_bits by (cases op; simp add: trigger_bits)+
  show "trigger_fired_for_row (trigger_event op l w other) \<longleftrightarrow> l = RowLevel"
    "trigger_fired_for_statement (trigger_event op l w other) \<longleftrightarrow> l = StatementLevel"
    unfolding fired_defs trigger_event_bits by (cases l; simp add: trigger_bits)+
  show "trigger_fired_before (trigger_event op l w other) \<longleftrightarrow> w = BeforeEvent"
    "trigger_fired_after (trigger_event op l w other) \<longleftrightarrow> w = AfterEvent"
    "trigger_fired_instead (trigger_event op l w other) \<longleftrightarrow> w = InsteadOfEvent"
    unfolding fired_defs trigger_event_bits by (cases w; simp add: trigger_bits)+
qed

text \<open>Every event is made of such parts, unless it has both bits of the timing.\<close>

lemma two_bits: "take_bit 2 x \<in> {0, 1, 2, 3 :: u32}"
proof -
  have "uint (x mod 4) \<in> {0, 1, 2, 3}"
    by (simp add: uint_mod) presburger
  then show ?thesis
    by (auto simp: take_bit_eq_mod word_uint_eq_iff)
qed

lemma masked_bits:
  "e AND TRIGGER_EVENT_OPMASK = take_bit 2 e"
  "e AND TRIGGER_EVENT_TIMINGMASK = push_bit 3 (take_bit 2 (drop_bit 3 e))"
proof -
  show "e AND TRIGGER_EVENT_OPMASK = take_bit 2 e"
    by (simp add: trigger_bits take_bit_eq_mask mask_eq_exp_minus_1)
  have mask: "TRIGGER_EVENT_TIMINGMASK = push_bit 3 (mask 2)"
    by (simp add: trigger_bits mask_eq_exp_minus_1)
  show "e AND TRIGGER_EVENT_TIMINGMASK = push_bit 3 (take_bit 2 (drop_bit 3 e))"
    unfolding mask by (rule bit_word_eqI) (auto simp: bit_simps)
qed

lemma operation_total: "\<exists>op. PgTriggerOperation_try_from e = Inr op"
  using two_bits [of e] unfolding PgTriggerOperation_try_from_def masked_bits by (auto simp: trigger_bits)

lemma when_error:
  "(\<exists>v. PgTriggerWhen_try_from e = Inl v) \<longleftrightarrow> e AND TRIGGER_EVENT_TIMINGMASK = TRIGGER_EVENT_TIMINGMASK"
  using two_bits [of "drop_bit 3 e"] unfolding PgTriggerWhen_try_from_def masked_bits by (auto simp: trigger_bits)

section \<open>Properties\<close>

text \<open>The rows of a row-level trigger, as the server documents them: \<open>OLD\<close> and \<open>NEW\<close> of PL/pgSQL.\<close>

fun old_row :: "PgTriggerOperation \<Rightarrow> 't TriggerData \<Rightarrow> 't option" where
  "old_row UpdateOp td = tg_trigtuple td"
| "old_row DeleteOp td = tg_trigtuple td"
| "old_row _ td = None"

fun new_row :: "PgTriggerOperation \<Rightarrow> 't TriggerData \<Rightarrow> 't option" where
  "new_row InsertOp td = tg_trigtuple td"
| "new_row UpdateOp td = tg_newtuple td"
| "new_row _ td = None"

text \<open>
  C37. A trigger function sees its event and its rows. Whatever the other bits of the event are, the
  operation, the level and the time that the server put in the event are what the trigger function is
  told, by the conversions and by each of the predicates. It gets the old row of updates and deletes
  and the new row of inserts and updates when it is called for a row, no row otherwise, and the check
  for a null row never fails when the server passes the rows that it documents. The row it returns is
  what the server goes on with. Every event names an operation, and the only events without a time are
  those that have both bits of it.
\<close>

theorem trigger_sees_event_and_rows:
  assumes "tg_event td = trigger_event op l w other" and "tg_trigger td = Some tr"
    and "l = RowLevel \<Longrightarrow> tg_trigtuple td \<noteq> None \<and> (op = UpdateOp \<longrightarrow> tg_newtuple td \<noteq> None)"
  shows "\<exists>t. PgTrigger_from_fcinfo (Some (TriggerContext td)) = Inr t
    \<and> PgTrigger_op t = Inr op \<and> PgTrigger_level t = l \<and> PgTrigger_when t = Inr w
    \<and> trigger_fired_by_insert (tg_event td) = (op = InsertOp)
    \<and> trigger_fired_by_update (tg_event td) = (op = UpdateOp)
    \<and> trigger_fired_by_delete (tg_event td) = (op = DeleteOp)
    \<and> trigger_fired_by_truncate (tg_event td) = (op = TruncateOp)
    \<and> trigger_fired_for_row (tg_event td) = (l = RowLevel)
    \<and> trigger_fired_before (tg_event td) = (w = BeforeEvent)
    \<and> trigger_fired_after (tg_event td) = (w = AfterEvent)
    \<and> trigger_fired_instead (tg_event td) = (w = InsteadOfEvent)
    \<and> PgTrigger_old t = Some (if l = RowLevel then old_row op td else None)
    \<and> PgTrigger_new t = Some (if l = RowLevel then new_row op td else None)
    \<and> (\<forall>f r. f t = Inr r \<longrightarrow> trigger_wrapper f (Some (TriggerContext td)) = Inr r)
    \<and> (\<forall>e. \<exists>op. PgTriggerOperation_try_from e = Inr op)
    \<and> (\<forall>e. (\<exists>v. PgTriggerWhen_try_from e = Inl v) \<longleftrightarrow> e AND TRIGGER_EVENT_TIMINGMASK = TRIGGER_EVENT_TIMINGMASK)"
proof -
  let ?t = "\<lparr>pt_trigger = tr, pt_trigger_data = td\<rparr>"
  have t: "PgTrigger_from_fcinfo (Some (TriggerContext td)) = Inr ?t"
    by (simp add: PgTrigger_from_fcinfo_def called_as_trigger_def assms(2))
  have old: "PgTrigger_old ?t = Some (if l = RowLevel then old_row op td else None)"
    using assms(3) by (cases l; cases op)
      (auto simp: PgTrigger_old_def from_trigger_data_def assms(1) trigger_event_fired Let_def)
  have new: "PgTrigger_new ?t = Some (if l = RowLevel then new_row op td else None)"
    using assms(3) by (cases l; cases op)
      (auto simp: PgTrigger_new_def from_trigger_data_def assms(1) trigger_event_fired Let_def)
  show ?thesis
    using t old new by (simp add: trigger_wrapper_def PgTrigger_op_def PgTrigger_level_def PgTrigger_when_def assms(1) trigger_event_parts
      trigger_event_fired operation_total when_error)
qed

theorem trigger_sees_event_and_rows_witness:
  "\<exists>t. PgTrigger_from_fcinfo (Some (TriggerContext \<lparr>tg_event = 46, tg_trigtuple = Some ''old'', tg_newtuple = Some ''new'',
        tg_trigger = Some \<lparr>tgname = [116], tgnargs = 0, tgargs = [], tgoldtable = None, tgnewtable = None\<rparr>\<rparr>)) = Inr t
    \<and> PgTrigger_op t = Inr UpdateOp \<and> PgTrigger_when t = Inr BeforeEvent
    \<and> PgTrigger_old t = Some (Some ''old'') \<and> PgTrigger_new t = Some (Some ''new'')"
proof -
  let ?tr = "\<lparr>tgname = [116], tgnargs = 0, tgargs = [], tgoldtable = None, tgnewtable = None\<rparr>"
  let ?td = "\<lparr>tg_event = 46, tg_trigtuple = Some ''old'', tg_newtuple = Some ''new'', tg_trigger = Some ?tr\<rparr>"
  have "tg_event ?td = trigger_event UpdateOp RowLevel BeforeEvent 1"
    by (simp add: trigger_event_def trigger_bits)
  then show ?thesis
    using trigger_sees_event_and_rows [of ?td UpdateOp RowLevel BeforeEvent 1 ?tr] by auto
qed

end
