(* ===== verification/Pg_Config.thy ===== *)
theory Pg_Config
  imports Graph_Build
begin

text \<open>
  The installed servers (\<open>pgrx-pg-config/src/lib.rs\<close>): what \<open>pg_config\<close> says of a server, the parsing of
  its version, the ports, and the choice of one or all of the servers that pgrx manages. The process that
  runs \<open>pg_config\<close>, the environment, the file system and the parser of TOML are parameters. \<open>u16\<close> is a word,
  and adding ports wraps as in a release build; a path is its text on a Unix system.
\<close>

section \<open>Text\<close>

text \<open>\<open>str::split_whitespace\<close>.\<close>

fun word_len :: "string \<Rightarrow> nat" where
  "word_len [] = 0"
| "word_len (c # s) = (if trim_start (c # s) = c # s then Suc (word_len s) else 0)"

lemma length_trim_start: "length (trim_start s) \<le> length s"
proof (induction s rule: length_induct)
  case (1 s)
  then have IH: "length t < length s \<Longrightarrow> length (trim_start t) \<le> length t" for t
    by blast
  show ?case
  proof (cases s)
    case (Cons a s1)
    have "length (trim_start s1) \<le> length s1"
      using IH Cons by simp
    moreover have "length (trim_start s2) \<le> length s2" if "s1 = b # s2" for b s2
      using IH Cons that by simp
    moreover have "length (trim_start s3) \<le> length s3" if "s1 = b # c # s3" for b c s3
      using IH Cons that by simp
    ultimately show ?thesis
      unfolding Cons trim_start.simps(2) [of a s1]
      by (auto simp: le_SucI split: list.split simp del: trim_start.simps)
  qed simp
qed

function split_whitespace :: "string \<Rightarrow> string list" where
  "split_whitespace s =
     (case trim_start s of
        [] \<Rightarrow> []
      | c # t \<Rightarrow> (c # take (word_len t) t) # split_whitespace (drop (word_len t) t))"
  by pat_completeness auto
termination
proof (relation "measure length")
  fix s c t
  assume "trim_start s = c # t"
  then show "(drop (word_len t) t, s) \<in> measure length"
    using length_trim_start [of s] by simp
qed simp

declare split_whitespace.simps [simp del]

text \<open>\<open>u16::from_str\<close>, without the kinds of its error.\<close>

definition is_ascii_digit :: "char \<Rightarrow> bool" where
  "is_ascii_digit c \<longleftrightarrow> 48 \<le> (of_char c :: nat) \<and> (of_char c :: nat) \<le> 57"

fun digits_value :: "nat \<Rightarrow> string \<Rightarrow> nat option" where
  "digits_value acc [] = Some acc"
| "digits_value acc (c # s) =
     (if is_ascii_digit c then digits_value (10 * acc + (of_char c - 48)) s else None)"

definition u16_from_str :: "string \<Rightarrow> 16 word option" where
  "u16_from_str s =
     (let ds = (case s of c # cs \<Rightarrow> if c = CHR ''+'' then cs else s | [] \<Rightarrow> [])
      in if ds = [] then None
         else Option.bind (digits_value 0 ds) (\<lambda>n. if n < 65536 then Some (of_nat n) else None))"

definition show_u16 :: "16 word \<Rightarrow> string" where
  "show_u16 v = show_nat (unat v)"

section \<open>Versions\<close>

datatype PgMinorVersion = Latest | Release "16 word" | Beta "16 word" | Rc "16 word"

primrec show_minor :: "PgMinorVersion \<Rightarrow> string" where
  "show_minor Latest = ''.LATEST''"
| "show_minor (Release v) = ''.'' @ show_u16 v"
| "show_minor (Beta v) = ''beta'' @ show_u16 v"
| "show_minor (Rc v) = ''rc'' @ show_u16 v"

primrec minor_number :: "PgMinorVersion \<Rightarrow> 16 word option" where
  "minor_number Latest = None"
| "minor_number (Release v) = Some v"
| "minor_number (Beta v) = Some v"
| "minor_number (Rc v) = Some v"

record PgVersion =
  pv_major :: "16 word"
  pv_minor :: PgMinorVersion
  pv_url :: "string option"

definition show_version :: "PgVersion \<Rightarrow> string" where
  "show_version v = show_u16 (pv_major v) @ show_minor (pv_minor v)"

datatype 'io config_error =
    NoKnownProperty string
  | NotInEnvironment
  | NotOnPath
  | TildeNotExpanded string
  | NoBinary string
  | IoFailure 'io
  | InvalidVersionString string
  | InvalidMajor string
  | InvalidMinor string
  | NotPgConfig string "'io config_error"
  | NotManaged string
  | NoHomeDirectory
  | MissingPgrxHome string
  | NoConfigToml string
  | UnreadableToml string

definition parse_version_str :: "string \<Rightarrow> 'io config_error + 16 word \<times> PgMinorVersion" where
  "parse_version_str version_str =
     (let version_parts = split_whitespace version_str in
      if length version_parts \<le> 1 then Inl (InvalidVersionString version_str)
      else
        let first = version_parts ! 1; version = split_str ''.'' first in
        rbind
          (if length version = 1 then
             if contains first ''beta'' then Inr (split_str ''beta'' first, Beta)
             else if contains first ''rc'' then Inr (split_str ''rc'' first, Rc)
             else Inl (InvalidVersionString version_str)
           else Inr (version, Release))
          (\<lambda>(version, kind).
             case u16_from_str (version ! 0) of
               None \<Rightarrow> Inl (InvalidMajor (version ! 0))
             | Some major \<Rightarrow>
                 let minor = takeWhile is_ascii_digit (version ! 1) in
                 (case u16_from_str minor of
                    None \<Rightarrow> Inl (InvalidMinor minor)
                  | Some n \<Rightarrow> Inr (major, kind n))))"

section \<open>One server\<close>

text \<open>
  What the code asks of the world: the environment, the output of \<open>pg_config\<close> with an argument, whether
  an error says that the binary was not found, the home directory, whether a path exists, and the
  contents of \<open>config.toml\<close>, unless it cannot be parsed.
\<close>

record ConfigToml =
  ct_base_port :: "16 word option"
  ct_base_testing_port :: "16 word option"
  ct_configs :: "(string \<times> string) list"

record 'io host =
  env_vars :: "(string \<times> string) list"
  command_output :: "string \<Rightarrow> string \<Rightarrow> 'io + string"
  is_not_found :: "'io \<Rightarrow> bool"
  home_dir :: "string option"
  try_exists :: "string \<Rightarrow> 'io + bool"
  read_toml :: "string \<Rightarrow> 'io + ConfigToml option"

record PgConfig =
  pc_version :: "PgVersion option"
  pc_pg_config :: "string option"
  pc_known_props :: "(string \<rightharpoonup> string) option"
  pc_base_port :: "16 word"
  pc_base_testing_port :: "16 word"
  pc_test_port_override :: "16 word option"

definition BASE_POSTGRES_PORT_NO :: "16 word" where
  "BASE_POSTGRES_PORT_NO = 28800"

definition BASE_POSTGRES_TESTING_PORT_NO :: "16 word" where
  "BASE_POSTGRES_TESTING_PORT_NO = 32200"

definition PgConfig_from_version :: "PgVersion \<Rightarrow> PgConfig" where
  "PgConfig_from_version v =
     \<lparr>pc_version = Some v, pc_pg_config = None, pc_known_props = None, pc_base_port = BASE_POSTGRES_PORT_NO,
      pc_base_testing_port = BASE_POSTGRES_TESTING_PORT_NO, pc_test_port_override = None\<rparr>"

definition PgConfig_new :: "string \<Rightarrow> 16 word \<Rightarrow> 16 word \<Rightarrow> PgConfig" where
  "PgConfig_new pg_config base_port base_testing_port =
     \<lparr>pc_version = None, pc_pg_config = Some pg_config, pc_known_props = None, pc_base_port = base_port,
      pc_base_testing_port = base_testing_port, pc_test_port_override = None\<rparr>"

definition new_with_defaults :: "string \<Rightarrow> PgConfig" where
  "new_with_defaults pg_config =
     \<lparr>pc_version = None, pc_pg_config = Some pg_config, pc_known_props = None, pc_base_port = BASE_POSTGRES_PORT_NO,
      pc_base_testing_port = BASE_POSTGRES_TESTING_PORT_NO, pc_test_port_override = None\<rparr>"

definition is_in_environment :: "'io host \<Rightarrow> bool" where
  "is_in_environment h \<longleftrightarrow> map_of (env_vars h) ''PGRX_PG_CONFIG_AS_ENV'' = Some ''true''"

text \<open>\<open>str::trim_start_matches\<close> of a text.\<close>

function trim_prefixes :: "string \<Rightarrow> string \<Rightarrow> string" where
  "trim_prefixes p s = (if p \<noteq> [] \<and> starts_with s p then trim_prefixes p (drop (length p) s) else s)"
  by pat_completeness auto
termination
proof (relation "measure (length \<circ> snd)")
  fix p s :: string
  assume "p \<noteq> [] \<and> starts_with s p"
  then show "((p, drop (length p) s), p, s) \<in> measure (length \<circ> snd)"
    by (auto simp: starts_with_iff)
qed simp

declare trim_prefixes.simps [simp del]

definition known_prop :: "case_table \<Rightarrow> string \<Rightarrow> string" where
  "known_prop uni k = ''--'' @ to_lowercase uni (trim_prefixes ''PGRX_PG_CONFIG_'' k)"

definition from_env :: "case_table \<Rightarrow> 'io host \<Rightarrow> 'io config_error + PgConfig" where
  "from_env uni h =
     (if \<not> is_in_environment h then Inl NotInEnvironment
      else
        let known_props = fold (\<lambda>(k, v) m. m(known_prop uni k \<mapsto> v))
          (filter (\<lambda>(k, v). starts_with k ''PGRX_PG_CONFIG_'') (env_vars h)) Map.empty
        in Inr \<lparr>pc_version = None, pc_pg_config = None, pc_known_props = Some known_props, pc_base_port = 0,
             pc_base_testing_port = 0, pc_test_port_override = None\<rparr>)"

definition is_real :: "PgConfig \<Rightarrow> bool" where
  "is_real c \<longleftrightarrow> pc_pg_config c \<noteq> None"

definition run_config :: "'io host \<Rightarrow> PgConfig \<Rightarrow> string \<Rightarrow> 'io config_error + string" where
  "run_config h c arg =
     (case pc_known_props c of
        Some known_props \<Rightarrow> ok_or (NoKnownProperty arg) (known_props arg)
      | None \<Rightarrow>
          let pg_config =
            (case pc_pg_config c of
               Some p \<Rightarrow> p
             | None \<Rightarrow> (case map_of (env_vars h) ''PG_CONFIG'' of Some p \<Rightarrow> p | None \<Rightarrow> ''pg_config''))
          in (case command_output h pg_config arg of
                Inr out \<Rightarrow> Inr (trim out)
              | Inl e \<Rightarrow>
                  Inl (if is_not_found h e then
                         if pg_config = ''pg_config'' then NotOnPath
                         else if starts_with pg_config ''~'' then TildeNotExpanded pg_config
                         else NoBinary pg_config
                       else IoFailure e)))"

text \<open>\<open>Path::path_file_name\<close>.\<close>

definition path_file_name :: "string \<Rightarrow> string option" where
  "path_file_name p =
     (case rev (filter (\<lambda>c. c \<noteq> [] \<and> c \<noteq> ''.'') (split_str ''/'' p)) of
        [] \<Rightarrow> None
      | c # _ \<Rightarrow> if c = ''..'' then None else Some c)"

definition get_version :: "'io host \<Rightarrow> PgConfig \<Rightarrow> 'io config_error + PgVersion" where
  "get_version h c =
     rbind (run_config h c ''--version'') (\<lambda>version_string.
       case parse_version_str version_string of
         Inr (major, minor) \<Rightarrow> Inr \<lparr>pv_major = major, pv_minor = minor, pv_url = None\<rparr>
       | Inl e \<Rightarrow>
           Inl (case pc_pg_config c of
                  None \<Rightarrow> e
                | Some path \<Rightarrow>
                    (case path_file_name path of
                       None \<Rightarrow> e
                     | Some name \<Rightarrow> if contains name ''pg_config'' then e else NotPgConfig path e)))"

definition major_version :: "'io host \<Rightarrow> PgConfig \<Rightarrow> 'io config_error + 16 word" where
  "major_version h c =
     (case pc_version c of Some v \<Rightarrow> Inr (pv_major v) | None \<Rightarrow> map_res pv_major (get_version h c))"

definition minor_version :: "'io host \<Rightarrow> PgConfig \<Rightarrow> 'io config_error + PgMinorVersion" where
  "minor_version h c =
     (case pc_version c of Some v \<Rightarrow> Inr (pv_minor v) | None \<Rightarrow> map_res pv_minor (get_version h c))"

definition config_version :: "'io host \<Rightarrow> PgConfig \<Rightarrow> 'io config_error + string" where
  "config_version h c =
     (case pc_version c of
        Some v \<Rightarrow> Inr (show_version v)
      | None \<Rightarrow>
          rbind (major_version h c) (\<lambda>major.
          rbind (minor_version h c) (\<lambda>minor. Inr (show_u16 major @ show_minor minor))))"

definition config_label :: "'io host \<Rightarrow> PgConfig \<Rightarrow> 'io config_error + string" where
  "config_label h c = map_res (\<lambda>m. ''pg'' @ show_u16 m) (major_version h c)"

definition port :: "'io host \<Rightarrow> PgConfig \<Rightarrow> 'io config_error + 16 word" where
  "port h c = map_res (\<lambda>m. pc_base_port c + m) (major_version h c)"

definition test_port :: "'io host \<Rightarrow> PgConfig \<Rightarrow> 'io config_error + 16 word" where
  "test_port h c =
     (case pc_test_port_override c of
        Some p \<Rightarrow> Inr p
      | None \<Rightarrow> map_res (\<lambda>m. pc_base_testing_port c + m) (major_version h c))"

definition with_test_port :: "16 word \<Rightarrow> PgConfig \<Rightarrow> PgConfig" where
  "with_test_port p c = c\<lparr>pc_test_port_override := Some p\<rparr>"

text \<open>\<open>PathBuf::push\<close> of a relative path.\<close>

definition path_push :: "string \<Rightarrow> string \<Rightarrow> string" where
  "path_push p c = (if p = [] \<or> ends_with p ''/'' then p @ c else p @ ''/'' @ c)"

definition tool_path :: "'io host \<Rightarrow> PgConfig \<Rightarrow> string \<Rightarrow> 'io config_error + string" where
  "tool_path h c tool = map_res (\<lambda>p. path_push p tool) (run_config h c ''--bindir'')"

definition extension_dir :: "'io host \<Rightarrow> PgConfig \<Rightarrow> 'io config_error + string" where
  "extension_dir h c = map_res (\<lambda>p. path_push p ''extension'') (run_config h c ''--sharedir'')"

definition split_once :: "char \<Rightarrow> string \<Rightarrow> (string \<times> string) option" where
  "split_once c s =
     (case dropWhile (\<lambda>d. d \<noteq> c) s of [] \<Rightarrow> None | _ # v \<Rightarrow> Some (takeWhile (\<lambda>d. d \<noteq> c) s, v))"

definition configure_entry :: "string \<Rightarrow> string \<times> string" where
  "configure_entry entry = (case split_once (CHR ''='') entry of Some kv \<Rightarrow> kv | None \<Rightarrow> (entry, []))"

definition configure :: "'io host \<Rightarrow> PgConfig \<Rightarrow> 'io config_error + (string \<rightharpoonup> string)" where
  "configure h c =
     map_res (\<lambda>out. map_of (rev (map configure_entry
         (filter (\<lambda>s. s \<noteq> [] \<and> s \<noteq> '' '') (split_str [CHR 0x27] out)))))
       (run_config h c ''--configure'')"

section \<open>The managed servers\<close>

record Pgrx =
  pg_configs :: "PgConfig list"
  pgrx_base_port :: "16 word"
  pgrx_base_testing_port :: "16 word"

definition Pgrx_new :: "16 word \<Rightarrow> 16 word \<Rightarrow> Pgrx" where
  "Pgrx_new base_port base_testing_port =
     \<lparr>pg_configs = [], pgrx_base_port = base_port, pgrx_base_testing_port = base_testing_port\<rparr>"

definition Pgrx_push :: "PgConfig \<Rightarrow> Pgrx \<Rightarrow> Pgrx" where
  "Pgrx_push c p = p\<lparr>pg_configs := pg_configs p @ [c]\<rparr>"

definition pgrx_home :: "'io host \<Rightarrow> 'io config_error + string" where
  "pgrx_home h =
     rbind (case map_of (env_vars h) ''PGRX_HOME'' of
              Some v \<Rightarrow> Inr v
            | None \<Rightarrow> map_res (\<lambda>home. path_push home ''.pgrx'') (ok_or NoHomeDirectory (home_dir h))) (\<lambda>home.
       case try_exists h home of
         Inr True \<Rightarrow> Inr home
       | Inr False \<Rightarrow> Inl (MissingPgrxHome home)
       | Inl e \<Rightarrow> Inl (IoFailure e))"

definition config_toml :: "'io host \<Rightarrow> 'io config_error + string" where
  "config_toml h = map_res (\<lambda>home. path_push home ''config.toml'') (pgrx_home h)"

definition from_config :: "'io host \<Rightarrow> 'io config_error + Pgrx" where
  "from_config h =
     (case map_of (env_vars h) ''PGRX_PG_CONFIG_PATH'' of
        Some pg_config \<Rightarrow>
          let pgrx = Pgrx_new BASE_POSTGRES_PORT_NO BASE_POSTGRES_TESTING_PORT_NO
          in Inr (Pgrx_push (PgConfig_new pg_config (pgrx_base_port pgrx) (pgrx_base_testing_port pgrx)) pgrx)
      | None \<Rightarrow>
          rbind (config_toml h) (\<lambda>path.
            case try_exists h path of
              Inl e \<Rightarrow> Inl (IoFailure e)
            | Inr False \<Rightarrow> Inl (NoConfigToml path)
            | Inr True \<Rightarrow>
                (case read_toml h path of
                   Inl e \<Rightarrow> Inl (IoFailure e)
                 | Inr None \<Rightarrow> Inl (UnreadableToml path)
                 | Inr (Some configs) \<Rightarrow>
                     let base = (case ct_base_port configs of Some p \<Rightarrow> p | None \<Rightarrow> BASE_POSTGRES_PORT_NO);
                         testing = (case ct_base_testing_port configs of Some p \<Rightarrow> p | None \<Rightarrow> BASE_POSTGRES_TESTING_PORT_NO)
                     in Inr (fold (\<lambda>(_, v) pgrx. Pgrx_push (PgConfig_new v base testing) pgrx)
                          (ct_configs configs) (Pgrx_new base testing)))))"

datatype PgConfigSelector = AllConfigs | Specific string | Environment

definition PgConfigSelector_new :: "string \<Rightarrow> PgConfigSelector" where
  "PgConfigSelector_new label = (if label = ''all'' then AllConfigs else Specific label)"

fun get_config :: "'io host \<Rightarrow> PgConfig list \<Rightarrow> string \<Rightarrow> 'io config_error + PgConfig" where
  "get_config h [] label = Inl (NotManaged label)"
| "get_config h (c # cs) label =
     rbind (config_label h c) (\<lambda>l. if l = label then Inr c else get_config h cs label)"

text \<open>
  The comparisons of the sort panic, \<^term>\<open>None\<close>, when a version is not known; a list with fewer than two
  elements is not compared.
\<close>

definition version_unknown :: "'io host \<Rightarrow> PgConfig \<Rightarrow> bool" where
  "version_unknown h c = (case major_version h c of Inl _ \<Rightarrow> True | Inr _ \<Rightarrow> False)"

definition pgrx_iter ::
    "case_table \<Rightarrow> 'io host \<Rightarrow> Pgrx \<Rightarrow> PgConfigSelector \<Rightarrow> ('io config_error + PgConfig) list option" where
  "pgrx_iter uni h p which =
     (case which of
        Environment \<Rightarrow> Some [from_env uni h]
      | AllConfigs \<Rightarrow>
          if is_in_environment h then Some [from_env uni h]
          else if 2 \<le> length (pg_configs p) \<and> list_ex (version_unknown h) (pg_configs p) then None
          else Some (map Inr (sort_key (\<lambda>c. case major_version h c of Inl _ \<Rightarrow> 0 | Inr m \<Rightarrow> unat m) (pg_configs p)))
      | Specific label \<Rightarrow> Some [get_config h (pg_configs p) label])"

definition SUPPORTED_VERSIONS :: "PgVersion list" where
  "SUPPORTED_VERSIONS =
     map (\<lambda>n. \<lparr>pv_major = n, pv_minor = Latest, pv_url = None\<rparr>) [13, 14, 15, 16, 17, 18]
     @ [\<lparr>pv_major = 19, pv_minor = Beta 4,
          pv_url = Some ''https://ftp.postgresql.org/pub/source/v19beta4/postgresql-19beta4.tar.bz2''\<rparr>]"

definition is_supported_major_version :: "16 word \<Rightarrow> bool" where
  "is_supported_major_version v \<longleftrightarrow> list_ex (\<lambda>pgver. pv_major pgver = v) SUPPORTED_VERSIONS"

definition is_feature_flag :: "string \<Rightarrow> bool" where
  "is_feature_flag label \<longleftrightarrow> list_ex (\<lambda>pgver. label = ''pg'' @ show_u16 (pv_major pgver)) SUPPORTED_VERSIONS"

end
