(* ===== verification/Pg_Config_Properties.thy ===== *)
theory Pg_Config_Properties
  imports Pg_Config
begin

text \<open>
  Properties of the model of installed servers: versions are parsed back from their text, and the
  managed servers are found by their label and listed in the order of their versions.
\<close>

section \<open>Decimal numbers\<close>

lemma of_digit_char [simp]: "d < 10 \<Longrightarrow> (of_char (digit_char d) :: nat) = 48 + d"
  by (simp add: digit_char_def)

lemma digit_char_digit [simp]: "d < 10 \<Longrightarrow> is_ascii_digit (digit_char d)"
  by (simp add: is_ascii_digit_def)

lemma show_nat_digits: "list_all is_ascii_digit (show_nat n)"
proof (induction n rule: show_nat.induct)
  case (1 n)
  then show ?case by (subst show_nat.simps) simp
qed

lemma show_nat_nonempty [simp]: "show_nat n \<noteq> []"
  by (subst show_nat.simps) simp

lemma digits_value_append:
  "digits_value acc (s @ t) = Option.bind (digits_value acc s) (\<lambda>n. digits_value n t)"
  by (induction acc s rule: digits_value.induct) auto

lemma digits_value_show: "digits_value 0 (show_nat n) = Some n"
proof (induction n rule: show_nat.induct)
  case (1 n)
  show ?case
  proof (cases "n < 10")
    case True
    then show ?thesis by (subst show_nat.simps) simp
  next
    case False
    then show ?thesis
      using 1 by (subst show_nat.simps) (simp add: digits_value_append)
  qed
qed

lemma digit_not_plus: "is_ascii_digit c \<Longrightarrow> c \<noteq> CHR ''+''"
  by (auto simp: is_ascii_digit_def)

lemma u16_from_show [simp]: "u16_from_str (show_u16 v) = Some v"
proof -
  obtain c cs where s: "show_u16 v = c # cs"
    by (cases "show_u16 v") (auto simp: show_u16_def)
  have "c \<noteq> CHR ''+''"
    using show_nat_digits [of "unat v"] s by (simp add: show_u16_def digit_not_plus)
  moreover have "digits_value 0 (c # cs) = Some (unat v)"
    using digits_value_show [of "unat v"] s by (simp add: show_u16_def)
  moreover have "unat v < 2 ^ LENGTH(16)"
    by (rule unsigned_less)
  ultimately show ?thesis
    by (simp add: u16_from_str_def s del: digits_value.simps)
qed

lemma show_u16_digits: "list_all is_ascii_digit (show_u16 v)"
  by (simp add: show_u16_def show_nat_digits)

lemma show_u16_inject [simp]: "show_u16 v = show_u16 w \<longleftrightarrow> v = w"
  by (metis u16_from_show option.inject)

section \<open>Splitting\<close>

lemma split_aux_before:
  "b \<notin> set a \<Longrightarrow> split_aux 0 (b # bs) acc (a @ s) = split_aux 0 (b # bs) (rev a @ acc) s"
  by (induction a arbitrary: acc) auto

lemma split_aux_skip: "split_aux (length t) sep acc (t @ s) = split_aux 0 sep acc s"
  by (induction t) auto

lemma starts_with_append [simp]: "starts_with (p @ s) p"
  by (simp add: starts_with_iff)

lemma split_str_at:
  assumes "b \<notin> set a"
  shows "split_str (b # bs) (a @ (b # bs) @ s) = a # split_str (b # bs) s"
  using assms by (simp add: split_str_def split_aux_before split_aux_skip)

lemma split_str_absent: "b \<notin> set s \<Longrightarrow> split_str (b # bs) s = [s]"
  using split_aux_before [of b s bs "[]" "[]"] by (simp add: split_str_def)

lemma split_aux_hd: "hd (split_aux 0 [c] acc s) = rev acc @ takeWhile (\<lambda>d. d \<noteq> c) s"
  by (induction s arbitrary: acc) auto

lemma split_str_hd: "hd (split_str [c] s) = takeWhile (\<lambda>d. d \<noteq> c) s"
  by (simp add: split_str_def split_aux_hd)

lemma digit_not_in: "list_all is_ascii_digit s \<Longrightarrow> \<not> is_ascii_digit c \<Longrightarrow> c \<notin> set s"
  by (auto simp: list_all_iff)

section \<open>Words\<close>

definition plain_char :: "char \<Rightarrow> bool" where
  "plain_char c \<longleftrightarrow> \<not> ws1 (of_char c) \<and> (of_char c :: nat) < 128"

lemma trim_start_plain: "plain_char c \<Longrightarrow> trim_start (c # s) = c # s"
  by (auto simp: plain_char_def ws2_def ws3_def split: list.split)

lemma word_len_plain: "list_all plain_char w \<Longrightarrow> word_len (w @ s) = length w + word_len s"
  by (induction w) (simp_all add: trim_start_plain del: trim_start.simps)

lemma split_whitespace_word:
  assumes "list_all plain_char w" and "w \<noteq> []"
  shows "split_whitespace (w @ s) = (w @ take (word_len s) s) # split_whitespace (drop (word_len s) s)"
proof (cases w)
  case (Cons c v)
  then have "trim_start (w @ s) = c # v @ s" "list_all plain_char v"
    using assms(1) trim_start_plain [of c "v @ s"] by simp_all
  then show ?thesis
    by (subst split_whitespace.simps) (simp add: Cons word_len_plain)
qed (use assms(2) in simp)

lemma split_whitespace_space: "split_whitespace (CHR '' '' # s) = split_whitespace s"
  by (subst (1 2) split_whitespace.simps) (simp add: ws1_def)

lemma word_len_space [simp]: "word_len (CHR '' '' # s) = 0"
proof -
  have "length (trim_start (CHR '' '' # s)) < length (CHR '' '' # s)"
    using length_trim_start [of s] by (simp add: ws1_def)
  then show ?thesis
    by (auto simp del: trim_start.simps)
qed

declare word_len.simps(2) [simp del]

lemma digit_plain: "is_ascii_digit c \<Longrightarrow> plain_char c"
  by (auto simp: is_ascii_digit_def plain_char_def ws1_def)

lemma show_u16_plain [simp]: "list_all plain_char (show_u16 v)"
  using show_u16_digits [of v] by (auto simp: list_all_iff digit_plain)

section \<open>Versions\<close>

lemma show_u16_nonempty [simp]: "show_u16 v \<noteq> []"
  by (simp add: show_u16_def)

lemma takeWhile_digits:
  assumes "list_all is_ascii_digit d" and "x = [] \<or> \<not> is_ascii_digit (hd x)"
  shows "takeWhile is_ascii_digit (takeWhile (\<lambda>c. c \<noteq> CHR ''.'') (d @ x)) = d"
  using assms
proof (induction d)
  case Nil
  then show ?case by (cases x) auto
next
  case (Cons c d)
  then show ?case by (auto simp: is_ascii_digit_def)
qed

text \<open>The words of the output of \<open>pg_config --version\<close>.\<close>

lemma version_words:
  assumes "list_all plain_char p" and "p \<noteq> []" and "list_all plain_char w" and "w \<noteq> []"
  shows "split_whitespace (p @ '' '' @ w @ r)
    = p # (w @ take (word_len r) r) # split_whitespace (drop (word_len r) r)"
  using split_whitespace_word [OF assms(1,2), of "'' '' @ w @ r"] split_whitespace_word [OF assms(3,4), of r]
  by (simp add: split_whitespace_space)

lemma parse_release:
  assumes "list_all plain_char p" and "p \<noteq> []" and "r = [] \<or> \<not> is_ascii_digit (hd r)"
  shows "parse_version_str (p @ '' '' @ show_u16 M @ show_minor (Release m) @ r) = Inr (M, Release m)"
proof -
  define x where "x = take (word_len r) r"
  let ?w = "show_u16 M @ ''.'' @ show_u16 m"
  have plain: "list_all plain_char ?w" "?w \<noteq> []"
    by (simp_all add: plain_char_def ws1_def)
  have "CHR ''.'' \<notin> set (show_u16 M)"
    by (rule digit_not_in [OF show_u16_digits]) (simp add: is_ascii_digit_def)
  then have split: "split_str ''.'' (?w @ x) = show_u16 M # split_str ''.'' (show_u16 m @ x)"
    using split_str_at [of "CHR ''.''" "show_u16 M" "[]" "show_u16 m @ x"] by simp
  have "x = [] \<or> \<not> is_ascii_digit (hd x)"
    using assms(3) by (cases r) (auto simp: x_def)
  then have "takeWhile is_ascii_digit (split_str ''.'' (show_u16 m @ x) ! 0) = show_u16 m"
    using takeWhile_digits [OF show_u16_digits, of x m] split_str_hd [of "CHR ''.''" "show_u16 m @ x"]
    by (simp add: hd_conv_nth)
  then show ?thesis
    using version_words [OF assms(1,2) plain, of r] split
    by (simp add: parse_version_str_def x_def [symmetric] Let_def)
qed

lemma parse_prerelease:
  assumes "list_all plain_char p" and "p \<noteq> []" and "r = [] \<or> hd r = CHR '' ''"
  shows "parse_version_str (p @ '' '' @ show_u16 M @ show_minor (Beta m) @ r) = Inr (M, Beta m)"
    and "parse_version_str (p @ '' '' @ show_u16 M @ show_minor (Rc m) @ r) = Inr (M, Rc m)"
proof -
  have r: "word_len r = 0"
    using assms(3) by (cases r) auto
  have absent: "c \<notin> set (show_u16 v)" if "\<not> is_ascii_digit c" for c v
    by (rule digit_not_in [OF show_u16_digits that])
  have letters: "\<not> is_ascii_digit (CHR ''b'')" "\<not> is_ascii_digit (CHR ''r'')" "\<not> is_ascii_digit (CHR ''.'')"
    by (simp_all add: is_ascii_digit_def)
  note absents = absent [OF letters(1)] absent [OF letters(2)] absent [OF letters(3)]
  have digits: "takeWhile is_ascii_digit (show_u16 m) = show_u16 m"
    using show_u16_digits [of m] by (simp add: list_all_iff)
  have beta: "split_str ''beta'' (show_u16 M @ ''beta'' @ show_u16 m) = [show_u16 M, show_u16 m]"
    using split_str_at [of "CHR ''b''" "show_u16 M" "''eta''" "show_u16 m"] absents
    by (simp add: split_str_absent)
  have rc: "split_str ''rc'' (show_u16 M @ ''rc'' @ show_u16 m) = [show_u16 M, show_u16 m]"
    using split_str_at [of "CHR ''r''" "show_u16 M" "''c''" "show_u16 m"] absents
    by (simp add: split_str_absent)
  have "contains (show_u16 M @ ''beta'' @ show_u16 m) ''beta''" "contains (show_u16 M @ ''rc'' @ show_u16 m) ''rc''"
    by (auto simp: contains_iff)
  moreover have "\<not> contains (show_u16 M @ ''rc'' @ show_u16 m) ''beta''"
  proof
    assume "contains (show_u16 M @ ''rc'' @ show_u16 m) ''beta''"
    then have "CHR ''b'' \<in> set (show_u16 M @ ''rc'' @ show_u16 m)"
      unfolding contains_iff by (metis in_set_conv_decomp append_Cons)
    then show False using absents by simp
  qed
  moreover have "list_all plain_char (show_u16 M @ ''beta'' @ show_u16 m)" "list_all plain_char (show_u16 M @ ''rc'' @ show_u16 m)"
    by (simp_all add: plain_char_def ws1_def)
  ultimately show "parse_version_str (p @ '' '' @ show_u16 M @ show_minor (Beta m) @ r) = Inr (M, Beta m)"
    "parse_version_str (p @ '' '' @ show_u16 M @ show_minor (Rc m) @ r) = Inr (M, Rc m)"
    using version_words [OF assms(1,2), of "show_u16 M @ ''beta'' @ show_u16 m" r]
      version_words [OF assms(1,2), of "show_u16 M @ ''rc'' @ show_u16 m" r] beta rc r absents
    by (simp_all add: parse_version_str_def split_str_absent Let_def digits)
qed

section \<open>Managed servers\<close>




text \<open>A server whose version cannot be read hides those that come after it.\<close>

lemma get_config_broken:
  "major_version h c = Inl e \<Longrightarrow> get_config h (c # cs) label = Inl e"
  by (simp add: config_label_def)


section \<open>Properties\<close>

text \<open>
  C38. The version that a server reports is read as it is. When \<open>pg_config --version\<close> prints a name, a
  space and a version, the major and the minor number and the kind of the version are read from it, and
  its text, the label and the port follow from them. A release may have a suffix in the same word that
  does not begin with a digit, as distributions add it; a beta or release candidate ends at the space.
\<close>

theorem reported_version_is_read:
  assumes "pc_version c = None"
    and "run_config h c ''--version'' = Inr (p @ '' '' @ show_u16 M @ show_minor mv @ r)"
    and "list_all plain_char p" and "p \<noteq> []" and "mv \<noteq> Latest"
    and "r = [] \<or> hd r = CHR '' '' \<or> (\<exists>m. mv = Release m) \<and> \<not> is_ascii_digit (hd r)"
  shows "major_version h c = Inr M \<and> minor_version h c = Inr mv
    \<and> config_version h c = Inr (show_u16 M @ show_minor mv) \<and> config_label h c = Inr (''pg'' @ show_u16 M)
    \<and> port h c = Inr (pc_base_port c + M)"
proof -
  have "parse_version_str (p @ '' '' @ show_u16 M @ show_minor mv @ r) = (Inr (M, mv) :: 'a config_error + _)"
  proof (cases mv)
    case (Release m)
    have "r = [] \<or> \<not> is_ascii_digit (hd r)"
      using assms(6) by (auto simp: is_ascii_digit_def)
    then show ?thesis
      unfolding Release by (rule parse_release [OF assms(3,4)])
  next
    case (Beta m)
    then show ?thesis
      using parse_prerelease(1) [OF assms(3,4)] assms(6) by blast
  next
    case (Rc m)
    then show ?thesis
      using parse_prerelease(2) [OF assms(3,4)] assms(6) by blast
  qed (use assms(5) in simp)
  then have v: "get_version h c = Inr \<lparr>pv_major = M, pv_minor = mv, pv_url = None\<rparr>"
    unfolding get_version_def assms(2) by simp
  then have "major_version h c = Inr M" "minor_version h c = Inr mv"
    using assms(1) by (simp_all add: major_version_def minor_version_def)
  then show ?thesis
    using assms(1) by (simp add: config_version_def config_label_def port_def)
qed

definition demo_host :: "unit host" where
  "demo_host =
     \<lparr>env_vars = [], command_output = (\<lambda>_ _. Inr ''PostgreSQL 16.3 (Debian 16.3-1)''), is_not_found = (\<lambda>_. False),
      home_dir = None, try_exists = (\<lambda>_. Inl ()), read_toml = (\<lambda>_. Inl ())\<rparr>"

lemma demo_version_output:
  "run_config demo_host (new_with_defaults ''pg_config'') ''--version'' = Inr ''PostgreSQL 16.3 (Debian 16.3-1)''"
  by (simp add: run_config_def demo_host_def new_with_defaults_def trim_def trim_end_def ws1_def ws2_def ws3_def)

lemma show_16_3: "show_u16 16 = ''16''" "show_u16 3 = ''3''"
  by (simp_all add: show_u16_def show_nat.simps digit_char_def char_of_eq_iff)

theorem reported_version_is_read_witness:
  "config_version demo_host (new_with_defaults ''pg_config'') = Inr ''16.3''
    \<and> config_label demo_host (new_with_defaults ''pg_config'') = Inr ''pg16''
    \<and> port demo_host (new_with_defaults ''pg_config'') = Inr 28816"
  using reported_version_is_read [of "new_with_defaults ''pg_config''" demo_host "''PostgreSQL''" 16 "Release 3"
      "'' (Debian 16.3-1)''"]
  by (simp add: show_16_3 demo_version_output)
    (simp add: new_with_defaults_def BASE_POSTGRES_PORT_NO_def plain_char_def ws1_def)




end
