(* ===== verification/Spec2Isabelle.thy ===== *)
theory Spec2Isabelle
  imports Section_Properties Emission_Properties Control_File Error_Properties Flat_List_Properties
    Flat_Array_Properties Varlena_Properties Datetime_Properties Xact_Properties Set_Returning_Properties
    Transaction_Ids Triggers Pg_Config_Properties
begin

text \<open>
  Verification of pgrx: its schema generator, the crate \<open>pgrx-sql-entity-graph\<close>, which turns the items of
  a Rust extension into the SQL script that installs it, the parts of its runtime libraries \<open>pgrx\<close>
  and \<open>pgrx-pg-sys\<close> that do their work in Rust, and the crate \<open>pgrx-pg-config\<close>, which knows the installed
  servers.

  \<^bold>\<open>The schema generator.\<close> The attribute macros (\<open>#[pg_extern]\<close>, \<open>#[derive(PostgresType)]\<close>, \<open>extension_sql!\<close>, ...)
  compute at compile time a byte string for each item and place it in a link section of the extension's
  library. \<open>cargo pgrx schema\<close> reads the section back into entities (\<open>section.rs\<close>), builds a dependency
  graph of them (\<open>PgrxSql::build\<close>), and writes the SQL of the nodes in dependency order
  (\<open>PgrxSql::to_sql\<close>), all of it or a slice (\<open>to_sql_for_items\<close>).

  \<^bold>\<open>The runtime.\<close> The functions of an extension run inside a server process. Their wrappers, which the
  macros generate, follow the calling convention of the server, also for functions that return sets
  (\<open>iter.rs\<close>); guards turn the errors of the server into panics and back (\<open>panic.rs\<close>, \<open>pg_try.rs\<close>,
  \<open>ffi.rs\<close>); transaction callbacks are kept in a table (\<open>callbacks.rs\<close>); and the data of the server,
  lists, arrays, variable-length values, dates and times, is read and written in place.

  \<^bold>\<open>The model of the schema generator.\<close>
  \<^item> \<open>Prelude\<close>: bytes (\<open>8 word\<close>), Rust strings, \<open>Result\<close> as a sum with \<open>rbind\<close>, \<open>rfold\<close> and \<open>rmap\<close>, and
    hash maps as association lists that are iterated in an arbitrary order \<open>rank\<close>.
  \<^item> \<open>Metadata\<close>, \<open>Entities\<close>: the datatypes of \<open>metadata/*.rs\<close> and of the \<open>*/entity.rs\<close> files, one record
    or datatype each, with the source's fields and constructors.
  \<^item> \<open>Section_Format\<close>, \<open>Entry_Writer\<close>, \<open>Entry_Reader\<close>, \<open>Section_Codec\<close>: \<open>section.rs\<close>, the fixed-size writer
    with its panics, the reader with its errors, and the framing.
  \<^item> \<open>Section_Producers\<close>, \<open>Entity_Producers\<close>, \<open>Item_Producers\<close>, \<open>Derive_Producers\<close>, \<open>Aggregate_Producer\<close>: what
    the macros emit for each kind of item (\<open>section_len_tokens\<close>, \<open>section_writer_tokens\<close>,
    \<open>to_entity_graph_tokens\<close>), the item after parsing as the input.
  \<^item> \<open>Entity_Order\<close>: the derived \<open>Ord\<close> of the entities, which \<open>build\<close> sorts by.
  \<^item> \<open>Graph_Build\<close>, \<open>Graph_Connect\<close>: \<open>PgrxSql::build\<close>, the \<open>initialize_*\<close> functions that make nodes and the
    \<open>connect_*\<close> functions that make edges.
  \<^item> \<open>Emit_Order\<close>: \<open>connected_component_emit_order\<close>. \<open>Sql_Context\<close>, \<open>Function_Sql\<close>, \<open>Entity_Sql\<close>: the \<open>ToSql\<close>
    of every entity. \<open>Emission\<close>: \<open>to_sql\<close>, \<open>resolve_item\<close>, \<open>collect_transitive_deps\<close>, the slices and their
    \<open>ALTER EXTENSION\<close>.
  \<^item> \<open>Control_File\<close>: the parser of control files (\<open>control_file.rs\<close>).

  \<^bold>\<open>The model of the runtime.\<close>
  \<^item> \<open>Error_Codes\<close>, \<open>Error_Handling\<close>: log levels and error codes (\<open>elog.rs\<close>, \<open>errcodes.rs\<close>), reports, panic
    payloads, \<open>pg_guard_ffi_boundary\<close>, \<open>pgrx_extern_c_guard\<close> and \<open>PgTryBuilder::execute\<close>. Code is a function
    from the state of the backend to how it ended and the state it left.
  \<^item> \<open>Xact_Callbacks\<close>: the two tables of \<open>callbacks.rs\<close>, with the cells that receipts share with them; a
    closure is the list of what it does, registering and giving back receipts included. \<open>backend_step\<close> is
    the step relation of a backend: user code runs, and the server announces events.
  \<^item> \<open>Set_Returning\<close>: \<open>RetAbi\<close> for \<open>SetOfIterator\<close> and \<open>TableIterator\<close> (\<open>iter.rs\<close>), the \<open>srf_*\<close> functions of
    \<open>fcinfo.rs\<close>, \<open>leak_and_drop_on_delete\<close> (\<open>memcxt.rs\<close>) and the generated \<open>_internal_wrapper\<close>.
  \<^item> \<open>Flat_List\<close>: \<open>list/flat_list.rs\<close> on an explicit buffer of cells. \<open>Varlena\<close>, \<open>Flat_Array\<close>: headers,
    variable-length values and arrays as bytes. \<open>Datetime\<close>: the checked and saturating constructors and
    the conversions of dates, times, timestamps and intervals, on machine words. \<open>Transaction_Ids\<close>: the
    comparison and widening of transaction ids (\<open>xid.rs\<close>, \<open>port.rs\<close>) and item pointers (\<open>itemptr.rs\<close>).
  \<^item> \<open>Triggers\<close>: the events, rows, names and arguments of a trigger call (\<open>trigger_support\<close>) and the wrapper
    of trigger functions.
  \<^item> \<open>Pg_Config\<close>: \<open>pgrx-pg-config\<close>, the properties of one server from \<open>pg_config\<close> or the environment, the
    parsing of versions, ports, and the servers that pgrx manages.

  \<^bold>\<open>The proofs.\<close>
  \<^item> \<open>Section_Roundtrip\<close>, \<open>Section_Properties\<close>: what the macros write is what the decoder reads, for any
    items and any order the linker puts them in; exact lengths; no reading out of bounds.
  \<^item> \<open>Type_Refs\<close>, \<open>Graph_Nodes\<close>, \<open>Graph_Built\<close>, \<open>Graph_Init\<close>, \<open>Graph_Edges\<close>, \<open>Graph_Links\<close>, \<open>Build_Facts\<close>: the
    invariants of the two phases of \<open>build\<close>, up to the predicate \<open>built\<close>. \<open>Build_Properties\<close>: the graph is
    complete and has an edge for every dependency; errors and panics.
  \<^item> \<open>Emit_Order_Correct\<close>, \<open>Emission_Correct\<close>, \<open>Script_Order\<close>: the emit order is a permutation that respects
    the edges, and the script is the text of the nodes in that order. \<open>Emission_Total\<close>: no lookup of the
    emission fails on a built graph. \<open>Dependencies\<close>: the search for a slice ends and is exact.
    \<open>Item_Lookup\<close>: \<open>resolve_item\<close>. \<open>Emission_Properties\<close>: the properties of the script and of the slices.
  \<^item> \<open>Example_Extension\<close>, \<open>Example_Script\<close>: a small extension, built and emitted by evaluation, as the input
    of the witnesses.
  \<^item> \<open>Control_File\<close>: the parser is the reading of the last assignments, and parses back what is printed.
  \<^item> \<open>Error_Properties\<close>: the finally block runs once and last; an error of the server that nobody catches
    and an error that Rust raises reach the server as they are.
  \<^item> \<open>Xact_Properties\<close>: the invariant of the reachable backends; callbacks run once and in order and end
    with their transaction, unless it is prepared. \<open>Set_Returning_Properties\<close>: a scan gets exactly the rows
    of the iterator, and the iterator is dropped once it is over.
  \<^item> \<open>Flat_List_Properties\<close>: pushing and draining refine the operations on sequences, and the reversed
    range that \<open>drain\<close> does not refuse. \<open>Flat_Array_Properties\<close>, \<open>Varlena_Properties\<close>: new arrays are
    consistent, and slices, bytes and strings survive the trip. \<open>Datetime_Properties\<close>: exact conversions
    without wrap-around, and round trips through datums. \<open>Transaction_Ids\<close>: ids that are less than half of
    their range apart are compared and widened exactly.
  \<^item> \<open>Triggers\<close>: what the server puts in an event is what the trigger function is told.
    \<open>Pg_Config_Properties\<close>: versions are read back from their text; servers are found by their label.

  \<^bold>\<open>Parameters.\<close> The \<open>petgraph\<close> crate is a record of the four queries the code makes (\<open>Petgraph\<close>) with the
  predicate \<open>petgraph_ok\<close> for what its documentation promises of one graph; \<open>Petgraph_Reference\<close> has an
  implementation that keeps the promises on every graph. The iteration order of a hash map is a ranking
  of the node indices, and any order is one of those; Unicode case mapping outside ASCII is a function.
  The environment and the file system of the control file are functions. The error subsystem of the
  server is a record of functions on its own state (\<open>elog\<close>). Whether the server can allocate a size is a
  predicate. The calls that begin and end a set-returning function are a record with the locale
  \<open>multi_func_call\<close> for what the server documents of them; the iterator of the user is a function. The
  host of \<open>Pg_Config\<close> is a record: environment, output of \<open>pg_config\<close>, file system, parser of TOML.

  \<^bold>\<open>Termination.\<close> All loops are total functions but the search of \<open>collect_transitive_deps\<close>, which is a
  partial function into \<open>option\<close> that is proved to return. The calls of a set-returning function are
  counted: one more than the iterator has rows is enough to see the end of the set.

  \<^bold>\<open>Not modelled.\<close> The parsing of Rust syntax by the macros (the \<open>syn\<close> crate), the highlighted output and
  the \<open>dot\<close> output of \<open>PgrxSql\<close>; of the runtime what is a call into PostgreSQL (SPI, tuples, relations,
  memory contexts, shared memory, background workers, detoasting, the arithmetic of dates) and the
  generated bindings; of \<open>pgrx-pg-config\<close> the processes that create and drop databases; the tools
  \<open>cargo-pgrx\<close>, \<open>pgrx-bindgen\<close> and \<open>pgrx-tests\<close>, which run processes and edit files.
\<close>

end
